(* ===== verification/Prelude.thy ===== *)
theory Prelude
  imports Complex_Main "HOL-Library.Word" "HOL-Library.Monad_Syntax"
begin

text \<open>
  Shared vocabulary of the development: Go's results (value, error, panic) as a datatype, the
  state-passing shape of a Go function that may return early with an error, the byte and string
  types, decimal rendering of integers (\<open>strconv.Itoa\<close>, \<open>fmt.Sprintf("%d")\<close>), and the lemma
  collections the component theories extend.

  \<^item> \<open>run_simps\<close>: equations that execute the combinators symbolically;
  \<^item> \<open>store_simps\<close>: what the stores do on a database that does not fail;
  \<^item> \<open>dec_simps\<close>: bounds on the decimal roundings.
\<close>

named_theorems run_simps
named_theorems store_simps
named_theorems dec_simps

type_synonym byte = "8 word"
type_synonym bytes = "8 word list"

text \<open>A point in time is its number of nanoseconds since the Unix epoch.\<close>
type_synonym time = int

section \<open>Errors and results\<close>

text \<open>
  \<open>CompoundError msg flag\<close> is \<open>compound.Error{Msg, Flag}\<close>; \<open>DBError\<close> is any failure of the
  database driver; \<open>ErrOptimisticLock\<close> is \<open>db.ErrOptimisticLock\<close>; \<open>GoError\<close> is an error made by
  \<open>errors.New\<close>, \<open>fmt.Errorf\<close> or a library call.
\<close>

datatype err =
    CompoundError (err_msg: string) (err_flag: nat)
  | DBError
  | ErrOptimisticLock
  | GoError string

datatype 'a res = Ok 'a | Err err | Panic string

type_synonym ('s, 'a) go = "'s \<Rightarrow> 'a res \<times> 's"

definition ret :: "'a \<Rightarrow> ('s, 'a) go" where
  "ret a = (\<lambda>s. (Ok a, s))"

definition throw :: "err \<Rightarrow> ('s, 'a) go" where
  "throw e = (\<lambda>s. (Err e, s))"

definition panic :: "string \<Rightarrow> ('s, 'a) go" where
  "panic p = (\<lambda>s. (Panic p, s))"

text \<open>\<open>x, err := m; if err != nil { h err }; k x\<close>. A panic unwinds past both.\<close>

definition tryE :: "('s, 'a) go \<Rightarrow> (err \<Rightarrow> ('s, 'b) go) \<Rightarrow> ('a \<Rightarrow> ('s, 'b) go) \<Rightarrow> ('s, 'b) go" where
  "tryE m h k = (\<lambda>s. case m s of
      (Ok a, s') \<Rightarrow> k a s'
    | (Err e, s') \<Rightarrow> h e s'
    | (Panic p, s') \<Rightarrow> (Panic p, s'))"

text \<open>\<open>x, err := m; if err != nil { return err }; k x\<close>.\<close>

definition seqE :: "('s, 'a) go \<Rightarrow> ('a \<Rightarrow> ('s, 'b) go) \<Rightarrow> ('s, 'b) go" where
  "seqE m k = tryE m throw k"

definition getS :: "('s \<Rightarrow> 'a) \<Rightarrow> ('s, 'a) go" where
  "getS f = (\<lambda>s. (Ok (f s), s))"

text \<open>\<open>for _, x := range xs { if err := f(x); err != nil { return err } }\<close>.\<close>

fun forE :: "'a list \<Rightarrow> ('a \<Rightarrow> ('s, unit) go) \<Rightarrow> ('s, unit) go" where
  "forE [] f = ret ()"
| "forE (x # xs) f = seqE (f x) (\<lambda>_. forE xs f)"

text \<open>A loop that accumulates: \<open>for _, x := range xs { acc, err = f(x, acc); if err != nil { return err } }\<close>.\<close>

fun foldE :: "'a list \<Rightarrow> 'b \<Rightarrow> ('a \<Rightarrow> 'b \<Rightarrow> ('s, 'b) go) \<Rightarrow> ('s, 'b) go" where
  "foldE [] acc f = ret acc"
| "foldE (x # xs) acc f = seqE (f x acc) (\<lambda>acc'. foldE xs acc' f)"

text \<open>A result that does not depend on the state.\<close>

definition liftR :: "'a res \<Rightarrow> ('s, 'a) go" where
  "liftR r = (\<lambda>s. (r, s))"

section \<open>Integers as decimal text\<close>

function show_nat :: "nat \<Rightarrow> string" where
  "show_nat n = (if n < 10 then [char_of (48 + n)] else show_nat (n div 10) @ [char_of (48 + n mod 10)])"
  by pat_completeness auto
termination
  by (relation "measure id") auto

declare show_nat.simps [simp del]

definition itoa :: "int \<Rightarrow> string" where
  "itoa i = (if i < 0 then CHR ''-'' # show_nat (nat (- i)) else show_nat (nat i))"

section \<open>Strings and bytes\<close>

definition bytes_of_string :: "string \<Rightarrow> bytes" where
  "bytes_of_string s = map of_char s"

definition string_of_bytes :: "bytes \<Rightarrow> string" where
  "string_of_bytes b = map (\<lambda>x. char_of (unat x)) b"

section \<open>Rows of a table\<close>

text \<open>
  A table is the list of its rows in primary-key order. \<open>next_id\<close> is the key of a new row, one more
  than the largest (the database's counter also skips the keys of deleted last rows), and \<open>replace_rows P f\<close> is \<open>UPDATE ... WHERE P\<close>.
\<close>

definition next_id :: "int list \<Rightarrow> int" where
  "next_id ids = 1 + fold max ids 0"

fun replace_rows :: "('r \<Rightarrow> bool) \<Rightarrow> ('r \<Rightarrow> 'r) \<Rightarrow> 'r list \<Rightarrow> 'r list" where
  "replace_rows P f [] = []"
| "replace_rows P f (r # rs) = (if P r then f r else r) # replace_rows P f rs"

section \<open>Execution lemmas\<close>

lemma ret_run [run_simps]: "ret a s = (Ok a, s)"
  by (simp add: ret_def)

lemma throw_run [run_simps]: "throw e s = (Err e, s)"
  by (simp add: throw_def)

lemma panic_run [run_simps]: "panic p s = (Panic p, s)"
  by (simp add: panic_def)

lemma getS_run [run_simps]: "getS f s = (Ok (f s), s)"
  by (simp add: getS_def)

lemma liftR_run [run_simps]: "liftR r s = (r, s)"
  by (simp add: liftR_def)

lemma tryE_Ok [run_simps]: "m s = (Ok a, s') \<Longrightarrow> tryE m h k s = k a s'"
  by (simp add: tryE_def)

lemma tryE_Err [run_simps]: "m s = (Err e, s') \<Longrightarrow> tryE m h k s = h e s'"
  by (simp add: tryE_def)

lemma tryE_Panic [run_simps]: "m s = (Panic p, s') \<Longrightarrow> tryE m h k s = (Panic p, s')"
  by (simp add: tryE_def)

lemma seqE_Ok [run_simps]: "m s = (Ok a, s') \<Longrightarrow> seqE m k s = k a s'"
  by (simp add: seqE_def tryE_Ok)

lemma seqE_Err [run_simps]: "m s = (Err e, s') \<Longrightarrow> seqE m k s = (Err e, s')"
  by (simp add: seqE_def tryE_Err throw_run)

lemma seqE_Panic [run_simps]: "m s = (Panic p, s') \<Longrightarrow> seqE m k s = (Panic p, s')"
  by (simp add: seqE_def tryE_Panic)

text \<open>The laws of the error monad, used to reshape handlers.\<close>

lemma seqE_ret [simp]: "seqE (ret a) k = k a"
  by (simp add: seqE_def tryE_def ret_def)

lemma seqE_throw [simp]: "seqE (throw e) k = throw e"
  by (simp add: seqE_def tryE_def throw_def)

lemma tryE_ret [simp]: "tryE (ret a) h k = k a"
  by (simp add: tryE_def ret_def)

lemma tryE_throw [simp]: "tryE (throw e) h k = h e"
  by (simp add: tryE_def throw_def)

lemma seqE_assoc: "seqE (seqE m f) g = seqE m (\<lambda>x. seqE (f x) g)"
  by (rule ext) (simp add: seqE_def tryE_def throw_def split: prod.splits res.splits)

text \<open>Inversion of a successful sequence.\<close>

lemma seqE_OkE:
  assumes "seqE m k s = (Ok b, t)"
  obtains a s' where "m s = (Ok a, s')" and "k a s' = (Ok b, t)"
  using assms by (auto simp: seqE_def tryE_def throw_def split: prod.splits res.splits)

lemma tryE_cases:
  obtains (ok) a s' where "m s = (Ok a, s')" and "tryE m h k s = k a s'"
    | (err) e s' where "m s = (Err e, s')" and "tryE m h k s = h e s'"
    | (panic) p s' where "m s = (Panic p, s')" and "tryE m h k s = (Panic p, s')"
proof (cases "m s")
  case (Pair r s')
  then show ?thesis
    by (cases r) (auto simp: tryE_def intro: that)
qed

section \<open>Table lemmas\<close>

lemma fold_max_ge: "x \<in> set xs \<Longrightarrow> x \<le> fold max xs (a::int)"
proof (induction xs arbitrary: a)
  case Nil
  then show ?case by simp
next
  case (Cons y ys)
  have start: "b \<le> fold max ys b" for b :: int
    by (induction ys arbitrary: b) (auto intro: order_trans [OF max.cobounded2])
  from Cons show ?case
    using start [of "max y a"] by (auto intro: order_trans [OF max.cobounded1])
qed

lemma fold_max_start: "a \<le> fold max xs (a::int)"
  by (induction xs arbitrary: a) (auto intro: order_trans [OF max.cobounded2])

lemma next_id_pos [simp]: "0 < next_id ids"
  using fold_max_start [of 0 ids] by (simp add: next_id_def)

lemma next_id_fresh: "i \<in> set ids \<Longrightarrow> i < next_id ids"
  using fold_max_ge [of i ids 0] by (simp add: next_id_def)

lemma length_replace_rows [simp]: "length (replace_rows P f rs) = length rs"
  by (induction rs) auto

lemma replace_rows_map: "replace_rows P f rs = map (\<lambda>r. if P r then f r else r) rs"
  by (induction rs) auto

lemma replace_rows_none: "(\<And>r. r \<in> set rs \<Longrightarrow> \<not> P r) \<Longrightarrow> replace_rows P f rs = rs"
  by (induction rs) auto

lemma find_append_None: "List.find P xs = None \<Longrightarrow> List.find P (xs @ ys) = List.find P ys"
  by (induction xs) (auto split: if_splits)

lemma find_append_Some: "List.find P xs = Some x \<Longrightarrow> List.find P (xs @ ys) = Some x"
  by (induction xs) (auto split: if_splits)

lemma find_Some_set: "List.find P xs = Some x \<Longrightarrow> x \<in> set xs \<and> P x"
  by (induction xs) (auto split: if_splits)

text \<open>The row with a key, in a table where the key is unique.\<close>

lemma find_key: "distinct (map k xs) \<Longrightarrow> x \<in> set xs \<Longrightarrow> List.find (\<lambda>y. k y = k x) xs = Some x"
  by (induction xs) (auto simp: image_iff)

lemma find_None_set: "List.find P xs = None \<longleftrightarrow> (\<forall>x\<in>set xs. \<not> P x)"
  by (induction xs) auto

lemma unat_of_char_byte [simp]: "unat (of_char c :: byte) = of_char c"
proof -
  have "(of_char c :: byte) = of_nat (of_char c)"
    by (simp only: of_nat_of_char)
  moreover have "(of_char c :: nat) < 256"
    by (rule nat_of_char_less_256)
  ultimately show ?thesis
    by (simp add: unat_of_nat)
qed

lemma string_of_bytes_of_string [simp]: "string_of_bytes (bytes_of_string s) = s"
  by (simp add: string_of_bytes_def bytes_of_string_def comp_def)

lemma bytes_of_string_of_bytes [simp]: "bytes_of_string (string_of_bytes b) = b"
proof (induction b)
  case Nil
  then show ?case by (simp add: string_of_bytes_def bytes_of_string_def)
next
  case (Cons x xs)
  have "unat (of_char (char_of (unat x) :: char) :: byte) = unat x mod 256"
    by (simp only: unat_of_char_byte of_char_of)
  also have "\<dots> = unat x"
    using unsigned_less [of x, where ?'a = nat] by simp
  finally have "of_char (char_of (unat x) :: char) = x"
    by (simp only: word_unat_eq_iff)
  with Cons show ?case by (simp add: string_of_bytes_def bytes_of_string_def)
qed

end
