(* ===== verification/Decimal.thy ===== *)
theory Decimal
  imports Prelude
begin

text \<open>
  Decimal numbers. A \<open>decimal.Decimal\<close> is represented by the rational number it denotes, on
  which \<open>Add\<close>, \<open>Sub\<close>, \<open>Mul\<close> and the comparisons are exact. \<open>Truncate\<close>, \<open>Shift\<close>, \<open>Ceil\<close> and
  \<open>Floor\<close> have one value for each number and are defined here; \<open>Div\<close> rounds, so it is a parameter
  of every definition that divides (the field \<open>decDiv\<close> of the externals), and
  \<open>div_documented\<close> states its documentation: the quotient rounded to sixteen places, half away
  from zero. \<open>pkg/number/decimal.go\<close> is modelled here.
\<close>

definition dec_truncate :: "nat \<Rightarrow> rat \<Rightarrow> rat" where
  "dec_truncate p x =
     (if 0 \<le> x then of_int \<lfloor>x * 10 ^ p\<rfloor> / 10 ^ p else - (of_int \<lfloor>- x * 10 ^ p\<rfloor> / 10 ^ p))"

definition dec_shift :: "int \<Rightarrow> rat \<Rightarrow> rat" where
  "dec_shift k x = (if 0 \<le> k then x * 10 ^ nat k else x / 10 ^ nat (- k))"

definition dec_ceil :: "rat \<Rightarrow> rat" where
  "dec_ceil x = of_int \<lceil>x\<rceil>"

definition dec_floor :: "rat \<Rightarrow> rat" where
  "dec_floor x = of_int \<lfloor>x\<rfloor>"

text \<open>\<open>number.Ceil\<close> and \<open>number.Floor\<close>.\<close>

definition Ceil :: "rat \<Rightarrow> int \<Rightarrow> rat" where
  "Ceil d precision = dec_shift (- precision) (dec_ceil (dec_shift precision d))"

definition Floor :: "rat \<Rightarrow> int \<Rightarrow> rat" where
  "Floor d precision = dec_shift (- precision) (dec_floor (dec_shift precision d))"

text \<open>Rounding to \<open>p\<close> places, half away from zero: the documented rounding of a division.\<close>

definition dec_round :: "nat \<Rightarrow> rat \<Rightarrow> rat" where
  "dec_round p x =
     (if 0 \<le> x then of_int \<lfloor>x * 10 ^ p + 1 / 2\<rfloor> / 10 ^ p
      else - (of_int \<lfloor>- x * 10 ^ p + 1 / 2\<rfloor> / 10 ^ p))"

definition div_documented :: "(rat \<Rightarrow> rat \<Rightarrow> rat) \<Rightarrow> bool" where
  "div_documented dv \<longleftrightarrow> (\<forall>a b. b \<noteq> 0 \<longrightarrow> dv a b = dec_round 16 (a / b))"

text \<open>A concrete division with that documentation, for evaluating the model.\<close>

definition quo16 :: "rat \<Rightarrow> rat \<Rightarrow> rat" where
  "quo16 a b = dec_round 16 (a / b)"

text \<open>Numbers with at most \<open>p\<close> decimal places.\<close>

definition on_grid :: "nat \<Rightarrow> rat \<Rightarrow> bool" where
  "on_grid p x \<longleftrightarrow> (\<exists>k. x = of_int k / 10 ^ p)"

section \<open>Truncation\<close>

lemma dec_truncate_0 [simp]: "dec_truncate p 0 = 0"
  by (simp add: dec_truncate_def)

lemma dec_truncate_minus: "dec_truncate p (- x) = - dec_truncate p x"
  by (cases "x = 0") (auto simp: dec_truncate_def)

lemma dec_truncate_nonneg [dec_simps]: "0 \<le> x \<Longrightarrow> 0 \<le> dec_truncate p x"
  by (simp add: dec_truncate_def)

lemma dec_truncate_le [dec_simps]: "0 \<le> x \<Longrightarrow> dec_truncate p x \<le> x"
proof -
  assume x: "0 \<le> x"
  have "of_int \<lfloor>x * 10 ^ p\<rfloor> / 10 ^ p \<le> x * 10 ^ p / (10 ^ p :: rat)"
    by (intro divide_right_mono of_int_floor_le) simp
  with x show ?thesis by (simp add: dec_truncate_def)
qed

lemma dec_truncate_nonpos [dec_simps]: "x \<le> 0 \<Longrightarrow> dec_truncate p x \<le> 0"
  using dec_truncate_nonneg [of "- x" p] by (simp add: dec_truncate_minus)

lemma dec_truncate_ge [dec_simps]: "x \<le> 0 \<Longrightarrow> x \<le> dec_truncate p x"
  using dec_truncate_le [of "- x" p] by (simp add: dec_truncate_minus)

lemma dec_truncate_gt [dec_simps]: "0 \<le> x \<Longrightarrow> x < dec_truncate p x + 1 / 10 ^ p"
proof -
  assume x: "0 \<le> x"
  have "x * 10 ^ p < of_int \<lfloor>x * 10 ^ p\<rfloor> + 1"
    by (rule floor_correct [THEN conjunct2, simplified])
  then have "x * 10 ^ p / 10 ^ p < (of_int \<lfloor>x * 10 ^ p\<rfloor> + 1) / (10 ^ p :: rat)"
    by (intro divide_strict_right_mono) simp_all
  with x show ?thesis by (simp add: dec_truncate_def add_divide_distrib)
qed

lemma dec_truncate_pos_iff: "0 < dec_truncate p x \<longleftrightarrow> 1 / 10 ^ p \<le> x"
proof (cases "0 \<le> x")
  case True
  have "0 < \<lfloor>x * 10 ^ p\<rfloor> \<longleftrightarrow> 1 \<le> x * 10 ^ p"
    by (simp add: floor_less_iff flip: not_le)
  then show ?thesis
    using True by (simp add: dec_truncate_def field_simps)
next
  case False
  have "(0 :: rat) < 1 / 10 ^ p" by simp
  with False show ?thesis
    using dec_truncate_nonpos [of x p] by linarith
qed

lemma dec_truncate_mono: "x \<le> y \<Longrightarrow> dec_truncate p x \<le> dec_truncate p y"
proof -
  assume le: "x \<le> y"
  consider "0 \<le> x" | "x < 0" "0 \<le> y" | "y < 0" by linarith
  then show ?thesis
  proof cases
    case 1
    with le have "\<lfloor>x * 10 ^ p\<rfloor> \<le> \<lfloor>y * 10 ^ p\<rfloor>"
      by (intro floor_mono mult_right_mono) simp_all
    with 1 le show ?thesis by (simp add: dec_truncate_def divide_right_mono)
  next
    case 2
    then have "dec_truncate p x \<le> 0" and "0 \<le> dec_truncate p y"
      by (simp_all add: dec_truncate_nonneg dec_truncate_nonpos)
    then show ?thesis by linarith
  next
    case 3
    with le have "\<lfloor>- y * 10 ^ p\<rfloor> \<le> \<lfloor>- x * 10 ^ p\<rfloor>"
      by (intro floor_mono mult_right_mono) simp_all
    with 3 le show ?thesis by (simp add: dec_truncate_def divide_right_mono)
  qed
qed

section \<open>The grid of representable numbers\<close>

lemma on_gridI: "x = of_int k / 10 ^ p \<Longrightarrow> on_grid p x"
  by (auto simp: on_grid_def)

lemma on_grid_0 [simp]: "on_grid p 0"
  by (rule on_gridI [of _ 0]) simp

lemma on_grid_numeral: "on_grid p (numeral n)"
  by (rule on_gridI [of _ "numeral n * 10 ^ p"]) simp

lemma on_grid_add: "on_grid p x \<Longrightarrow> on_grid p y \<Longrightarrow> on_grid p (x + y)"
  unfolding on_grid_def by (metis add_divide_distrib of_int_add)

lemma on_grid_minus: "on_grid p x \<Longrightarrow> on_grid p (- x)"
  unfolding on_grid_def by (metis minus_divide_left of_int_minus)

lemma on_grid_diff: "on_grid p x \<Longrightarrow> on_grid p y \<Longrightarrow> on_grid p (x - y)"
  using on_grid_add [of p x "- y"] on_grid_minus [of p y] by simp

lemma on_grid_truncate [simp]: "on_grid p (dec_truncate p x)"
proof (cases "0 \<le> x")
  case True
  then show ?thesis by (auto simp: dec_truncate_def on_grid_def)
next
  case False
  then show ?thesis
    by (auto simp: dec_truncate_def intro: on_grid_minus on_gridI)
qed

lemma truncate_on_grid: "on_grid p x \<Longrightarrow> dec_truncate p x = x"
  by (auto simp: on_grid_def dec_truncate_def)

lemma dec_truncate_idem [simp]: "dec_truncate p (dec_truncate p x) = dec_truncate p x"
  by (simp add: truncate_on_grid)

section \<open>Ceil and Floor\<close>

lemma dec_shift_inverse [simp]: "dec_shift (- k) (dec_shift k x) = x"
  by (cases "k = 0") (auto simp: dec_shift_def)

lemma dec_shift_mono: "x \<le> y \<Longrightarrow> dec_shift k x \<le> dec_shift k y"
  by (auto simp: dec_shift_def divide_right_mono mult_right_mono)

lemma dec_shift_strict_mono: "x < y \<Longrightarrow> dec_shift k x < dec_shift k y"
  by (auto simp: dec_shift_def divide_strict_right_mono mult_strict_right_mono)

lemma dec_shift_add: "dec_shift k (x + y) = dec_shift k x + dec_shift k y"
  by (simp add: dec_shift_def ring_distribs add_divide_distrib)

lemma Ceil_ge [dec_simps]: "d \<le> Ceil d p"
  using dec_shift_mono [of "dec_shift p d" "dec_ceil (dec_shift p d)" "- p"]
  by (simp add: Ceil_def dec_ceil_def)

lemma Ceil_less [dec_simps]: "Ceil d p < d + dec_shift (- p) 1"
proof -
  have "dec_ceil (dec_shift p d) < dec_shift p d + 1"
    unfolding dec_ceil_def by (rule ceiling_correct [THEN conjunct1, THEN diff_less_eq [THEN iffD1]])
  from dec_shift_strict_mono [OF this, of "- p"] show ?thesis
    by (simp add: Ceil_def dec_shift_add)
qed

lemma Floor_le [dec_simps]: "Floor d p \<le> d"
  using dec_shift_mono [of "dec_floor (dec_shift p d)" "dec_shift p d" "- p"]
  by (simp add: Floor_def dec_floor_def)

lemma Floor_greater [dec_simps]: "d < Floor d p + dec_shift (- p) 1"
proof -
  have "dec_shift p d < dec_floor (dec_shift p d) + 1"
    unfolding dec_floor_def by (rule floor_correct [THEN conjunct2, simplified])
  from dec_shift_strict_mono [OF this, of "- p"] show ?thesis
    by (simp add: Floor_def dec_shift_add)
qed

lemma Ceil_nonneg [dec_simps]: "0 \<le> d \<Longrightarrow> 0 \<le> Ceil d p"
  using Ceil_ge [of d p] by linarith

lemma Ceil_mono: "x \<le> y \<Longrightarrow> Ceil x p \<le> Ceil y p"
  by (simp add: Ceil_def dec_ceil_def dec_shift_mono ceiling_mono)

section \<open>Rounded division\<close>

lemma dec_round_near: "\<bar>dec_round p x - x\<bar> \<le> 1 / (2 * 10 ^ p)"
proof -
  have key: "\<bar>of_int \<lfloor>y * 10 ^ p + 1 / 2\<rfloor> / 10 ^ p - y\<bar> \<le> 1 / (2 * (10 ^ p :: rat))" for y :: rat
  proof -
    define f where "f = (of_int \<lfloor>y * 10 ^ p + 1 / 2\<rfloor> :: rat)"
    have "f \<le> y * 10 ^ p + 1 / 2" and "y * 10 ^ p + 1 / 2 < f + 1"
      unfolding f_def using floor_correct [of "y * 10 ^ p + 1 / 2"] by simp_all
    then have "\<bar>f - y * 10 ^ p\<bar> \<le> 1 / 2" by linarith
    then have "\<bar>f - y * 10 ^ p\<bar> / 10 ^ p \<le> 1 / 2 / (10 ^ p :: rat)"
      by (intro divide_right_mono) simp_all
    moreover have "\<bar>f - y * 10 ^ p\<bar> / 10 ^ p = \<bar>f / 10 ^ p - y\<bar>"
    proof -
      have "f / 10 ^ p - y = (f - y * 10 ^ p) / 10 ^ p"
        by (simp add: diff_divide_distrib)
      then show ?thesis by (simp add: abs_divide)
    qed
    ultimately show ?thesis by (simp add: f_def)
  qed
  show ?thesis
  proof (cases "0 \<le> x")
    case True
    then show ?thesis using key [of x] by (simp add: dec_round_def)
  next
    case False
    then show ?thesis using key [of "- x"] by (simp add: dec_round_def abs_minus_commute)
  qed
qed

lemma dec_round_nonneg [dec_simps]: "0 \<le> x \<Longrightarrow> 0 \<le> dec_round p x"
  by (simp add: dec_round_def)

lemma dec_round_mono: "0 \<le> x \<Longrightarrow> x \<le> y \<Longrightarrow> dec_round p x \<le> dec_round p y"
proof -
  assume "0 \<le> x" and "x \<le> y"
  moreover from this have "\<lfloor>x * 10 ^ p + 1 / 2\<rfloor> \<le> \<lfloor>y * 10 ^ p + 1 / 2\<rfloor>"
    by (intro floor_mono add_right_mono mult_right_mono) simp_all
  ultimately show ?thesis by (simp add: dec_round_def divide_right_mono)
qed

lemma on_grid_round [simp]: "on_grid p (dec_round p x)"
  by (auto simp: dec_round_def intro: on_grid_minus on_gridI)

lemma dec_round_on_grid: "on_grid p x \<Longrightarrow> dec_round p x = x"
proof -
  have *: "\<lfloor>of_int k + 1 / 2 :: rat\<rfloor> = k" for k
    by (simp add: floor_eq_iff)
  have **: "\<lfloor>1 / 2 :: rat\<rfloor> = 0"
    by (simp add: floor_eq_iff)
  assume "on_grid p x"
  then show ?thesis by (auto simp: on_grid_def dec_round_def * **)
qed

lemma quo16_documented [simp]: "div_documented quo16"
  by (simp add: div_documented_def quo16_def)

lemma div_near:
  "div_documented dv \<Longrightarrow> b \<noteq> 0 \<Longrightarrow> \<bar>dv a b - a / b\<bar> \<le> 1 / (2 * 10 ^ 16)"
  using dec_round_near [of 16 "a / b"] by (simp add: div_documented_def)

lemma div_nonneg:
  "div_documented dv \<Longrightarrow> 0 \<le> a \<Longrightarrow> 0 < b \<Longrightarrow> 0 \<le> dv a b"
  by (simp add: div_documented_def dec_round_nonneg)

lemma div_mono:
  assumes "div_documented dv" and "0 \<le> a" and "a \<le> a'" and "0 < b"
  shows "dv a b \<le> dv a' b"
  using assms by (simp add: div_documented_def dec_round_mono divide_right_mono)

lemma div_le_one:
  assumes "div_documented dv" and "0 \<le> a" and "a \<le> b" and "0 < b"
  shows "dv a b \<le> 1"
proof -
  have "dv a b = dec_round 16 (a / b)"
    using assms by (simp add: div_documented_def)
  also have "\<dots> \<le> dec_round 16 1"
    using assms by (intro dec_round_mono) simp_all
  also have "\<dots> = 1"
    by (rule dec_round_on_grid) (rule on_gridI [of _ "10 ^ 16"], simp)
  finally show ?thesis .
qed

section \<open>Evaluation\<close>

lemma floor_numeral_rat [simp]:
  "\<lfloor>numeral a / numeral b :: rat\<rfloor> = numeral a div numeral b"
  "\<lfloor>- numeral a / numeral b :: rat\<rfloor> = - numeral a div numeral b"
  "\<lfloor>1 / numeral b :: rat\<rfloor> = 1 div numeral b"
  using floor_divide_of_int_eq [of "numeral a" "numeral b", where 'a = rat]
    floor_divide_of_int_eq [of "- numeral a" "numeral b", where 'a = rat]
    floor_divide_of_int_eq [of 1 "numeral b", where 'a = rat]
  by (simp_all only: of_int_numeral of_int_neg_numeral of_int_1)

lemma ceiling_numeral_rat [simp]: "\<lceil>numeral a / numeral b :: rat\<rceil> = - (- numeral a div numeral b)"
  by (simp only: ceiling_def minus_divide_left floor_numeral_rat)

end
