(* ===== verification/Externals.thy ===== *)
theory Externals
  imports Decimal
begin

text \<open>
  Code that is not part of the repository, as one record of functions that every definition takes
  as an argument, and the parts of Go's standard library the sources use on memos: base64, varints
  and the JSON text of a transfer action.

  Each field names the library call it stands for. What a property relies on is stated by the
  predicates at the end of the theory, which repeat the libraries' documentation.
\<close>

record ext =
  decDiv :: "rat \<Rightarrow> rat \<Rightarrow> rat"             \<comment> \<open>\<open>decimal.Div\<close>, divisor not zero\<close>
  decMarshal :: "rat \<Rightarrow> bytes"                \<comment> \<open>\<open>decimal.MarshalBinary\<close>\<close>
  decUnmarshal :: "bytes \<Rightarrow> rat option"       \<comment> \<open>\<open>decimal.UnmarshalBinary\<close>\<close>
  decString :: "rat \<Rightarrow> string"                \<comment> \<open>\<open>decimal.String\<close>\<close>
  uuidOfBytes :: "bytes \<Rightarrow> bytes option"      \<comment> \<open>\<open>uuid.FromBytes\<close>, \<open>UUID.UnmarshalBinary\<close>\<close>
  uuidToString :: "bytes \<Rightarrow> string"           \<comment> \<open>\<open>UUID.String\<close>\<close>
  uuidFromString :: "string \<Rightarrow> bytes option"  \<comment> \<open>\<open>uuid.FromString\<close>\<close>
  uuidModify :: "string \<Rightarrow> string \<Rightarrow> string"  \<comment> \<open>\<open>fox-one/pkg/uuid.Modify\<close>\<close>
  uuidMD5 :: "string \<Rightarrow> string"               \<comment> \<open>\<open>fox-one/pkg/uuid.MD5\<close>\<close>
  uuidNew :: "nat \<Rightarrow> string"                  \<comment> \<open>the \<open>n\<close>-th result of \<open>uuid.New\<close>\<close>
  castInt64 :: "string \<Rightarrow> int"                \<comment> \<open>\<open>property.Value.Int64\<close>\<close>
  msgpackDecode :: "bytes \<Rightarrow> (bytes \<times> bytes) option" \<comment> \<open>\<open>msgpack.Unmarshal\<close> of a \<open>TransactionAction\<close>: (\<open>FollowID\<close>, \<open>Body\<close>)\<close>
  msgpackEncode :: "bytes \<Rightarrow> bytes \<Rightarrow> bytes"  \<comment> \<open>\<open>msgpack.Marshal\<close> of a \<open>TransactionAction\<close>\<close>
  blstPub :: "bytes \<Rightarrow> bytes option"          \<comment> \<open>\<open>blst.PublicKey.FromBytes\<close>\<close>
  blstSig :: "bytes \<Rightarrow> bytes option"          \<comment> \<open>\<open>blst.Signature.UnmarshalBinary\<close>\<close>
  blstVerify :: "bytes list \<Rightarrow> bytes \<Rightarrow> bytes \<Rightarrow> bool" \<comment> \<open>\<open>AggregatePublicKeys(pubs).Verify(payload, sig)\<close>\<close>
  edVerify :: "bytes \<Rightarrow> bytes \<Rightarrow> bytes \<Rightarrow> bool" \<comment> \<open>\<open>ed25519.Verify(publicKey, body, sig)\<close>\<close>
  sha512 :: "bytes \<Rightarrow> bytes"                  \<comment> \<open>\<open>crypto/sha512\<close>\<close>
  checkKey :: "bytes \<Rightarrow> bool"                 \<comment> \<open>\<open>mixin.Key.CheckKey\<close>\<close>
  checkScalar :: "bytes \<Rightarrow> bool"              \<comment> \<open>\<open>mixin.Key.CheckScalar\<close>\<close>
  geScalarMult :: "bytes \<Rightarrow> bytes \<Rightarrow> bytes"   \<comment> \<open>\<open>edwards25519.GeScalarMult\<close>, scalar first, as 32 bytes\<close>
  aesEncryptCBC :: "bytes \<Rightarrow> bytes \<Rightarrow> bytes \<Rightarrow> bytes" \<comment> \<open>CBC \<open>CryptBlocks\<close> under key and iv\<close>
  aesDecryptCBC :: "bytes \<Rightarrow> bytes \<Rightarrow> bytes \<Rightarrow> bytes"
  gormInt :: "int \<Rightarrow> int \<Rightarrow> int"             \<comment> \<open>column left by \<open>Updates(struct)\<close>: old value, field of the struct\<close>
  gormModel :: "int \<Rightarrow> int \<Rightarrow> int"           \<comment> \<open>field of the model after \<open>Model(m).Updates(map)\<close>: old value, value in the map\<close>
  hashMembers :: "string list \<Rightarrow> string"      \<comment> \<open>\<open>mixin.HashMembers\<close>\<close>
  voteAction :: "string \<Rightarrow> rat \<Rightarrow> string \<Rightarrow> string \<Rightarrow> string list \<Rightarrow> nat \<Rightarrow> string option"
    \<comment> \<open>the code \<open>VerifyPayment\<close> gives for the payment of a vote: asset, amount, trace, memo, receivers, threshold\<close>
  handleTransfer :: "string \<Rightarrow> bool"          \<comment> \<open>whether the Mixin API's \<open>Transaction\<close> call succeeds for a trace\<close>
  genesis :: int                            \<comment> \<open>\<open>compound.SetupGenesis\<close>: the configured genesis, in seconds\<close>

section \<open>encoding/binary varints\<close>

fun PutUvarint :: "nat \<Rightarrow> bytes" where
  "PutUvarint x = (if x < 128 then [of_nat x] else of_nat (x mod 128 + 128) # PutUvarint (x div 128))"

declare PutUvarint.simps [simp del]

text \<open>
  \<open>Uvarint_loop i s x buf\<close> is the loop of \<open>binary.Uvarint\<close> at index \<open>i\<close>, shift \<open>s\<close> and
  accumulator \<open>x\<close>. The result is the value and the count Go returns: the number of bytes read, 0
  when the buffer is too short, negative on overflow.
\<close>

fun Uvarint_loop :: "nat \<Rightarrow> nat \<Rightarrow> nat \<Rightarrow> bytes \<Rightarrow> nat \<times> int" where
  "Uvarint_loop i s x [] = (0, 0)"
| "Uvarint_loop i s x (b # bs) =
     (if i = 10 then (0, - (int i + 1))
      else if unat b < 128 then
        (if i = 9 \<and> unat b > 1 then (0, - (int i + 1)) else (x + unat b * 2 ^ s, int i + 1))
      else Uvarint_loop (i + 1) (s + 7) (x + unat b mod 128 * 2 ^ s) bs)"

definition Uvarint :: "bytes \<Rightarrow> nat \<times> int" where
  "Uvarint buf = Uvarint_loop 0 0 0 buf"

definition PutVarint :: "int \<Rightarrow> bytes" where
  "PutVarint x = PutUvarint (if x < 0 then nat (- 2 * x - 1) else nat (2 * x))"

definition Varint :: "bytes \<Rightarrow> int \<times> int" where
  "Varint buf = (case Uvarint buf of (ux, n) \<Rightarrow>
     (if odd ux then - int (ux div 2) - 1 else int (ux div 2), n))"

section \<open>encoding/base64\<close>

definition std_alphabet :: string where
  "std_alphabet = ''ABCDEFGHIJKLMNOPQRSTUVWXYZabcdefghijklmnopqrstuvwxyz0123456789+/''"

definition url_alphabet :: string where
  "url_alphabet = ''ABCDEFGHIJKLMNOPQRSTUVWXYZabcdefghijklmnopqrstuvwxyz0123456789-_''"

fun base64_encode :: "string \<Rightarrow> bytes \<Rightarrow> string" where
  "base64_encode al [] = []"
| "base64_encode al [a] =
     [al ! (unat a div 4), al ! (unat a mod 4 * 16), CHR ''='', CHR ''='']"
| "base64_encode al [a, b] =
     [al ! (unat a div 4), al ! (unat a mod 4 * 16 + unat b div 16), al ! (unat b mod 16 * 4), CHR ''='']"
| "base64_encode al (a # b # c # r) =
     al ! (unat a div 4) # al ! (unat a mod 4 * 16 + unat b div 16)
     # al ! (unat b mod 16 * 4 + unat c div 64) # al ! (unat c mod 64) # base64_encode al r"

fun index_of :: "char \<Rightarrow> string \<Rightarrow> nat option" where
  "index_of c [] = None"
| "index_of c (d # ds) = (if c = d then Some 0 else map_option Suc (index_of c ds))"

text \<open>Decoding skips line breaks, needs the padding and refuses anything after it.\<close>

fun base64_quads :: "string \<Rightarrow> string \<Rightarrow> bytes option" where
  "base64_quads al [] = Some []"
| "base64_quads al [p, q, r, s] =
     (case (index_of p al, index_of q al) of
        (Some i, Some j) \<Rightarrow>
          (if r = CHR ''='' then
             (if s = CHR ''='' then Some [of_nat (i * 4 + j div 16)] else None)
           else (case index_of r al of
               None \<Rightarrow> None
             | Some k \<Rightarrow>
                 (if s = CHR ''='' then Some [of_nat (i * 4 + j div 16), of_nat (j mod 16 * 16 + k div 4)]
                  else (case index_of s al of
                      None \<Rightarrow> None
                    | Some l \<Rightarrow> Some [of_nat (i * 4 + j div 16), of_nat (j mod 16 * 16 + k div 4), of_nat (k mod 4 * 64 + l)]))))
      | _ \<Rightarrow> None)"
| "base64_quads al (p # q # r # s # t # rest) =
     (case (index_of p al, index_of q al, index_of r al, index_of s al) of
        (Some i, Some j, Some k, Some l) \<Rightarrow>
          map_option (\<lambda>bs. of_nat (i * 4 + j div 16) # of_nat (j mod 16 * 16 + k div 4) # of_nat (k mod 4 * 64 + l) # bs)
            (base64_quads al (t # rest))
      | _ \<Rightarrow> None)"
| "base64_quads al _ = None"

definition base64_decode :: "string \<Rightarrow> string \<Rightarrow> bytes option" where
  "base64_decode al s = base64_quads al (filter (\<lambda>c. c \<noteq> CHR 0x0A \<and> c \<noteq> CHR 0x0D) s)"

definition StdEncode :: "bytes \<Rightarrow> string" where
  "StdEncode b = base64_encode std_alphabet b"

definition StdDecode :: "string \<Rightarrow> bytes option" where
  "StdDecode s = base64_decode std_alphabet s"

definition URLDecode :: "string \<Rightarrow> bytes option" where
  "URLDecode s = base64_decode url_alphabet s"

section \<open>encoding/json strings\<close>

definition hex_digit :: "nat \<Rightarrow> char" where
  "hex_digit n = ''0123456789abcdef'' ! n"

fun json_char :: "char \<Rightarrow> string" where
  "json_char c =
     (if c = CHR 0x22 then [CHR 0x5C, CHR 0x22]
      else if c = CHR 0x5C then [CHR 0x5C, CHR 0x5C]
      else if c = CHR 0x0A then [CHR 0x5C, CHR ''n'']
      else if c = CHR 0x0D then [CHR 0x5C, CHR ''r'']
      else if c = CHR 0x09 then [CHR 0x5C, CHR ''t'']
      else if of_char c < (32::nat) \<or> c = CHR ''<'' \<or> c = CHR ''>'' \<or> c = CHR ''&'' then
        CHR 0x5C # ''u00'' @ [hex_digit (of_char c div 16), hex_digit (of_char c mod 16)]
      else [c])"

definition json_string :: "string \<Rightarrow> string" where
  "json_string s = CHR 0x22 # concat (map json_char s) @ [CHR 0x22]"

section \<open>Documented behaviour of the libraries\<close>

text \<open>gorm writes only the non-zero fields of a struct, and the values of a map back into the model.\<close>

definition gorm_documented :: "ext \<Rightarrow> bool" where
  "gorm_documented X \<longleftrightarrow>
     (\<forall>old new. gormInt X old new = (if new = 0 then old else new)) \<and>
     (\<forall>old new. gormModel X old new = new)"

text \<open>\<open>UnmarshalBinary\<close> inverts \<open>MarshalBinary\<close>; a UUID is sixteen bytes, so never empty.\<close>

definition codec_documented :: "ext \<Rightarrow> bool" where
  "codec_documented X \<longleftrightarrow>
     (\<forall>d. decUnmarshal X (decMarshal X d) = Some d \<and> decMarshal X d \<noteq> []) \<and>
     (\<forall>s u. uuidFromString X s = Some u \<longrightarrow> uuidOfBytes X u = Some u \<and> length u = 16)"

text \<open>\<open>msgpack.Unmarshal\<close> inverts \<open>msgpack.Marshal\<close> on the two fields of a memo; \<open>uuid.FromBytes\<close> takes sixteen bytes.\<close>

definition envelope_documented :: "ext \<Rightarrow> bool" where
  "envelope_documented X \<longleftrightarrow>
     (\<forall>f b. msgpackDecode X (msgpackEncode X f b) = Some (f, b)) \<and>
     (\<forall>b u. uuidOfBytes X b = Some u \<longrightarrow> length b = 16)"

section \<open>Varint lemmas\<close>

lemma PutUvarint_ne [simp]: "PutUvarint x \<noteq> []"
  by (subst PutUvarint.simps) simp

lemma unat_byte [simp]: "x < 256 \<Longrightarrow> unat (of_nat x :: byte) = x"
  by (simp add: unat_of_nat)

lemma Uvarint_loop_Put:
  "x * 2 ^ (7 * i) < 2 ^ 64 \<Longrightarrow> i \<le> 9 \<Longrightarrow>
   fst (Uvarint_loop i (7 * i) a (PutUvarint x @ rest)) = a + x * 2 ^ (7 * i)"
proof (induction x arbitrary: i a rule: PutUvarint.induct)
  case (1 x)
  show ?case
  proof (cases "x < 128")
    case True
    have "x \<le> 1" if "i = 9"
      using 1(2) that by simp
    with True 1(3) show ?thesis
      by (auto simp: PutUvarint.simps [of x])
  next
    case False
    have split: "x mod 128 + x div 128 * 128 = x" by simp
    have step: "x div 128 * 2 ^ (7 * Suc i) \<le> x * 2 ^ (7 * i)"
      using split by (simp add: power_add mult.commute [of "2 ^ (7 * i)"])
    with 1(2) have bound: "x div 128 * 2 ^ (7 * Suc i) < 2 ^ 64" by linarith
    have "(2::nat) ^ (7 * Suc i) \<le> x div 128 * 2 ^ (7 * Suc i)"
      using False by simp
    with bound have "(2::nat) ^ (7 * Suc i) < 2 ^ 64" by linarith
    then have i: "Suc i \<le> 9"
      by (simp only: power_strict_increasing_iff) simp
    have "fst (Uvarint_loop (Suc i) (7 * Suc i) (a + x mod 128 * 2 ^ (7 * i)) (PutUvarint (x div 128) @ rest))
        = a + x mod 128 * 2 ^ (7 * i) + x div 128 * 2 ^ (7 * Suc i)"
      using 1(1) [OF False bound i] .
    also have "\<dots> = a + (x mod 128 + x div 128 * 128) * 2 ^ (7 * i)"
      by (simp only: distrib_right power_add mult_Suc_right mult.assoc) simp
    finally have tail: "fst (Uvarint_loop (Suc i) (7 * Suc i) (a + x mod 128 * 2 ^ (7 * i))
        (PutUvarint (x div 128) @ rest)) = a + x * 2 ^ (7 * i)"
      by simp
    have head: "unat (of_nat (x mod 128 + 128) :: byte) = x mod 128 + 128"
      by (rule unat_byte) (simp add: trans_less_add1)
    show ?thesis
      using False i tail head
      by (simp add: PutUvarint.simps [of x] add.commute [of _ 7] del: of_nat_add)
  qed
qed

lemma Uvarint_Put: "x < 2 ^ 64 \<Longrightarrow> fst (Uvarint (PutUvarint x)) = x"
  using Uvarint_loop_Put [of x 0 0 "[]"] by (simp add: Uvarint_def)

lemma Varint_Put:
  assumes "- (2 ^ 63) \<le> x" and "x < 2 ^ 63"
  shows "fst (Varint (PutVarint x)) = x"
proof -
  define ux where "ux = (if x < 0 then nat (- 2 * x - 1) else nat (2 * x))"
  have bound: "ux < 2 ^ 64"
    using assms by (auto simp: ux_def)
  have "fst (Uvarint (PutVarint x)) = ux"
    using Uvarint_Put [OF bound] by (simp add: PutVarint_def ux_def)
  moreover have "(if odd ux then - int (ux div 2) - 1 else int (ux div 2)) = x"
    by (cases "x < 0") (auto simp: ux_def even_nat_iff nat_div_distrib' zdiv_int intro: order_antisym)
  ultimately show ?thesis
    by (cases "Uvarint (PutVarint x)") (simp add: Varint_def)
qed

end
