(* ===== verification/Core.thy ===== *)
theory Core
  imports Externals "HOL-Library.AList"
begin

text \<open>
  The data model of package \<open>core\<close>: action types, error codes, markets, supplies, borrows, users,
  outputs, transfers, transactions, proposals and the system configuration, with the methods the
  package defines on them. The \<open>created_at\<close>/\<open>updated_at\<close> columns that only the database maintains
  are left out; identifiers and versions are unbounded integers, since the code only compares them.
\<close>

section \<open>core/action.go\<close>

datatype ActionType =
    ActionTypeDefault | ActionTypeSupply | ActionTypeBorrow | ActionTypeRedeem | ActionTypeRepay
  | ActionTypeMint | ActionTypePledge | ActionTypeUnpledge | ActionTypeLiquidate
  | ActionTypeRedeemTransfer | ActionTypeUnpledgeTransfer | ActionTypeBorrowTransfer
  | ActionTypeLiquidateTransfer | ActionTypeRefundTransfer | ActionTypeRepayRefundTransfer
  | ActionTypeLiquidateRefundTransfer | ActionTypeProposalUpsertMarket
  | ActionTypeProposalUpdateMarket | ActionTypeProposalWithdrawReserves
  | ActionTypeProposalProvidePrice | ActionTypeProposalVote | ActionTypeProposalInjectCTokenForMint
  | ActionTypeProposalUpdateMarketAdvance | ActionTypeProposalTransfer
  | ActionTypeProposalCloseMarket | ActionTypeProposalOpenMarket | ActionTypeUpdateMarket
  | ActionTypeQuickPledge | ActionTypeQuickBorrow | ActionTypeQuickBorrowTransfer
  | ActionTypeQuickRedeem | ActionTypeQuickRedeemTransfer | ActionTypeProposalAddOracleSigner
  | ActionTypeProposalRemoveOracleSigner | ActionTypeProposalSetProperty | ActionTypeProposalMake
  | ActionTypeProposalShout
  | ActionTypeOther int

text \<open>The constants in declaration order with the \<open>iota\<close> value of each.\<close>

definition action_table :: "(ActionType \<times> int) list" where
  "action_table =
    [(ActionTypeDefault, 0), (ActionTypeSupply, 1), (ActionTypeBorrow, 2), (ActionTypeRedeem, 3),
     (ActionTypeRepay, 4), (ActionTypeMint, 5), (ActionTypePledge, 6), (ActionTypeUnpledge, 7),
     (ActionTypeLiquidate, 8), (ActionTypeRedeemTransfer, 9), (ActionTypeUnpledgeTransfer, 10),
     (ActionTypeBorrowTransfer, 11), (ActionTypeLiquidateTransfer, 12),
     (ActionTypeRefundTransfer, 13), (ActionTypeRepayRefundTransfer, 14),
     (ActionTypeLiquidateRefundTransfer, 15), (ActionTypeProposalUpsertMarket, 16),
     (ActionTypeProposalUpdateMarket, 17), (ActionTypeProposalWithdrawReserves, 18),
     (ActionTypeProposalProvidePrice, 19), (ActionTypeProposalVote, 20),
     (ActionTypeProposalInjectCTokenForMint, 21), (ActionTypeProposalUpdateMarketAdvance, 22),
     (ActionTypeProposalTransfer, 23), (ActionTypeProposalCloseMarket, 24),
     (ActionTypeProposalOpenMarket, 25), (ActionTypeUpdateMarket, 30), (ActionTypeQuickPledge, 31),
     (ActionTypeQuickBorrow, 32), (ActionTypeQuickBorrowTransfer, 33), (ActionTypeQuickRedeem, 34),
     (ActionTypeQuickRedeemTransfer, 35), (ActionTypeProposalAddOracleSigner, 36),
     (ActionTypeProposalRemoveOracleSigner, 37), (ActionTypeProposalSetProperty, 38),
     (ActionTypeProposalMake, 39), (ActionTypeProposalShout, 40)]"

definition actionCode :: "ActionType \<Rightarrow> int" where
  "actionCode a = (case a of ActionTypeOther n \<Rightarrow> n
     | _ \<Rightarrow> (case map_of action_table a of Some n \<Rightarrow> n | None \<Rightarrow> 0))"

text \<open>The conversion \<open>ActionType(v)\<close> of an integer.\<close>

definition toAction :: "int \<Rightarrow> ActionType" where
  "toAction n = (case map_of (map prod.swap action_table) n of
     Some a \<Rightarrow> a | None \<Rightarrow> ActionTypeOther n)"

definition IsProposalAction :: "ActionType \<Rightarrow> bool" where
  "IsProposalAction a \<longleftrightarrow>
     a = ActionTypeProposalUpsertMarket \<or>
     a = ActionTypeProposalUpdateMarket \<or>
     a = ActionTypeProposalWithdrawReserves \<or>
     a = ActionTypeProposalProvidePrice \<or>
     a = ActionTypeProposalVote \<or>
     a = ActionTypeProposalMake \<or>
     a = ActionTypeProposalShout \<or>
     a = ActionTypeProposalInjectCTokenForMint \<or>
     a = ActionTypeProposalUpdateMarketAdvance \<or>
     a = ActionTypeProposalCloseMarket \<or>
     a = ActionTypeProposalOpenMarket \<or>
     a = ActionTypeProposalAddOracleSigner \<or>
     a = ActionTypeProposalRemoveOracleSigner \<or>
     a = ActionTypeProposalSetProperty"

text \<open>A \<open>TransactionAction\<close>: the follow identifier and the body of a version 2 memo.\<close>

record TransactionAction =
  ta_FollowID :: bytes
  ta_Body :: bytes

definition DecodeTransactionAction :: "ext \<Rightarrow> bytes \<Rightarrow> TransactionAction option" where
  "DecodeTransactionAction X b =
     map_option (\<lambda>(f, d). \<lparr>ta_FollowID = f, ta_Body = d\<rparr>) (msgpackDecode X b)"

definition EncodeTransactionAction :: "ext \<Rightarrow> TransactionAction \<Rightarrow> bytes" where
  "EncodeTransactionAction X a = msgpackEncode X (ta_FollowID a) (ta_Body a)"

section \<open>core/errors.go\<close>

datatype ErrorCode =
    ErrUnknown | ErrOperationForbidden | ErrInvalidArgument | ErrMarketNotFound | ErrInvalidAmount
  | ErrSupplyNotFound | ErrBorrowNotFound | ErrInsufficientCollaterals | ErrInsufficientLiquidity
  | ErrRedeemNotAllowed | ErrSeizeNotAllowed | ErrInvalidPrice | ErrBorrowNotAllowed
  | ErrPledgeNotAllowed | ErrMarketClosed

fun errorCode :: "ErrorCode \<Rightarrow> int" where
  "errorCode ErrUnknown = 100000"
| "errorCode ErrOperationForbidden = 100001"
| "errorCode ErrInvalidArgument = 100002"
| "errorCode ErrMarketNotFound = 100100"
| "errorCode ErrInvalidAmount = 100101"
| "errorCode ErrSupplyNotFound = 100102"
| "errorCode ErrBorrowNotFound = 100103"
| "errorCode ErrInsufficientCollaterals = 100104"
| "errorCode ErrInsufficientLiquidity = 100105"
| "errorCode ErrRedeemNotAllowed = 100106"
| "errorCode ErrSeizeNotAllowed = 100107"
| "errorCode ErrInvalidPrice = 100108"
| "errorCode ErrBorrowNotAllowed = 100109"
| "errorCode ErrPledgeNotAllowed = 100110"
| "errorCode ErrMarketClosed = 100111"

definition ErrorCode_String :: "ErrorCode \<Rightarrow> string" where
  "ErrorCode_String e = itoa (errorCode e)"

section \<open>core/market.go\<close>

type_synonym MarketStatus = int

definition MarketStatusOpen :: MarketStatus where
  "MarketStatusOpen = 1"

definition MarketStatusClose :: MarketStatus where
  "MarketStatusClose = 2"

record Market =
  m_ID :: int
  m_AssetID :: string
  m_Symbol :: string
  m_CTokenAssetID :: string
  m_TotalCash :: rat
  m_TotalBorrows :: rat
  m_MaxPledge :: rat
  m_Reserves :: rat
  m_CTokens :: rat
  m_InitExchangeRate :: rat
  m_ReserveFactor :: rat
  m_LiquidationIncentive :: rat
  m_BorrowCap :: rat
  m_CollateralFactor :: rat
  m_CloseFactor :: rat
  m_BaseRate :: rat
  m_Multiplier :: rat
  m_JumpMultiplier :: rat
  m_Kink :: rat
  m_BlockNumber :: int
  m_UtilizationRate :: rat
  m_ExchangeRate :: rat
  m_SupplyRatePerBlock :: rat
  m_BorrowRatePerBlock :: rat
  m_Price :: rat
  m_PriceThreshold :: int
  m_PriceUpdatedAt :: time
  m_BorrowIndex :: rat
  m_Version :: int
  m_Status :: MarketStatus

text \<open>The zero value \<open>core.Market{}\<close>.\<close>

definition zero_market :: Market where
  "zero_market = \<lparr>m_ID = 0, m_AssetID = '''', m_Symbol = '''', m_CTokenAssetID = '''',
     m_TotalCash = 0, m_TotalBorrows = 0, m_MaxPledge = 0, m_Reserves = 0, m_CTokens = 0,
     m_InitExchangeRate = 0, m_ReserveFactor = 0, m_LiquidationIncentive = 0, m_BorrowCap = 0,
     m_CollateralFactor = 0, m_CloseFactor = 0, m_BaseRate = 0, m_Multiplier = 0,
     m_JumpMultiplier = 0, m_Kink = 0, m_BlockNumber = 0, m_UtilizationRate = 0,
     m_ExchangeRate = 0, m_SupplyRatePerBlock = 0, m_BorrowRatePerBlock = 0, m_Price = 0,
     m_PriceThreshold = 0, m_PriceUpdatedAt = 0, m_BorrowIndex = 0, m_Version = 0, m_Status = 0\<rparr>"

definition MarketStatus_IsValid :: "MarketStatus \<Rightarrow> bool" where
  "MarketStatus_IsValid s \<longleftrightarrow> s = MarketStatusClose \<or> s = MarketStatusOpen"

definition IsMarketClosed :: "Market \<Rightarrow> bool" where
  "IsMarketClosed m \<longleftrightarrow> m_Status m = MarketStatusClose"

definition BorrowAllowed :: "Market \<Rightarrow> rat \<Rightarrow> bool" where
  "BorrowAllowed m borrowAmount =
     (if \<not> 0 < borrowAmount then False
      else (let balance = m_TotalCash m - m_Reserves m in
        if balance < m_BorrowCap m then False
        else if borrowAmount > balance - m_BorrowCap m then False
        else True))"

definition RedeemAllowed :: "Market \<Rightarrow> rat \<Rightarrow> bool" where
  "RedeemAllowed m redeemTokens =
     (let amount = redeemTokens * m_ExchangeRate m; supplies = m_TotalCash m - m_Reserves m
      in amount < supplies)"

definition CurExchangeRate :: "Market \<Rightarrow> rat" where
  "CurExchangeRate m = (if 0 < m_ExchangeRate m then m_ExchangeRate m else m_InitExchangeRate m)"

section \<open>core/supply.go, core/borrow.go, core/user.go\<close>

record Supply =
  s_ID :: int
  s_UserID :: string
  s_CTokenAssetID :: string
  s_Collaterals :: rat
  s_Version :: int

definition zero_supply :: Supply where
  "zero_supply = \<lparr>s_ID = 0, s_UserID = '''', s_CTokenAssetID = '''', s_Collaterals = 0, s_Version = 0\<rparr>"

record Borrow =
  b_ID :: int
  b_UserID :: string
  b_AssetID :: string
  b_Principal :: rat
  b_InterestIndex :: rat
  b_Version :: int

definition zero_borrow :: Borrow where
  "zero_borrow = \<lparr>b_ID = 0, b_UserID = '''', b_AssetID = '''', b_Principal = 0,
     b_InterestIndex = 0, b_Version = 0\<rparr>"

record User =
  u_ID :: int
  u_UserID :: string
  u_Address :: string
  u_AddressV0 :: "string option"  \<comment> \<open>NULL for rows written before the column existed\<close>

definition zero_user :: User where
  "zero_user = \<lparr>u_ID = 0, u_UserID = '''', u_Address = '''', u_AddressV0 = None\<rparr>"

definition BuildUserAddressV0 :: "ext \<Rightarrow> string \<Rightarrow> string" where
  "BuildUserAddressV0 X mixinUserID = uuidMD5 X (''compound-'' @ mixinUserID)"

section \<open>core/wallet.go\<close>

text \<open>
  \<open>mixin.MultisigUTXO\<close>, with the fields the repository reads. The JSON text of a UTXO in the column
  \<open>data\<close> is represented by the struct, or \<open>None\<close> when it does not parse.
\<close>

record MultisigUTXO =
  ux_UTXOID :: string
  ux_CreatedAt :: time
  ux_UpdatedAt :: time
  ux_Sender :: string
  ux_AssetID :: string
  ux_TransactionHash :: bytes
  ux_OutputIndex :: int
  ux_Amount :: rat
  ux_Memo :: string
  ux_State :: string
  ux_SignedTx :: string

record Output =
  o_ID :: int
  o_CreatedAt :: time
  o_UpdatedAt :: time
  o_Version :: int
  o_TraceID :: string
  o_AssetID :: string
  o_Sender :: string
  o_Amount :: rat
  o_Memo :: string
  o_State :: string
  o_SpentBy :: string
  o_Data :: "MultisigUTXO option"
  o_UTXO :: "MultisigUTXO option"  \<comment> \<open>\<open>None\<close> is the nil pointer; not a column\<close>

datatype TransferStatus =
  TransferStatusPending | TransferStatusAssigned | TransferStatusHandled | TransferStatusPassed

record Transfer =
  t_ID :: int
  t_TraceID :: string
  t_AssetID :: string
  t_Amount :: rat
  t_Memo :: string
  t_Assigned :: bool
  t_Handled :: bool
  t_Passed :: bool
  t_Threshold :: nat
  t_Version :: int
  t_Opponents :: "string list"

definition zero_transfer :: Transfer where
  "zero_transfer = \<lparr>t_ID = 0, t_TraceID = '''', t_AssetID = '''', t_Amount = 0, t_Memo = '''',
     t_Assigned = False, t_Handled = False, t_Passed = False, t_Threshold = 0, t_Version = 0,
     t_Opponents = []\<rparr>"

record RawTransaction =
  rt_ID :: int
  rt_TraceID :: string
  rt_Data :: string

section \<open>core/transaction.go\<close>

record ExtraSupply =
  es_UserID :: string
  es_CTokenAssetID :: string
  es_Collaterals :: rat

record ExtraBorrow =
  eb_UserID :: string
  eb_AssetID :: string
  eb_Principal :: rat
  eb_InterestIndex :: rat

text \<open>
  The extra data of a transaction is a JSON object; it is represented by the object itself, so
  \<open>Format\<close> and \<open>json.Unmarshal\<close> are lookups. A missing field leaves the zero value.
\<close>

datatype jval = JDec rat | JStr string | JInt int | JSupply ExtraSupply | JBorrow ExtraBorrow

type_synonym TransactionExtraData = "(string \<times> jval) list"

definition NewTransactionExtra :: TransactionExtraData where
  "NewTransactionExtra = []"

definition Put :: "string \<Rightarrow> jval \<Rightarrow> TransactionExtraData \<Rightarrow> TransactionExtraData" where
  "Put key value t = AList.update key value t"

definition unmarshal_decimal :: "string \<Rightarrow> TransactionExtraData \<Rightarrow> rat option" where
  "unmarshal_decimal key t = (case map_of t key of
     None \<Rightarrow> Some 0 | Some (JDec d) \<Rightarrow> Some d | Some _ \<Rightarrow> None)"

record Transaction =
  tx_ID :: int
  tx_Action :: ActionType
  tx_TraceID :: string
  tx_UserID :: string
  tx_FollowID :: string
  tx_SnapshotTraceID :: string
  tx_AssetID :: string
  tx_Amount :: rat
  tx_Data :: TransactionExtraData

definition zero_transaction :: Transaction where
  "zero_transaction = \<lparr>tx_ID = 0, tx_Action = ActionTypeDefault, tx_TraceID = '''', tx_UserID = '''',
     tx_FollowID = '''', tx_SnapshotTraceID = '''', tx_AssetID = '''', tx_Amount = 0, tx_Data = []\<rparr>"

definition BuildTransactionFromOutput ::
  "string \<Rightarrow> string \<Rightarrow> ActionType \<Rightarrow> Output \<Rightarrow> TransactionExtraData \<Rightarrow> Transaction" where
  "BuildTransactionFromOutput userID followID actionType out extra =
     zero_transaction\<lparr>tx_UserID := userID, tx_Action := actionType, tx_TraceID := o_TraceID out,
       tx_FollowID := followID, tx_Amount := o_Amount out, tx_AssetID := o_AssetID out,
       tx_Data := extra\<rparr>"

text \<open>\<open>decodeTransferMemo\<close> and \<open>Payee.decodeMemo\<close>: base64, else URL base64, else the text itself.\<close>

definition decodeTransferMemo :: "string \<Rightarrow> bytes" where
  "decodeTransferMemo memo = (case StdDecode memo of
     Some b \<Rightarrow> b
   | None \<Rightarrow> (case URLDecode memo of Some b \<Rightarrow> b | None \<Rightarrow> bytes_of_string memo))"

section \<open>core/transfer.go\<close>

record TransferAction =
  a_Code :: int
  a_Origin :: ActionType
  a_Source :: ActionType
  a_FollowID :: string
  a_Message :: string

definition zero_TransferAction :: TransferAction where
  "zero_TransferAction = \<lparr>a_Code = 0, a_Origin = ActionTypeDefault, a_Source = ActionTypeDefault,
     a_FollowID = '''', a_Message = ''''\<rparr>"

text \<open>\<open>json.Marshal\<close> of a transfer action: every field has \<open>omitempty\<close>.\<close>

fun join_comma :: "string list \<Rightarrow> string" where
  "join_comma [] = ''''"
| "join_comma [x] = x"
| "join_comma (x # xs) = x @ '','' @ join_comma xs"

definition json_TransferAction :: "TransferAction \<Rightarrow> string" where
  "json_TransferAction t = ''{'' @ join_comma (
      (if a_Code t = 0 then [] else [json_string ''c'' @ '':'' @ itoa (a_Code t)])
    @ (if actionCode (a_Origin t) = 0 then [] else [json_string ''o'' @ '':'' @ itoa (actionCode (a_Origin t))])
    @ (if actionCode (a_Source t) = 0 then [] else [json_string ''s'' @ '':'' @ itoa (actionCode (a_Source t))])
    @ (if a_FollowID t = '''' then [] else [json_string ''f'' @ '':'' @ json_string (a_FollowID t)])
    @ (if a_Message t = '''' then [] else [json_string ''m'' @ '':'' @ json_string (a_Message t)])) @ ''}''"

definition TransferAction_Format :: "TransferAction \<Rightarrow> string" where
  "TransferAction_Format t = StdEncode (bytes_of_string (json_TransferAction t))"

definition NewRefundTransfer :: "ext \<Rightarrow> Output \<Rightarrow> string \<Rightarrow> string \<Rightarrow> ActionType \<Rightarrow> ErrorCode \<Rightarrow> Transfer" where
  "NewRefundTransfer X out userID followID origin errCode =
     zero_transfer\<lparr>t_TraceID := uuidModify X (o_TraceID out) ''compound_refund'',
       t_Opponents := [userID], t_Threshold := 1, t_AssetID := o_AssetID out,
       t_Amount := o_Amount out,
       t_Memo := TransferAction_Format (zero_TransferAction\<lparr>a_Code := errorCode errCode,
         a_Origin := origin, a_Source := ActionTypeRefundTransfer, a_FollowID := followID\<rparr>)\<rparr>"

definition NewOutTransfer ::
  "ext \<Rightarrow> string \<Rightarrow> string \<Rightarrow> string \<Rightarrow> string \<Rightarrow> rat \<Rightarrow> TransferAction \<Rightarrow> Transfer" where
  "NewOutTransfer X userID followID outputTraceID assetID amount action =
     zero_transfer\<lparr>
       t_TraceID := uuidModify X outputTraceID (followID @ ''.'' @ itoa (actionCode (a_Source action))),
       t_Opponents := [userID], t_Threshold := 1, t_AssetID := assetID, t_Amount := amount,
       t_Memo := TransferAction_Format action\<rparr>"

section \<open>core/system.go, core/oracle.go, core/message.go\<close>

definition SysVersion :: int where
  "SysVersion = 5"

record Member =
  mb_ClientID :: string
  mb_VerifyKey :: bytes

record System =
  Admins :: "string list"
  ClientID :: string
  Members :: "Member list"
  MemberIDs :: "string list"
  Threshold :: nat
  VoteAsset :: string
  VoteAmount :: rat
  PrivateKey :: bytes
  SignKey :: bytes
  Genesis :: int

definition IsMember :: "System \<Rightarrow> string \<Rightarrow> bool" where
  "IsMember s i \<longleftrightarrow> List.member (MemberIDs s) i"

definition IsStaff :: "System \<Rightarrow> string \<Rightarrow> bool" where
  "IsStaff s i \<longleftrightarrow> List.member (Admins s) i"

record OracleSigner =
  os_ID :: int
  os_UserID :: string
  os_PublicKey :: string

record Message =
  msg_ID :: int
  msg_MessageID :: string
  msg_UserID :: string

section \<open>Lemmas\<close>

lemma toAction_actionCode [simp]: "(\<And>n. a \<noteq> ActionTypeOther n) \<Longrightarrow> toAction (actionCode a) = a"
  by (cases a) (simp_all add: actionCode_def toAction_def action_table_def)

lemma map_of_swap_table:
  "map_of (map prod.swap action_table) n = Some a \<Longrightarrow> (\<forall>k. a \<noteq> ActionTypeOther k) \<and> map_of action_table a = Some n"
  by (auto simp: action_table_def split: if_splits)

lemma actionCode_toAction [simp]: "actionCode (toAction n) = n"
proof (cases "map_of (map prod.swap action_table) n")
  case None
  then show ?thesis by (simp add: toAction_def actionCode_def)
next
  case (Some a)
  then show ?thesis
    using map_of_swap_table [OF Some] by (cases a) (simp_all add: toAction_def actionCode_def)
qed

lemma BorrowAllowed_iff:
  "BorrowAllowed m x \<longleftrightarrow> 0 < x \<and> m_BorrowCap m + x \<le> m_TotalCash m - m_Reserves m"
  by (auto simp: BorrowAllowed_def Let_def)

lemma unmarshal_Put_same [simp]: "unmarshal_decimal k (Put k (JDec d) t) = Some d"
  by (simp add: unmarshal_decimal_def Put_def update_conv')

lemma unmarshal_Put_other [simp]: "k \<noteq> k' \<Longrightarrow> unmarshal_decimal k (Put k' v t) = unmarshal_decimal k t"
  by (simp add: unmarshal_decimal_def Put_def update_conv')

end
