(* ===== verification/Rates.thy ===== *)
theory Rates
  imports Core
begin

unbundle bit_operations_syntax

text \<open>
  Package \<open>pkg/compound\<close>: flagged errors, block numbers, the interest rate model and the balance of
  a borrow. The lemmas bound every rate and show that they move with the utilization.
\<close>

section \<open>pkg/compound/error.go\<close>

definition FlagRefund :: nat where
  "FlagRefund = 1"

definition FlagNoisy :: nat where
  "FlagNoisy = 2"

text \<open>\<open>Require\<close>: \<open>Ok\<close> is the nil error.\<close>

definition Require :: "bool \<Rightarrow> string \<Rightarrow> nat list \<Rightarrow> ('s, unit) go" where
  "Require condition msg flags =
     (if condition then ret () else throw (CompoundError msg (fold (\<lambda>v flag. flag OR v) flags 0)))"

fun WithFlag :: "err \<Rightarrow> nat \<Rightarrow> err" where
  "WithFlag (CompoundError m f) flag = CompoundError m (f OR flag)"
| "WithFlag e flag = e"

definition ShouldRefund :: "nat \<Rightarrow> bool" where
  "ShouldRefund flag \<longleftrightarrow> 0 < flag AND FlagRefund \<and> flag AND FlagNoisy = 0"

section \<open>pkg/compound/block.go and the constants of interestrate.go\<close>

definition SecondsPerBlock :: int where "SecondsPerBlock = 15"
definition BlocksPerYear :: rat where "BlocksPerYear = 2102400"
definition CloseFactorMin :: rat where "CloseFactorMin = 5 / 100"
definition CloseFactorMax :: rat where "CloseFactorMax = 9 / 10"
definition CollateralFactorMax :: rat where "CollateralFactorMax = 9 / 10"
definition LiquidationIncentiveMin :: rat where "LiquidationIncentiveMin = 1 / 100"
definition LiquidationIncentiveMax :: rat where "LiquidationIncentiveMax = 9 / 10"
definition MaxPricision :: nat where "MaxPricision = 16"

text \<open>\<open>t.UTC().Unix()\<close> of a time in nanoseconds.\<close>

definition unix_seconds :: "time \<Rightarrow> int" where
  "unix_seconds t = t div 1000000000"

definition GetBlockByTime :: "ext \<Rightarrow> time \<Rightarrow> int option" where
  "GetBlockByTime X t = (let seconds = unix_seconds t - genesis X in
     if seconds \<le> 0 then None else Some (seconds div SecondsPerBlock))"

section \<open>pkg/compound/interestrate.go\<close>

definition UtilizationRate :: "ext \<Rightarrow> rat \<Rightarrow> rat \<Rightarrow> rat \<Rightarrow> rat" where
  "UtilizationRate X cash borrows reserves =
     (let total = cash + borrows - reserves in
      if \<not> 0 < total then 0
      else dec_truncate MaxPricision (decDiv X borrows (cash + borrows - reserves)))"

definition GetExchangeRate :: "ext \<Rightarrow> rat \<Rightarrow> rat \<Rightarrow> rat \<Rightarrow> rat \<Rightarrow> rat \<Rightarrow> rat" where
  "GetExchangeRate X totalCash totalBorrows totalReserves tokenSupply initialExchangeRate =
     (if 0 < tokenSupply
      then dec_truncate MaxPricision (decDiv X (totalCash + totalBorrows - totalReserves) tokenSupply)
      else initialExchangeRate)"

definition GetBaseRatePerBlock :: "ext \<Rightarrow> rat \<Rightarrow> rat" where
  "GetBaseRatePerBlock X baseRate = dec_truncate MaxPricision (decDiv X baseRate BlocksPerYear)"

definition GetMultiplierPerBlock :: "ext \<Rightarrow> rat \<Rightarrow> rat" where
  "GetMultiplierPerBlock X multiplier = dec_truncate MaxPricision (decDiv X multiplier BlocksPerYear)"

definition GetJumpMultiplierPerBlock :: "ext \<Rightarrow> rat \<Rightarrow> rat" where
  "GetJumpMultiplierPerBlock X jumpMultiplier =
     dec_truncate MaxPricision (decDiv X jumpMultiplier BlocksPerYear)"

definition GetBorrowRatePerBlock :: "ext \<Rightarrow> rat \<Rightarrow> rat \<Rightarrow> rat \<Rightarrow> rat \<Rightarrow> rat \<Rightarrow> rat" where
  "GetBorrowRatePerBlock X utilizationRate baseRate multiplier jumpMultiplier kink =
     (if kink = 0 \<or> utilizationRate \<le> kink
      then dec_truncate MaxPricision
             (utilizationRate * GetMultiplierPerBlock X multiplier + GetBaseRatePerBlock X baseRate)
      else (let normalRate = kink * GetMultiplierPerBlock X multiplier + GetBaseRatePerBlock X baseRate;
                excessUtilRate = utilizationRate - kink
            in dec_truncate MaxPricision
                 (excessUtilRate * GetJumpMultiplierPerBlock X jumpMultiplier + normalRate)))"

definition GetSupplyRatePerBlock :: "ext \<Rightarrow> rat \<Rightarrow> rat \<Rightarrow> rat \<Rightarrow> rat \<Rightarrow> rat \<Rightarrow> rat \<Rightarrow> rat" where
  "GetSupplyRatePerBlock X utilizationRate baseRate multiplier jumpMultiplier kink reserveFactor =
     (let borrowRate = GetBorrowRatePerBlock X utilizationRate baseRate multiplier jumpMultiplier kink;
          oneMinusReserveFactor = 1 - reserveFactor;
          rateToPool = borrowRate * oneMinusReserveFactor
      in dec_truncate MaxPricision (utilizationRate * rateToPool))"

section \<open>pkg/compound/borrow.go\<close>

text \<open>
  \<open>BorrowBalance\<close> also normalises the two indices in place, so it returns the balance with the
  borrow and the market as it leaves them.
\<close>

definition BorrowBalance :: "ext \<Rightarrow> Borrow \<Rightarrow> Market \<Rightarrow> rat \<times> Borrow \<times> Market" where
  "BorrowBalance X b m =
     (let m' = (if \<not> 0 < m_BorrowIndex m then m\<lparr>m_BorrowIndex := 1\<rparr> else m);
          b' = (if \<not> 0 < b_InterestIndex b then b\<lparr>b_InterestIndex := m_BorrowIndex m'\<rparr> else b);
          principalTimesIndex = b_Principal b' * m_BorrowIndex m'
      in (Ceil (decDiv X principalTimesIndex (b_InterestIndex b')) (int MaxPricision), b', m'))"

section \<open>Lemmas\<close>

lemmas compound_consts = SecondsPerBlock_def BlocksPerYear_def CloseFactorMin_def CloseFactorMax_def
  CollateralFactorMax_def LiquidationIncentiveMin_def LiquidationIncentiveMax_def MaxPricision_def

lemma Require_True [simp]: "Require True msg flags = ret ()"
  by (simp add: Require_def)

lemma Require_False [simp]:
  "Require False msg flags = throw (CompoundError msg (fold (\<lambda>v flag. flag OR v) flags 0))"
  by (simp add: Require_def)

lemma ShouldRefund_flags [simp]: "ShouldRefund 0 = False" "ShouldRefund (Suc 0) = True" "ShouldRefund 1 = True"
  by (simp_all add: ShouldRefund_def FlagRefund_def FlagNoisy_def)

text \<open>The division lemmas at the division of the externals.\<close>

lemma decDiv_nonneg: "div_documented (decDiv X) \<Longrightarrow> 0 \<le> a \<Longrightarrow> 0 < b \<Longrightarrow> 0 \<le> decDiv X a b"
  by (rule div_nonneg)

lemma decDiv_mono:
  "div_documented (decDiv X) \<Longrightarrow> 0 \<le> a \<Longrightarrow> a \<le> a' \<Longrightarrow> 0 < b \<Longrightarrow> decDiv X a b \<le> decDiv X a' b"
  by (rule div_mono)

lemma decDiv_le_one:
  "div_documented (decDiv X) \<Longrightarrow> 0 \<le> a \<Longrightarrow> a \<le> b \<Longrightarrow> 0 < b \<Longrightarrow> decDiv X a b \<le> 1"
  by (rule div_le_one)

lemma decDiv_near:
  "div_documented (decDiv X) \<Longrightarrow> b \<noteq> 0 \<Longrightarrow> \<bar>decDiv X a b - a / b\<bar> \<le> 1 / (2 * 10 ^ 16)"
  by (rule div_near)

lemma decDiv_upper:
  assumes "div_documented (decDiv X)" and "b \<noteq> 0"
  shows "decDiv X a b \<le> a / b + 1 / (2 * 10 ^ 16)"
  using abs_le_D1 [OF decDiv_near [OF assms, of a]] by linarith

lemma decDiv_on_grid: "div_documented (decDiv X) \<Longrightarrow> b \<noteq> 0 \<Longrightarrow> on_grid 16 (decDiv X a b)"
  by (simp add: div_documented_def)

lemma per_block_nonneg:
  assumes "div_documented (decDiv X)" and "0 \<le> r"
  shows "0 \<le> GetBaseRatePerBlock X r" "0 \<le> GetMultiplierPerBlock X r" "0 \<le> GetJumpMultiplierPerBlock X r"
  using decDiv_nonneg [OF assms, of BlocksPerYear]
  by (simp_all add: GetBaseRatePerBlock_def GetMultiplierPerBlock_def GetJumpMultiplierPerBlock_def
      dec_truncate_nonneg BlocksPerYear_def)

lemma UtilizationRate_nonneg:
  assumes "div_documented (decDiv X)" and "0 \<le> borrows"
  shows "0 \<le> UtilizationRate X cash borrows reserves"
  using decDiv_nonneg [OF assms, of "cash + borrows - reserves"]
  by (simp add: UtilizationRate_def dec_truncate_nonneg)

lemma UtilizationRate_le_one:
  assumes "div_documented (decDiv X)" and "0 \<le> borrows" and "reserves \<le> cash"
  shows "UtilizationRate X cash borrows reserves \<le> 1"
proof (cases "0 < cash + borrows - reserves")
  case True
  with assms have "0 \<le> decDiv X borrows (cash + borrows - reserves)"
    and "decDiv X borrows (cash + borrows - reserves) \<le> 1"
    by (auto intro: decDiv_nonneg decDiv_le_one)
  then show ?thesis
    using True dec_truncate_le [of "decDiv X borrows (cash + borrows - reserves)" MaxPricision]
    by (simp add: UtilizationRate_def)
next
  case False
  then show ?thesis by (simp add: UtilizationRate_def)
qed

lemma GetBorrowRate_nonneg:
  assumes "div_documented (decDiv X)" and "0 \<le> u" "0 \<le> base" "0 \<le> mult" "0 \<le> jump" "0 \<le> kink"
  shows "0 \<le> GetBorrowRatePerBlock X u base mult jump kink"
proof -
  define n where "n = (if kink = 0 \<or> u \<le> kink then u else kink)"
  define normal where "normal = n * GetMultiplierPerBlock X mult + GetBaseRatePerBlock X base"
  have nn: "0 \<le> normal"
    using assms per_block_nonneg [OF assms(1)] by (simp add: normal_def n_def)
  have "0 \<le> (u - kink) * GetJumpMultiplierPerBlock X jump" if "kink < u"
    using that per_block_nonneg [OF assms(1)] assms by simp
  with nn show ?thesis
    by (auto simp: GetBorrowRatePerBlock_def Let_def normal_def n_def intro!: dec_truncate_nonneg)
qed

lemma GetBorrowRate_mono:
  assumes "div_documented (decDiv X)" and "u \<le> u'" "0 \<le> mult" "0 \<le> jump" "0 \<le> kink"
  shows "GetBorrowRatePerBlock X u base mult jump kink \<le> GetBorrowRatePerBlock X u' base mult jump kink"
proof -
  define a where "a = GetMultiplierPerBlock X mult"
  define j where "j = GetJumpMultiplierPerBlock X jump"
  have a: "0 \<le> a" and j: "0 \<le> j"
    using assms per_block_nonneg [OF assms(1)] by (simp_all add: a_def j_def)
  have low: "v * a \<le> w * a" and high: "v * j \<le> w * j" if "v \<le> w" for v w
    using that a j by (simp_all add: mult_right_mono)
  consider "kink = 0 \<or> u' \<le> kink" | "kink \<noteq> 0" "u \<le> kink" "kink < u'" | "kink \<noteq> 0" "kink < u"
    by linarith
  then show ?thesis
  proof cases
    case 1
    with assms(2) low [OF assms(2)] show ?thesis
      by (auto simp: GetBorrowRatePerBlock_def a_def intro!: dec_truncate_mono)
  next
    case 2
    have "u * a \<le> kink * a" and "0 \<le> (u' - kink) * j"
      using 2 low j by simp_all
    with 2 show ?thesis
      by (auto simp: GetBorrowRatePerBlock_def Let_def a_def [symmetric] j_def [symmetric]
          intro!: dec_truncate_mono)
  next
    case 3
    with assms(2) high [of "u - kink" "u' - kink"] show ?thesis
      by (auto simp: GetBorrowRatePerBlock_def Let_def j_def intro!: dec_truncate_mono)
  qed
qed

lemma GetSupplyRate_le_borrow:
  assumes "div_documented (decDiv X)" and "0 \<le> u" "u \<le> 1" "0 \<le> base" "0 \<le> mult" "0 \<le> jump" "0 \<le> kink"
    and "0 \<le> rf" "rf \<le> 1"
  shows "0 \<le> GetSupplyRatePerBlock X u base mult jump kink rf"
    and "GetSupplyRatePerBlock X u base mult jump kink rf \<le> GetBorrowRatePerBlock X u base mult jump kink"
proof -
  define r where "r = GetBorrowRatePerBlock X u base mult jump kink"
  have r: "0 \<le> r"
    using assms GetBorrowRate_nonneg [of X u base mult jump kink] by (simp add: r_def)
  have nn: "0 \<le> u * (r * (1 - rf))"
    using assms r by simp
  have "u * (r * (1 - rf)) \<le> 1 * (r * (1 - rf))"
    using assms r by (intro mult_right_mono) simp_all
  also have "\<dots> \<le> r"
    using assms r by (simp add: mult_left_le)
  finally have "u * (r * (1 - rf)) \<le> r" .
  then show "GetSupplyRatePerBlock X u base mult jump kink rf \<le> GetBorrowRatePerBlock X u base mult jump kink"
    using dec_truncate_le [OF nn, of MaxPricision] by (simp add: GetSupplyRatePerBlock_def r_def [symmetric])
  show "0 \<le> GetSupplyRatePerBlock X u base mult jump kink rf"
    using nn by (simp add: GetSupplyRatePerBlock_def r_def [symmetric] dec_truncate_nonneg)
qed

lemma BorrowBalance_pos_index:
  assumes "0 < m_BorrowIndex m"
  shows "BorrowBalance X b m =
    (let b' = (if 0 < b_InterestIndex b then b else b\<lparr>b_InterestIndex := m_BorrowIndex m\<rparr>)
     in (Ceil (decDiv X (b_Principal b * m_BorrowIndex m) (b_InterestIndex b')) (int MaxPricision), b', m))"
  using assms by (simp add: BorrowBalance_def Let_def)

lemma BorrowBalance_nonneg:
  assumes "div_documented (decDiv X)" and "0 \<le> b_Principal b"
  shows "0 \<le> fst (BorrowBalance X b m)"
proof -
  define idx where "idx = (if 0 < m_BorrowIndex m then m_BorrowIndex m else 1)"
  define ii where "ii = (if 0 < b_InterestIndex b then b_InterestIndex b else idx)"
  have pos: "0 < idx" "0 < ii" by (simp_all add: idx_def ii_def)
  have "0 \<le> decDiv X (b_Principal b * idx) ii"
    using assms pos by (intro decDiv_nonneg) simp_all
  moreover have "fst (BorrowBalance X b m) = Ceil (decDiv X (b_Principal b * idx) ii) (int MaxPricision)"
    by (simp add: BorrowBalance_def Let_def idx_def ii_def)
  ultimately show ?thesis by (simp add: Ceil_nonneg)
qed

end
