(* ===== verification/Codec.thy ===== *)
theory Codec
  imports Rates
begin

text \<open>
  Packages \<open>pkg/mtg\<close>, \<open>pkg/mtg/types\<close> and \<open>pkg/aes\<close>: the length-prefixed encoding of memos, the
  signature envelope, PKCS#7 padding and the encryption of memos. The interface between an encoder
  and the scanner of a field is the locale \<open>field_codec\<close>; it is interpreted at every kind of field
  the memos have, and its one lemma carries all round trips.
\<close>

section \<open>pkg/mtg/encode.go and scan.go\<close>

text \<open>
  \<open>Encode\<close> of the already encoded values: \<open>None\<close> is an encoding error. A value longer than 255
  bytes is an error.
\<close>

fun Encode :: "bytes option list \<Rightarrow> bytes option" where
  "Encode [] = Some []"
| "Encode (None # vs) = None"
| "Encode (Some b # vs) =
     (if length b > 255 then None
      else map_option (\<lambda>rest. of_nat (length b) # b @ rest) (Encode vs))"

text \<open>The kinds of \<open>encode\<close>: integers, unsigned integers and strings.\<close>

definition encode_int :: "int \<Rightarrow> bytes option" where
  "encode_int i = Some (PutVarint i)"

definition encode_uint :: "nat \<Rightarrow> bytes option" where
  "encode_uint n = Some (PutUvarint n)"

definition encode_string :: "string \<Rightarrow> bytes option" where
  "encode_string s = Some (bytes_of_string s)"

text \<open>
  One round of the loop of \<open>Scan\<close>: the length byte, then the field handed to the destination's
  scanner. A length of zero leaves the destination \<open>d\<close> as it is.
\<close>

definition scan1 :: "(bytes \<Rightarrow> 'a option) \<Rightarrow> 'a \<Rightarrow> bytes \<Rightarrow> ('a \<times> bytes) option" where
  "scan1 f d body = (case body of
     [] \<Rightarrow> None
   | b # r \<Rightarrow>
       (let n = unat b in
        if n = 0 then Some (d, r)
        else if length r < n then None
        else (case f (take n r) of None \<Rightarrow> None | Some v \<Rightarrow> Some (v, drop n r))))"

definition scan_int :: "bytes \<Rightarrow> int option" where
  "scan_int data = Some (fst (Varint data))"

definition scan_uint :: "bytes \<Rightarrow> nat option" where
  "scan_uint data = Some (fst (Uvarint data))"

definition scan_string :: "bytes \<Rightarrow> string option" where
  "scan_string data = Some (string_of_bytes data)"

text \<open>The zero \<open>uuid.UUID\<close>.\<close>

definition uuid_Nil :: bytes where
  "uuid_Nil = replicate 16 0"

section \<open>pkg/mtg/types.go and pkg/mtg/types/types.go\<close>

definition RawMessage_MarshalBinary :: "bytes \<Rightarrow> bytes option" where
  "RawMessage_MarshalBinary r = Some r"

definition RawMessage_UnmarshalBinary :: "bytes \<Rightarrow> bytes option" where
  "RawMessage_UnmarshalBinary data = Some data"

definition BitInt_MarshalBinary :: "int \<Rightarrow> bytes option" where
  "BitInt_MarshalBinary i = Some [of_int i]"

definition BitInt_UnmarshalBinary :: "bytes \<Rightarrow> int option" where
  "BitInt_UnmarshalBinary data = (case data of [b] \<Rightarrow> Some (int (unat b)) | _ \<Rightarrow> None)"

text \<open>\<open>core.ActionType\<close> is sent as one byte.\<close>

definition ActionType_MarshalBinary :: "ActionType \<Rightarrow> bytes option" where
  "ActionType_MarshalBinary a = BitInt_MarshalBinary (actionCode a)"

definition ActionType_UnmarshalBinary :: "bytes \<Rightarrow> ActionType option" where
  "ActionType_UnmarshalBinary data = map_option toAction (BitInt_UnmarshalBinary data)"

section \<open>pkg/mtg/sign.go and key.go\<close>

definition Verify :: "ext \<Rightarrow> bytes \<Rightarrow> bytes \<Rightarrow> bytes \<Rightarrow> bool" where
  "Verify X body sig publicKey = edVerify X publicKey body sig"

definition Pack :: "bytes \<Rightarrow> bytes \<Rightarrow> bytes" where
  "Pack body sig = sig @ body"

text \<open>\<open>Unpack\<close> returns the body and the signature.\<close>

definition Unpack :: "bytes \<Rightarrow> (bytes \<times> bytes) option" where
  "Unpack b = (if length b < 64 then None else Some (drop 64 b, take 64 b))"

definition DecodePrivateKey :: "string \<Rightarrow> bytes option" where
  "DecodePrivateKey s = (let b = decodeTransferMemo s in if length b \<noteq> 64 then None else Some b)"

definition DecodePublicKey :: "string \<Rightarrow> bytes option" where
  "DecodePublicKey s = (let b = decodeTransferMemo s in if length b \<noteq> 32 then None else Some b)"

section \<open>pkg/aes/aes.go\<close>

definition PKCS7Padding :: "bytes \<Rightarrow> nat \<Rightarrow> bytes" where
  "PKCS7Padding data blockSize =
     (let padding = blockSize - length data mod blockSize
      in data @ replicate padding (of_nat padding))"

text \<open>Indexing the last byte of empty data panics; \<open>nil\<close> is the empty slice.\<close>

definition UnPKCS7Padding :: "bytes \<Rightarrow> bytes res" where
  "UnPKCS7Padding data =
     (if data = [] then Panic ''index out of range [-1]''
      else (let unpadding = unat (last data) in
        if length data \<le> unpadding then Ok [] else Ok (take (length data - unpadding) data)))"

text \<open>\<open>aes.NewCipher\<close> accepts keys of 16, 24 and 32 bytes; the CBC constructors panic on another iv length.\<close>

definition aes_Encrypt :: "ext \<Rightarrow> bytes \<Rightarrow> bytes \<Rightarrow> bytes \<Rightarrow> bytes res" where
  "aes_Encrypt X data key iv =
     (if length key \<notin> {16, 24, 32} then Err (GoError ''invalid key size'')
      else if length iv \<noteq> 16 then Panic ''IV length must equal block size''
      else Ok (aesEncryptCBC X key iv (PKCS7Padding data 16)))"

definition aes_Decrypt :: "ext \<Rightarrow> bytes \<Rightarrow> bytes \<Rightarrow> bytes \<Rightarrow> bytes res" where
  "aes_Decrypt X data key iv =
     (if length key \<notin> {16, 24, 32} then Err (GoError ''invalid key size'')
      else if length data mod 16 \<noteq> 0 then Err (GoError ''ciphertext is not a multiple of the block size'')
      else if length iv \<noteq> 16 then Panic ''IV length must equal block size''
      else UnPKCS7Padding (aesDecryptCBC X key iv data))"

section \<open>pkg/mtg/encrypt.go\<close>

text \<open>
  \<open>privateKeyToCurve25519\<close> receives its array by value: what it computes stays in its own copy, which
  is the result here, and the caller's array is what it was.
\<close>

definition privateKeyToCurve25519 :: "ext \<Rightarrow> bytes \<Rightarrow> bytes \<Rightarrow> bytes" where
  "privateKeyToCurve25519 X curve25519Private privateKey =
     (let digest = sha512 X (take 32 privateKey);
          digest = digest[0 := digest ! 0 AND 248];
          digest = digest[31 := digest ! 31 AND 127];
          digest = digest[31 := digest ! 31 OR 64]
      in take 32 digest)"

definition keyPairsToAesKeyIv :: "ext \<Rightarrow> bytes \<Rightarrow> bytes \<Rightarrow> (bytes \<times> bytes) res" where
  "keyPairsToAesKeyIv X privateKey publicKey =
     (let pub = take 32 (publicKey @ replicate 32 0);
          pri = replicate 32 0;
          _ = privateKeyToCurve25519 X pri privateKey
      in if \<not> checkKey X pub then Err (GoError ''public key is invalid'')
         else if \<not> checkScalar X pri then Err (GoError ''private key is invalid'')
         else (let tmp = geScalarMult X pri pub in Ok (take 16 tmp, drop 16 tmp)))"

definition Encrypt :: "ext \<Rightarrow> bytes \<Rightarrow> bytes \<Rightarrow> bytes \<Rightarrow> bytes res" where
  "Encrypt X body privateKey publicKey = (case keyPairsToAesKeyIv X privateKey publicKey of
     Err e \<Rightarrow> Err e
   | Panic p \<Rightarrow> Panic p
   | Ok (key, iv) \<Rightarrow> (case aes_Encrypt X body key iv of
       Err e \<Rightarrow> Err e
     | Panic p \<Rightarrow> Panic p
     | Ok data \<Rightarrow> Ok (drop 32 privateKey @ data)))"

definition Decrypt :: "ext \<Rightarrow> bytes \<Rightarrow> bytes \<Rightarrow> bytes res" where
  "Decrypt X b privateKey =
     (if length b < 32 then Err (GoError ''unexpected EOF'')
      else (case keyPairsToAesKeyIv X privateKey (take 32 b) of
          Err e \<Rightarrow> Err e
        | Panic p \<Rightarrow> Panic p
        | Ok (key, iv) \<Rightarrow> aes_Decrypt X (drop 32 b) key iv))"

section \<open>The interface of a field\<close>

text \<open>
  An encoder and a scanner fit when the scanner gives back what was encoded, and only the value a
  destination starts with is encoded by no bytes at all.
\<close>

locale field_codec =
  fixes enc :: "'a \<Rightarrow> bytes option" and dec :: "bytes \<Rightarrow> 'a option" and zero :: 'a
    and valid :: "'a \<Rightarrow> bool"
  assumes dec_enc: "valid a \<Longrightarrow> enc a = Some b \<Longrightarrow> b \<noteq> [] \<Longrightarrow> dec b = Some a"
    and enc_empty: "valid a \<Longrightarrow> enc a = Some [] \<Longrightarrow> a = zero"
begin

lemma scan1_field:
  assumes "valid a" and "enc a = Some b" and "length b \<le> 255"
  shows "scan1 dec zero (of_nat (length b) # b @ rest) = Some (a, rest)"
proof (cases "b = []")
  case True
  with assms have "a = zero" by (simp add: enc_empty)
  with True show ?thesis by (simp add: scan1_def)
next
  case False
  have "unat (of_nat (length b) :: byte) = length b"
    using assms(3) by simp
  moreover have "dec b = Some a"
    using dec_enc [OF assms(1) assms(2) False] .
  ultimately show ?thesis
    using False by (simp add: scan1_def Let_def)
qed

end

definition int64 :: "int \<Rightarrow> bool" where
  "int64 i \<longleftrightarrow> - (2 ^ 63) \<le> i \<and> i < 2 ^ 63"

definition uint64 :: "nat \<Rightarrow> bool" where
  "uint64 n \<longleftrightarrow> n < 2 ^ 64"

definition is_byte :: "int \<Rightarrow> bool" where
  "is_byte i \<longleftrightarrow> 0 \<le> i \<and> i < 256"

interpretation int_field: field_codec encode_int scan_int 0 int64
  by unfold_locales (auto simp: encode_int_def scan_int_def int64_def PutVarint_def Varint_Put [unfolded PutVarint_def])

interpretation uint_field: field_codec encode_uint scan_uint 0 uint64
  by unfold_locales (auto simp: encode_uint_def scan_uint_def uint64_def Uvarint_Put)

interpretation string_field: field_codec encode_string scan_string "''''" "\<lambda>_. True"
proof
  show "scan_string b = Some a" if "encode_string a = Some b" for a b
    using that by (auto simp: encode_string_def scan_string_def)
  show "a = ''''" if "encode_string a = Some []" for a
    using that by (simp add: encode_string_def bytes_of_string_def)
qed

interpretation raw_field: field_codec RawMessage_MarshalBinary RawMessage_UnmarshalBinary "[]" "\<lambda>_. True"
  by unfold_locales (auto simp: RawMessage_MarshalBinary_def RawMessage_UnmarshalBinary_def)

interpretation bit_field: field_codec BitInt_MarshalBinary BitInt_UnmarshalBinary 0 is_byte
  by unfold_locales (auto simp: BitInt_MarshalBinary_def BitInt_UnmarshalBinary_def is_byte_def
      unat_eq_nat_uint uint_word_of_int)

interpretation action_field: field_codec ActionType_MarshalBinary ActionType_UnmarshalBinary
  ActionTypeDefault "\<lambda>a. is_byte (actionCode a) \<and> (\<forall>n. a \<noteq> ActionTypeOther n)"
  by unfold_locales (auto simp: ActionType_MarshalBinary_def ActionType_UnmarshalBinary_def
      BitInt_MarshalBinary_def BitInt_UnmarshalBinary_def is_byte_def unat_eq_nat_uint uint_word_of_int)

interpretation dec_field: field_codec "\<lambda>d. Some (decMarshal X d)" "decUnmarshal X" 0 "\<lambda>_. codec_documented X"
  for X
  by unfold_locales (auto simp: codec_documented_def)

text \<open>A UUID field, written as the text of the identifier.\<close>

interpretation uuid_field: field_codec "\<lambda>u. Some u" "uuidOfBytes X" uuid_Nil
  "\<lambda>u. codec_documented X \<and> (\<exists>s. uuidFromString X s = Some u)" for X
proof
  fix a b
  assume "codec_documented X \<and> (\<exists>s. uuidFromString X s = Some a)" and "Some a = Some b"
  then show "uuidOfBytes X b = Some a"
    by (auto simp: codec_documented_def)
next
  fix a
  assume doc: "codec_documented X \<and> (\<exists>s. uuidFromString X s = Some a)" and b: "Some a = Some []"
  from doc have "length a = 16" by (auto simp: codec_documented_def)
  with b show "a = uuid_Nil" by simp
qed

text \<open>The lemma of the interface at each kind of field, as rewrite rules for the round trips.\<close>

lemma Encode_Some_iff:
  "Encode (Some b # vs) = Some body \<longleftrightarrow>
     length b \<le> 255 \<and> (\<exists>rest. Encode vs = Some rest \<and> body = of_nat (length b) # b @ rest)"
  by auto

lemma scan1_int_field:
  "int64 i \<Longrightarrow> length (PutVarint i) \<le> 255 \<Longrightarrow>
   scan1 scan_int 0 (of_nat (length (PutVarint i)) # PutVarint i @ rest) = Some (i, rest)"
  by (rule int_field.scan1_field) (simp_all add: encode_int_def)

lemma scan1_uint_field:
  "uint64 n \<Longrightarrow> length (PutUvarint n) \<le> 255 \<Longrightarrow>
   scan1 scan_uint 0 (of_nat (length (PutUvarint n)) # PutUvarint n @ rest) = Some (n, rest)"
  by (rule uint_field.scan1_field) (simp_all add: encode_uint_def)

lemma scan1_string_field:
  "length (bytes_of_string s) \<le> 255 \<Longrightarrow>
   scan1 scan_string '''' (of_nat (length (bytes_of_string s)) # bytes_of_string s @ rest) = Some (s, rest)"
  by (rule string_field.scan1_field) (simp_all add: encode_string_def)

lemma scan1_raw_field:
  "length b \<le> 255 \<Longrightarrow> scan1 RawMessage_UnmarshalBinary [] (of_nat (length b) # b @ rest) = Some (b, rest)"
  by (rule raw_field.scan1_field) (simp_all add: RawMessage_MarshalBinary_def)

lemma scan1_dec_field:
  "codec_documented X \<Longrightarrow> length (decMarshal X d) \<le> 255 \<Longrightarrow>
   scan1 (decUnmarshal X) 0 (of_nat (length (decMarshal X d)) # decMarshal X d @ rest) = Some (d, rest)"
  by (rule dec_field.scan1_field) simp_all

lemma scan1_uuid_field:
  "codec_documented X \<Longrightarrow> uuidFromString X s = Some u \<Longrightarrow>
   scan1 (uuidOfBytes X) uuid_Nil (of_nat (length u) # u @ rest) = Some (u, rest)"
  by (rule uuid_field.scan1_field) (auto simp: codec_documented_def)

lemma scan1_action_field:
  "is_byte (actionCode a) \<Longrightarrow> (\<And>n. a \<noteq> ActionTypeOther n) \<Longrightarrow>
   scan1 ActionType_UnmarshalBinary ActionTypeDefault (1 # of_int (actionCode a) # rest) = Some (a, rest)"
  using action_field.scan1_field [of a "[of_int (actionCode a)]" rest]
  by (simp add: ActionType_MarshalBinary_def BitInt_MarshalBinary_def)

lemmas scan_fields = scan1_int_field scan1_uint_field scan1_string_field scan1_raw_field
  scan1_dec_field scan1_uuid_field
  scan1_int_field [where rest = "[]", unfolded append_Nil2]
  scan1_uint_field [where rest = "[]", unfolded append_Nil2]
  scan1_string_field [where rest = "[]", unfolded append_Nil2]
  scan1_raw_field [where rest = "[]", unfolded append_Nil2]
  scan1_dec_field [where rest = "[]", unfolded append_Nil2]
  scan1_uuid_field [where rest = "[]", unfolded append_Nil2]

section \<open>Lemmas on the envelope and the padding\<close>

lemma Unpack_Pack: "length sig = 64 \<Longrightarrow> Unpack (Pack body sig) = Some (body, sig)"
  by (simp add: Unpack_def Pack_def)

lemma PKCS7_length: "0 < bs \<Longrightarrow> length (PKCS7Padding data bs) mod bs = 0"
proof -
  assume bs: "0 < bs"
  have "length data mod bs < bs" using bs by simp
  then have "length (PKCS7Padding data bs) = length data div bs * bs + bs"
    using div_mult_mod_eq [of "length data" bs]
    by (simp only: PKCS7Padding_def Let_def length_append length_replicate)
  then show ?thesis by simp
qed

lemma UnPKCS7_PKCS7:
  assumes "0 < bs" and "bs \<le> 255"
  shows "UnPKCS7Padding (PKCS7Padding data bs) = Ok data"
proof -
  define p where "p = bs - length data mod bs"
  have p: "0 < p" "p \<le> 255"
    using assms by (auto simp: p_def)
  have pad: "PKCS7Padding data bs = data @ replicate p (of_nat p)"
    by (simp add: PKCS7Padding_def p_def Let_def)
  have "last (data @ replicate p (of_nat p)) = (of_nat p :: byte)"
    using p by simp
  moreover have "unat (of_nat p :: byte) = p"
    using p by simp
  ultimately show ?thesis
    unfolding pad using p by (cases data) (auto simp: UnPKCS7Padding_def Let_def)
qed

lemma keyPairs_private_irrelevant: "keyPairsToAesKeyIv X pri pub = keyPairsToAesKeyIv X pri' pub"
  by (simp add: keyPairsToAesKeyIv_def Let_def)

end
