(* ===== verification/Requests.thy ===== *)
theory Requests
  imports Codec
begin

text \<open>
  The contents of memos: the proposal requests of package \<open>core/proposal\<close>, the proposal itself
  (\<open>core/proposal.go\<close>), oracle prices (\<open>core/pricedata.go\<close>, \<open>core/cosi.go\<close>) and the member
  actions of system version 0 (\<open>core/action_v0.go\<close>), each with its binary encoding. The JSON text a
  proposal stores is represented by the request it was made from.
\<close>

section \<open>core/proposal\<close>

record MarketReq =
  mr_Symbol :: string
  mr_AssetID :: string
  mr_CTokenAssetID :: string
  mr_PriceThreshold :: int
  mr_Price :: rat
  mr_InitExchange :: rat
  mr_ReserveFactor :: rat
  mr_LiquidationIncentive :: rat
  mr_CollateralFactor :: rat
  mr_BaseRate :: rat
  mr_BorrowCap :: rat
  mr_CloseFactor :: rat
  mr_Multiplier :: rat
  mr_JumpMultiplier :: rat
  mr_Kink :: rat
  mr_MaxPledge :: rat

definition zero_MarketReq :: MarketReq where
  "zero_MarketReq = \<lparr>mr_Symbol = '''', mr_AssetID = '''', mr_CTokenAssetID = '''',
     mr_PriceThreshold = 0, mr_Price = 0, mr_InitExchange = 0, mr_ReserveFactor = 0,
     mr_LiquidationIncentive = 0, mr_CollateralFactor = 0, mr_BaseRate = 0, mr_BorrowCap = 0,
     mr_CloseFactor = 0, mr_Multiplier = 0, mr_JumpMultiplier = 0, mr_Kink = 0, mr_MaxPledge = 0\<rparr>"

abbreviation encode_dec :: "ext \<Rightarrow> rat \<Rightarrow> bytes option" where
  "encode_dec X d \<equiv> Some (decMarshal X d)"

abbreviation scan_dec :: "ext \<Rightarrow> bytes \<Rightarrow> (rat \<times> bytes) option" where
  "scan_dec X \<equiv> scan1 (decUnmarshal X) 0"

abbreviation scan_uuid :: "ext \<Rightarrow> bytes \<Rightarrow> (bytes \<times> bytes) option" where
  "scan_uuid X \<equiv> scan1 (uuidOfBytes X) uuid_Nil"

definition MarketReq_MarshalBinary :: "ext \<Rightarrow> MarketReq \<Rightarrow> bytes option" where
  "MarketReq_MarshalBinary X w = do {
     asset \<leftarrow> uuidFromString X (mr_AssetID w);
     ctokenAsset \<leftarrow> uuidFromString X (mr_CTokenAssetID w);
     Encode [
       encode_string (mr_Symbol w),
       Some asset,
       Some ctokenAsset,
       encode_dec X (mr_InitExchange w),
       encode_dec X (mr_ReserveFactor w),
       encode_dec X (mr_LiquidationIncentive w),
       encode_dec X (mr_CollateralFactor w),
       encode_dec X (mr_BaseRate w),
       encode_dec X (mr_BorrowCap w),
       encode_dec X (mr_CloseFactor w),
       encode_dec X (mr_Multiplier w),
       encode_dec X (mr_JumpMultiplier w),
       encode_dec X (mr_Kink w),
       encode_int (mr_PriceThreshold w),
       encode_dec X (mr_Price w),
       encode_dec X (mr_MaxPledge w)]
   }"

definition MarketReq_UnmarshalBinary :: "ext \<Rightarrow> bytes \<Rightarrow> MarketReq option" where
  "MarketReq_UnmarshalBinary X data = do {
     (symbol, data) \<leftarrow> scan1 scan_string '''' data;
     (assetID, data) \<leftarrow> scan_uuid X data;
     (ctokenAssetID, data) \<leftarrow> scan_uuid X data;
     (initExchange, data) \<leftarrow> scan_dec X data;
     (reserveFactor, data) \<leftarrow> scan_dec X data;
     (liquidationIncentive, data) \<leftarrow> scan_dec X data;
     (collateralFactor, data) \<leftarrow> scan_dec X data;
     (baseRate, data) \<leftarrow> scan_dec X data;
     (borrowCap, data) \<leftarrow> scan_dec X data;
     (closeFactor, data) \<leftarrow> scan_dec X data;
     (multiplier, data) \<leftarrow> scan_dec X data;
     (jumpMultiplier, data) \<leftarrow> scan_dec X data;
     (kink, data) \<leftarrow> scan_dec X data;
     (priceThreshold, data) \<leftarrow> scan1 scan_int 0 data;
     (price, data) \<leftarrow> scan_dec X data;
     let maxPledge = (if length data > 0
        then (case scan_dec X data of Some (d, _) \<Rightarrow> d | None \<Rightarrow> 0) else 0);
     Some \<lparr>mr_Symbol = symbol, mr_AssetID = uuidToString X assetID,
       mr_CTokenAssetID = uuidToString X ctokenAssetID, mr_PriceThreshold = priceThreshold,
       mr_Price = price, mr_InitExchange = initExchange, mr_ReserveFactor = reserveFactor,
       mr_LiquidationIncentive = liquidationIncentive, mr_CollateralFactor = collateralFactor,
       mr_BaseRate = baseRate, mr_BorrowCap = borrowCap, mr_CloseFactor = closeFactor,
       mr_Multiplier = multiplier, mr_JumpMultiplier = jumpMultiplier, mr_Kink = kink,
       mr_MaxPledge = maxPledge\<rparr>
   }"

record MarketStatusReq =
  ms_AssetID :: string
  ms_Status :: MarketStatus

definition zero_MarketStatusReq :: MarketStatusReq where
  "zero_MarketStatusReq = \<lparr>ms_AssetID = '''', ms_Status = 0\<rparr>"

definition MarketStatusReq_MarshalBinary :: "ext \<Rightarrow> MarketStatusReq \<Rightarrow> bytes option" where
  "MarketStatusReq_MarshalBinary X w = do {
     asset \<leftarrow> uuidFromString X (ms_AssetID w);
     Encode [Some asset, encode_int (ms_Status w)]
   }"

definition MarketStatusReq_UnmarshalBinary :: "ext \<Rightarrow> bytes \<Rightarrow> MarketStatusReq option" where
  "MarketStatusReq_UnmarshalBinary X data = do {
     (asset, data) \<leftarrow> scan_uuid X data;
     (status, data) \<leftarrow> scan1 scan_int 0 data;
     if \<not> MarketStatus_IsValid status then None
     else Some \<lparr>ms_AssetID = uuidToString X asset, ms_Status = status\<rparr>
   }"

record AddOracleSignerReq =
  ao_UserID :: string
  ao_PublicKey :: string

definition zero_AddOracleSignerReq :: AddOracleSignerReq where
  "zero_AddOracleSignerReq = \<lparr>ao_UserID = '''', ao_PublicKey = ''''\<rparr>"

definition AddOracleSignerReq_MarshalBinary :: "ext \<Rightarrow> AddOracleSignerReq \<Rightarrow> bytes option" where
  "AddOracleSignerReq_MarshalBinary X r = do {
     user \<leftarrow> uuidFromString X (ao_UserID r);
     pk \<leftarrow> StdDecode (ao_PublicKey r);
     Encode [Some user, RawMessage_MarshalBinary pk]
   }"

definition AddOracleSignerReq_UnmarshalBinary :: "ext \<Rightarrow> bytes \<Rightarrow> AddOracleSignerReq option" where
  "AddOracleSignerReq_UnmarshalBinary X data = do {
     (user, data) \<leftarrow> scan_uuid X data;
     (publicKey, data) \<leftarrow> scan1 RawMessage_UnmarshalBinary [] data;
     Some \<lparr>ao_UserID = uuidToString X user, ao_PublicKey = StdEncode publicKey\<rparr>
   }"

record RemoveOracleSignerReq =
  ro_UserID :: string

definition zero_RemoveOracleSignerReq :: RemoveOracleSignerReq where
  "zero_RemoveOracleSignerReq = \<lparr>ro_UserID = ''''\<rparr>"

definition RemoveOracleSignerReq_MarshalBinary :: "ext \<Rightarrow> RemoveOracleSignerReq \<Rightarrow> bytes option" where
  "RemoveOracleSignerReq_MarshalBinary X r = do {
     user \<leftarrow> uuidFromString X (ro_UserID r);
     Encode [Some user]
   }"

definition RemoveOracleSignerReq_UnmarshalBinary :: "ext \<Rightarrow> bytes \<Rightarrow> RemoveOracleSignerReq option" where
  "RemoveOracleSignerReq_UnmarshalBinary X data = do {
     (user, data) \<leftarrow> scan_uuid X data;
     Some \<lparr>ro_UserID = uuidToString X user\<rparr>
   }"

record SetPropertyReq =
  sp_Key :: string
  sp_Value :: string

definition zero_SetProperty :: SetPropertyReq where
  "zero_SetProperty = \<lparr>sp_Key = '''', sp_Value = ''''\<rparr>"

definition SetProperty_MarshalBinary :: "SetPropertyReq \<Rightarrow> bytes option" where
  "SetProperty_MarshalBinary s = Encode [encode_string (sp_Key s), encode_string (sp_Value s)]"

definition SetProperty_UnmarshalBinary :: "bytes \<Rightarrow> SetPropertyReq option" where
  "SetProperty_UnmarshalBinary data = do {
     (key, data) \<leftarrow> scan1 scan_string '''' data;
     (value, data) \<leftarrow> scan1 scan_string '''' data;
     Some \<lparr>sp_Key = key, sp_Value = value\<rparr>
   }"

record ProvidePriceReq =
  pp_Symbol :: string
  pp_Price :: rat

definition ProvidePriceReq_MarshalBinary :: "ext \<Rightarrow> ProvidePriceReq \<Rightarrow> bytes option" where
  "ProvidePriceReq_MarshalBinary X p = Encode [encode_string (pp_Symbol p), encode_dec X (pp_Price p)]"

definition ProvidePriceReq_UnmarshalBinary :: "ext \<Rightarrow> bytes \<Rightarrow> ProvidePriceReq option" where
  "ProvidePriceReq_UnmarshalBinary X data = do {
     (symbol, data) \<leftarrow> scan1 scan_string '''' data;
     (price, data) \<leftarrow> scan_dec X data;
     Some \<lparr>pp_Symbol = symbol, pp_Price = price\<rparr>
   }"

record WithdrawReq =
  wr_Opponent :: string
  wr_Asset :: string
  wr_Amount :: rat

definition zero_WithdrawReq :: WithdrawReq where
  "zero_WithdrawReq = \<lparr>wr_Opponent = '''', wr_Asset = '''', wr_Amount = 0\<rparr>"

definition WithdrawReq_MarshalBinary :: "ext \<Rightarrow> WithdrawReq \<Rightarrow> bytes option" where
  "WithdrawReq_MarshalBinary X w = do {
     opponent \<leftarrow> uuidFromString X (wr_Opponent w);
     asset \<leftarrow> uuidFromString X (wr_Asset w);
     Encode [Some opponent, Some asset, encode_dec X (wr_Amount w)]
   }"

definition WithdrawReq_UnmarshalBinary :: "ext \<Rightarrow> bytes \<Rightarrow> WithdrawReq option" where
  "WithdrawReq_UnmarshalBinary X data = do {
     (opponent, data) \<leftarrow> scan_uuid X data;
     (asset, data) \<leftarrow> scan_uuid X data;
     (amount, data) \<leftarrow> scan_dec X data;
     Some \<lparr>wr_Opponent = uuidToString X opponent, wr_Asset = uuidToString X asset, wr_Amount = amount\<rparr>
   }"

section \<open>core/proposal.go\<close>

datatype Content =
    MarketContent MarketReq
  | WithdrawContent WithdrawReq
  | MarketStatusContent MarketStatusReq
  | AddOracleSignerContent AddOracleSignerReq
  | RemoveOracleSignerContent RemoveOracleSignerReq
  | SetPropertyContent SetPropertyReq

record Proposal =
  p_ID :: int
  p_CreatedAt :: time
  p_UpdatedAt :: time
  p_PassedAt :: "time option"
  p_Version :: int
  p_TraceID :: string
  p_Creator :: string
  p_AssetID :: string
  p_Amount :: rat
  p_Action :: ActionType
  p_Content :: Content
  p_Votes :: "string list"

definition zero_proposal :: Proposal where
  "zero_proposal = \<lparr>p_ID = 0, p_CreatedAt = 0, p_UpdatedAt = 0, p_PassedAt = None, p_Version = 0,
     p_TraceID = '''', p_Creator = '''', p_AssetID = '''', p_Amount = 0,
     p_Action = ActionTypeDefault, p_Content = MarketContent zero_MarketReq, p_Votes = []\<rparr>"

section \<open>core/cosi.go and core/pricedata.go\<close>

text \<open>A \<open>blst.Signature\<close> is represented by the bytes it marshals to, the zero value by no bytes.\<close>

record CosiSignature =
  cs_Signature :: bytes
  cs_Mask :: nat

definition zero_CosiSignature :: CosiSignature where
  "zero_CosiSignature = \<lparr>cs_Signature = [], cs_Mask = 0\<rparr>"

definition CosiSignature_Bytes :: "CosiSignature \<Rightarrow> bytes res" where
  "CosiSignature_Bytes s = (case Encode [encode_uint (cs_Mask s), Some (cs_Signature s)] of
     None \<Rightarrow> Panic ''mtg: no enough bytes to encode'' | Some bts \<Rightarrow> Ok bts)"

definition CosiSignature_FromBytes :: "ext \<Rightarrow> bytes \<Rightarrow> CosiSignature option" where
  "CosiSignature_FromBytes X bts = do {
     (mask, bts) \<leftarrow> scan1 scan_uint 0 bts;
     (sig, bts) \<leftarrow> scan1 (blstSig X) [] bts;
     Some \<lparr>cs_Signature = sig, cs_Mask = mask\<rparr>
   }"

record PriceData =
  pd_Timestamp :: int
  pd_AssetID :: string
  pd_Price :: rat
  pd_Signature :: CosiSignature

definition Payload :: "ext \<Rightarrow> PriceData \<Rightarrow> bytes" where
  "Payload X p = bytes_of_string
     (itoa (pd_Timestamp p) @ '':'' @ pd_AssetID p @ '':'' @ decString X (pd_Price p))"

definition PriceData_MarshalBinary :: "ext \<Rightarrow> PriceData \<Rightarrow> bytes res" where
  "PriceData_MarshalBinary X p = (case uuidFromString X (pd_AssetID p) of
     None \<Rightarrow> Err (GoError ''uuid: incorrect UUID'')
   | Some asset \<Rightarrow> (case CosiSignature_Bytes (pd_Signature p) of
       Panic e \<Rightarrow> Panic e
     | Err e \<Rightarrow> Err e
     | Ok sig \<Rightarrow> (case Encode [encode_int (pd_Timestamp p), Some asset, encode_dec X (pd_Price p), Some sig] of
         None \<Rightarrow> Err (GoError ''mtg: no enough bytes to encode'')
       | Some b \<Rightarrow> Ok b)))"

definition PriceData_UnmarshalBinary :: "ext \<Rightarrow> bytes \<Rightarrow> PriceData option" where
  "PriceData_UnmarshalBinary X data = do {
     (timestamp, data) \<leftarrow> scan1 scan_int 0 data;
     (asset, data) \<leftarrow> scan_uuid X data;
     (price, data) \<leftarrow> scan_dec X data;
     (signature, data) \<leftarrow> scan1 (CosiSignature_FromBytes X) zero_CosiSignature data;
     Some \<lparr>pd_Timestamp = timestamp, pd_AssetID = uuidToString X asset, pd_Price = price,
       pd_Signature = signature\<rparr>
   }"

section \<open>core/action_v0.go\<close>

text \<open>The action a version 0 member sends: the member, the action and the body, \<open>None\<close> on any error.\<close>

definition decodeMemberActionV0 :: "ext \<Rightarrow> bytes \<Rightarrow> Member list \<Rightarrow> (Member \<times> ActionType \<times> bytes) option" where
  "decodeMemberActionV0 X message members = do {
     (body, sig) \<leftarrow> Unpack message;
     (clientID, content) \<leftarrow> scan_uuid X body;
     (actionType, content) \<leftarrow> scan1 scan_int 0 content;
     let action = toAction actionType;
     if \<not> IsProposalAction action then None
     else (case List.find (\<lambda>m. mb_ClientID m = uuidToString X clientID) members of
         None \<Rightarrow> None
       | Some m \<Rightarrow> if \<not> Verify X body sig (mb_VerifyKey m) then None else Some (m, action, content))
   }"

definition decodeMemberActionUnsecureV0 :: "ext \<Rightarrow> bytes \<Rightarrow> Member list \<Rightarrow> (Member \<times> ActionType \<times> bytes) option" where
  "decodeMemberActionUnsecureV0 X message members = do {
     (clientID, content) \<leftarrow> scan_uuid X message;
     (actionType, content) \<leftarrow> scan1 scan_int 0 content;
     let action = toAction actionType;
     if \<not> IsProposalAction action then None
     else (case List.find (\<lambda>m. mb_ClientID m = uuidToString X clientID) members of
         None \<Rightarrow> None
       | Some m \<Rightarrow> Some (m, action, content))
   }"

definition DecodeMemberActionV0 :: "ext \<Rightarrow> bytes \<Rightarrow> Member list \<Rightarrow> (Member \<times> ActionType \<times> bytes) option" where
  "DecodeMemberActionV0 X message members = (case decodeMemberActionV0 X message members of
     None \<Rightarrow> decodeMemberActionUnsecureV0 X message members
   | Some r \<Rightarrow> Some r)"

section \<open>Round trips\<close>

text \<open>An identifier in the canonical text form of its UUID.\<close>

definition canonical_uuid :: "ext \<Rightarrow> string \<Rightarrow> bool" where
  "canonical_uuid X s \<longleftrightarrow> (case uuidFromString X s of None \<Rightarrow> False | Some u \<Rightarrow> uuidToString X u = s)"

lemma canonical_uuidD: "canonical_uuid X s \<Longrightarrow> uuidFromString X s = Some u \<Longrightarrow> uuidToString X u = s"
  by (simp add: canonical_uuid_def)

lemmas marshal_simps = encode_string_def encode_int_def encode_uint_def RawMessage_MarshalBinary_def
  bind_eq_Some_conv

lemma MarketReq_roundtrip:
  assumes "codec_documented X" and "canonical_uuid X (mr_AssetID w)" "canonical_uuid X (mr_CTokenAssetID w)"
    and "int64 (mr_PriceThreshold w)" and "MarketReq_MarshalBinary X w = Some data"
  shows "MarketReq_UnmarshalBinary X data = Some w"
  using assms
  by (clarsimp simp: MarketReq_MarshalBinary_def marshal_simps Encode_Some_iff simp del: Encode.simps(3))
    (simp add: MarketReq_UnmarshalBinary_def scan_fields canonical_uuidD)

lemma MarketStatusReq_roundtrip:
  assumes "codec_documented X" and "canonical_uuid X (ms_AssetID w)"
    and "MarketStatus_IsValid (ms_Status w)" and "MarketStatusReq_MarshalBinary X w = Some data"
  shows "MarketStatusReq_UnmarshalBinary X data = Some w"
proof -
  have "int64 (ms_Status w)"
    using assms(3) by (auto simp: MarketStatus_IsValid_def MarketStatusOpen_def MarketStatusClose_def int64_def)
  with assms show ?thesis
    by (clarsimp simp: MarketStatusReq_MarshalBinary_def marshal_simps Encode_Some_iff simp del: Encode.simps(3))
    (simp add: MarketStatusReq_UnmarshalBinary_def scan_fields canonical_uuidD)
qed

lemma WithdrawReq_roundtrip:
  assumes "codec_documented X" and "canonical_uuid X (wr_Opponent w)" "canonical_uuid X (wr_Asset w)"
    and "WithdrawReq_MarshalBinary X w = Some data"
  shows "WithdrawReq_UnmarshalBinary X data = Some w"
  using assms
  by (clarsimp simp: WithdrawReq_MarshalBinary_def marshal_simps Encode_Some_iff simp del: Encode.simps(3))
    (simp add: WithdrawReq_UnmarshalBinary_def scan_fields canonical_uuidD)

lemma SetProperty_roundtrip:
  assumes "SetProperty_MarshalBinary s = Some data"
  shows "SetProperty_UnmarshalBinary data = Some s"
  using assms
  by (clarsimp simp: SetProperty_MarshalBinary_def marshal_simps Encode_Some_iff simp del: Encode.simps(3))
    (simp add: SetProperty_UnmarshalBinary_def scan_fields)

lemma ProvidePriceReq_roundtrip:
  assumes "codec_documented X" and "ProvidePriceReq_MarshalBinary X p = Some data"
  shows "ProvidePriceReq_UnmarshalBinary X data = Some p"
  using assms
  by (clarsimp simp: ProvidePriceReq_MarshalBinary_def marshal_simps Encode_Some_iff simp del: Encode.simps(3))
    (simp add: ProvidePriceReq_UnmarshalBinary_def scan_fields)

text \<open>The signature of a price is a field of its own kind.\<close>

definition valid_signature :: "ext \<Rightarrow> CosiSignature \<Rightarrow> bool" where
  "valid_signature X s \<longleftrightarrow> uint64 (cs_Mask s) \<and> cs_Signature s \<noteq> [] \<and> blstSig X (cs_Signature s) = Some (cs_Signature s)"

definition encode_signature :: "CosiSignature \<Rightarrow> bytes option" where
  "encode_signature s = (case CosiSignature_Bytes s of Ok b \<Rightarrow> Some b | _ \<Rightarrow> None)"

lemma signature_bytes:
  assumes "valid_signature X s" and "encode_signature s = Some b"
  shows "CosiSignature_FromBytes X b = Some s" and "b \<noteq> []"
proof -
  have enc: "Encode [encode_uint (cs_Mask s), Some (cs_Signature s)] = Some b"
    using assms(2) by (auto simp: encode_signature_def CosiSignature_Bytes_def split: option.splits)
  have sig: "scan1 (blstSig X) [] (of_nat (length (cs_Signature s)) # cs_Signature s) = Some (cs_Signature s, [])"
    if "length (cs_Signature s) \<le> 255"
    using assms(1) that by (simp add: scan1_def Let_def valid_signature_def)
  show "CosiSignature_FromBytes X b = Some s"
    using enc assms(1) sig
    by (clarsimp simp: marshal_simps Encode_Some_iff valid_signature_def simp del: Encode.simps(3))
      (simp add: CosiSignature_FromBytes_def scan_fields)
  show "b \<noteq> []"
    using enc by (clarsimp simp: marshal_simps Encode_Some_iff simp del: Encode.simps(3))
qed

interpretation signature_field: field_codec encode_signature "CosiSignature_FromBytes X" zero_CosiSignature "valid_signature X" for X
  using signature_bytes by unfold_locales blast+

lemma PriceData_roundtrip:
  assumes "codec_documented X" and "canonical_uuid X (pd_AssetID p)" and "int64 (pd_Timestamp p)"
    and "valid_signature X (pd_Signature p)" and "PriceData_MarshalBinary X p = Ok data"
  shows "PriceData_UnmarshalBinary X data = Some p"
proof -
  obtain asset sig where asset: "uuidFromString X (pd_AssetID p) = Some asset"
    and sig: "encode_signature (pd_Signature p) = Some sig"
    and enc: "Encode [encode_int (pd_Timestamp p), Some asset, encode_dec X (pd_Price p), Some sig] = Some data"
    using assms(5) by (auto simp: PriceData_MarshalBinary_def encode_signature_def split: option.splits res.splits)
  have last: "scan1 (CosiSignature_FromBytes X) zero_CosiSignature (of_nat (length sig) # sig) = Some (pd_Signature p, [])"
    if "length sig \<le> 255"
    using signature_field.scan1_field [OF assms(4) sig that, of "[]"] by simp
  show ?thesis
    using assms(1-3) asset enc last
    by (clarsimp simp: marshal_simps Encode_Some_iff simp del: Encode.simps(3))
      (simp add: PriceData_UnmarshalBinary_def scan_fields canonical_uuidD)
qed

end
