(* ===== verification/Stores.thy ===== *)
theory Stores
  imports Requests
begin

text \<open>
  The database and the stores of \<open>store/*\<close> the payee uses. The state is one record of tables, each
  the list of its rows in primary-key order, with the in-memory \<open>Payee.sysversion\<close>. A database
  call may fail: \<open>faults\<close> says for the coming calls whether they go through, fail before they take
  effect, or take effect and then report a failure (a connection lost after the commit); an empty
  list means no more failures.

  Three stores (markets, supplies, borrows) update under the same optimistic lock; its contract is
  the locale \<open>versioned_table\<close>, interpreted at each of the three.
\<close>

datatype fault = NoFault | FailBefore | FailAfter

text \<open>
  A row of \<open>raw_outputs\<close> (\<open>store/wallet/recovery.go\<close>): an output that waits for its place in the
  order. Its JSON is represented by the output it encodes, or \<open>None\<close> when it does not parse.
\<close>

record RawOutput =
  ro_ID :: int
  ro_CreatedAt :: time
  ro_TraceID :: string
  ro_Version :: int
  ro_Data :: "Output option"

record world =
  markets :: "Market list"
  supplies :: "Supply list"
  borrows :: "Borrow list"
  users :: "User list"
  transactions :: "Transaction list"
  transfers :: "Transfer list"
  proposals :: "Proposal list"
  signers :: "OracleSigner list"
  properties :: "(string \<times> string) list"
  messages :: "Message list"
  outputs :: "Output list"
  rawOutputs :: "RawOutput list"
  rawTransactions :: "RawTransaction list"
  forwarded :: "Transfer list"  \<comment> \<open>transfers handed to \<open>walletz.HandleTransfer\<close>\<close>
  uuids :: nat                  \<comment> \<open>how many \<open>uuid.New\<close> were drawn\<close>
  sysversion :: int             \<comment> \<open>\<open>Payee.sysversion\<close>\<close>
  rawOutputID :: int            \<comment> \<open>\<open>walletStore.rawOutputID\<close>\<close>
  rawSeq :: int                 \<comment> \<open>the last key given to a row of \<open>raw_outputs\<close>, whose rows are deleted\<close>
  conversations :: "string list" \<comment> \<open>\<open>Messenger.conversations\<close>\<close>
  delivered :: "Message list"   \<comment> \<open>messages handed to the Mixin API\<close>
  net :: nat                    \<comment> \<open>how many calls of the Mixin API were made\<close>
  faults :: "fault list"

section \<open>Database calls\<close>

definition dbio :: "(world \<Rightarrow> 'a res \<times> world) \<Rightarrow> (world, 'a) go" where
  "dbio f = (\<lambda>w. case faults w of
     [] \<Rightarrow> f w
   | NoFault # fs \<Rightarrow> f (w\<lparr>faults := fs\<rparr>)
   | FailBefore # fs \<Rightarrow> (Err DBError, w\<lparr>faults := fs\<rparr>)
   | FailAfter # fs \<Rightarrow> (Err DBError, snd (f (w\<lparr>faults := fs\<rparr>))))"

definition query :: "(world \<Rightarrow> 'a) \<Rightarrow> (world, 'a) go" where
  "query f = dbio (\<lambda>w. (Ok (f w), w))"

definition uuid_New :: "ext \<Rightarrow> (world, string) go" where
  "uuid_New X = (\<lambda>w. (Ok (uuidNew X (uuids w)), w\<lparr>uuids := uuids w + 1\<rparr>))"

section \<open>The optimistic lock\<close>

text \<open>
  \<open>UPDATE ... WHERE id = s.id AND version = s.version\<close>; gorm drops the condition on the identifier
  when it is zero. \<open>wr s v r\<close> is the row \<open>r\<close> after the fields of the struct \<open>s\<close>, at version \<open>v\<close>,
  have been written to it.
\<close>

definition lock_match :: "('r \<Rightarrow> int) \<Rightarrow> ('r \<Rightarrow> int) \<Rightarrow> 'r \<Rightarrow> 'r \<Rightarrow> bool" where
  "lock_match rid rver s r \<longleftrightarrow> (rid s = 0 \<or> rid r = rid s) \<and> rver r = rver s"

definition lock_update ::
  "('r \<Rightarrow> int) \<Rightarrow> ('r \<Rightarrow> int) \<Rightarrow> ('r \<Rightarrow> int \<Rightarrow> 'r \<Rightarrow> 'r) \<Rightarrow> 'r \<Rightarrow> int \<Rightarrow> 'r list \<Rightarrow> 'r list res" where
  "lock_update rid rver wr s v rows =
     (if list_ex (lock_match rid rver s) rows
      then Ok (replace_rows (lock_match rid rver s) (wr s v) rows)
      else Err ErrOptimisticLock)"

text \<open>The body of the three \<open>Update\<close> methods, on the table \<open>get\<close> with the setter \<open>put\<close>.\<close>

definition store_Update ::
  "('r \<Rightarrow> int) \<Rightarrow> ('r \<Rightarrow> int) \<Rightarrow> ('r \<Rightarrow> int \<Rightarrow> 'r \<Rightarrow> 'r) \<Rightarrow> (world \<Rightarrow> 'r list) \<Rightarrow>
   ('r list \<Rightarrow> world \<Rightarrow> world) \<Rightarrow> 'r \<Rightarrow> int \<Rightarrow> (world, unit) go" where
  "store_Update rid rver wr get put s v =
     (if v > rver s
      then dbio (\<lambda>w. case lock_update rid rver wr s v (get w) of
          Ok rows \<Rightarrow> (Ok (), put rows w) | Err e \<Rightarrow> (Err e, w) | Panic p \<Rightarrow> (Panic p, w))
      else ret ())"

text \<open>The first row with a property, or the zero value.\<close>

definition first_or :: "'r \<Rightarrow> ('r \<Rightarrow> bool) \<Rightarrow> 'r list \<Rightarrow> 'r" where
  "first_or z P rows = (case List.find P rows of None \<Rightarrow> z | Some r \<Rightarrow> r)"

text \<open>\<open>FirstOrCreate\<close>: the row with the property, or \<open>r\<close> with a new identifier appended.\<close>

definition first_or_create ::
  "('r \<Rightarrow> int) \<Rightarrow> (int \<Rightarrow> 'r \<Rightarrow> 'r) \<Rightarrow> ('r \<Rightarrow> bool) \<Rightarrow> 'r \<Rightarrow> 'r list \<Rightarrow> 'r \<times> 'r list" where
  "first_or_create rid set_id P r rows = (case List.find P rows of
     Some r' \<Rightarrow> (r', rows)
   | None \<Rightarrow> (let r' = set_id (next_id (map rid rows)) r in (r', rows @ [r'])))"

section \<open>store/market/market.go\<close>

definition afterFind :: "Market \<Rightarrow> Market" where
  "afterFind market =
     (let m = (if \<not> 0 < m_ExchangeRate market then market\<lparr>m_ExchangeRate := 1\<rparr> else market)
      in if \<not> 0 < m_BorrowIndex m then m\<lparr>m_BorrowIndex := 1\<rparr> else m)"

definition marketByAsset :: "string \<Rightarrow> world \<Rightarrow> Market" where
  "marketByAsset a w = (case List.find (\<lambda>m. m_AssetID m = a) (markets w) of
     None \<Rightarrow> zero_market | Some m \<Rightarrow> afterFind m)"

definition marketByCToken :: "string \<Rightarrow> world \<Rightarrow> Market" where
  "marketByCToken c w = (case List.find (\<lambda>m. m_CTokenAssetID m = c) (markets w) of
     None \<Rightarrow> zero_market | Some m \<Rightarrow> afterFind m)"

definition marketBySymbol :: "string \<Rightarrow> world \<Rightarrow> Market" where
  "marketBySymbol s w = (case List.find (\<lambda>m. m_Symbol m = s) (markets w) of
     None \<Rightarrow> zero_market | Some m \<Rightarrow> afterFind m)"

definition market_Find :: "string \<Rightarrow> (world, Market) go" where
  "market_Find assetID = (if assetID = '''' then ret zero_market else query (marketByAsset assetID))"

definition market_FindBySymbol :: "string \<Rightarrow> (world, Market) go" where
  "market_FindBySymbol symbol = (if symbol = '''' then ret zero_market else query (marketBySymbol symbol))"

definition market_FindByCToken :: "string \<Rightarrow> (world, Market) go" where
  "market_FindByCToken ctokenAssetID =
     (if ctokenAssetID = '''' then ret zero_market else query (marketByCToken ctokenAssetID))"

definition market_All :: "(world, Market list) go" where
  "market_All = query (\<lambda>w. map afterFind (markets w))"

text \<open>\<open>AllAsMap\<close> never adds to the map it returns.\<close>

definition market_AllAsMap :: "(world, string \<rightharpoonup> Market) go" where
  "market_AllAsMap = seqE market_All (\<lambda>ms.
     let maps = Map.empty; _ = map afterFind ms in ret maps)"

text \<open>The unique indices on the symbol and the CToken refuse a second market with either.\<close>

definition market_Create :: "Market \<Rightarrow> (world, Market) go" where
  "market_Create m = dbio (\<lambda>w.
     if List.find (\<lambda>r. m_AssetID r = m_AssetID m) (markets w) = None
        \<and> list_ex (\<lambda>r. m_Symbol r = m_Symbol m \<or> m_CTokenAssetID r = m_CTokenAssetID m) (markets w)
     then (Err DBError, w)
     else (case first_or_create m_ID (\<lambda>i r. r\<lparr>m_ID := i\<rparr>) (\<lambda>r. m_AssetID r = m_AssetID m) m (markets w) of
         (r, ms) \<Rightarrow> (Ok r, w\<lparr>markets := ms\<rparr>)))"

text \<open>Of the fields the code changes, gorm treats the integers as possibly blank.\<close>

definition market_write :: "ext \<Rightarrow> Market \<Rightarrow> int \<Rightarrow> Market \<Rightarrow> Market" where
  "market_write X s v r = s\<lparr>m_ID := m_ID r, m_Version := v,
     m_BlockNumber := gormInt X (m_BlockNumber r) (m_BlockNumber s),
     m_PriceThreshold := gormInt X (m_PriceThreshold r) (m_PriceThreshold s),
     m_Status := gormInt X (m_Status r) (m_Status s)\<rparr>"

definition market_Update :: "ext \<Rightarrow> Market \<Rightarrow> int \<Rightarrow> (world, unit) go" where
  "market_Update X =
     store_Update m_ID m_Version (market_write X) markets (\<lambda>ms w. w\<lparr>markets := ms\<rparr>)"

section \<open>store/supply/supply.go\<close>

definition supplyOf :: "string \<Rightarrow> string \<Rightarrow> world \<Rightarrow> Supply" where
  "supplyOf u c w = first_or zero_supply (\<lambda>s. s_UserID s = u \<and> s_CTokenAssetID s = c) (supplies w)"

text \<open>A plain insert: the unique index on user and CToken refuses a second row.\<close>

definition supply_Create :: "Supply \<Rightarrow> (world, Supply) go" where
  "supply_Create s = dbio (\<lambda>w.
     if list_ex (\<lambda>r. s_UserID r = s_UserID s \<and> s_CTokenAssetID r = s_CTokenAssetID s) (supplies w)
     then (Err DBError, w)
     else (let s' = s\<lparr>s_ID := next_id (map s_ID (supplies w))\<rparr>
           in (Ok s', w\<lparr>supplies := supplies w @ [s']\<rparr>)))"

definition supply_Find :: "string \<Rightarrow> string \<Rightarrow> (world, Supply) go" where
  "supply_Find userID ctokenAssetID = query (supplyOf userID ctokenAssetID)"

definition supply_FindByUser :: "string \<Rightarrow> (world, Supply list) go" where
  "supply_FindByUser userID = query (\<lambda>w. filter (\<lambda>s. s_UserID s = userID) (supplies w))"

definition supply_write :: "Supply \<Rightarrow> int \<Rightarrow> Supply \<Rightarrow> Supply" where
  "supply_write s v r = s\<lparr>s_ID := s_ID r, s_Version := v\<rparr>"

definition supply_Update :: "Supply \<Rightarrow> int \<Rightarrow> (world, unit) go" where
  "supply_Update = store_Update s_ID s_Version supply_write supplies (\<lambda>ss w. w\<lparr>supplies := ss\<rparr>)"

definition supply_All :: "(world, Supply list) go" where
  "supply_All = query supplies"

definition supply_FindByCTokenAssetID :: "string \<Rightarrow> (world, Supply list) go" where
  "supply_FindByCTokenAssetID assetID = query (\<lambda>w. filter (\<lambda>s. s_CTokenAssetID s = assetID) (supplies w))"

text \<open>\<open>SELECT sum(...)\<close> over no rows is NULL, which \<open>Scan\<close> cannot read into a decimal.\<close>

definition supply_SumOfSupplies :: "string \<Rightarrow> (world, rat) go" where
  "supply_SumOfSupplies ctokenAssetID = dbio (\<lambda>w.
     let rows = filter (\<lambda>s. s_CTokenAssetID s = ctokenAssetID) (supplies w)
     in if rows = [] then (Err (GoError ''sql: Scan error''), w)
        else (Ok (sum_list (map s_Collaterals rows)), w))"

definition supply_CountOfSuppliers :: "string \<Rightarrow> (world, int) go" where
  "supply_CountOfSuppliers ctokenAssetID =
     query (\<lambda>w. int (length (filter (\<lambda>s. s_CTokenAssetID s = ctokenAssetID) (supplies w))))"

definition supply_Users :: "(world, string list) go" where
  "supply_Users = query (\<lambda>w. remdups (map s_UserID (supplies w)))"

section \<open>store/borrow/borrow.go\<close>

definition borrowOf :: "string \<Rightarrow> string \<Rightarrow> world \<Rightarrow> Borrow" where
  "borrowOf u a w = first_or zero_borrow (\<lambda>b. b_UserID b = u \<and> b_AssetID b = a) (borrows w)"

text \<open>The column default of the interest index, 1, replaces the blank one of the struct.\<close>

definition borrow_Create :: "Borrow \<Rightarrow> (world, Borrow) go" where
  "borrow_Create b = dbio (\<lambda>w.
     if list_ex (\<lambda>r. b_UserID r = b_UserID b \<and> b_AssetID r = b_AssetID b) (borrows w)
     then (Err DBError, w)
     else (let b' = b\<lparr>b_ID := next_id (map b_ID (borrows w)),
                      b_InterestIndex := if b_InterestIndex b = 0 then 1 else b_InterestIndex b\<rparr>
           in (Ok b', w\<lparr>borrows := borrows w @ [b']\<rparr>)))"

definition borrow_Find :: "string \<Rightarrow> string \<Rightarrow> (world, Borrow) go" where
  "borrow_Find userID assetID = query (borrowOf userID assetID)"

definition borrow_FindByUser :: "string \<Rightarrow> (world, Borrow list) go" where
  "borrow_FindByUser userID = query (\<lambda>w. filter (\<lambda>b. b_UserID b = userID) (borrows w))"

definition borrow_FindByAssetID :: "string \<Rightarrow> (world, Borrow list) go" where
  "borrow_FindByAssetID assetID = query (\<lambda>w. filter (\<lambda>b. b_AssetID b = assetID) (borrows w))"

definition borrow_write :: "Borrow \<Rightarrow> int \<Rightarrow> Borrow \<Rightarrow> Borrow" where
  "borrow_write s v r = s\<lparr>b_ID := b_ID r, b_Version := v\<rparr>"

definition borrow_Update :: "Borrow \<Rightarrow> int \<Rightarrow> (world, unit) go" where
  "borrow_Update = store_Update b_ID b_Version borrow_write borrows (\<lambda>bs w. w\<lparr>borrows := bs\<rparr>)"

definition borrow_All :: "(world, Borrow list) go" where
  "borrow_All = query borrows"

definition borrow_CountOfBorrowers :: "string \<Rightarrow> (world, int) go" where
  "borrow_CountOfBorrowers assetID =
     query (\<lambda>w. int (length (filter (\<lambda>b. b_AssetID b = assetID) (borrows w))))"

definition borrow_Users :: "(world, string list) go" where
  "borrow_Users = query (\<lambda>w. remdups (map b_UserID (borrows w)))"

section \<open>store/user/user.go\<close>

definition user_List :: "int \<Rightarrow> nat \<Rightarrow> (world, User list) go" where
  "user_List from limit = query (\<lambda>w. take limit (filter (\<lambda>u. u_ID u > from) (users w)))"

text \<open>The unique indices on both addresses refuse a duplicate.\<close>

definition user_Create :: "User \<Rightarrow> (world, User) go" where
  "user_Create u = dbio (\<lambda>w.
     if List.find (\<lambda>r. u_UserID r = u_UserID u) (users w) = None
        \<and> list_ex (\<lambda>r. u_Address r = u_Address u \<or> (u_AddressV0 r \<noteq> None \<and> u_AddressV0 r = u_AddressV0 u)) (users w)
     then (Err DBError, w)
     else (case first_or_create u_ID (\<lambda>i r. r\<lparr>u_ID := i\<rparr>) (\<lambda>r. u_UserID r = u_UserID u) u (users w) of
         (r, us) \<Rightarrow> (Ok r, w\<lparr>users := us\<rparr>)))"

text \<open>One statement of the loop of \<open>MigrateToV1\<close>, and the loop: all or nothing, in one transaction.\<close>

definition migrate_user :: "User \<Rightarrow> User list \<Rightarrow> User list option" where
  "migrate_user user rows =
     (let P = (\<lambda>r. u_ID r = u_ID user \<and> u_AddressV0 r = None) in
      if list_ex P rows
      then Some (replace_rows P (\<lambda>r. r\<lparr>u_Address := u_Address user, u_AddressV0 := u_AddressV0 user\<rparr>) rows)
      else None)"

fun migrate_users :: "User list \<Rightarrow> User list \<Rightarrow> User list option" where
  "migrate_users [] rows = Some rows"
| "migrate_users (user # us) rows = (case migrate_user user rows of
     None \<Rightarrow> None | Some rows' \<Rightarrow> migrate_users us rows')"

definition user_MigrateToV1 :: "User list \<Rightarrow> (world, unit) go" where
  "user_MigrateToV1 us = dbio (\<lambda>w. case migrate_users us (users w) of
     None \<Rightarrow> (Err ErrOptimisticLock, w) | Some rows \<Rightarrow> (Ok (), w\<lparr>users := rows\<rparr>))"

text \<open>\<open>Find\<close> returns the zero user for every error, also when the database failed.\<close>

definition user_Find :: "string \<Rightarrow> (world, User) go" where
  "user_Find mixinUserID =
     tryE (query (\<lambda>w. first_or zero_user (\<lambda>u. u_UserID u = mixinUserID) (users w)))
       (\<lambda>_. ret zero_user) ret"

definition user_FindByAddress :: "string \<Rightarrow> (world, User) go" where
  "user_FindByAddress address =
     seqE (query (\<lambda>w. List.find (\<lambda>u. u_Address u = address) (users w))) (\<lambda>r. case r of
       Some u \<Rightarrow> ret u
     | None \<Rightarrow> query (\<lambda>w. first_or zero_user (\<lambda>u. u_AddressV0 u = Some address) (users w)))"

section \<open>store/transaction/transaction.go\<close>

definition transactionOf :: "string \<Rightarrow> world \<Rightarrow> Transaction" where
  "transactionOf t w = first_or zero_transaction (\<lambda>x. tx_TraceID x = t) (transactions w)"

definition transaction_Create :: "Transaction \<Rightarrow> (world, Transaction) go" where
  "transaction_Create t = dbio (\<lambda>w.
     case first_or_create tx_ID (\<lambda>i r. r\<lparr>tx_ID := i\<rparr>) (\<lambda>x. tx_TraceID x = tx_TraceID t) t (transactions w) of
       (r, ts) \<Rightarrow> (Ok r, w\<lparr>transactions := ts\<rparr>))"

definition transaction_FindByTraceID :: "string \<Rightarrow> (world, Transaction) go" where
  "transaction_FindByTraceID traceID = query (transactionOf traceID)"

section \<open>store/wallet/wallet.go: what the payee uses\<close>

definition afterFindOutput :: "Output \<Rightarrow> Output" where
  "afterFindOutput output = (case o_Data output of
     Some utxo \<Rightarrow> output\<lparr>o_UTXO := Some utxo\<rparr> | None \<Rightarrow> output)"

definition wallet_List :: "int \<Rightarrow> nat \<Rightarrow> (world, Output list) go" where
  "wallet_List fromID limit =
     query (\<lambda>w. map afterFindOutput (take limit (filter (\<lambda>x. o_ID x > fromID) (outputs w))))"

text \<open>Byte order of trace identifiers; \<open>CreateTransfers\<close> inserts in that order, in one transaction.\<close>

fun string_le :: "string \<Rightarrow> string \<Rightarrow> bool" where
  "string_le [] ys = True"
| "string_le (x # xs) [] = False"
| "string_le (x # xs) (y # ys) =
     ((of_char x :: nat) < of_char y \<or> (x = y \<and> string_le xs ys))"

fun insert_transfer :: "Transfer \<Rightarrow> Transfer list \<Rightarrow> Transfer list" where
  "insert_transfer t [] = [t]"
| "insert_transfer t (u # us) =
     (if string_le (t_TraceID t) (t_TraceID u) then t # u # us else u # insert_transfer t us)"

definition sort_transfers :: "Transfer list \<Rightarrow> Transfer list" where
  "sort_transfers ts = foldr insert_transfer ts []"

definition create_transfer :: "Transfer \<Rightarrow> Transfer list \<Rightarrow> Transfer list" where
  "create_transfer t rows =
     snd (first_or_create t_ID (\<lambda>i r. r\<lparr>t_ID := i\<rparr>) (\<lambda>r. t_TraceID r = t_TraceID t) t rows)"

definition wallet_CreateTransfers :: "Transfer list \<Rightarrow> (world, unit) go" where
  "wallet_CreateTransfers ts =
     dbio (\<lambda>w. (Ok (), w\<lparr>transfers := fold create_transfer (sort_transfers ts) (transfers w)\<rparr>))"

section \<open>store/proposal/proposal.go\<close>

definition proposalOf :: "string \<Rightarrow> world \<Rightarrow> Proposal" where
  "proposalOf t w = first_or zero_proposal (\<lambda>p. p_TraceID p = t) (proposals w)"

definition proposal_Create :: "Proposal \<Rightarrow> (world, Proposal) go" where
  "proposal_Create p = dbio (\<lambda>w.
     case first_or_create p_ID (\<lambda>i r. r\<lparr>p_ID := i\<rparr>) (\<lambda>r. p_TraceID r = p_TraceID p) p (proposals w) of
       (r, ps) \<Rightarrow> (Ok r, w\<lparr>proposals := ps\<rparr>))"

definition proposal_Find :: "string \<Rightarrow> (world, Proposal) go" where
  "proposal_Find trace = query (proposalOf trace)"

text \<open>\<open>Update\<close> returns the struct as gorm leaves it: the values of the map are written back to it.\<close>

definition proposal_Update :: "ext \<Rightarrow> Proposal \<Rightarrow> int \<Rightarrow> (world, Proposal) go" where
  "proposal_Update X p version = dbio (\<lambda>w.
     if list_ex (lock_match p_ID p_Version p) (proposals w)
     then (Ok (p\<lparr>p_Version := gormModel X (p_Version p) version\<rparr>),
           w\<lparr>proposals := replace_rows (lock_match p_ID p_Version p)
               (\<lambda>r. r\<lparr>p_PassedAt := p_PassedAt p, p_Votes := p_Votes p, p_Version := version\<rparr>) (proposals w)\<rparr>)
     else (Err ErrOptimisticLock, w))"

definition proposal_List :: "int \<Rightarrow> nat \<Rightarrow> (world, Proposal list) go" where
  "proposal_List fromID limit = query (\<lambda>w. take limit (filter (\<lambda>p. p_ID p > fromID) (proposals w)))"

section \<open>store/oracle/signer.go, store/message/message.go, the property store\<close>

definition signer_Save :: "string \<Rightarrow> string \<Rightarrow> (world, unit) go" where
  "signer_Save userID publicKey = dbio (\<lambda>w. (Ok (),
     if list_ex (\<lambda>s. os_UserID s = userID) (signers w)
     then w\<lparr>signers := replace_rows (\<lambda>s. os_UserID s = userID) (\<lambda>s. s\<lparr>os_PublicKey := publicKey\<rparr>) (signers w)\<rparr>
     else w\<lparr>signers := signers w @
       [\<lparr>os_ID = next_id (map os_ID (signers w)), os_UserID = userID, os_PublicKey = publicKey\<rparr>]\<rparr>))"

definition signer_Delete :: "string \<Rightarrow> (world, unit) go" where
  "signer_Delete userID = dbio (\<lambda>w. (Ok (), w\<lparr>signers := filter (\<lambda>s. os_UserID s \<noteq> userID) (signers w)\<rparr>))"

definition signer_FindAll :: "(world, OracleSigner list) go" where
  "signer_FindAll = query signers"

definition add_message :: "Message \<Rightarrow> Message list \<Rightarrow> Message list" where
  "add_message m rows = rows @ [m\<lparr>msg_ID := next_id (map msg_ID rows)\<rparr>]"

definition message_Create :: "Message list \<Rightarrow> (world, unit) go" where
  "message_Create ms = dbio (\<lambda>w. (Ok (), w\<lparr>messages := fold add_message ms (messages w)\<rparr>))"

definition message_List :: "nat \<Rightarrow> (world, Message list) go" where
  "message_List limit = query (\<lambda>w. take limit (messages w))"

definition message_Delete :: "Message list \<Rightarrow> (world, unit) go" where
  "message_Delete ms = (let ids = map msg_ID ms in
     if ids = [] then ret ()
     else dbio (\<lambda>w. (Ok (), w\<lparr>messages := filter (\<lambda>m. msg_ID m \<notin> set ids) (messages w)\<rparr>)))"

text \<open>The property store of \<open>fox-one/pkg\<close>: a table of keys with text values.\<close>

definition property_Get :: "string \<Rightarrow> (world, string) go" where
  "property_Get key = query (\<lambda>w. case map_of (properties w) key of None \<Rightarrow> '''' | Some v \<Rightarrow> v)"

definition property_Save :: "string \<Rightarrow> string \<Rightarrow> (world, unit) go" where
  "property_Save key v = dbio (\<lambda>w. (Ok (), w\<lparr>properties := AList.update key v (properties w)\<rparr>))"

section \<open>A read\<close>

text \<open>A query answers from the tables or fails, and changes nothing but what the database will do next.\<close>

lemma query_cases:
  obtains (ok) fs where "query f w = (Ok (f (w\<lparr>faults := fs\<rparr>)), w\<lparr>faults := fs\<rparr>)"
    | (err) fs where "query f w = (Err DBError, w\<lparr>faults := fs\<rparr>)"
proof (cases "faults w")
  case Nil
  then have "w\<lparr>faults := []\<rparr> = w"
    unfolding Nil [symmetric] by simp
  moreover have "query f w = (Ok (f w), w)"
    by (simp add: query_def dbio_def Nil)
  ultimately show ?thesis
    using ok [of "[]"] by metis
next
  case (Cons x fs)
  then show ?thesis
    using ok [of fs] err [of fs] by (cases x) (simp_all add: query_def dbio_def)
qed

section \<open>The contract of the optimistic lock\<close>

locale versioned_table =
  fixes rid :: "'r \<Rightarrow> int" and rver :: "'r \<Rightarrow> int" and wr :: "'r \<Rightarrow> int \<Rightarrow> 'r \<Rightarrow> 'r"
    and key :: "'r \<Rightarrow> 'k"
  assumes write_id: "rid (wr s v r) = rid r"
    and write_version: "rver (wr s v r) = v"
    and write_key: "key (wr s v r) = key s"
begin

text \<open>A row found by its key is the row an update of it replaces, and no other key is affected.\<close>

lemma find_after_update:
  assumes "distinct (map rid rows)" and "List.find (\<lambda>r. key r = k) rows = Some r"
    and "rid s = rid r" "rver s = rver r" "rid r \<noteq> 0" "key s = k"
  shows "\<exists>rows'. lock_update rid rver wr s v rows = Ok rows' \<and>
    map rid rows' = map rid rows \<and>
    (\<forall>k'. List.find (\<lambda>r. key r = k') rows' =
       (if k' = k then Some (wr s v r) else List.find (\<lambda>r. key r = k') rows))"
proof -
  have mem: "r \<in> set rows" and keyr: "key r = k"
    using find_Some_set [OF assms(2)] by auto
  have match: "lock_match rid rver s r' \<longleftrightarrow> r' = r" if "r' \<in> set rows" for r'
    using assms that mem by (auto simp: lock_match_def distinct_map inj_on_def)
  then have ex: "list_ex (lock_match rid rver s) rows"
    using mem by (auto simp: list_ex_iff)
  have eq: "replace_rows (lock_match rid rver s) (wr s v) rows = map (\<lambda>x. if x = r then wr s v r else x) rows"
    using match by (auto simp: replace_rows_map)
  have "List.find (\<lambda>r. key r = k') (map (\<lambda>x. if x = r then wr s v r else x) xs) =
      (if k' = k \<and> r \<in> set xs \<and> List.find (\<lambda>r. key r = k) xs = Some r then Some (wr s v r)
       else List.find (\<lambda>r. key r = k') xs)"
    if "r \<in> set xs \<Longrightarrow> List.find (\<lambda>r. key r = k) xs = Some r" for k' xs
    using that
  proof (induction xs)
    case Nil
    then show ?case by simp
  next
    case (Cons x xs)
    show ?case
    proof (cases "x = r")
      case True
      show ?thesis
      proof (cases "k' = k")
        case True
        with \<open>x = r\<close> show ?thesis using keyr assms(6) by (simp add: write_key)
      next
        case False
        have "List.find (\<lambda>r. key r = k') (map (\<lambda>x. if x = r then wr s v r else x) ys) =
            List.find (\<lambda>r. key r = k') ys" for ys
          using False keyr assms(6) by (induction ys) (auto simp: write_key)
        with False \<open>x = r\<close> show ?thesis using keyr assms(6) by (simp add: write_key)
      qed
    next
      case False
      have "List.find (\<lambda>r. key r = k) xs = Some r" if "r \<in> set xs"
        using Cons.prems False that by (auto split: if_splits)
      from Cons.IH [OF this] False Cons.prems show ?thesis
        by (auto split: if_splits)
    qed
  qed
  from this [of rows] assms(2) mem have
    "List.find (\<lambda>r. key r = k') (map (\<lambda>x. if x = r then wr s v r else x) rows) =
      (if k' = k then Some (wr s v r) else List.find (\<lambda>r. key r = k') rows)" for k'
    by simp
  moreover have "map rid (map (\<lambda>x. if x = r then wr s v r else x) rows) = map rid rows"
    by (simp add: write_id)
  ultimately show ?thesis
    using ex by (simp add: lock_update_def eq)
qed

text \<open>Once an update went through, a second one from the same read is refused.\<close>

lemma second_update_refused:
  assumes "lock_update rid rver wr s v rows = Ok rows'" and "rver s < v" and "rid s \<noteq> 0"
    and "rid s' = rid s" and "rver s' = rver s"
  shows "lock_update rid rver wr s' v' rows' = Err ErrOptimisticLock"
  using assms
  by (auto simp: lock_update_def replace_rows_map list_ex_iff lock_match_def write_id write_version split: if_splits)

text \<open>No update lowers the version of a row or changes the identifiers.\<close>

lemma update_versions:
  assumes "lock_update rid rver wr s v rows = Ok rows'" and "rver s \<le> v"
  shows "map rid rows' = map rid rows \<and> (\<forall>i < length rows. rver (rows ! i) \<le> rver (rows' ! i))"
  using assms
  by (auto simp: lock_update_def replace_rows_map lock_match_def write_id write_version split: if_splits)

end

text \<open>The three stores keep the contract; the keys are what their \<open>Find\<close> methods look up.\<close>

interpretation market_asset: versioned_table m_ID m_Version "market_write X" m_AssetID for X
  by unfold_locales (simp_all add: market_write_def)

interpretation market_ctoken: versioned_table m_ID m_Version "market_write X" m_CTokenAssetID for X
  by unfold_locales (simp_all add: market_write_def)

interpretation supply_table: versioned_table s_ID s_Version supply_write "\<lambda>s. (s_UserID s, s_CTokenAssetID s)"
  by unfold_locales (simp_all add: supply_write_def)

interpretation borrow_table: versioned_table b_ID b_Version borrow_write "\<lambda>b. (b_UserID b, b_AssetID b)"
  by unfold_locales (simp_all add: borrow_write_def)

end
