(* ===== verification/Accrual.thy ===== *)
theory Accrual
  imports Stores
begin

text \<open>
  \<open>worker/payee/utils_market.go\<close>: interest accrual. The definitions follow \<open>AccrueInterest\<close>; the
  lemmas give its algebra on a market whose amounts are not negative: accruing twice in one block
  is accruing once, borrows, reserves and the index never shrink, and of the interest at most the
  reserve factor's share goes to the reserves, so that the cash, borrows and reserves of a market
  stay in balance.
\<close>

section \<open>worker/payee/utils_market.go\<close>

definition curBorrowRatePerBlockInternal :: "ext \<Rightarrow> Market \<Rightarrow> rat" where
  "curBorrowRatePerBlockInternal X market =
     GetBorrowRatePerBlock X
       (UtilizationRate X (m_TotalCash market) (m_TotalBorrows market) (m_Reserves market))
       (m_BaseRate market)
       (m_Multiplier market)
       (m_JumpMultiplier market)
       (m_Kink market)"

definition curSupplyRatePerBlockInternal :: "ext \<Rightarrow> Market \<Rightarrow> rat" where
  "curSupplyRatePerBlockInternal X market =
     GetSupplyRatePerBlock X
       (UtilizationRate X (m_TotalCash market) (m_TotalBorrows market) (m_Reserves market))
       (m_BaseRate market)
       (m_Multiplier market)
       (m_JumpMultiplier market)
       (m_Kink market)
       (m_ReserveFactor market)"

text \<open>The interest of the blocks since the last accrual.\<close>

definition accrue_blocks :: "ext \<Rightarrow> Market \<Rightarrow> int \<Rightarrow> int \<Rightarrow> Market" where
  "accrue_blocks X market blockNum blockDelta =
     (let borrowRate = curBorrowRatePerBlockInternal X market;
          timesBorrowRate = borrowRate * of_int blockDelta;
          interestAccumulated = dec_truncate MaxPricision (m_TotalBorrows market * timesBorrowRate)
      in market\<lparr>
        m_BlockNumber := blockNum,
        m_TotalBorrows := m_TotalBorrows market + interestAccumulated,
        m_Reserves := m_Reserves market +
          dec_truncate MaxPricision (interestAccumulated * m_ReserveFactor market),
        m_BorrowIndex := m_BorrowIndex market +
          dec_shift (- int MaxPricision)
            (dec_ceil (dec_shift (int MaxPricision) (timesBorrowRate * m_BorrowIndex market)))\<rparr>)"

text \<open>The four derived rates.\<close>

definition refresh_rates :: "ext \<Rightarrow> Market \<Rightarrow> Market" where
  "refresh_rates X market =
     (let uRate = UtilizationRate X (m_TotalCash market) (m_TotalBorrows market) (m_Reserves market);
          exchangeRate = GetExchangeRate X (m_TotalCash market) (m_TotalBorrows market)
            (m_Reserves market) (m_CTokens market) (m_InitExchangeRate market);
          supplyRate = curSupplyRatePerBlockInternal X market;
          borrowRate = curBorrowRatePerBlockInternal X market
      in market\<lparr>
        m_UtilizationRate := dec_truncate 16 uRate,
        m_ExchangeRate := dec_truncate 16 exchangeRate,
        m_SupplyRatePerBlock := dec_truncate 16 supplyRate,
        m_BorrowRatePerBlock := dec_truncate 16 borrowRate\<rparr>)"

definition AccrueInterest :: "ext \<Rightarrow> Market \<Rightarrow> time \<Rightarrow> Market res" where
  "AccrueInterest X market t = (case GetBlockByTime X t of
     None \<Rightarrow> Panic ''invalid time''
   | Some blockNum \<Rightarrow>
       (let market = (if \<not> 0 < m_BorrowIndex market then market\<lparr>m_BorrowIndex := 1\<rparr> else market);
            blockDelta = blockNum - m_BlockNumber market;
            market = (if blockDelta > 0 then accrue_blocks X market blockNum blockDelta else market)
        in Ok (refresh_rates X market)))"

section \<open>Well-formed markets\<close>

text \<open>
  What every operation keeps: amounts that are not negative, a positive index, and reserves that the
  cash and the outstanding borrows cover. \<open>params_ok\<close> are the bounds the rate model is made for.
\<close>

definition params_ok :: "Market \<Rightarrow> bool" where
  "params_ok m \<longleftrightarrow> 0 \<le> m_BaseRate m \<and> 0 \<le> m_Multiplier m \<and> 0 \<le> m_JumpMultiplier m \<and> 0 \<le> m_Kink m
     \<and> 0 \<le> m_ReserveFactor m \<and> m_ReserveFactor m \<le> 1"

definition amounts_ok :: "Market \<Rightarrow> bool" where
  "amounts_ok m \<longleftrightarrow> 0 \<le> m_TotalCash m \<and> 0 \<le> m_TotalBorrows m \<and> 0 \<le> m_Reserves m \<and> 0 \<le> m_CTokens m
     \<and> m_Reserves m \<le> m_TotalCash m + m_TotalBorrows m \<and> 0 < m_BorrowIndex m"

text \<open>The fields accrual leaves alone.\<close>

definition same_market :: "Market \<Rightarrow> Market \<Rightarrow> bool" where
  "same_market m m' \<longleftrightarrow> m_ID m' = m_ID m \<and> m_AssetID m' = m_AssetID m \<and> m_Symbol m' = m_Symbol m
     \<and> m_CTokenAssetID m' = m_CTokenAssetID m \<and> m_TotalCash m' = m_TotalCash m
     \<and> m_MaxPledge m' = m_MaxPledge m \<and> m_CTokens m' = m_CTokens m
     \<and> m_InitExchangeRate m' = m_InitExchangeRate m \<and> m_ReserveFactor m' = m_ReserveFactor m
     \<and> m_LiquidationIncentive m' = m_LiquidationIncentive m \<and> m_BorrowCap m' = m_BorrowCap m
     \<and> m_CollateralFactor m' = m_CollateralFactor m \<and> m_CloseFactor m' = m_CloseFactor m
     \<and> m_BaseRate m' = m_BaseRate m \<and> m_Multiplier m' = m_Multiplier m
     \<and> m_JumpMultiplier m' = m_JumpMultiplier m \<and> m_Kink m' = m_Kink m \<and> m_Price m' = m_Price m
     \<and> m_PriceThreshold m' = m_PriceThreshold m \<and> m_PriceUpdatedAt m' = m_PriceUpdatedAt m
     \<and> m_Version m' = m_Version m \<and> m_Status m' = m_Status m"

section \<open>Lemmas\<close>

lemma accrue_cases:
  assumes "AccrueInterest X m t = Ok m'"
  obtains n where "GetBlockByTime X t = Some n"
    and "m' = refresh_rates X (let m1 = (if 0 < m_BorrowIndex m then m else m\<lparr>m_BorrowIndex := 1\<rparr>)
       in if n - m_BlockNumber m1 > 0 then accrue_blocks X m1 n (n - m_BlockNumber m1) else m1)"
  using assms by (auto simp: AccrueInterest_def Let_def split: option.splits)

text \<open>Accrual fails on a time before the genesis only, whatever the market.\<close>

lemma accrue_any: "AccrueInterest X m t = Ok m' \<Longrightarrow> \<exists>k'. AccrueInterest X k t = Ok k'"
  by (auto simp: AccrueInterest_def Let_def split: option.splits)

lemma accrue_same: "AccrueInterest X m t = Ok m' \<Longrightarrow> same_market m m'"
  by (erule accrue_cases)
    (auto simp: same_market_def refresh_rates_def accrue_blocks_def Let_def)

lemma refresh_rates_idem [simp]: "refresh_rates X (refresh_rates X m) = refresh_rates X m"
  by (simp add: refresh_rates_def Let_def curSupplyRatePerBlockInternal_def curBorrowRatePerBlockInternal_def)

lemma refresh_rates_fields [simp]:
  "m_BorrowIndex (refresh_rates X m) = m_BorrowIndex m"
  "m_BlockNumber (refresh_rates X m) = m_BlockNumber m"
  "m_TotalBorrows (refresh_rates X m) = m_TotalBorrows m"
  "m_Reserves (refresh_rates X m) = m_Reserves m"
  "m_TotalCash (refresh_rates X m) = m_TotalCash m"
  "m_CTokens (refresh_rates X m) = m_CTokens m"
  by (simp_all add: refresh_rates_def Let_def)

lemma borrow_rate_nonneg:
  assumes "div_documented (decDiv X)" and "params_ok m" and "0 \<le> m_TotalBorrows m"
  shows "0 \<le> curBorrowRatePerBlockInternal X m"
  using assms GetBorrowRate_nonneg [OF assms(1) UtilizationRate_nonneg [OF assms(1)]]
  by (simp add: curBorrowRatePerBlockInternal_def params_ok_def)

lemma params_ok_index [simp]: "params_ok (m\<lparr>m_BorrowIndex := i\<rparr>) = params_ok m"
  by (simp add: params_ok_def)

lemma rate_of_index [simp]:
  "curBorrowRatePerBlockInternal X (m\<lparr>m_BorrowIndex := i\<rparr>) = curBorrowRatePerBlockInternal X m"
  by (simp add: curBorrowRatePerBlockInternal_def)

text \<open>Of the interest at most all, and never a negative part, is added to the reserves.\<close>

lemma reserve_share:
  assumes "0 \<le> i" and "0 \<le> rf" and "rf \<le> (1::rat)"
  shows "0 \<le> dec_truncate p (i * rf)" and "dec_truncate p (i * rf) \<le> i"
proof -
  have "0 \<le> i * rf" using assms by simp
  moreover have "i * rf \<le> i" using assms by (simp add: mult_left_le)
  ultimately show "0 \<le> dec_truncate p (i * rf)" and "dec_truncate p (i * rf) \<le> i"
    using dec_truncate_le [of "i * rf" p] by (auto intro: dec_truncate_nonneg)
qed

lemma accrue_blocks_grows:
  fixes n :: int
  assumes doc: "div_documented (decDiv X)" and ok: "params_ok m" and nn: "0 \<le> m_TotalBorrows m"
    and idx: "0 < m_BorrowIndex m" and d: "0 < d"
  defines "m' \<equiv> accrue_blocks X m n d"
  shows "m_TotalBorrows m \<le> m_TotalBorrows m'"
    and "m_Reserves m \<le> m_Reserves m'"
    and "m_Reserves m' - m_Reserves m \<le> m_TotalBorrows m' - m_TotalBorrows m"
    and "m_BorrowIndex m \<le> m_BorrowIndex m'"
proof -
  define r where "r = curBorrowRatePerBlockInternal X m * of_int d"
  have r: "0 \<le> r"
    using borrow_rate_nonneg [OF doc ok nn] d by (simp add: r_def)
  define i where "i = dec_truncate MaxPricision (m_TotalBorrows m * r)"
  have i: "0 \<le> i"
    using nn r by (simp add: i_def dec_truncate_nonneg)
  note share = reserve_share [OF i, of "m_ReserveFactor m" MaxPricision]
  have fields: "m_TotalBorrows m' = m_TotalBorrows m + i"
    "m_Reserves m' = m_Reserves m + dec_truncate MaxPricision (i * m_ReserveFactor m)"
    "m_BorrowIndex m' = m_BorrowIndex m + Ceil (r * m_BorrowIndex m) (int MaxPricision)"
    by (simp_all add: m'_def accrue_blocks_def Let_def i_def r_def Ceil_def)
  show "m_TotalBorrows m \<le> m_TotalBorrows m'" using fields i by simp
  show "m_Reserves m \<le> m_Reserves m'"
    and "m_Reserves m' - m_Reserves m \<le> m_TotalBorrows m' - m_TotalBorrows m"
    using fields share ok by (simp_all add: params_ok_def)
  show "m_BorrowIndex m \<le> m_BorrowIndex m'"
    using fields Ceil_nonneg [of "r * m_BorrowIndex m" "int MaxPricision"] r idx by simp
qed

lemma accrue_grows:
  assumes "div_documented (decDiv X)" and "params_ok m" and "0 \<le> m_TotalBorrows m"
    and "0 < m_BorrowIndex m" and "AccrueInterest X m t = Ok m'"
  shows "m_TotalBorrows m \<le> m_TotalBorrows m'"
    and "m_Reserves m \<le> m_Reserves m'"
    and "m_Reserves m' - m_Reserves m \<le> m_TotalBorrows m' - m_TotalBorrows m"
    and "m_BorrowIndex m \<le> m_BorrowIndex m'"
  using assms(5) assms(1-4) accrue_blocks_grows [OF assms(1-4)]
  by (auto elim!: accrue_cases simp: Let_def)

lemma accrue_amounts_ok:
  assumes "div_documented (decDiv X)" and "params_ok m" and "amounts_ok m"
    and "AccrueInterest X m t = Ok m'"
  shows "amounts_ok m'"
  using accrue_grows [OF assms(1,2) _ _ assms(4)] accrue_same [OF assms(4)] assms(3)
  by (simp add: amounts_ok_def same_market_def)

lemma accrue_params_ok: "AccrueInterest X m t = Ok m' \<Longrightarrow> params_ok m' = params_ok m"
  by (drule accrue_same) (simp add: params_ok_def same_market_def)

lemma accrue_twice:
  assumes "div_documented (decDiv X)" and "params_ok m" and "0 \<le> m_TotalBorrows m"
    and "AccrueInterest X m t = Ok m'"
  shows "AccrueInterest X m' t = Ok m'"
proof -
  define m1 where "m1 = (if 0 < m_BorrowIndex m then m else m\<lparr>m_BorrowIndex := 1\<rparr>)"
  obtain n where n: "GetBlockByTime X t = Some n"
    and m': "m' = refresh_rates X (if n - m_BlockNumber m1 > 0 then accrue_blocks X m1 n (n - m_BlockNumber m1) else m1)"
    using assms(4) by (auto elim!: accrue_cases simp: m1_def Let_def)
  have pos: "0 < m_BorrowIndex m1" "params_ok m1" "0 \<le> m_TotalBorrows m1"
    using assms by (auto simp: m1_def)
  have "0 < m_BorrowIndex m'"
    using accrue_blocks_grows(4) [OF assms(1) pos(2,3,1), of "n - m_BlockNumber m1" n] pos(1)
    by (auto simp: m')
  moreover have "\<not> n - m_BlockNumber m' > 0"
    by (auto simp: m' accrue_blocks_def Let_def)
  ultimately show ?thesis
    using n by (simp add: AccrueInterest_def Let_def m')
qed

end
