(* ===== verification/Account.thy ===== *)
theory Account
  imports Accrual
begin

text \<open>
  \<open>service/account/account_service.go\<close>: the liquidity of an account. \<open>CalculateAccountLiquidity\<close> is
  the two loops of the service over the user's supplies and borrows; \<open>liquidity_spec\<close> is what its
  comment promises, a difference of two sums, and the refinement lemma relates them.

  The loops call \<open>BorrowBalance\<close>, which would set a non-positive index of the market it is given;
  every market that reaches it was accrued or read through \<open>afterFind\<close>, so its index is positive.
\<close>

section \<open>service/account/account_service.go\<close>

definition findMarketByAssetID :: "Market list \<Rightarrow> string \<Rightarrow> Market option" where
  "findMarketByAssetID src assetID = List.find (\<lambda>m. m_AssetID m = assetID) src"

definition findMarketByCtokenAssetID :: "Market list \<Rightarrow> string \<Rightarrow> Market option" where
  "findMarketByCtokenAssetID src ctokenAssetID = List.find (\<lambda>m. m_CTokenAssetID m = ctokenAssetID) src"

definition supply_step :: "Market list \<Rightarrow> Supply \<Rightarrow> rat \<Rightarrow> (world, rat) go" where
  "supply_step newMarkets supply supplyValue =
     seqE (case findMarketByCtokenAssetID newMarkets (s_CTokenAssetID supply) of
         Some m \<Rightarrow> ret m | None \<Rightarrow> market_FindByCToken (s_CTokenAssetID supply)) (\<lambda>market.
     if m_ID market = 0 then throw (GoError ''no market'')
     else ret (supplyValue +
       s_Collaterals supply * m_ExchangeRate market * m_CollateralFactor market * m_Price market))"

definition borrow_step :: "ext \<Rightarrow> Market list \<Rightarrow> Borrow \<Rightarrow> rat \<Rightarrow> (world, rat) go" where
  "borrow_step X newMarkets borrow borrowValue =
     seqE (case findMarketByAssetID newMarkets (b_AssetID borrow) of
         Some m \<Rightarrow> ret m | None \<Rightarrow> market_Find (b_AssetID borrow)) (\<lambda>market.
     if m_ID market = 0 then throw (GoError ''no market'')
     else (let (borrowBalance, borrow, market) = BorrowBalance X borrow market
           in ret (borrowValue + borrowBalance * m_Price market)))"

definition CalculateAccountLiquidity :: "ext \<Rightarrow> string \<Rightarrow> Market list \<Rightarrow> (world, rat) go" where
  "CalculateAccountLiquidity X userID newMarkets =
     seqE (supply_FindByUser userID) (\<lambda>ss.
     seqE (foldE ss 0 (supply_step newMarkets)) (\<lambda>supplyValue.
     seqE (borrow_FindByUser userID) (\<lambda>bs.
     seqE (foldE bs 0 (borrow_step X newMarkets)) (\<lambda>borrowValue.
     ret (supplyValue - borrowValue)))))"

definition SeizeTokenAllowed :: "Supply \<Rightarrow> Borrow \<Rightarrow> rat \<Rightarrow> bool" where
  "SeizeTokenAllowed supply borrow liquidity =
     (if s_UserID supply \<noteq> b_UserID borrow then False
      else if liquidity \<ge> 0 then False
      else True)"

section \<open>What the service promises\<close>

text \<open>The market an account is valued with: the one handed over, else the one in the table.\<close>

definition supplyMarketOf :: "Market list \<Rightarrow> world \<Rightarrow> Supply \<Rightarrow> Market" where
  "supplyMarketOf newMarkets w s = (case findMarketByCtokenAssetID newMarkets (s_CTokenAssetID s) of
     Some m \<Rightarrow> m | None \<Rightarrow> if s_CTokenAssetID s = '''' then zero_market else marketByCToken (s_CTokenAssetID s) w)"

definition borrowMarketOf :: "Market list \<Rightarrow> world \<Rightarrow> Borrow \<Rightarrow> Market" where
  "borrowMarketOf newMarkets w b = (case findMarketByAssetID newMarkets (b_AssetID b) of
     Some m \<Rightarrow> m | None \<Rightarrow> if b_AssetID b = '''' then zero_market else marketByAsset (b_AssetID b) w)"

definition collateral_value :: "Market list \<Rightarrow> world \<Rightarrow> Supply \<Rightarrow> rat" where
  "collateral_value newMarkets w s = (let m = supplyMarketOf newMarkets w s in
     s_Collaterals s * m_ExchangeRate m * m_CollateralFactor m * m_Price m)"

definition debt_value :: "ext \<Rightarrow> Market list \<Rightarrow> world \<Rightarrow> Borrow \<Rightarrow> rat" where
  "debt_value X newMarkets w b = (let m = borrowMarketOf newMarkets w b in
     fst (BorrowBalance X b m) * m_Price m)"

definition user_supplies :: "string \<Rightarrow> world \<Rightarrow> Supply list" where
  "user_supplies u w = filter (\<lambda>s. s_UserID s = u) (supplies w)"

definition user_borrows :: "string \<Rightarrow> world \<Rightarrow> Borrow list" where
  "user_borrows u w = filter (\<lambda>b. b_UserID b = u) (borrows w)"

definition liquidity_spec :: "ext \<Rightarrow> Market list \<Rightarrow> world \<Rightarrow> string \<Rightarrow> rat" where
  "liquidity_spec X newMarkets w u =
     sum_list (map (collateral_value newMarkets w) (user_supplies u w))
     - sum_list (map (debt_value X newMarkets w) (user_borrows u w))"

definition markets_known :: "Market list \<Rightarrow> world \<Rightarrow> string \<Rightarrow> bool" where
  "markets_known newMarkets w u \<longleftrightarrow>
     list_all (\<lambda>s. m_ID (supplyMarketOf newMarkets w s) \<noteq> 0) (user_supplies u w) \<and>
     list_all (\<lambda>b. m_ID (borrowMarketOf newMarkets w b) \<noteq> 0) (user_borrows u w)"

section \<open>Fault-free runs of the stores\<close>

lemma dbio_run [store_simps]: "faults w = [] \<Longrightarrow> dbio f w = f w"
  by (simp add: dbio_def)

lemma query_run [store_simps]: "faults w = [] \<Longrightarrow> query f w = (Ok (f w), w)"
  by (simp add: query_def dbio_run)

lemma market_Find_run [store_simps]:
  "faults w = [] \<Longrightarrow> market_Find a w = (Ok (if a = '''' then zero_market else marketByAsset a w), w)"
  by (simp add: market_Find_def query_run ret_run)

lemma market_FindByCToken_run [store_simps]:
  "faults w = [] \<Longrightarrow> market_FindByCToken a w = (Ok (if a = '''' then zero_market else marketByCToken a w), w)"
  by (simp add: market_FindByCToken_def query_run ret_run)

lemma market_All_run [store_simps]: "faults w = [] \<Longrightarrow> market_All w = (Ok (map afterFind (markets w)), w)"
  by (simp add: market_All_def query_run)

lemma supply_Find_run [store_simps]: "faults w = [] \<Longrightarrow> supply_Find u c w = (Ok (supplyOf u c w), w)"
  by (simp add: supply_Find_def query_run)

lemma supply_FindByUser_run [store_simps]: "faults w = [] \<Longrightarrow> supply_FindByUser u w = (Ok (user_supplies u w), w)"
  by (simp add: supply_FindByUser_def query_run user_supplies_def)

lemma borrow_Find_run [store_simps]: "faults w = [] \<Longrightarrow> borrow_Find u a w = (Ok (borrowOf u a w), w)"
  by (simp add: borrow_Find_def query_run)

lemma borrow_FindByUser_run [store_simps]: "faults w = [] \<Longrightarrow> borrow_FindByUser u w = (Ok (user_borrows u w), w)"
  by (simp add: borrow_FindByUser_def query_run user_borrows_def)

lemma transaction_Find_run [store_simps]:
  "faults w = [] \<Longrightarrow> transaction_FindByTraceID t w = (Ok (transactionOf t w), w)"
  by (simp add: transaction_FindByTraceID_def query_run)

lemma proposal_Find_run [store_simps]: "faults w = [] \<Longrightarrow> proposal_Find t w = (Ok (proposalOf t w), w)"
  by (simp add: proposal_Find_def query_run)

section \<open>Refinement\<close>

lemma supply_step_run:
  assumes "faults w = []"
  shows "supply_step new s acc w =
    (if m_ID (supplyMarketOf new w s) = 0 then (Err (GoError ''no market''), w)
     else (Ok (acc + collateral_value new w s), w))"
  using assms
  by (auto simp: supply_step_def supplyMarketOf_def collateral_value_def run_simps store_simps Let_def
      split: option.splits)

lemma borrow_step_run:
  assumes "faults w = []"
  shows "borrow_step X new b acc w =
    (if m_ID (borrowMarketOf new w b) = 0 then (Err (GoError ''no market''), w)
     else (Ok (acc + debt_value X new w b), w))"
proof -
  have price: "m_Price (snd (snd (BorrowBalance X b m))) = m_Price m" for m
    by (simp add: BorrowBalance_def Let_def)
  show ?thesis
    using assms
    by (auto simp: borrow_step_def borrowMarketOf_def debt_value_def run_simps store_simps Let_def
        case_prod_beta price split: option.splits)
qed

text \<open>A loop whose body only adds, or fails without a change, adds up.\<close>

lemma foldE_sum:
  assumes "\<And>x acc. x \<in> set xs \<Longrightarrow> f x acc w = (if ok x then (Ok (acc + g x), w) else (Err e, w))"
  shows "foldE xs acc f w =
    (if list_all ok xs then (Ok (acc + sum_list (map g xs)), w) else (Err e, w))"
  using assms
proof (induction xs arbitrary: acc)
  case Nil
  then show ?case by (simp add: ret_run)
next
  case (Cons x xs)
  have head: "f x acc w = (if ok x then (Ok (acc + g x), w) else (Err e, w))"
    using Cons.prems by simp
  have tail: "foldE xs (acc + g x) f w =
      (if list_all ok xs then (Ok (acc + g x + sum_list (map g xs)), w) else (Err e, w))"
    using Cons.IH Cons.prems by simp
  show ?case
    using head tail by (cases "ok x") (simp_all add: run_simps add.assoc)
qed

lemma liquidity_run:
  assumes "faults w = []"
  shows "CalculateAccountLiquidity X u new w =
    (if markets_known new w u then (Ok (liquidity_spec X new w u), w) else (Err (GoError ''no market''), w))"
proof -
  have ss: "foldE (user_supplies u w) 0 (supply_step new) w =
    (if list_all (\<lambda>s. m_ID (supplyMarketOf new w s) \<noteq> 0) (user_supplies u w)
     then (Ok (0 + sum_list (map (collateral_value new w) (user_supplies u w))), w)
     else (Err (GoError ''no market''), w))"
    by (rule foldE_sum) (simp add: supply_step_run [OF assms])
  have bs: "foldE (user_borrows u w) 0 (borrow_step X new) w =
    (if list_all (\<lambda>b. m_ID (borrowMarketOf new w b) \<noteq> 0) (user_borrows u w)
     then (Ok (0 + sum_list (map (debt_value X new w) (user_borrows u w))), w)
     else (Err (GoError ''no market''), w))"
    by (rule foldE_sum) (simp add: borrow_step_run [OF assms])
  show ?thesis
    unfolding CalculateAccountLiquidity_def
    using assms ss bs
    by (cases "list_all (\<lambda>s. m_ID (supplyMarketOf new w s) \<noteq> 0) (user_supplies u w)";
        cases "list_all (\<lambda>b. m_ID (borrowMarketOf new w b) \<noteq> 0) (user_borrows u w)")
      (simp_all add: run_simps store_simps markets_known_def liquidity_spec_def)
qed

lemma SeizeTokenAllowed_iff:
  "SeizeTokenAllowed s b l \<longleftrightarrow> s_UserID s = b_UserID b \<and> l < 0"
  by (auto simp: SeizeTokenAllowed_def)

end
