(* ===== verification/Payee_Base.thy ===== *)
theory Payee_Base
  imports Account
begin

text \<open>
  What the handlers of \<open>worker/payee\<close> share: the lookups of \<open>require.go\<close>, the refunds of
  \<open>refund_v0.go\<close>, \<open>transferOut\<close> of \<open>payee.go\<close> and the system version (\<open>sysversion.go\<close>).
\<close>

section \<open>Accrual and division inside a handler\<close>

text \<open>\<open>AccrueInterest(ctx, market, output.CreatedAt)\<close> and \<open>a.Div(b)\<close>, which panics on zero.\<close>

definition accrue :: "ext \<Rightarrow> Market \<Rightarrow> Output \<Rightarrow> (world, Market) go" where
  "accrue X market output = liftR (AccrueInterest X market (o_CreatedAt output))"

definition decDivM :: "ext \<Rightarrow> rat \<Rightarrow> rat \<Rightarrow> (world, rat) go" where
  "decDivM X a b = (if b = 0 then panic ''decimal division by 0'' else ret (decDiv X a b))"

section \<open>worker/payee/require.go\<close>

definition mustGetMarket :: "string \<Rightarrow> (world, Market) go" where
  "mustGetMarket asset =
     seqE (market_Find asset) (\<lambda>market.
     seqE (Require (m_ID market > 0) ''payee/market-not-found'' []) (\<lambda>_.
     ret market))"

definition mustGetMarketWithCToken :: "string \<Rightarrow> (world, Market) go" where
  "mustGetMarketWithCToken ctoken =
     seqE (market_FindByCToken ctoken) (\<lambda>market.
     seqE (Require (m_ID market > 0) ''payee/market-not-found'' []) (\<lambda>_.
     ret market))"

definition mustGetSupply :: "string \<Rightarrow> string \<Rightarrow> (world, Supply) go" where
  "mustGetSupply user asset =
     seqE (supply_Find user asset) (\<lambda>supply.
     seqE (getS sysversion) (\<lambda>sv.
     seqE (if sv < 5
           then Require (s_ID supply > 0) ''payee/supply-not-found'' []
           else Require (s_ID supply > 0) ''payee/supply-not-found'' [FlagRefund]) (\<lambda>_.
     ret supply)))"

definition getOrCreateSupply :: "string \<Rightarrow> string \<Rightarrow> (world, Supply) go" where
  "getOrCreateSupply user asset =
     seqE (supply_Find user asset) (\<lambda>supply.
     if s_ID supply = 0
     then supply_Create (zero_supply\<lparr>s_UserID := user, s_CTokenAssetID := asset\<rparr>)
     else ret supply)"

definition mustGetBorrow :: "string \<Rightarrow> string \<Rightarrow> (world, Borrow) go" where
  "mustGetBorrow user asset =
     seqE (borrow_Find user asset) (\<lambda>borrow.
     seqE (getS sysversion) (\<lambda>sv.
     seqE (if sv < 5
           then Require (b_ID borrow > 0) ''payee/borrow-not-found'' []
           else Require (b_ID borrow > 0) ''payee/borrow-not-found'' [FlagRefund]) (\<lambda>_.
     ret borrow)))"

definition getOrCreateBorrow :: "string \<Rightarrow> string \<Rightarrow> (world, Borrow) go" where
  "getOrCreateBorrow user asset =
     seqE (borrow_Find user asset) (\<lambda>borrow.
     if b_ID borrow = 0
     then borrow_Create (zero_borrow\<lparr>b_UserID := user, b_AssetID := asset\<rparr>)
     else ret borrow)"

definition mustGetProposal :: "string \<Rightarrow> (world, Proposal) go" where
  "mustGetProposal trace =
     seqE (proposal_Find trace) (\<lambda>proposal.
     seqE (Require (p_ID proposal > 0) ''payee/proposal-not-found'' []) (\<lambda>_.
     ret proposal))"

section \<open>worker/payee/refund_v0.go\<close>

definition handleRefundEventV0 ::
  "ext \<Rightarrow> Output \<Rightarrow> string \<Rightarrow> string \<Rightarrow> ActionType \<Rightarrow> ErrorCode \<Rightarrow> (world, unit) go" where
  "handleRefundEventV0 X output userID followID origin errCode =
     wallet_CreateTransfers [NewRefundTransfer X output userID followID origin errCode]"

text \<open>\<open>errors.As(err, &compound.Error)\<close>.\<close>

definition is_CompoundError :: "err \<Rightarrow> bool" where
  "is_CompoundError e \<longleftrightarrow> (case e of CompoundError m f \<Rightarrow> True | _ \<Rightarrow> False)"

definition returnOrRefundError ::
  "ext \<Rightarrow> err \<Rightarrow> Output \<Rightarrow> string \<Rightarrow> string \<Rightarrow> ActionType \<Rightarrow> ErrorCode \<Rightarrow> (world, unit) go" where
  "returnOrRefundError X e output userID followID origin errCode =
     seqE (getS sysversion) (\<lambda>sv.
     if is_CompoundError e \<and> sv < 3
     then handleRefundEventV0 X output userID followID origin errCode
     else throw e)"

section \<open>worker/payee/payee.go: transferOut\<close>

definition transferOut ::
  "ext \<Rightarrow> string \<Rightarrow> string \<Rightarrow> string \<Rightarrow> string \<Rightarrow> rat \<Rightarrow> TransferAction \<Rightarrow> (world, unit) go" where
  "transferOut X userID followID outputTraceID assetID amount transferAction =
     wallet_CreateTransfers [zero_transfer\<lparr>
       t_TraceID := uuidModify X outputTraceID (followID @ ''.'' @ itoa (actionCode (a_Source transferAction))),
       t_Opponents := [userID],
       t_Threshold := 1,
       t_AssetID := assetID,
       t_Amount := amount,
       t_Memo := TransferAction_Format transferAction\<rparr>]"

text \<open>The transfer action every handler passes.\<close>

definition out_action :: "ActionType \<Rightarrow> string \<Rightarrow> TransferAction" where
  "out_action source followID = zero_TransferAction\<lparr>a_Source := source, a_FollowID := followID\<rparr>"

section \<open>pkg/sysversion and worker/payee/sysversion.go\<close>

definition SysVersionKey :: string where
  "SysVersionKey = ''sysversion''"

definition ReadSysVersion :: "ext \<Rightarrow> (world, int) go" where
  "ReadSysVersion X = seqE (property_Get SysVersionKey) (\<lambda>v. ret (castInt64 X v))"

definition loadSysVersion :: "ext \<Rightarrow> (world, unit) go" where
  "loadSysVersion X = seqE (ReadSysVersion X) (\<lambda>v. (\<lambda>w. (Ok (), w\<lparr>sysversion := v\<rparr>)))"

definition validateNewSysVersion :: "int \<Rightarrow> (world, unit) go" where
  "validateNewSysVersion ver =
     seqE (getS sysversion) (\<lambda>sv.
     seqE (Require (ver > sv) ''payee/sysversion-too-low'' []) (\<lambda>_.
     if ver > SysVersion then throw (GoError ''sys version: new version is greater than core.SysVersion'')
     else ret ()))"

end
