(* ===== verification/Payee_Supply.thy ===== *)
theory Payee_Supply
  imports Payee_Base
begin

text \<open>
  The handlers that move supplies and collateral: \<open>supply.go\<close>, \<open>supply_redeem.go\<close>,
  \<open>supply_pledge.go\<close>, \<open>supply_unpledge.go\<close>, \<open>quick_pledge.go\<close> and \<open>quick_redeem.go\<close> of
  \<open>worker/payee\<close>.
\<close>

section \<open>worker/payee/supply.go\<close>

definition handleSupplyEvent :: "ext \<Rightarrow> Output \<Rightarrow> string \<Rightarrow> string \<Rightarrow> bytes \<Rightarrow> (world, unit) go" where
  "handleSupplyEvent X output userID followID body =
     tryE (mustGetMarket (o_AssetID output))
       (\<lambda>e. returnOrRefundError X e output userID followID ActionTypeRepay ErrMarketNotFound) (\<lambda>market.
     if m_Version market \<ge> o_ID output then ret ()
     else
     tryE (Require (\<not> IsMarketClosed market) ''payee/market-closed'' [FlagRefund])
       (\<lambda>e. returnOrRefundError X e output userID followID ActionTypeSupply ErrMarketClosed) (\<lambda>_.
     seqE (accrue X market output) (\<lambda>market.
     seqE (decDivM X (o_Amount output) (CurExchangeRate market)) (\<lambda>q.
     let ctokens = dec_truncate 8 q in
     tryE (Require (0 < ctokens) ''payee/amount-too-small'' [FlagRefund])
       (\<lambda>e. returnOrRefundError X e output userID followID ActionTypeSupply ErrInvalidAmount) (\<lambda>_.
     seqE (transaction_FindByTraceID (o_TraceID output)) (\<lambda>tx.
     seqE (if tx_ID tx = 0
           then (let extra = Put ''amount'' (JDec ctokens)
                       (Put ''ctoken_asset_id'' (JStr (m_CTokenAssetID market)) NewTransactionExtra)
                 in transaction_Create (BuildTransactionFromOutput userID followID ActionTypeSupply output extra))
           else ret tx) (\<lambda>tx.
     seqE (transferOut X userID followID (o_TraceID output) (m_CTokenAssetID market) ctokens
             (out_action ActionTypeMint followID)) (\<lambda>_.
     if o_ID output > m_Version market
     then market_Update X (market\<lparr>
            m_CTokens := dec_truncate 16 (m_CTokens market + ctokens),
            m_TotalCash := dec_truncate 16 (m_TotalCash market + o_Amount output)\<rparr>) (o_ID output)
     else ret ()))))))))"

section \<open>worker/payee/supply_redeem.go\<close>

definition handleRedeemEvent :: "ext \<Rightarrow> Output \<Rightarrow> string \<Rightarrow> string \<Rightarrow> bytes \<Rightarrow> (world, unit) go" where
  "handleRedeemEvent X output userID followID body =
     seqE (transaction_FindByTraceID (o_TraceID output)) (\<lambda>tx.
     tryE (mustGetMarketWithCToken (o_AssetID output))
       (\<lambda>e. returnOrRefundError X e output userID followID ActionTypeRedeem ErrMarketNotFound) (\<lambda>market.
     if m_Version market \<ge> o_ID output then ret ()
     else
     tryE (Require (\<not> IsMarketClosed market) ''payee/market-closed'' [FlagRefund])
       (\<lambda>e. returnOrRefundError X e output userID followID ActionTypeRedeem ErrMarketClosed) (\<lambda>_.
     seqE (accrue X market output) (\<lambda>market.
     let amount = dec_truncate 8 (CurExchangeRate market * o_Amount output) in
     tryE (if tx_ID tx = 0
           then Require (o_Amount output \<le> m_CTokens market \<and> RedeemAllowed market (o_Amount output))
                  ''payee/pledge-denied'' [FlagRefund]
           else ret ())
       (\<lambda>e. returnOrRefundError X e output userID followID ActionTypeRedeem ErrRedeemNotAllowed) (\<lambda>_.
     seqE (if tx_ID tx = 0
           then (let extra = Put ''amount'' (JDec amount)
                       (Put ''asset_id'' (JStr (m_AssetID market)) NewTransactionExtra)
                 in transaction_Create (BuildTransactionFromOutput userID followID ActionTypeRedeem output extra))
           else ret tx) (\<lambda>tx.
     seqE (transferOut X userID followID (o_TraceID output) (m_AssetID market) amount
             (out_action ActionTypeRedeemTransfer followID)) (\<lambda>_.
     if o_ID output > m_Version market
     then market_Update X (market\<lparr>
            m_TotalCash := dec_truncate 16 (m_TotalCash market - amount),
            m_CTokens := dec_truncate 16 (m_CTokens market - o_Amount output)\<rparr>) (o_ID output)
     else ret ())))))))"

section \<open>worker/payee/supply_pledge.go\<close>

definition handlePledgeEvent :: "ext \<Rightarrow> Output \<Rightarrow> string \<Rightarrow> string \<Rightarrow> bytes \<Rightarrow> (world, unit) go" where
  "handlePledgeEvent X output userID followID body =
     seqE (mustGetMarketWithCToken (o_AssetID output)) (\<lambda>market.
     if m_Version market \<ge> o_ID output then ret ()
     else
     tryE (Require (\<not> IsMarketClosed market) ''payee/market-closed'' [FlagRefund])
       (\<lambda>e. returnOrRefundError X e output userID followID ActionTypePledge ErrMarketClosed) (\<lambda>_.
     seqE (accrue X market output) (\<lambda>market.
     seqE (getOrCreateSupply userID (o_AssetID output)) (\<lambda>supply.
     seqE (transaction_FindByTraceID (o_TraceID output)) (\<lambda>tx.
     tryE (if tx_ID tx = 0
           then Require (o_Amount output \<le> m_CTokens market \<and> 0 < m_CollateralFactor market)
                  ''payee/pledge-denied'' [FlagRefund]
           else ret ())
       (\<lambda>e. returnOrRefundError X e output userID followID ActionTypePledge ErrPledgeNotAllowed) (\<lambda>_.
     seqE (if tx_ID tx = 0
           then seqE (supply_SumOfSupplies (m_CTokenAssetID market)) (\<lambda>totalPledge.
                seqE (Require (\<not> 0 < m_MaxPledge market \<or> totalPledge + o_Amount output \<le> m_MaxPledge market)
                        ''payee/max-pledge-exceeded'' [FlagRefund]) (\<lambda>_.
                let newCollaterals = s_Collaterals supply + o_Amount output;
                    extra = Put ''supply'' (JSupply \<lparr>es_UserID = userID, es_CTokenAssetID = o_AssetID output,
                                es_Collaterals = newCollaterals\<rparr>)
                       (Put ''new_collaterals'' (JDec newCollaterals)
                       (Put ''amount'' (JDec (o_Amount output))
                       (Put ''ctoken_asset_id'' (JStr (o_AssetID output)) NewTransactionExtra)))
                in transaction_Create (BuildTransactionFromOutput userID followID ActionTypePledge output extra)))
           else ret tx) (\<lambda>tx.
     seqE (if o_ID output > s_Version supply
           then supply_Update (supply\<lparr>s_Collaterals := s_Collaterals supply + o_Amount output\<rparr>) (o_ID output)
           else ret ()) (\<lambda>_.
     if o_ID output > m_Version market then market_Update X market (o_ID output) else ret ()))))))))"

section \<open>worker/payee/supply_unpledge.go\<close>

text \<open>\<open>mtg.Scan(body, &asset, &amount)\<close> of the unpledge, borrow and quick handlers.\<close>

definition scan_asset_amount :: "ext \<Rightarrow> bytes \<Rightarrow> (bytes \<times> rat) option" where
  "scan_asset_amount X body = do {
     (asset, body) \<leftarrow> scan_uuid X body;
     (amount, body) \<leftarrow> scan_dec X body;
     Some (asset, amount)
   }"

definition handleUnpledgeEvent :: "ext \<Rightarrow> Output \<Rightarrow> string \<Rightarrow> string \<Rightarrow> bytes \<Rightarrow> (world, unit) go" where
  "handleUnpledgeEvent X output userID followID body =
     (let scanned = scan_asset_amount X body in
     tryE (Require (scanned \<noteq> None) ''payee/mtgscan'' [])
       (\<lambda>e. returnOrRefundError X e output userID followID ActionTypeUnpledge ErrInvalidArgument) (\<lambda>_.
     let (asset, unpledgedAmount) = the scanned;
         unpledgedAmount = dec_truncate 8 unpledgedAmount;
         ctokenAssetID = uuidToString X asset in
     seqE (mustGetMarketWithCToken ctokenAssetID) (\<lambda>market.
     if m_Version market \<ge> o_ID output then ret ()
     else
     tryE (Require (\<not> IsMarketClosed market) ''payee/market-closed'' [FlagRefund])
       (\<lambda>e. returnOrRefundError X e output userID followID ActionTypeUnpledge ErrMarketClosed) (\<lambda>_.
     seqE (accrue X market output) (\<lambda>market.
     tryE (mustGetSupply userID ctokenAssetID)
       (\<lambda>e. returnOrRefundError X e output userID followID ActionTypeUnpledge ErrSupplyNotFound) (\<lambda>supply.
     seqE (transaction_FindByTraceID (o_TraceID output)) (\<lambda>tx.
     tryE (if tx_ID tx = 0
           then Require (unpledgedAmount \<le> s_Collaterals supply) ''payee/insufficient-collaterals'' [FlagRefund]
           else ret ())
       (\<lambda>e. returnOrRefundError X e output userID followID ActionTypeUnpledge ErrInsufficientCollaterals) (\<lambda>_.
     seqE (if tx_ID tx = 0 then CalculateAccountLiquidity X userID [market] else ret 0) (\<lambda>liquidity.
     tryE (if tx_ID tx = 0
           then Require (unpledgedAmount * m_ExchangeRate market * m_CollateralFactor market * m_Price market \<le> liquidity)
                  ''payee/insufficient-borrow-balance'' [FlagRefund]
           else ret ())
       (\<lambda>e. returnOrRefundError X e output userID followID ActionTypeUnpledge ErrInsufficientLiquidity) (\<lambda>_.
     seqE (if tx_ID tx = 0
           then (let newCollaterals = s_Collaterals supply - unpledgedAmount;
                     extra = Put ''supply'' (JSupply \<lparr>es_UserID = userID, es_CTokenAssetID = ctokenAssetID,
                                es_Collaterals = newCollaterals\<rparr>)
                       (Put ''new_collaterals'' (JDec newCollaterals)
                       (Put ''amount'' (JDec unpledgedAmount)
                       (Put ''ctoken_asset_id'' (JStr ctokenAssetID) NewTransactionExtra)))
                 in transaction_Create (BuildTransactionFromOutput userID followID ActionTypeUnpledge output extra))
           else ret tx) (\<lambda>tx.
     seqE (if o_ID output > s_Version supply
           then supply_Update (supply\<lparr>s_Collaterals :=
                  dec_truncate MaxPricision (s_Collaterals supply - unpledgedAmount)\<rparr>) (o_ID output)
           else ret ()) (\<lambda>_.
     seqE (transferOut X userID followID (o_TraceID output) (m_CTokenAssetID market) unpledgedAmount
             (out_action ActionTypeUnpledgeTransfer followID)) (\<lambda>_.
     if o_ID output > m_Version market then market_Update X market (o_ID output) else ret ())))))))))))))"

section \<open>worker/payee/quick_pledge.go\<close>

definition handleQuickPledgeEvent :: "ext \<Rightarrow> Output \<Rightarrow> string \<Rightarrow> string \<Rightarrow> bytes \<Rightarrow> (world, unit) go" where
  "handleQuickPledgeEvent X output userID followID body =
     tryE (mustGetMarket (o_AssetID output))
       (\<lambda>e. returnOrRefundError X e output userID followID ActionTypeQuickPledge ErrMarketNotFound) (\<lambda>market.
     if m_Version market \<ge> o_ID output then ret ()
     else
     tryE (Require (\<not> IsMarketClosed market) ''payee/market-closed'' [FlagRefund])
       (\<lambda>e. returnOrRefundError X e output userID followID ActionTypeQuickPledge ErrMarketClosed) (\<lambda>_.
     tryE (Require (0 < m_CollateralFactor market) ''payee/pledge-disallowed'' [FlagRefund])
       (\<lambda>e. returnOrRefundError X e output userID followID ActionTypeQuickPledge ErrPledgeNotAllowed) (\<lambda>_.
     seqE (accrue X market output) (\<lambda>market.
     seqE (getOrCreateSupply userID (m_CTokenAssetID market)) (\<lambda>supply.
     seqE (decDivM X (o_Amount output) (CurExchangeRate market)) (\<lambda>q.
     let ctokens = dec_truncate 8 q in
     tryE (Require (0 < ctokens) ''payee/ctoken-too-small'' [FlagRefund])
       (\<lambda>e. returnOrRefundError X e output userID followID ActionTypeQuickPledge ErrInvalidAmount) (\<lambda>_.
     seqE (transaction_FindByTraceID (o_TraceID output)) (\<lambda>tx.
     seqE (if tx_ID tx = 0
           then seqE (supply_SumOfSupplies (m_CTokenAssetID market)) (\<lambda>totalPledge.
                seqE (Require (\<not> 0 < m_MaxPledge market \<or> totalPledge + ctokens \<le> m_MaxPledge market)
                        ''payee/max-pledge-exceeded'' [FlagRefund]) (\<lambda>_.
                let extra = Put ''supply'' (JSupply \<lparr>es_UserID = userID, es_CTokenAssetID = m_CTokenAssetID market,
                                es_Collaterals = s_Collaterals supply + ctokens\<rparr>)
                       (Put ''amount'' (JDec ctokens)
                       (Put ''ctoken_asset_id'' (JStr (m_CTokenAssetID market)) NewTransactionExtra))
                in transaction_Create (BuildTransactionFromOutput userID followID ActionTypeQuickPledge output extra)))
           else ret tx) (\<lambda>tx.
     seqE (if o_ID output > s_Version supply
           then supply_Update (supply\<lparr>s_Collaterals :=
                  dec_truncate MaxPricision (s_Collaterals supply + ctokens)\<rparr>) (o_ID output)
           else ret ()) (\<lambda>_.
     if o_ID output > m_Version market
     then market_Update X (market\<lparr>
            m_CTokens := dec_truncate MaxPricision (m_CTokens market + ctokens),
            m_TotalCash := dec_truncate MaxPricision (m_TotalCash market + o_Amount output)\<rparr>) (o_ID output)
     else ret ()))))))))))"

section \<open>worker/payee/quick_redeem.go\<close>

definition handleQuickRedeemEvent :: "ext \<Rightarrow> Output \<Rightarrow> string \<Rightarrow> string \<Rightarrow> bytes \<Rightarrow> (world, unit) go" where
  "handleQuickRedeemEvent X output userID followID body =
     (let scanned = scan_asset_amount X body in
     tryE (Require (scanned \<noteq> None) ''payee/mtgscan'' [])
       (\<lambda>e. returnOrRefundError X e output userID followID ActionTypeQuickRedeem ErrInvalidArgument) (\<lambda>_.
     let (asset, redeemTokens) = the scanned;
         redeemTokens = dec_truncate 8 redeemTokens;
         ctokenAssetID = uuidToString X asset in
     tryE (mustGetMarketWithCToken ctokenAssetID)
       (\<lambda>e. returnOrRefundError X e output userID followID ActionTypeQuickRedeem ErrMarketNotFound) (\<lambda>market.
     tryE (Require (\<not> IsMarketClosed market) ''payee/market-closed'' [FlagRefund])
       (\<lambda>e. returnOrRefundError X e output userID followID ActionTypeQuickRedeem ErrMarketClosed) (\<lambda>_.
     tryE (mustGetSupply userID ctokenAssetID)
       (\<lambda>e. returnOrRefundError X e output userID followID ActionTypeQuickRedeem ErrSupplyNotFound) (\<lambda>supply.
     seqE (accrue X market output) (\<lambda>market.
     seqE (transaction_FindByTraceID (o_TraceID output)) (\<lambda>tx.
     let underlyingAmount = dec_truncate 8 (redeemTokens * CurExchangeRate market) in
     tryE (if tx_ID tx = 0
           then Require (redeemTokens \<le> m_CTokens market \<and> RedeemAllowed market redeemTokens)
                  ''payee/redeem-disallowed'' [FlagRefund]
           else ret ())
       (\<lambda>e. returnOrRefundError X e output userID followID ActionTypeQuickRedeem ErrRedeemNotAllowed) (\<lambda>_.
     tryE (if tx_ID tx = 0
           then Require (redeemTokens \<le> s_Collaterals supply) ''payee/insufficient-collaterals'' [FlagRefund]
           else ret ())
       (\<lambda>e. returnOrRefundError X e output userID followID ActionTypeQuickRedeem ErrInsufficientCollaterals) (\<lambda>_.
     seqE (if tx_ID tx = 0 then CalculateAccountLiquidity X userID [market] else ret 0) (\<lambda>liquidity.
     let unpledgedTokenLiquidity =
           redeemTokens * CurExchangeRate market * m_CollateralFactor market * m_Price market in
     if tx_ID tx = 0 \<and> unpledgedTokenLiquidity > liquidity
     then handleRefundEventV0 X output userID followID ActionTypeQuickRedeem ErrInsufficientLiquidity
     else
     seqE (if tx_ID tx = 0
           then (let extra = Put ''supply'' (JSupply \<lparr>es_UserID = s_UserID supply,
                                es_CTokenAssetID = s_CTokenAssetID supply,
                                es_Collaterals = s_Collaterals supply - redeemTokens\<rparr>)
                       (Put ''ctokens'' (JDec redeemTokens)
                       (Put ''ctoken_asset_id'' (JStr ctokenAssetID)
                       (Put ''amount'' (JDec underlyingAmount)
                       (Put ''asset_id'' (JStr (m_AssetID market)) NewTransactionExtra))))
                 in transaction_Create (BuildTransactionFromOutput userID followID ActionTypeQuickRedeem output extra))
           else ret tx) (\<lambda>tx.
     seqE (if o_ID output > s_Version supply
           then supply_Update (supply\<lparr>s_Collaterals :=
                  dec_truncate MaxPricision (s_Collaterals supply - redeemTokens)\<rparr>) (o_ID output)
           else ret ()) (\<lambda>_.
     seqE (transferOut X userID followID (o_TraceID output) (m_AssetID market) underlyingAmount
             (out_action ActionTypeQuickRedeemTransfer followID)) (\<lambda>_.
     if o_ID output > m_Version market
     then market_Update X (market\<lparr>
            m_TotalCash := dec_truncate MaxPricision (m_TotalCash market - underlyingAmount),
            m_CTokens := dec_truncate MaxPricision (m_CTokens market - redeemTokens)\<rparr>) (o_ID output)
     else ret ())))))))))))))"

end
