(* ===== verification/Payee_Borrow.thy ===== *)
theory Payee_Borrow
  imports Payee_Supply
begin

text \<open>
  The handlers that borrow and repay: \<open>borrow.go\<close>, \<open>borrow_repay.go\<close>, \<open>quick_borrow.go\<close> and
  \<open>liquidation.go\<close> of \<open>worker/payee\<close>. \<open>BorrowBalance\<close> normalises its arguments in place, so each
  call threads the borrow and the market on.
\<close>

section \<open>worker/payee/borrow.go\<close>

definition handleBorrowEvent :: "ext \<Rightarrow> Output \<Rightarrow> string \<Rightarrow> string \<Rightarrow> bytes \<Rightarrow> (world, unit) go" where
  "handleBorrowEvent X output userID followID body =
     (let scanned = scan_asset_amount X body in
     tryE (Require (scanned \<noteq> None) ''payee/mtgscan'' [])
       (\<lambda>e. returnOrRefundError X e output userID followID ActionTypeBorrow ErrInvalidArgument) (\<lambda>_.
     let (asset, borrowAmount) = the scanned;
         borrowAmount = dec_truncate 8 borrowAmount;
         assetID = uuidToString X asset in
     tryE (mustGetMarket assetID)
       (\<lambda>e. returnOrRefundError X e output userID followID ActionTypeBorrow ErrMarketNotFound) (\<lambda>market.
     if m_Version market \<ge> o_ID output then ret ()
     else
     tryE (Require (\<not> IsMarketClosed market) ''payee/market-closed'' [FlagRefund])
       (\<lambda>e. returnOrRefundError X e output userID followID ActionTypeBorrow ErrMarketClosed) (\<lambda>_.
     seqE (accrue X market output) (\<lambda>market.
     seqE (getOrCreateBorrow userID assetID) (\<lambda>borrow.
     seqE (transaction_FindByTraceID (o_TraceID output)) (\<lambda>tx.
     seqE (if tx_ID tx = 0 then CalculateAccountLiquidity X userID [market] else ret 0) (\<lambda>liquidity.
     tryE (if tx_ID tx = 0
           then Require (BorrowAllowed market borrowAmount \<and> borrowAmount * m_Price market \<le> liquidity)
                  ''payee/borrow-denied'' [FlagRefund]
           else ret ())
       (\<lambda>e. returnOrRefundError X e output userID followID ActionTypeBorrow ErrBorrowNotAllowed) (\<lambda>_.
     seqE (if tx_ID tx = 0
           then (let (balance, borrow, market) = BorrowBalance X borrow market;
                     newBorrowBalance = balance + borrowAmount;
                     extra = Put ''borrow'' (JBorrow \<lparr>eb_UserID = userID, eb_AssetID = assetID,
                                eb_Principal = newBorrowBalance, eb_InterestIndex = m_BorrowIndex market\<rparr>)
                       (Put ''new_borrow_index'' (JDec (m_BorrowIndex market))
                       (Put ''new_borrow_balance'' (JDec newBorrowBalance)
                       (Put ''amount'' (JDec borrowAmount)
                       (Put ''asset_id'' (JStr assetID) NewTransactionExtra))))
                 in seqE (transaction_Create (BuildTransactionFromOutput userID followID ActionTypeBorrow output extra))
                      (\<lambda>_. ret (borrow, market)))
           else ret (borrow, market)) (\<lambda>(borrow, market).
     seqE (if o_ID output > b_Version borrow
           then (let (balance, borrow, market) = BorrowBalance X borrow market
                 in seqE (borrow_Update (borrow\<lparr>b_Principal := balance + borrowAmount,
                            b_InterestIndex := m_BorrowIndex market\<rparr>) (o_ID output)) (\<lambda>_. ret market))
           else ret market) (\<lambda>market.
     seqE (transferOut X userID followID (o_TraceID output) assetID borrowAmount
             (out_action ActionTypeBorrowTransfer followID)) (\<lambda>_.
     if o_ID output > m_Version market
     then seqE (accrue X (market\<lparr>
            m_TotalCash := dec_truncate MaxPricision (m_TotalCash market - borrowAmount),
            m_TotalBorrows := dec_truncate MaxPricision (m_TotalBorrows market + borrowAmount)\<rparr>) output) (\<lambda>market.
          market_Update X market (o_ID output))
     else ret ()))))))))))))"

section \<open>worker/payee/borrow_repay.go\<close>

definition handleRepayEvent :: "ext \<Rightarrow> Output \<Rightarrow> string \<Rightarrow> string \<Rightarrow> bytes \<Rightarrow> (world, unit) go" where
  "handleRepayEvent X output userID followID body =
     tryE (mustGetMarket (o_AssetID output))
       (\<lambda>e. returnOrRefundError X e output userID followID ActionTypeRepay ErrMarketNotFound) (\<lambda>market.
     if m_Version market \<ge> o_ID output then ret ()
     else
     seqE (accrue X market output) (\<lambda>market.
     tryE (mustGetBorrow userID (o_AssetID output))
       (\<lambda>e. returnOrRefundError X e output userID followID ActionTypeRepay ErrBorrowNotFound) (\<lambda>borrow.
     seqE (transaction_FindByTraceID (o_TraceID output)) (\<lambda>tx.
     seqE (if tx_ID tx = 0
           then (let (borrowBalance, borrow, market) = BorrowBalance X borrow market;
                     repayAmount = (if o_Amount output > borrowBalance then borrowBalance else o_Amount output);
                     (balance, borrow, market) = BorrowBalance X borrow market;
                     newBalance = dec_truncate MaxPricision (balance - repayAmount);
                     extra = Put ''borrow'' (JBorrow \<lparr>eb_UserID = b_UserID borrow, eb_AssetID = b_AssetID borrow,
                                eb_Principal = newBalance, eb_InterestIndex = m_BorrowIndex market\<rparr>)
                       (Put ''new_index'' (JDec (m_BorrowIndex market))
                       (Put ''new_balance'' (JDec newBalance)
                       (Put ''repay_amount'' (JDec repayAmount) NewTransactionExtra)))
                 in seqE (transaction_Create (BuildTransactionFromOutput userID followID ActionTypeRepay output extra))
                      (\<lambda>tx. ret (tx, borrow, market)))
           else ret (tx, borrow, market)) (\<lambda>(tx, borrow, market).
     case unmarshal_decimal ''repay_amount'' (tx_Data tx) of
       None \<Rightarrow> throw (GoError ''json: cannot unmarshal'')
     | Some extraRepayAmount \<Rightarrow>
     (let refundAmount = dec_truncate 8 (o_Amount output - extraRepayAmount) in
     seqE (if 0 < refundAmount
           then transferOut X userID followID (o_TraceID output) (o_AssetID output) refundAmount
                  (out_action ActionTypeRepayRefundTransfer followID)
           else ret ()) (\<lambda>_.
     seqE (if o_ID output > b_Version borrow
           then (let (balance, borrow, market) = BorrowBalance X borrow market
                 in seqE (borrow_Update (borrow\<lparr>b_Principal := balance - extraRepayAmount,
                            b_InterestIndex := m_BorrowIndex market\<rparr>) (o_ID output)) (\<lambda>_. ret market))
           else ret market) (\<lambda>market.
     if o_ID output > m_Version market
     then (let market = market\<lparr>
             m_TotalBorrows := dec_truncate MaxPricision (m_TotalBorrows market - extraRepayAmount),
             m_TotalCash := dec_truncate MaxPricision (m_TotalCash market + extraRepayAmount)\<rparr> in
          seqE (getS sysversion) (\<lambda>sv.
          let market = (if sv > 0 \<and> m_TotalBorrows market < 0 then market\<lparr>m_TotalBorrows := 0\<rparr> else market) in
          seqE (accrue X market output) (\<lambda>market.
          market_Update X market (o_ID output))))
     else ret ()))))))))"

section \<open>worker/payee/quick_borrow.go\<close>

text \<open>The end of the block under \<open>tx.ID == 0\<close>: the limit on pledges and the transaction.\<close>

definition quick_borrow_record ::
  "ext \<Rightarrow> Output \<Rightarrow> string \<Rightarrow> string \<Rightarrow> string \<Rightarrow> rat \<Rightarrow> Market \<Rightarrow> Market \<Rightarrow> Supply \<Rightarrow> Borrow \<Rightarrow> rat \<Rightarrow>
   (world, Transaction \<times> Borrow \<times> Market) go" where
  "quick_borrow_record X output userID followID borrowAssetID borrowAmount supplyMarket borrowMarket supply borrow ctokens =
     seqE (supply_SumOfSupplies (m_CTokenAssetID supplyMarket)) (\<lambda>totalPledge.
      seqE (Require (\<not> 0 < m_MaxPledge supplyMarket \<or> totalPledge + ctokens \<le> m_MaxPledge supplyMarket)
              ''payee/max-pledge-exceeded'' [FlagRefund]) (\<lambda>_.
      let newCollaterals = s_Collaterals supply + ctokens;
          (balance, borrow, borrowMarket) = BorrowBalance X borrow borrowMarket;
          newBorrowBalance = balance + borrowAmount;
          extra = Put ''borrow'' (JBorrow \<lparr>eb_UserID = userID, eb_AssetID = m_AssetID borrowMarket,
                      eb_Principal = newBorrowBalance, eb_InterestIndex = m_BorrowIndex borrowMarket\<rparr>)
             (Put ''supply'' (JSupply \<lparr>es_UserID = userID, es_CTokenAssetID = m_CTokenAssetID supplyMarket,
                      es_Collaterals = newCollaterals\<rparr>)
             (Put ''new_borrow_index'' (JDec (m_BorrowIndex borrowMarket))
             (Put ''new_borrow_balance'' (JDec newBorrowBalance)
             (Put ''new_collaterals'' (JDec newCollaterals)
             (Put ''ctoken_asset_id'' (JStr (m_CTokenAssetID supplyMarket))
             (Put ''ctokens'' (JDec ctokens)
             (Put ''amount'' (JDec borrowAmount)
             (Put ''asset_id'' (JStr borrowAssetID) NewTransactionExtra))))))))
      in seqE (transaction_Create (BuildTransactionFromOutput userID followID ActionTypeQuickBorrow output extra))
           (\<lambda>tx. ret (tx, borrow, borrowMarket))))"

text \<open>What follows the transaction: the accounts, the transfer and the two markets.\<close>

definition quick_borrow_apply ::
  "ext \<Rightarrow> Output \<Rightarrow> string \<Rightarrow> string \<Rightarrow> bool \<Rightarrow> string \<Rightarrow> rat \<Rightarrow> Supply \<Rightarrow> Borrow \<Rightarrow> Market \<Rightarrow> Market \<Rightarrow> rat \<Rightarrow> (world, unit) go" where
  "quick_borrow_apply X output userID followID isSupplyCToken borrowAssetID borrowAmount supply borrow supplyMarket borrowMarket
     extraCTokens =
     seqE (if o_ID output > s_Version supply
           then supply_Update (supply\<lparr>s_Collaterals := s_Collaterals supply + extraCTokens\<rparr>) (o_ID output)
           else ret ()) (\<lambda>_.
     seqE (if o_ID output > b_Version borrow
           then (let (balance, borrow, borrowMarket) = BorrowBalance X borrow borrowMarket
                 in seqE (borrow_Update (borrow\<lparr>
                            b_Principal := dec_truncate MaxPricision (balance + borrowAmount),
                            b_InterestIndex := m_BorrowIndex borrowMarket\<rparr>) (o_ID output)) (\<lambda>_. ret borrowMarket))
           else ret borrowMarket) (\<lambda>borrowMarket.
     seqE (transferOut X userID followID (o_TraceID output) borrowAssetID borrowAmount
             (out_action ActionTypeQuickBorrowTransfer followID)) (\<lambda>_.
     seqE (if o_ID output > m_Version supplyMarket
           then (let supplyMarket = (if \<not> isSupplyCToken
                     then supplyMarket\<lparr>
                       m_CTokens := dec_truncate MaxPricision (m_CTokens supplyMarket + extraCTokens),
                       m_TotalCash := dec_truncate MaxPricision (m_TotalCash supplyMarket + o_Amount output)\<rparr>
                     else supplyMarket) in
                seqE (accrue X supplyMarket output) (\<lambda>supplyMarket.
                market_Update X supplyMarket (o_ID output)))
           else ret ()) (\<lambda>_.
     if o_ID output > m_Version borrowMarket
     then seqE (accrue X (borrowMarket\<lparr>
            m_TotalCash := dec_truncate MaxPricision (m_TotalCash borrowMarket - borrowAmount),
            m_TotalBorrows := dec_truncate MaxPricision (m_TotalBorrows borrowMarket + borrowAmount)\<rparr>) output) (\<lambda>borrowMarket.
          market_Update X borrowMarket (o_ID output))
     else ret ()))))"

definition handleQuickBorrowEvent :: "ext \<Rightarrow> Output \<Rightarrow> string \<Rightarrow> string \<Rightarrow> bytes \<Rightarrow> (world, unit) go" where
  "handleQuickBorrowEvent X output userID followID body =
     (let scanned = scan_asset_amount X body in
     tryE (Require (scanned \<noteq> None) ''payee/mtgscan'' [])
       (\<lambda>e. returnOrRefundError X e output userID followID ActionTypeQuickBorrow ErrInvalidArgument) (\<lambda>_.
     let (asset, borrowAmount) = the scanned;
         borrowAmount = dec_truncate 8 borrowAmount;
         borrowAssetID = uuidToString X asset in
     tryE (mustGetMarket borrowAssetID)
       (\<lambda>e. returnOrRefundError X e output userID followID ActionTypeQuickBorrow ErrMarketNotFound) (\<lambda>borrowMarket.
     if m_Version borrowMarket \<ge> o_ID output then ret ()
     else
     tryE (tryE (mustGetMarket (o_AssetID output))
             (\<lambda>e. if is_CompoundError e then mustGetMarketWithCToken (o_AssetID output) else throw e) ret)
       (\<lambda>e. returnOrRefundError X e output userID followID ActionTypeQuickBorrow ErrMarketNotFound) (\<lambda>supplyMarket.
     let isSupplyCToken = (m_CTokenAssetID supplyMarket = o_AssetID output) in
     seqE (getS sysversion) (\<lambda>sv.
     seqE (if sv > 3
           then Require (m_AssetID supplyMarket \<noteq> borrowAssetID) ''payee/same-supply-and-borrow-asset'' [FlagRefund]
           else ret ()) (\<lambda>_.
     seqE (accrue X supplyMarket output) (\<lambda>supplyMarket.
     seqE (accrue X borrowMarket output) (\<lambda>borrowMarket.
     tryE (Require (\<not> IsMarketClosed supplyMarket \<and> \<not> IsMarketClosed borrowMarket) ''payee/market-closed'' [FlagRefund])
       (\<lambda>e. returnOrRefundError X e output userID followID ActionTypeQuickBorrow ErrMarketClosed) (\<lambda>_.
     tryE (Require (0 < m_CollateralFactor supplyMarket) ''payee/pledge-disallowed'' [FlagRefund])
       (\<lambda>e. returnOrRefundError X e output userID followID ActionTypeQuickBorrow ErrPledgeNotAllowed) (\<lambda>_.
     seqE (getOrCreateSupply userID (m_CTokenAssetID supplyMarket)) (\<lambda>supply.
     seqE (getOrCreateBorrow userID (m_AssetID borrowMarket)) (\<lambda>borrow.
     seqE (transaction_FindByTraceID (o_TraceID output)) (\<lambda>tx.
     seqE (if tx_ID tx = 0 then CalculateAccountLiquidity X userID [supplyMarket, borrowMarket] else ret 0) (\<lambda>liquidity.
     let liquidity = (if isSupplyCToken
           then liquidity + o_Amount output * m_ExchangeRate supplyMarket * m_CollateralFactor supplyMarket * m_Price supplyMarket
           else liquidity + o_Amount output * m_CollateralFactor supplyMarket * m_Price supplyMarket);
         borrowableSupplies = m_TotalCash borrowMarket - m_Reserves borrowMarket in
     tryE (if tx_ID tx = 0
           then Require (0 < borrowAmount
                   \<and> borrowableSupplies \<ge> m_BorrowCap borrowMarket
                   \<and> borrowAmount \<le> borrowableSupplies - m_BorrowCap borrowMarket
                   \<and> borrowAmount * m_Price borrowMarket \<le> liquidity)
                  ''payee/borrow-denied'' [FlagRefund]
           else ret ())
       (\<lambda>e. returnOrRefundError X e output userID followID ActionTypeQuickBorrow ErrBorrowNotAllowed) (\<lambda>_.
     seqE (if tx_ID tx = 0
           then if isSupplyCToken then ret (o_Amount output)
                else seqE (decDivM X (o_Amount output) (CurExchangeRate supplyMarket)) (\<lambda>q. ret (dec_truncate 8 q))
           else ret 0) (\<lambda>ctokens.
     tryE (if tx_ID tx = 0
           then Require (0 < ctokens) ''payee/ctokens-too-small'' [FlagRefund]
           else ret ())
       (\<lambda>e. returnOrRefundError X e output userID followID ActionTypeQuickBorrow ErrInvalidAmount) (\<lambda>_.
     seqE (if tx_ID tx = 0
           then quick_borrow_record X output userID followID borrowAssetID borrowAmount supplyMarket borrowMarket supply borrow ctokens
           else ret (tx, borrow, borrowMarket)) (\<lambda>(tx, borrow, borrowMarket).
     case unmarshal_decimal ''ctokens'' (tx_Data tx) of
       None \<Rightarrow> throw (GoError ''json: cannot unmarshal'')
     | Some extraCTokens \<Rightarrow>
     quick_borrow_apply X output userID followID isSupplyCToken borrowAssetID borrowAmount supply borrow supplyMarket borrowMarket
       extraCTokens))))))))))))))))))"

section \<open>worker/payee/liquidation.go\<close>

text \<open>\<open>closedMarkets\<close> of \<open>HasClosedMarkets\<close>: the CToken and asset identifiers of the closed markets.\<close>

definition closedMarkets :: "Market list \<Rightarrow> string list" where
  "closedMarkets items = concat (map (\<lambda>m. [m_CTokenAssetID m, m_AssetID m])
     (filter (\<lambda>m. m_Status m = MarketStatusClose) items))"

definition HasClosedMarkets :: "string \<Rightarrow> (world, unit) go" where
  "HasClosedMarkets user =
     seqE market_All (\<lambda>items.
     let closed = closedMarkets items in
     seqE (borrow_FindByUser user) (\<lambda>bs.
     seqE (forE bs (\<lambda>b. Require (b_AssetID b \<notin> set closed) ''payee/market-closed'' [FlagRefund])) (\<lambda>_.
     seqE (supply_FindByUser user) (\<lambda>ss.
     forE ss (\<lambda>s. Require (s_CTokenAssetID s \<notin> set closed) ''payee/market-closed'' [FlagRefund])))))"

text \<open>The amounts of a liquidation: the seized price, the seized CTokens and the repaid amount.\<close>

definition liquidation_amounts ::
  "ext \<Rightarrow> Output \<Rightarrow> Supply \<Rightarrow> rat \<Rightarrow> Market \<Rightarrow> Market \<Rightarrow> (world, rat \<times> rat \<times> rat) go" where
  "liquidation_amounts X output supply borrowBalance supplyMarket borrowMarket =
     (let supplyExchangeRate = CurExchangeRate supplyMarket;
          seizedPrice = dec_truncate MaxPricision
            (m_Price supplyMarket - m_Price supplyMarket * m_LiquidationIncentive supplyMarket);
          repayValue = dec_truncate MaxPricision (o_Amount output * m_Price borrowMarket) in
      seqE (decDivM X repayValue seizedPrice) (\<lambda>q.
      let seizedAmount = dec_truncate MaxPricision q;
          maxSeizeValue = dec_truncate MaxPricision
            (s_Collaterals supply * supplyExchangeRate * m_CloseFactor supplyMarket * seizedPrice) in
      seqE (if repayValue > maxSeizeValue
            then seqE (decDivM X maxSeizeValue seizedPrice) (\<lambda>q. ret (maxSeizeValue, q))
            else ret (repayValue, seizedAmount)) (\<lambda>(repayValue, seizedAmount).
      let borrowBalanceValue = dec_truncate MaxPricision (borrowBalance * m_Price borrowMarket) in
      seqE (if repayValue > borrowBalanceValue
            then seqE (decDivM X borrowBalanceValue seizedPrice) (\<lambda>q. ret (borrowBalanceValue, q))
            else ret (repayValue, seizedAmount)) (\<lambda>(repayValue, seizedAmount).
      seqE (decDivM X seizedAmount supplyExchangeRate) (\<lambda>q.
      let seizedCTokens = dec_truncate 8 q in
      seqE (decDivM X repayValue (m_Price borrowMarket)) (\<lambda>q.
      let repayAmount = dec_truncate MaxPricision q;
          repayAmount = (if repayAmount > borrowBalance then borrowBalance else repayAmount) in
      ret (seizedPrice, seizedCTokens, repayAmount)))))))"

definition scan_two_uuids :: "ext \<Rightarrow> bytes \<Rightarrow> (bytes \<times> bytes) option" where
  "scan_two_uuids X body = do {
     (a, body) \<leftarrow> scan_uuid X body;
     (b, body) \<leftarrow> scan_uuid X body;
     Some (a, b)
   }"

text \<open>The block under \<open>tx.ID == 0\<close>: the checks, the amounts and the transaction.\<close>

definition liquidation_tx ::
  "ext \<Rightarrow> Output \<Rightarrow> string \<Rightarrow> string \<Rightarrow> string \<Rightarrow> string \<Rightarrow> Supply \<Rightarrow> Borrow \<Rightarrow> Market \<Rightarrow> Market \<Rightarrow>
   (world, Transaction \<times> Borrow \<times> Market) go" where
  "liquidation_tx X output userID followID seizedUserID seizedCTokenAssetID supply borrow supplyMarket borrowMarket =
     (let (borrowBalance, borrow, borrowMarket) = BorrowBalance X borrow borrowMarket in
      seqE (liquidation_amounts X output supply borrowBalance supplyMarket borrowMarket)
        (\<lambda>(seizedPrice, seizedCTokens, repayAmount).
      let newCollaterals = s_Collaterals supply - seizedCTokens;
          (balance, borrow, borrowMarket) = BorrowBalance X borrow borrowMarket;
          newBorrowBalance = balance - repayAmount;
          extra = Put ''borrow'' (JBorrow \<lparr>eb_UserID = seizedUserID, eb_AssetID = b_AssetID borrow,
                      eb_Principal = newBorrowBalance, eb_InterestIndex = m_BorrowIndex borrowMarket\<rparr>)
             (Put ''supply'' (JSupply \<lparr>es_UserID = seizedUserID, es_CTokenAssetID = s_CTokenAssetID supply,
                      es_Collaterals = newCollaterals\<rparr>)
             (Put ''repay_amount'' (JDec repayAmount)
             (Put ''new_borrow_index'' (JDec (m_BorrowIndex borrowMarket))
             (Put ''new_borrow_balance'' (JDec newBorrowBalance)
             (Put ''new_collaterals'' (JDec newCollaterals)
             (Put ''price'' (JDec seizedPrice)
             (Put ''repay_amount'' (JDec repayAmount)
             (Put ''amount'' (JDec seizedCTokens)
             (Put ''ctoken_asset_id'' (JStr seizedCTokenAssetID) NewTransactionExtra)))))))))
      in seqE (transaction_Create (BuildTransactionFromOutput userID followID ActionTypeLiquidate output extra))
           (\<lambda>tx. ret (tx, borrow, borrowMarket))))"

text \<open>What follows the transaction: the accounts, the transfers and the two markets.\<close>

definition liquidation_apply ::
  "ext \<Rightarrow> Output \<Rightarrow> string \<Rightarrow> string \<Rightarrow> Supply \<Rightarrow> Borrow \<Rightarrow> Market \<Rightarrow> Market \<Rightarrow> rat \<Rightarrow> rat \<Rightarrow> (world, unit) go" where
  "liquidation_apply X output userID followID supply borrow supplyMarket borrowMarket extraSeizedCToken extraRepayAmount =
     seqE (if o_ID output > s_Version supply
           then supply_Update (supply\<lparr>s_Collaterals :=
                  dec_truncate MaxPricision (s_Collaterals supply - extraSeizedCToken)\<rparr>) (o_ID output)
           else ret ()) (\<lambda>_.
     seqE (if o_ID output > b_Version borrow
           then (let (balance, borrow, borrowMarket) = BorrowBalance X borrow borrowMarket
                 in seqE (borrow_Update (borrow\<lparr>
                            b_Principal := dec_truncate MaxPricision (balance - extraRepayAmount),
                            b_InterestIndex := m_BorrowIndex borrowMarket\<rparr>) (o_ID output)) (\<lambda>_. ret borrowMarket))
           else ret borrowMarket) (\<lambda>borrowMarket.
     seqE (transferOut X userID followID (o_TraceID output) (m_CTokenAssetID supplyMarket) extraSeizedCToken
             (out_action ActionTypeLiquidateTransfer followID)) (\<lambda>_.
     let refundAmount = o_Amount output - extraRepayAmount in
     seqE (if 0 < refundAmount
           then transferOut X userID followID (o_TraceID output) (o_AssetID output) refundAmount
                  (out_action ActionTypeLiquidateRefundTransfer followID)
           else ret ()) (\<lambda>_.
     seqE (if o_ID output > m_Version supplyMarket
           then seqE (accrue X supplyMarket output) (\<lambda>supplyMarket.
                market_Update X supplyMarket (o_ID output))
           else ret ()) (\<lambda>_.
     if o_ID output > m_Version borrowMarket
     then (let borrowMarket = borrowMarket\<lparr>
             m_TotalBorrows := dec_truncate MaxPricision (m_TotalBorrows borrowMarket - extraRepayAmount),
             m_TotalCash := dec_truncate MaxPricision (m_TotalCash borrowMarket + extraRepayAmount)\<rparr> in
          seqE (getS sysversion) (\<lambda>sv.
          let borrowMarket = (if sv > 0
                then (if m_TotalBorrows borrowMarket < 0 then borrowMarket\<lparr>m_TotalBorrows := 0\<rparr> else borrowMarket)
                else borrowMarket) in
          seqE (accrue X borrowMarket output) (\<lambda>borrowMarket.
          market_Update X borrowMarket (o_ID output))))
     else ret ())))))"

definition handleLiquidationEvent :: "ext \<Rightarrow> Output \<Rightarrow> string \<Rightarrow> string \<Rightarrow> bytes \<Rightarrow> (world, unit) go" where
  "handleLiquidationEvent X output userID followID body =
     (let scanned = scan_two_uuids X body in
     tryE (Require (scanned \<noteq> None) ''payee/mtgscan'' [])
       (\<lambda>e. returnOrRefundError X e output userID followID ActionTypeLiquidate ErrInvalidArgument) (\<lambda>_.
     let (seizedAddress, seizedCTokenAsset) = the scanned in
     seqE (user_FindByAddress (uuidToString X seizedAddress)) (\<lambda>seizedUser.
     tryE (Require (u_ID seizedUser > 0) ''payee/invalid-seized-address'' [])
       (\<lambda>e. returnOrRefundError X e output userID followID ActionTypeLiquidate ErrInvalidArgument) (\<lambda>_.
     let seizedUserID = u_UserID seizedUser;
         seizedCTokenAssetID = uuidToString X seizedCTokenAsset in
     tryE (mustGetMarketWithCToken seizedCTokenAssetID)
       (\<lambda>e. returnOrRefundError X e output userID followID ActionTypeLiquidate ErrMarketNotFound) (\<lambda>supplyMarket.
     tryE (mustGetMarket (o_AssetID output))
       (\<lambda>e. returnOrRefundError X e output userID followID ActionTypeLiquidate ErrMarketNotFound) (\<lambda>borrowMarket.
     if m_Version borrowMarket \<ge> o_ID output then ret ()
     else
     seqE (accrue X supplyMarket output) (\<lambda>supplyMarket.
     seqE (accrue X borrowMarket output) (\<lambda>borrowMarket.
     tryE (mustGetSupply seizedUserID (m_CTokenAssetID supplyMarket))
       (\<lambda>e. returnOrRefundError X e output userID followID ActionTypeLiquidate ErrSupplyNotFound) (\<lambda>supply.
     tryE (mustGetBorrow seizedUserID (m_AssetID borrowMarket))
       (\<lambda>e. returnOrRefundError X e output userID followID ActionTypeLiquidate ErrBorrowNotFound) (\<lambda>borrow.
     seqE (transaction_FindByTraceID (o_TraceID output)) (\<lambda>tx.
     tryE (if tx_ID tx = 0 then HasClosedMarkets seizedUserID else ret ())
       (\<lambda>e. returnOrRefundError X e output userID followID ActionTypeLiquidate ErrMarketClosed) (\<lambda>_.
     seqE (if tx_ID tx = 0
           then CalculateAccountLiquidity X seizedUserID [borrowMarket, supplyMarket]
           else ret 0) (\<lambda>liquidity.
     tryE (if tx_ID tx = 0
           then Require (SeizeTokenAllowed supply borrow liquidity) ''payee/seize-denied'' [FlagRefund]
           else ret ())
       (\<lambda>e. returnOrRefundError X e output userID followID ActionTypeLiquidate ErrSeizeNotAllowed) (\<lambda>_.
     seqE (if tx_ID tx = 0
           then liquidation_tx X output userID followID seizedUserID seizedCTokenAssetID supply borrow
                  supplyMarket borrowMarket
           else ret (tx, borrow, borrowMarket)) (\<lambda>(tx, borrow, borrowMarket).
     case (unmarshal_decimal ''amount'' (tx_Data tx), unmarshal_decimal ''repay_amount'' (tx_Data tx)) of
       (Some extraSeizedCToken, Some extraRepayAmount) \<Rightarrow>
         liquidation_apply X output userID followID supply borrow supplyMarket borrowMarket
           extraSeizedCToken extraRepayAmount
     | _ \<Rightarrow> throw (GoError ''json: cannot unmarshal''))))))))))))))))"

end
