(* ===== verification/Tables.thy ===== *)
theory Tables
  imports Payee_Base
begin

text \<open>
  The tables as abstract state: well-formed tables, the effect of each write as a function on the
  state, and how the lookups read it back. The handlers' specifications are stated with these
  functions, and their proofs run the code symbolically with \<open>run_simps\<close> and \<open>store_simps\<close>.
\<close>

section \<open>Well-formed tables\<close>

definition markets_ok :: "world \<Rightarrow> bool" where
  "markets_ok w \<longleftrightarrow> distinct (map m_ID (markets w)) \<and> distinct (map m_AssetID (markets w))
     \<and> distinct (map m_CTokenAssetID (markets w))
     \<and> list_all (\<lambda>m. 0 < m_ID m \<and> 0 \<le> m_BlockNumber m) (markets w)"

definition supplies_ok :: "world \<Rightarrow> bool" where
  "supplies_ok w \<longleftrightarrow> distinct (map s_ID (supplies w))
     \<and> distinct (map (\<lambda>s. (s_UserID s, s_CTokenAssetID s)) (supplies w))
     \<and> list_all (\<lambda>s. 0 < s_ID s) (supplies w)"

definition borrows_ok :: "world \<Rightarrow> bool" where
  "borrows_ok w \<longleftrightarrow> distinct (map b_ID (borrows w))
     \<and> distinct (map (\<lambda>b. (b_UserID b, b_AssetID b)) (borrows w))
     \<and> list_all (\<lambda>b. 0 < b_ID b) (borrows w)"

definition transactions_ok :: "world \<Rightarrow> bool" where
  "transactions_ok w \<longleftrightarrow> list_all (\<lambda>t. 0 < tx_ID t) (transactions w)"

definition tables_ok :: "world \<Rightarrow> bool" where
  "tables_ok w \<longleftrightarrow> markets_ok w \<and> supplies_ok w \<and> borrows_ok w \<and> transactions_ok w"

lemmas tables_ok_defs = tables_ok_def markets_ok_def supplies_ok_def borrows_ok_def transactions_ok_def

section \<open>Rows\<close>

definition marketRow :: "string \<Rightarrow> world \<Rightarrow> Market option" where
  "marketRow a w = List.find (\<lambda>m. m_AssetID m = a) (markets w)"

definition ctokenRow :: "string \<Rightarrow> world \<Rightarrow> Market option" where
  "ctokenRow c w = List.find (\<lambda>m. m_CTokenAssetID m = c) (markets w)"

definition supplyRow :: "string \<Rightarrow> string \<Rightarrow> world \<Rightarrow> Supply option" where
  "supplyRow u c w = List.find (\<lambda>s. s_UserID s = u \<and> s_CTokenAssetID s = c) (supplies w)"

definition borrowRow :: "string \<Rightarrow> string \<Rightarrow> world \<Rightarrow> Borrow option" where
  "borrowRow u a w = List.find (\<lambda>b. b_UserID b = u \<and> b_AssetID b = a) (borrows w)"

section \<open>Writes as functions on the state\<close>

definition setMarket :: "ext \<Rightarrow> Market \<Rightarrow> int \<Rightarrow> world \<Rightarrow> world" where
  "setMarket X s v w = w\<lparr>markets := replace_rows (lock_match m_ID m_Version s) (market_write X s v) (markets w)\<rparr>"

definition setSupply :: "Supply \<Rightarrow> int \<Rightarrow> world \<Rightarrow> world" where
  "setSupply s v w = w\<lparr>supplies := replace_rows (lock_match s_ID s_Version s) (supply_write s v) (supplies w)\<rparr>"

definition setBorrow :: "Borrow \<Rightarrow> int \<Rightarrow> world \<Rightarrow> world" where
  "setBorrow s v w = w\<lparr>borrows := replace_rows (lock_match b_ID b_Version s) (borrow_write s v) (borrows w)\<rparr>"

definition addTransaction :: "Transaction \<Rightarrow> world \<Rightarrow> world" where
  "addTransaction t w = w\<lparr>transactions := snd (first_or_create tx_ID (\<lambda>i r. r\<lparr>tx_ID := i\<rparr>)
     (\<lambda>x. tx_TraceID x = tx_TraceID t) t (transactions w))\<rparr>"

definition addTransfer :: "Transfer \<Rightarrow> world \<Rightarrow> world" where
  "addTransfer t w = w\<lparr>transfers := create_transfer t (transfers w)\<rparr>"

text \<open>The transfer \<open>transferOut\<close> creates.\<close>

definition out_transfer :: "ext \<Rightarrow> string \<Rightarrow> string \<Rightarrow> string \<Rightarrow> string \<Rightarrow> rat \<Rightarrow> ActionType \<Rightarrow> Transfer" where
  "out_transfer X userID followID trace assetID amount source = zero_transfer\<lparr>
     t_TraceID := uuidModify X trace (followID @ ''.'' @ itoa (actionCode source)),
     t_Opponents := [userID], t_Threshold := 1, t_AssetID := assetID, t_Amount := amount,
     t_Memo := TransferAction_Format (out_action source followID)\<rparr>"

text \<open>\<open>getOrCreateSupply\<close> and \<open>getOrCreateBorrow\<close>: the row exists afterwards.\<close>

definition ensureSupply :: "string \<Rightarrow> string \<Rightarrow> world \<Rightarrow> world" where
  "ensureSupply u c w = (if supplyRow u c w = None
     then w\<lparr>supplies := supplies w @ [zero_supply\<lparr>s_ID := next_id (map s_ID (supplies w)),
            s_UserID := u, s_CTokenAssetID := c\<rparr>]\<rparr>
     else w)"

definition ensureBorrow :: "string \<Rightarrow> string \<Rightarrow> world \<Rightarrow> world" where
  "ensureBorrow u a w = (if borrowRow u a w = None
     then w\<lparr>borrows := borrows w @ [zero_borrow\<lparr>b_ID := next_id (map b_ID (borrows w)),
            b_UserID := u, b_AssetID := a, b_InterestIndex := 1\<rparr>]\<rparr>
     else w)"

text \<open>All collateral pledged in a CToken.\<close>

definition totalPledged :: "string \<Rightarrow> world \<Rightarrow> rat" where
  "totalPledged c w = sum_list (map s_Collaterals (filter (\<lambda>s. s_CTokenAssetID s = c) (supplies w)))"

section \<open>Execution on a database that does not fail\<close>

lemma marketRow_in: "marketRow a w = Some r \<Longrightarrow> r \<in> set (markets w) \<and> m_AssetID r = a"
  by (auto simp: marketRow_def dest: find_Some_set)

lemma ctokenRow_in: "ctokenRow c w = Some r \<Longrightarrow> r \<in> set (markets w) \<and> m_CTokenAssetID r = c"
  by (auto simp: ctokenRow_def dest: find_Some_set)

lemma supplyRow_in: "supplyRow u c w = Some r \<Longrightarrow> r \<in> set (supplies w) \<and> s_UserID r = u \<and> s_CTokenAssetID r = c"
  by (auto simp: supplyRow_def dest: find_Some_set)

lemma borrowRow_in: "borrowRow u a w = Some r \<Longrightarrow> r \<in> set (borrows w) \<and> b_UserID r = u \<and> b_AssetID r = a"
  by (auto simp: borrowRow_def dest: find_Some_set)

lemma lock_ex: "\<lbrakk>r \<in> set rows; rid s = rid r; rver s = rver r\<rbrakk> \<Longrightarrow> list_ex (lock_match rid rver s) rows"
  by (auto simp: list_ex_iff lock_match_def)

lemma market_Update_run [store_simps]:
  "faults w = [] \<Longrightarrow> m_Version s < v \<Longrightarrow> list_ex (lock_match m_ID m_Version s) (markets w) \<Longrightarrow>
   market_Update X s v w = (Ok (), setMarket X s v w)"
  by (simp add: market_Update_def store_Update_def dbio_run lock_update_def setMarket_def)

lemma market_Update_locked:
  "faults w = [] \<Longrightarrow> m_Version s < v \<Longrightarrow> \<not> list_ex (lock_match m_ID m_Version s) (markets w) \<Longrightarrow>
   market_Update X s v w = (Err ErrOptimisticLock, w)"
  by (simp add: market_Update_def store_Update_def dbio_run lock_update_def)

lemma supply_Update_run [store_simps]:
  "faults w = [] \<Longrightarrow> s_Version s < v \<Longrightarrow> list_ex (lock_match s_ID s_Version s) (supplies w) \<Longrightarrow>
   supply_Update s v w = (Ok (), setSupply s v w)"
  by (simp add: supply_Update_def store_Update_def dbio_run lock_update_def setSupply_def)

lemma borrow_Update_run [store_simps]:
  "faults w = [] \<Longrightarrow> b_Version s < v \<Longrightarrow> list_ex (lock_match b_ID b_Version s) (borrows w) \<Longrightarrow>
   borrow_Update s v w = (Ok (), setBorrow s v w)"
  by (simp add: borrow_Update_def store_Update_def dbio_run lock_update_def setBorrow_def)

lemma sort_single [simp]: "sort_transfers [t] = [t]"
  by (simp add: sort_transfers_def)

lemma CreateTransfers_run [store_simps]:
  "faults w = [] \<Longrightarrow> wallet_CreateTransfers [t] w = (Ok (), addTransfer t w)"
  by (simp add: wallet_CreateTransfers_def dbio_run addTransfer_def)

lemma transferOut_run:
  "faults w = [] \<Longrightarrow> transferOut X u f tr a amt (out_action src f') w =
     (Ok (), addTransfer (zero_transfer\<lparr>
     t_TraceID := uuidModify X tr (f @ ''.'' @ itoa (actionCode src)),
     t_Opponents := [u], t_Threshold := 1, t_AssetID := a, t_Amount := amt,
     t_Memo := TransferAction_Format (out_action src f')\<rparr>) w)"
  by (simp add: transferOut_def CreateTransfers_run out_action_def)

lemma transferOut_out [store_simps]:
  "faults w = [] \<Longrightarrow> transferOut X u f tr a amt (out_action src f) w =
     (Ok (), addTransfer (out_transfer X u f tr a amt src) w)"
  by (simp add: transferOut_run out_transfer_def)

lemma transaction_Create_run [store_simps]:
  "faults w = [] \<Longrightarrow> List.find (\<lambda>x. tx_TraceID x = tx_TraceID t) (transactions w) = None \<Longrightarrow>
   transaction_Create t w = (Ok (t\<lparr>tx_ID := next_id (map tx_ID (transactions w))\<rparr>), addTransaction t w)"
  by (simp add: transaction_Create_def dbio_run addTransaction_def first_or_create_def Let_def)

lemma mustGetMarket_run [store_simps]:
  assumes "faults w = []"
  shows "mustGetMarket a w = (let m = (if a = '''' then zero_market else marketByAsset a w) in
    if 0 < m_ID m then (Ok m, w) else (Err (CompoundError ''payee/market-not-found'' 0), w))"
  using assms by (simp add: mustGetMarket_def run_simps store_simps Require_def Let_def)

lemma mustGetMarketWithCToken_run [store_simps]:
  assumes "faults w = []"
  shows "mustGetMarketWithCToken a w = (let m = (if a = '''' then zero_market else marketByCToken a w) in
    if 0 < m_ID m then (Ok m, w) else (Err (CompoundError ''payee/market-not-found'' 0), w))"
  using assms by (simp add: mustGetMarketWithCToken_def run_simps store_simps Require_def Let_def)

lemma accrue_run [run_simps]: "accrue X m output w = (AccrueInterest X m (o_CreatedAt output), w)"
  by (simp add: accrue_def liftR_def)

lemma decDivM_run [run_simps]:
  "decDivM X a b w = (if b = 0 then (Panic ''decimal division by 0'', w) else (Ok (decDiv X a b), w))"
  by (simp add: decDivM_def run_simps)

lemma supplyOf_row: "supplyRow u c w = Some r \<Longrightarrow> supplyOf u c w = r"
  by (simp add: supplyRow_def supplyOf_def first_or_def)

lemma borrowOf_row: "borrowRow u a w = Some r \<Longrightarrow> borrowOf u a w = r"
  by (simp add: borrowRow_def borrowOf_def first_or_def)

lemma mustGetSupply_run [store_simps]:
  assumes "faults w = []" and "supplyRow u c w = Some r" and "0 < s_ID r"
  shows "mustGetSupply u c w = (Ok r, w)"
  using assms by (simp add: mustGetSupply_def run_simps store_simps supplyOf_row)

lemma mustGetBorrow_run [store_simps]:
  assumes "faults w = []" and "borrowRow u a w = Some r" and "0 < b_ID r"
  shows "mustGetBorrow u a w = (Ok r, w)"
  using assms by (simp add: mustGetBorrow_def run_simps store_simps borrowOf_row)

lemma ensureSupply_row:
  assumes "supplies_ok w"
  obtains s where "supplyRow u c (ensureSupply u c w) = Some s" and "0 < s_ID s"
    and "s_UserID s = u" "s_CTokenAssetID s = c"
    and "supplyRow u c w = Some s \<or> supplyRow u c w = None \<and> s_Collaterals s = 0 \<and> s_Version s = 0"
proof (cases "supplyRow u c w")
  case None
  have "supplyRow u c (ensureSupply u c w) = Some (zero_supply\<lparr>s_ID := next_id (map s_ID (supplies w)),
      s_UserID := u, s_CTokenAssetID := c\<rparr>)"
    using None by (simp add: ensureSupply_def supplyRow_def find_append_None)
  with None show thesis
    by (auto intro!: that simp: zero_supply_def)
next
  case (Some s)
  then show thesis
    using assms supplyRow_in [OF Some]
    by (intro that [of s]) (auto simp: ensureSupply_def supplies_ok_def list_all_iff)
qed

lemma ensureBorrow_row:
  assumes "borrows_ok w"
  obtains b where "borrowRow u a (ensureBorrow u a w) = Some b" and "0 < b_ID b"
    and "b_UserID b = u" "b_AssetID b = a"
    and "borrowRow u a w = Some b \<or> borrowRow u a w = None \<and> b_Principal b = 0 \<and> b_Version b = 0 \<and> b_InterestIndex b = 1"
proof (cases "borrowRow u a w")
  case None
  have "borrowRow u a (ensureBorrow u a w) = Some (zero_borrow\<lparr>b_ID := next_id (map b_ID (borrows w)),
      b_UserID := u, b_AssetID := a, b_InterestIndex := 1\<rparr>)"
    using None by (simp add: ensureBorrow_def borrowRow_def find_append_None)
  with None show thesis
    by (auto intro!: that simp: zero_borrow_def)
next
  case (Some b)
  then show thesis
    using assms borrowRow_in [OF Some]
    by (intro that [of b]) (auto simp: ensureBorrow_def borrows_ok_def list_all_iff)
qed

lemma getOrCreateSupply_run:
  assumes "faults w = []" and "supplies_ok w" and "supplyRow u c (ensureSupply u c w) = Some s"
  shows "getOrCreateSupply u c w = (Ok s, ensureSupply u c w)"
proof (cases "supplyRow u c w")
  case None
  then have "list_ex (\<lambda>r. s_UserID r = u \<and> s_CTokenAssetID r = c) (supplies w) = False"
    by (auto simp: supplyRow_def find_None_set list_ex_iff)
  with None assms show ?thesis
    by (auto simp: getOrCreateSupply_def run_simps store_simps supplyOf_def first_or_def ensureSupply_def
        supplyRow_def supply_Create_def Let_def zero_supply_def find_append_None)
next
  case (Some r)
  then have "0 < s_ID r"
    using assms(2) supplyRow_in [OF Some] by (auto simp: supplies_ok_def list_all_iff)
  with Some assms show ?thesis
    by (simp add: getOrCreateSupply_def run_simps store_simps supplyOf_row ensureSupply_def)
qed

lemma getOrCreateBorrow_run:
  assumes "faults w = []" and "borrows_ok w" and "borrowRow u a (ensureBorrow u a w) = Some b"
  shows "getOrCreateBorrow u a w = (Ok b, ensureBorrow u a w)"
proof (cases "borrowRow u a w")
  case None
  then have "list_ex (\<lambda>r. b_UserID r = u \<and> b_AssetID r = a) (borrows w) = False"
    by (auto simp: borrowRow_def find_None_set list_ex_iff)
  with None assms show ?thesis
    by (auto simp: getOrCreateBorrow_def run_simps store_simps borrowOf_def first_or_def ensureBorrow_def
        borrowRow_def borrow_Create_def Let_def zero_borrow_def find_append_None)
next
  case (Some r)
  then have "0 < b_ID r"
    using assms(2) borrowRow_in [OF Some] by (auto simp: borrows_ok_def list_all_iff)
  with Some assms show ?thesis
    by (simp add: getOrCreateBorrow_def run_simps store_simps borrowOf_row ensureBorrow_def)
qed

lemma SumOfSupplies_run [store_simps]:
  assumes "faults w = []" and "supplyRow u c w = Some r"
  shows "supply_SumOfSupplies c w = (Ok (totalPledged c w), w)"
proof -
  have "filter (\<lambda>s. s_CTokenAssetID s = c) (supplies w) \<noteq> []"
    using supplyRow_in [OF assms(2)] by (auto simp: filter_empty_conv)
  with assms(1) show ?thesis
    by (simp add: supply_SumOfSupplies_def dbio_run Let_def totalPledged_def)
qed

lemma ensure_frames [simp]:
  "markets (ensureSupply u c w) = markets w" "borrows (ensureSupply u c w) = borrows w"
  "transactions (ensureSupply u c w) = transactions w" "transfers (ensureSupply u c w) = transfers w"
  "faults (ensureSupply u c w) = faults w" "sysversion (ensureSupply u c w) = sysversion w"
  "markets (ensureBorrow u a w) = markets w" "supplies (ensureBorrow u a w) = supplies w"
  "transactions (ensureBorrow u a w) = transactions w" "transfers (ensureBorrow u a w) = transfers w"
  "faults (ensureBorrow u a w) = faults w" "sysversion (ensureBorrow u a w) = sysversion w"
  by (simp_all add: ensureSupply_def ensureBorrow_def)

lemma ensure_rows [simp]:
  "marketRow a (ensureSupply u c w) = marketRow a w" "ctokenRow a (ensureSupply u c w) = ctokenRow a w"
  "marketRow a (ensureBorrow u c w) = marketRow a w" "ctokenRow a (ensureBorrow u c w) = ctokenRow a w"
  "borrowRow v a (ensureSupply u c w) = borrowRow v a w" "supplyRow v a (ensureBorrow u c w) = supplyRow v a w"
  by (simp_all add: marketRow_def ctokenRow_def borrowRow_def supplyRow_def)

lemma ensureSupply_ok: "supplies_ok w \<Longrightarrow> supplies_ok (ensureSupply u c w)"
  using next_id_fresh [of _ "map s_ID (supplies w)"]
  by (fastforce simp: supplies_ok_def ensureSupply_def supplyRow_def find_None_set list_all_iff)

lemma ensureBorrow_ok: "borrows_ok w \<Longrightarrow> borrows_ok (ensureBorrow u a w)"
  using next_id_fresh [of _ "map b_ID (borrows w)"]
  by (fastforce simp: borrows_ok_def ensureBorrow_def borrowRow_def find_None_set list_all_iff)

section \<open>Reading back\<close>

lemma marketByAsset_row: "marketRow a w = Some r \<Longrightarrow> marketByAsset a w = afterFind r"
  by (simp add: marketRow_def marketByAsset_def)

lemma marketByCToken_row: "ctokenRow c w = Some r \<Longrightarrow> marketByCToken c w = afterFind r"
  by (simp add: ctokenRow_def marketByCToken_def)

lemma afterFind_fields [simp]:
  "m_ID (afterFind m) = m_ID m" "m_AssetID (afterFind m) = m_AssetID m"
  "m_CTokenAssetID (afterFind m) = m_CTokenAssetID m" "m_Version (afterFind m) = m_Version m"
  "m_Status (afterFind m) = m_Status m" "m_TotalCash (afterFind m) = m_TotalCash m"
  "m_TotalBorrows (afterFind m) = m_TotalBorrows m" "m_Reserves (afterFind m) = m_Reserves m"
  "m_CTokens (afterFind m) = m_CTokens m" "m_Price (afterFind m) = m_Price m"
  "m_BlockNumber (afterFind m) = m_BlockNumber m" "m_PriceThreshold (afterFind m) = m_PriceThreshold m"
  "m_PriceUpdatedAt (afterFind m) = m_PriceUpdatedAt m" "m_CollateralFactor (afterFind m) = m_CollateralFactor m"
  by (simp_all add: afterFind_def Let_def)

lemma afterFind_positive [simp]: "0 < m_BorrowIndex (afterFind m)" "0 < m_ExchangeRate (afterFind m)"
  by (simp_all add: afterFind_def Let_def)

text \<open>gorm writes an integer that did not change, or is not zero, as it is.\<close>

lemma market_write_exact:
  assumes "gorm_documented X" and "m_ID s = m_ID r"
    and "m_PriceThreshold s = 0 \<longrightarrow> m_PriceThreshold r = 0" and "m_Status s = 0 \<longrightarrow> m_Status r = 0"
    and "m_BlockNumber s = 0 \<longrightarrow> m_BlockNumber r = 0"
  shows "market_write X s v r = s\<lparr>m_Version := v\<rparr>"
  using assms by (auto simp: market_write_def gorm_documented_def)

text \<open>A market read by its asset, changed and written back, is what the next read finds.\<close>

lemma marketRow_setMarket:
  assumes "markets_ok w" and "marketRow a w = Some r"
    and "m_ID s = m_ID r" "m_Version s = m_Version r" "m_AssetID s = a"
  shows "marketRow a' (setMarket X s v w) = (if a' = a then Some (market_write X s v r) else marketRow a' w)"
proof -
  have "m_ID r \<noteq> 0"
    using assms(1) marketRow_in [OF assms(2)] by (auto simp: markets_ok_def list_all_iff)
  moreover have "distinct (map m_ID (markets w))"
    using assms(1) by (simp add: markets_ok_def)
  ultimately obtain ms where "lock_update m_ID m_Version (market_write X) s v (markets w) = Ok ms"
    and "\<forall>k'. List.find (\<lambda>r. m_AssetID r = k') ms =
      (if k' = a then Some (market_write X s v r) else List.find (\<lambda>r. m_AssetID r = k') (markets w))"
    using market_asset.find_after_update [of "markets w" a r s X v] assms
    by (auto simp: marketRow_def)
  then show ?thesis
    by (auto simp: marketRow_def setMarket_def lock_update_def split: if_splits)
qed

lemma ctokenRow_setMarket:
  assumes "markets_ok w" and "ctokenRow c w = Some r"
    and "m_ID s = m_ID r" "m_Version s = m_Version r" "m_CTokenAssetID s = c"
  shows "ctokenRow c' (setMarket X s v w) = (if c' = c then Some (market_write X s v r) else ctokenRow c' w)"
proof -
  have "m_ID r \<noteq> 0"
    using assms(1) ctokenRow_in [OF assms(2)] by (auto simp: markets_ok_def list_all_iff)
  moreover have "distinct (map m_ID (markets w))"
    using assms(1) by (simp add: markets_ok_def)
  ultimately obtain ms where "lock_update m_ID m_Version (market_write X) s v (markets w) = Ok ms"
    and "\<forall>k'. List.find (\<lambda>r. m_CTokenAssetID r = k') ms =
      (if k' = c then Some (market_write X s v r) else List.find (\<lambda>r. m_CTokenAssetID r = k') (markets w))"
    using market_ctoken.find_after_update [of "markets w" c r s X v] assms
    by (auto simp: ctokenRow_def)
  then show ?thesis
    by (auto simp: ctokenRow_def setMarket_def lock_update_def split: if_splits)
qed

lemma supplyRow_setSupply:
  assumes "supplies_ok w" and "supplyRow u c w = Some r"
    and "s_ID s = s_ID r" "s_Version s = s_Version r" "s_UserID s = u" "s_CTokenAssetID s = c"
  shows "supplyRow u' c' (setSupply s v w) =
    (if u' = u \<and> c' = c then Some (s\<lparr>s_Version := v\<rparr>) else supplyRow u' c' w)"
proof -
  have "s_ID r \<noteq> 0"
    using assms(1) supplyRow_in [OF assms(2)] by (auto simp: supplies_ok_def list_all_iff)
  moreover have "distinct (map s_ID (supplies w))"
    using assms(1) by (simp add: supplies_ok_def)
  ultimately obtain ss where "lock_update s_ID s_Version supply_write s v (supplies w) = Ok ss"
    and "\<forall>k'. List.find (\<lambda>r. (s_UserID r, s_CTokenAssetID r) = k') ss =
      (if k' = (u, c) then Some (supply_write s v r)
       else List.find (\<lambda>r. (s_UserID r, s_CTokenAssetID r) = k') (supplies w))"
    using supply_table.find_after_update [of "supplies w" "(u, c)" r s v] assms
    by (auto simp: supplyRow_def)
  then show ?thesis
    using assms by (auto simp: supplyRow_def setSupply_def lock_update_def supply_write_def split: if_splits)
qed

lemma borrowRow_setBorrow:
  assumes "borrows_ok w" and "borrowRow u a w = Some r"
    and "b_ID s = b_ID r" "b_Version s = b_Version r" "b_UserID s = u" "b_AssetID s = a"
  shows "borrowRow u' a' (setBorrow s v w) =
    (if u' = u \<and> a' = a then Some (s\<lparr>b_Version := v\<rparr>) else borrowRow u' a' w)"
proof -
  have "b_ID r \<noteq> 0"
    using assms(1) borrowRow_in [OF assms(2)] by (auto simp: borrows_ok_def list_all_iff)
  moreover have "distinct (map b_ID (borrows w))"
    using assms(1) by (simp add: borrows_ok_def)
  ultimately obtain bs where "lock_update b_ID b_Version borrow_write s v (borrows w) = Ok bs"
    and "\<forall>k'. List.find (\<lambda>r. (b_UserID r, b_AssetID r) = k') bs =
      (if k' = (u, a) then Some (borrow_write s v r)
       else List.find (\<lambda>r. (b_UserID r, b_AssetID r) = k') (borrows w))"
    using borrow_table.find_after_update [of "borrows w" "(u, a)" r s v] assms
    by (auto simp: borrowRow_def)
  then show ?thesis
    using assms by (auto simp: borrowRow_def setBorrow_def lock_update_def borrow_write_def split: if_splits)
qed

text \<open>Each write touches its own table only.\<close>

lemma write_frames [simp]:
  "supplies (setMarket X m v w) = supplies w" "borrows (setMarket X m v w) = borrows w"
  "transactions (setMarket X m v w) = transactions w" "transfers (setMarket X m v w) = transfers w"
  "faults (setMarket X m v w) = faults w" "sysversion (setMarket X m v w) = sysversion w"
  "markets (setSupply s v w) = markets w" "borrows (setSupply s v w) = borrows w"
  "transactions (setSupply s v w) = transactions w" "transfers (setSupply s v w) = transfers w"
  "faults (setSupply s v w) = faults w" "sysversion (setSupply s v w) = sysversion w"
  "markets (setBorrow b v w) = markets w" "supplies (setBorrow b v w) = supplies w"
  "transactions (setBorrow b v w) = transactions w" "transfers (setBorrow b v w) = transfers w"
  "faults (setBorrow b v w) = faults w" "sysversion (setBorrow b v w) = sysversion w"
  "markets (addTransaction t w) = markets w" "supplies (addTransaction t w) = supplies w"
  "borrows (addTransaction t w) = borrows w" "transfers (addTransaction t w) = transfers w"
  "faults (addTransaction t w) = faults w" "sysversion (addTransaction t w) = sysversion w"
  "markets (addTransfer f w) = markets w" "supplies (addTransfer f w) = supplies w"
  "borrows (addTransfer f w) = borrows w" "transactions (addTransfer f w) = transactions w"
  "faults (addTransfer f w) = faults w" "sysversion (addTransfer f w) = sysversion w"
  by (simp_all add: setMarket_def setSupply_def setBorrow_def addTransaction_def addTransfer_def)

lemma users_frames [simp]:
  "users (setMarket X m v w) = users w" "users (setSupply s v w) = users w" "users (setBorrow b v w) = users w"
  "users (addTransaction t w) = users w" "users (addTransfer f w) = users w"
  "users (ensureSupply u c w) = users w" "users (ensureBorrow u a w) = users w"
  by (simp_all add: setMarket_def setSupply_def setBorrow_def addTransaction_def addTransfer_def ensureSupply_def ensureBorrow_def)

lemma transfers_addTransfer [simp]: "transfers (addTransfer t w) = create_transfer t (transfers w)"
  by (simp add: addTransfer_def)

lemma row_frames [simp]:
  "marketRow a (setSupply s v w) = marketRow a w" "marketRow a (setBorrow b v w) = marketRow a w"
  "marketRow a (addTransaction t w) = marketRow a w" "marketRow a (addTransfer f w) = marketRow a w"
  "ctokenRow a (setSupply s v w) = ctokenRow a w" "ctokenRow a (setBorrow b v w) = ctokenRow a w"
  "ctokenRow a (addTransaction t w) = ctokenRow a w" "ctokenRow a (addTransfer f w) = ctokenRow a w"
  "supplyRow u c (setMarket X m v w) = supplyRow u c w" "supplyRow u c (setBorrow b v w) = supplyRow u c w"
  "supplyRow u c (addTransaction t w) = supplyRow u c w" "supplyRow u c (addTransfer f w) = supplyRow u c w"
  "borrowRow u c (setMarket X m v w) = borrowRow u c w" "borrowRow u c (setSupply s v w) = borrowRow u c w"
  "borrowRow u c (addTransaction t w) = borrowRow u c w" "borrowRow u c (addTransfer f w) = borrowRow u c w"
  by (simp_all add: marketRow_def ctokenRow_def supplyRow_def borrowRow_def)

lemma ok_frames [simp]:
  "markets_ok (setSupply s v w) = markets_ok w" "markets_ok (setBorrow b v w) = markets_ok w"
  "markets_ok (addTransaction t w) = markets_ok w" "markets_ok (addTransfer f w) = markets_ok w"
  "supplies_ok (setMarket X m v w) = supplies_ok w" "supplies_ok (setBorrow b v w) = supplies_ok w"
  "supplies_ok (addTransaction t w) = supplies_ok w" "supplies_ok (addTransfer f w) = supplies_ok w"
  "borrows_ok (setMarket X m v w) = borrows_ok w" "borrows_ok (setSupply s v w) = borrows_ok w"
  "borrows_ok (addTransaction t w) = borrows_ok w" "borrows_ok (addTransfer f w) = borrows_ok w"
  by (simp_all add: markets_ok_def supplies_ok_def borrows_ok_def)

text \<open>Adding a transfer or a transaction a second time changes nothing.\<close>

lemma create_transfer_idem: "create_transfer t (create_transfer t rows) = create_transfer t rows"
  by (auto simp: create_transfer_def first_or_create_def Let_def find_append_None split: option.splits)

lemma addTransfer_idem [simp]: "addTransfer t (addTransfer t w) = addTransfer t w"
  by (simp add: addTransfer_def create_transfer_idem)

section \<open>Refusals\<close>

text \<open>
  What a handler does with a refundable error: before system version 3 it sends the refund itself, from
  then on it returns the error and leaves the refund to \<open>handleOutput\<close>.
\<close>

definition refused ::
  "ext \<Rightarrow> Output \<Rightarrow> string \<Rightarrow> string \<Rightarrow> ActionType \<Rightarrow> ErrorCode \<Rightarrow> string \<Rightarrow> world \<Rightarrow> unit res \<times> world" where
  "refused X output u f origin code msg w =
     (if sysversion w < 3 then (Ok (), addTransfer (NewRefundTransfer X output u f origin code) w)
      else (Err (CompoundError msg FlagRefund), w))"

lemma returnOrRefundError_run:
  "faults w = [] \<Longrightarrow> returnOrRefundError X (CompoundError msg FlagRefund) output u f origin code w =
     refused X output u f origin code msg w"
  by (simp add: returnOrRefundError_def handleRefundEventV0_def is_CompoundError_def run_simps store_simps refused_def)

end
