(* ===== verification/Supply_Spec.thy ===== *)
theory Supply_Spec
  imports Payee_Supply Tables
begin

text \<open>
  What the supply-side handlers do on a database that does not fail: one lemma per handler gives the
  final state of its successful branch as a composition of writes, the refusals are separate lemmas.
  \<open>unseen\<close> says that no transaction of the output was recorded yet.
\<close>

definition unseen :: "Output \<Rightarrow> world \<Rightarrow> bool" where
  "unseen output w \<longleftrightarrow> List.find (\<lambda>x. tx_TraceID x = o_TraceID output) (transactions w) = None"

lemma unseen_tx: "unseen output w \<Longrightarrow> transactionOf (o_TraceID output) w = zero_transaction"
  by (simp add: unseen_def transactionOf_def first_or_def)

lemma unseen_frames [simp]: "unseen output (ensureSupply u c w) = unseen output w"
  "unseen output (ensureBorrow u c w) = unseen output w"
  by (simp_all add: unseen_def)

text \<open>A market in use: its row, open, older than the output, and the market it accrues to.\<close>

definition usable :: "ext \<Rightarrow> Output \<Rightarrow> Market \<Rightarrow> Market \<Rightarrow> bool" where
  "usable X output r m \<longleftrightarrow> 0 < m_ID r \<and> m_Version r < o_ID output \<and> m_Status r \<noteq> MarketStatusClose
     \<and> AccrueInterest X (afterFind r) (o_CreatedAt output) = Ok m"

lemma usable_same:
  assumes "usable X output r m"
  shows "m_ID m = m_ID r" "m_AssetID m = m_AssetID r" "m_CTokenAssetID m = m_CTokenAssetID r"
    "m_Version m = m_Version r" "m_Status m = m_Status r" "m_TotalCash m = m_TotalCash r"
    "m_CTokens m = m_CTokens r" "m_Price m = m_Price r" "m_CollateralFactor m = m_CollateralFactor r"
    "m_PriceThreshold m = m_PriceThreshold r"
  using accrue_same [of X "afterFind r"] assms by (auto simp: usable_def same_market_def)

text \<open>Ids and versions that agree let an update through.\<close>

lemma market_lock:
  assumes "r \<in> set (markets w)" and "m_ID s = m_ID r" and "m_Version s = m_Version r"
  shows "list_ex (lock_match m_ID m_Version s) (markets w)"
  using assms by (rule lock_ex)

lemma supply_lock:
  assumes "supplyRow u c w = Some r" and "s_ID s = s_ID r" and "s_Version s = s_Version r"
  shows "list_ex (lock_match s_ID s_Version s) (supplies w)"
  using supplyRow_in [OF assms(1)] assms(2,3) by (intro lock_ex [of r]) simp_all

lemma borrow_lock:
  assumes "borrowRow u c w = Some r" and "b_ID s = b_ID r" and "b_Version s = b_Version r"
  shows "list_ex (lock_match b_ID b_Version s) (borrows w)"
  using borrowRow_in [OF assms(1)] assms(2,3) by (intro lock_ex [of r]) simp_all

lemmas handler_simps = run_simps store_simps Let_def IsMarketClosed_def zero_transaction_def
  BuildTransactionFromOutput_def NewTransactionExtra_def

section \<open>Supply\<close>

definition supply_tx :: "Output \<Rightarrow> string \<Rightarrow> string \<Rightarrow> Market \<Rightarrow> rat \<Rightarrow> Transaction" where
  "supply_tx output u f m ctokens = BuildTransactionFromOutput u f ActionTypeSupply output
     (Put ''amount'' (JDec ctokens) (Put ''ctoken_asset_id'' (JStr (m_CTokenAssetID m)) []))"

definition supplied :: "Market \<Rightarrow> rat \<Rightarrow> rat \<Rightarrow> Market" where
  "supplied m ctokens amount = m\<lparr>m_CTokens := dec_truncate 16 (m_CTokens m + ctokens),
     m_TotalCash := dec_truncate 16 (m_TotalCash m + amount)\<rparr>"

lemma supply_run:
  assumes w: "faults w = []" and row: "marketRow (o_AssetID out) w = Some r" "o_AssetID out \<noteq> ''''"
    and use: "usable X out r m" and rate: "CurExchangeRate m \<noteq> 0"
    and ct: "ctokens = dec_truncate 8 (decDiv X (o_Amount out) (CurExchangeRate m))" "0 < ctokens"
    and tx: "unseen out w"
  shows "handleSupplyEvent X out u f body w =
    (Ok (), setMarket X (supplied m ctokens (o_Amount out)) (o_ID out)
      (addTransfer (out_transfer X u f (o_TraceID out) (m_CTokenAssetID r) ctokens ActionTypeMint)
      (addTransaction (supply_tx out u f m ctokens) w)))"
proof -
  note same = usable_same [OF use]
  have ex: "list_ex (lock_match m_ID m_Version (supplied m a b)) (markets w)" for a b
    using marketRow_in [OF row(1)] same by (intro market_lock [of r]) (simp_all add: supplied_def)
  have nofind: "List.find (\<lambda>x. tx_TraceID x = o_TraceID out) (transactions w) = None"
    using tx by (simp add: unseen_def)
  show ?thesis
    using assms ex same nofind
    by (simp add: handleSupplyEvent_def handler_simps marketByAsset_row [OF row(1)] usable_def
        unseen_tx [OF tx] supply_tx_def supplied_def)
qed

text \<open>An output the market has already seen, and a closed market.\<close>

lemma supply_outdated:
  assumes "faults w = []" and "marketRow (o_AssetID out) w = Some r" "o_AssetID out \<noteq> ''''" "0 < m_ID r"
    and "o_ID out \<le> m_Version r"
  shows "handleSupplyEvent X out u f body w = (Ok (), w)"
  using assms by (simp add: handleSupplyEvent_def handler_simps marketByAsset_row [OF assms(2)])

lemma supply_closed:
  assumes "faults w = []" and "marketRow (o_AssetID out) w = Some r" "o_AssetID out \<noteq> ''''" "0 < m_ID r"
    and "m_Version r < o_ID out" and "m_Status r = MarketStatusClose"
  shows "handleSupplyEvent X out u f body w =
    (if sysversion w < 3
     then (Ok (), addTransfer (NewRefundTransfer X out u f ActionTypeSupply ErrMarketClosed) w)
     else (Err (CompoundError ''payee/market-closed'' FlagRefund), w))"
  using assms
  by (simp add: handleSupplyEvent_def handler_simps marketByAsset_row [OF assms(2)] returnOrRefundError_def
      handleRefundEventV0_def is_CompoundError_def)

section \<open>Redeem\<close>

definition redeem_tx :: "Output \<Rightarrow> string \<Rightarrow> string \<Rightarrow> Market \<Rightarrow> rat \<Rightarrow> Transaction" where
  "redeem_tx output u f m amount = BuildTransactionFromOutput u f ActionTypeRedeem output
     (Put ''amount'' (JDec amount) (Put ''asset_id'' (JStr (m_AssetID m)) []))"

definition redeemed :: "Market \<Rightarrow> rat \<Rightarrow> rat \<Rightarrow> Market" where
  "redeemed m amount ctokens = m\<lparr>m_TotalCash := dec_truncate 16 (m_TotalCash m - amount),
     m_CTokens := dec_truncate 16 (m_CTokens m - ctokens)\<rparr>"

lemma redeem_run:
  assumes w: "faults w = []" and row: "ctokenRow (o_AssetID out) w = Some r" "o_AssetID out \<noteq> ''''"
    and use: "usable X out r m" and tx: "unseen out w"
    and amount: "amount = dec_truncate 8 (CurExchangeRate m * o_Amount out)"
  shows "handleRedeemEvent X out u f body w =
    (if o_Amount out \<le> m_CTokens m \<and> RedeemAllowed m (o_Amount out)
     then (Ok (), setMarket X (redeemed m amount (o_Amount out)) (o_ID out)
      (addTransfer (out_transfer X u f (o_TraceID out) (m_AssetID r) amount ActionTypeRedeemTransfer)
      (addTransaction (redeem_tx out u f m amount) w)))
     else if sysversion w < 3
     then (Ok (), addTransfer (NewRefundTransfer X out u f ActionTypeRedeem ErrRedeemNotAllowed) w)
     else (Err (CompoundError ''payee/pledge-denied'' FlagRefund), w))"
proof -
  note same = usable_same [OF use]
  have ex: "list_ex (lock_match m_ID m_Version (redeemed m a b)) (markets w)" for a b
    using ctokenRow_in [OF row(1)] same by (intro market_lock [of r]) (simp_all add: redeemed_def)
  have nofind: "List.find (\<lambda>x. tx_TraceID x = o_TraceID out) (transactions w) = None"
    using tx by (simp add: unseen_def)
  show ?thesis
    using assms ex same nofind
    by (cases "o_Amount out \<le> m_CTokens m \<and> RedeemAllowed m (o_Amount out)")
      (auto simp: handleRedeemEvent_def handler_simps marketByCToken_row [OF row(1)] usable_def
        unseen_tx [OF tx] redeem_tx_def redeemed_def returnOrRefundError_def handleRefundEventV0_def
        is_CompoundError_def Require_def)
qed

section \<open>Pledge\<close>

definition pledge_tx :: "Output \<Rightarrow> string \<Rightarrow> string \<Rightarrow> Supply \<Rightarrow> Transaction" where
  "pledge_tx output u f s = BuildTransactionFromOutput u f ActionTypePledge output
     (Put ''supply'' (JSupply \<lparr>es_UserID = u, es_CTokenAssetID = o_AssetID output,
        es_Collaterals = s_Collaterals s + o_Amount output\<rparr>)
     (Put ''new_collaterals'' (JDec (s_Collaterals s + o_Amount output))
     (Put ''amount'' (JDec (o_Amount output)) (Put ''ctoken_asset_id'' (JStr (o_AssetID output)) []))))"

lemma pledge_run:
  assumes w: "faults w = []" "supplies_ok w" and row: "ctokenRow (o_AssetID out) w = Some r" "o_AssetID out \<noteq> ''''"
    and use: "usable X out r m" and tx: "unseen out w"
    and s: "supplyRow u (o_AssetID out) (ensureSupply u (o_AssetID out) w) = Some s" "s_Version s < o_ID out"
    and ok: "o_Amount out \<le> m_CTokens m" "0 < m_CollateralFactor m"
      "\<not> 0 < m_MaxPledge m \<or> totalPledged (o_AssetID out) (ensureSupply u (o_AssetID out) w) + o_Amount out \<le> m_MaxPledge m"
  shows "handlePledgeEvent X out u f body w =
    (Ok (), setMarket X m (o_ID out)
      (setSupply (s\<lparr>s_Collaterals := s_Collaterals s + o_Amount out\<rparr>) (o_ID out)
      (addTransaction (pledge_tx out u f s) (ensureSupply u (o_AssetID out) w))))"
proof -
  note same = usable_same [OF use]
  have ctok: "m_CTokenAssetID m = o_AssetID out"
    using same ctokenRow_in [OF row(1)] by simp
  have ex: "list_ex (lock_match m_ID m_Version m) (markets w)"
    using ctokenRow_in [OF row(1)] same by (intro market_lock [of r]) simp_all
  have sx: "list_ex (lock_match s_ID s_Version (s\<lparr>s_Collaterals := a\<rparr>)) (supplies (ensureSupply u (o_AssetID out) w))" for a
    using s(1) by (intro supply_lock) simp_all
  have nofind: "List.find (\<lambda>x. tx_TraceID x = o_TraceID out) (transactions w) = None"
    using tx by (simp add: unseen_def)
  have unseen': "transactionOf (o_TraceID out) (ensureSupply u (o_AssetID out) w) = zero_transaction"
    using tx by (intro unseen_tx) simp
  have sum: "supply_SumOfSupplies (o_AssetID out) (ensureSupply u (o_AssetID out) w) =
      (Ok (totalPledged (o_AssetID out) (ensureSupply u (o_AssetID out) w)), ensureSupply u (o_AssetID out) w)"
    using s(1) w by (intro SumOfSupplies_run) simp_all
  show ?thesis
    using assms ex sx same(1,2,4-10) nofind ctok sum unseen'
    by (simp add: handlePledgeEvent_def handler_simps marketByCToken_row [OF row(1)] usable_def
        getOrCreateSupply_run [OF w s(1)] pledge_tx_def Require_def)
qed

text \<open>Refusals of a pledge; the cap on the total pledge is checked last and always returns its error.\<close>

lemma pledge_refused:
  assumes w: "faults w = []" "supplies_ok w" and row: "ctokenRow (o_AssetID out) w = Some r" "o_AssetID out \<noteq> ''''"
    and use: "usable X out r m" and tx: "unseen out w"
    and bad: "\<not> (o_Amount out \<le> m_CTokens m \<and> 0 < m_CollateralFactor m) \<or>
      0 < m_MaxPledge m \<and> m_MaxPledge m < totalPledged (o_AssetID out) (ensureSupply u (o_AssetID out) w) + o_Amount out"
  shows "handlePledgeEvent X out u f body w =
    (if o_Amount out \<le> m_CTokens m \<and> 0 < m_CollateralFactor m
     then (Err (CompoundError ''payee/max-pledge-exceeded'' FlagRefund), ensureSupply u (o_AssetID out) w)
     else refused X out u f ActionTypePledge ErrPledgeNotAllowed ''payee/pledge-denied'' (ensureSupply u (o_AssetID out) w))"
proof -
  obtain s where s: "supplyRow u (o_AssetID out) (ensureSupply u (o_AssetID out) w) = Some s"
    using ensureSupply_row [OF w(2)] by metis
  have ctok: "m_CTokenAssetID m = o_AssetID out"
    using usable_same [OF use] ctokenRow_in [OF row(1)] by simp
  have unseen': "transactionOf (o_TraceID out) (ensureSupply u (o_AssetID out) w) = zero_transaction"
    using tx by (intro unseen_tx) simp
  have sum: "supply_SumOfSupplies (o_AssetID out) (ensureSupply u (o_AssetID out) w) =
      (Ok (totalPledged (o_AssetID out) (ensureSupply u (o_AssetID out) w)), ensureSupply u (o_AssetID out) w)"
    using s w by (intro SumOfSupplies_run) simp_all
  show ?thesis
    using assms ctok sum unseen'
    by (auto simp: handlePledgeEvent_def handler_simps marketByCToken_row [OF row(1)] usable_def
        getOrCreateSupply_run [OF w s] returnOrRefundError_run not_le)
qed

section \<open>Unpledge\<close>

definition unpledge_tx :: "Output \<Rightarrow> string \<Rightarrow> string \<Rightarrow> string \<Rightarrow> Supply \<Rightarrow> rat \<Rightarrow> Transaction" where
  "unpledge_tx output u f c s amount = BuildTransactionFromOutput u f ActionTypeUnpledge output
     (Put ''supply'' (JSupply \<lparr>es_UserID = u, es_CTokenAssetID = c,
        es_Collaterals = s_Collaterals s - amount\<rparr>)
     (Put ''new_collaterals'' (JDec (s_Collaterals s - amount))
     (Put ''amount'' (JDec amount) (Put ''ctoken_asset_id'' (JStr c) []))))"

lemma unpledge_run:
  assumes w: "faults w = []" "supplies_ok w"
    and scan: "scan_asset_amount X body = Some (asset, a)" "uuidToString X asset = c" "dec_truncate 8 a = amount"
    and row: "ctokenRow c w = Some r" "c \<noteq> ''''" and use: "usable X out r m" and tx: "unseen out w"
    and s: "supplyRow u c w = Some s" "s_Version s < o_ID out"
    and ok: "amount \<le> s_Collaterals s" "markets_known [m] w u"
      "amount * m_ExchangeRate m * m_CollateralFactor m * m_Price m \<le> liquidity_spec X [m] w u"
  shows "handleUnpledgeEvent X out u f body w =
    (Ok (), setMarket X m (o_ID out)
      (addTransfer (out_transfer X u f (o_TraceID out) c amount ActionTypeUnpledgeTransfer)
      (setSupply (s\<lparr>s_Collaterals := dec_truncate MaxPricision (s_Collaterals s - amount)\<rparr>) (o_ID out)
      (addTransaction (unpledge_tx out u f c s amount) w))))"
proof -
  note same = usable_same [OF use]
  have ctok: "m_CTokenAssetID m = c"
    using same ctokenRow_in [OF row(1)] by simp
  have sid: "0 < s_ID s"
    using w(2) supplyRow_in [OF s(1)] by (auto simp: supplies_ok_def list_all_iff)
  have ex: "list_ex (lock_match m_ID m_Version m) (markets w)"
    using ctokenRow_in [OF row(1)] same by (intro market_lock [of r]) simp_all
  have sx: "list_ex (lock_match s_ID s_Version (s\<lparr>s_Collaterals := x\<rparr>)) (supplies w)" for x
    using s(1) by (intro supply_lock) simp_all
  have nofind: "List.find (\<lambda>x. tx_TraceID x = o_TraceID out) (transactions w) = None"
    using tx by (simp add: unseen_def)
  show ?thesis
    using assms ex sx same(1,2,4-10) nofind ctok
    by (simp add: handleUnpledgeEvent_def handler_simps marketByCToken_row [OF row(1)] usable_def
        mustGetSupply_run [OF w(1) s(1) sid] liquidity_run unseen_tx [OF tx] unpledge_tx_def Require_def)
qed

text \<open>Asking for more than is pledged, or for more than the liquidity allows, changes nothing.\<close>

lemma unpledge_refused:
  assumes w: "faults w = []" "supplies_ok w"
    and scan: "scan_asset_amount X body = Some (asset, a)" "uuidToString X asset = c" "dec_truncate 8 a = amount"
    and row: "ctokenRow c w = Some r" "c \<noteq> ''''" and use: "usable X out r m" and tx: "unseen out w"
    and s: "supplyRow u c w = Some s" and known: "markets_known [m] w u"
    and bad: "s_Collaterals s < amount \<or>
      liquidity_spec X [m] w u < amount * m_ExchangeRate m * m_CollateralFactor m * m_Price m"
  shows "handleUnpledgeEvent X out u f body w =
    (if s_Collaterals s < amount
     then refused X out u f ActionTypeUnpledge ErrInsufficientCollaterals ''payee/insufficient-collaterals'' w
     else refused X out u f ActionTypeUnpledge ErrInsufficientLiquidity ''payee/insufficient-borrow-balance'' w)"
proof -
  have sid: "0 < s_ID s"
    using w(2) supplyRow_in [OF s(1)] by (auto simp: supplies_ok_def list_all_iff)
  show ?thesis
    using assms
    by (cases "s_Collaterals s < amount")
      (simp_all add: handleUnpledgeEvent_def handler_simps marketByCToken_row [OF row(1)] usable_def
        mustGetSupply_run [OF w(1) s(1) sid] liquidity_run unseen_tx [OF tx] returnOrRefundError_run)
qed

section \<open>Quick pledge\<close>

definition quick_pledge_tx :: "Output \<Rightarrow> string \<Rightarrow> string \<Rightarrow> string \<Rightarrow> Supply \<Rightarrow> rat \<Rightarrow> Transaction" where
  "quick_pledge_tx output u f c s ctokens = BuildTransactionFromOutput u f ActionTypeQuickPledge output
     (Put ''supply'' (JSupply \<lparr>es_UserID = u, es_CTokenAssetID = c, es_Collaterals = s_Collaterals s + ctokens\<rparr>)
     (Put ''amount'' (JDec ctokens) (Put ''ctoken_asset_id'' (JStr c) [])))"

lemma quick_pledge_run:
  assumes w: "faults w = []" "supplies_ok w" and row: "marketRow (o_AssetID out) w = Some r" "o_AssetID out \<noteq> ''''"
    and use: "usable X out r m" and tx: "unseen out w" and rate: "CurExchangeRate m \<noteq> 0"
    and ct: "dec_truncate 8 (decDiv X (o_Amount out) (CurExchangeRate m)) = ctokens" "0 < ctokens"
    and c: "m_CTokenAssetID r = c"
    and s: "supplyRow u c (ensureSupply u c w) = Some s" "s_Version s < o_ID out"
    and ok: "0 < m_CollateralFactor r"
      "\<not> 0 < m_MaxPledge m \<or> totalPledged c (ensureSupply u c w) + ctokens \<le> m_MaxPledge m"
  shows "handleQuickPledgeEvent X out u f body w =
    (Ok (), setMarket X (supplied m ctokens (o_Amount out)) (o_ID out)
      (setSupply (s\<lparr>s_Collaterals := dec_truncate MaxPricision (s_Collaterals s + ctokens)\<rparr>) (o_ID out)
      (addTransaction (quick_pledge_tx out u f c s ctokens) (ensureSupply u c w))))"
proof -
  note same = usable_same [OF use]
  have ctok: "m_CTokenAssetID m = c"
    using same c by simp
  have ex: "list_ex (lock_match m_ID m_Version (supplied m a b)) (markets w)" for a b
    using marketRow_in [OF row(1)] same by (intro market_lock [of r]) (simp_all add: supplied_def)
  have sx: "list_ex (lock_match s_ID s_Version (s\<lparr>s_Collaterals := a\<rparr>)) (supplies (ensureSupply u c w))" for a
    using s(1) by (intro supply_lock) simp_all
  have nofind: "List.find (\<lambda>x. tx_TraceID x = o_TraceID out) (transactions w) = None"
    using tx by (simp add: unseen_def)
  have unseen': "transactionOf (o_TraceID out) (ensureSupply u c w) = zero_transaction"
    using tx by (intro unseen_tx) simp
  have sum: "supply_SumOfSupplies c (ensureSupply u c w) =
      (Ok (totalPledged c (ensureSupply u c w)), ensureSupply u c w)"
    using s(1) w by (intro SumOfSupplies_run) simp_all
  show ?thesis
    using assms ex sx same(1,2,4-10) nofind ctok sum unseen'
    by (simp add: handleQuickPledgeEvent_def handler_simps marketByAsset_row [OF row(1)] usable_def
        getOrCreateSupply_run [OF w s(1)] quick_pledge_tx_def supplied_def MaxPricision_def)
qed

section \<open>Quick redeem\<close>

definition quick_redeem_tx :: "Output \<Rightarrow> string \<Rightarrow> string \<Rightarrow> string \<Rightarrow> Market \<Rightarrow> Supply \<Rightarrow> rat \<Rightarrow> rat \<Rightarrow> Transaction" where
  "quick_redeem_tx output u f c m s tokens amount = BuildTransactionFromOutput u f ActionTypeQuickRedeem output
     (Put ''supply'' (JSupply \<lparr>es_UserID = s_UserID s, es_CTokenAssetID = s_CTokenAssetID s,
        es_Collaterals = s_Collaterals s - tokens\<rparr>)
     (Put ''ctokens'' (JDec tokens)
     (Put ''ctoken_asset_id'' (JStr c)
     (Put ''amount'' (JDec amount) (Put ''asset_id'' (JStr (m_AssetID m)) [])))))"

lemma quick_redeem_run:
  assumes w: "faults w = []" "supplies_ok w"
    and scan: "scan_asset_amount X body = Some (asset, a)" "uuidToString X asset = c" "dec_truncate 8 a = tokens"
    and row: "ctokenRow c w = Some r" "c \<noteq> ''''" and use: "usable X out r m" and tx: "unseen out w"
    and s: "supplyRow u c w = Some s" "s_Version s < o_ID out"
    and amount: "dec_truncate 8 (tokens * CurExchangeRate m) = amount"
    and ok: "tokens \<le> m_CTokens m" "RedeemAllowed m tokens" "tokens \<le> s_Collaterals s" "markets_known [m] w u"
      "tokens * CurExchangeRate m * m_CollateralFactor m * m_Price m \<le> liquidity_spec X [m] w u"
  shows "handleQuickRedeemEvent X out u f body w =
    (Ok (), setMarket X (redeemed m amount tokens) (o_ID out)
      (addTransfer (out_transfer X u f (o_TraceID out) (m_AssetID r) amount ActionTypeQuickRedeemTransfer)
      (setSupply (s\<lparr>s_Collaterals := dec_truncate MaxPricision (s_Collaterals s - tokens)\<rparr>) (o_ID out)
      (addTransaction (quick_redeem_tx out u f c m s tokens amount) w))))"
proof -
  note same = usable_same [OF use]
  have sid: "0 < s_ID s"
    using w(2) supplyRow_in [OF s(1)] by (auto simp: supplies_ok_def list_all_iff)
  have ex: "list_ex (lock_match m_ID m_Version (redeemed m x y)) (markets w)" for x y
    using ctokenRow_in [OF row(1)] same by (intro market_lock [of r]) (simp_all add: redeemed_def)
  have sx: "list_ex (lock_match s_ID s_Version (s\<lparr>s_Collaterals := x\<rparr>)) (supplies w)" for x
    using s(1) by (intro supply_lock) simp_all
  have nofind: "List.find (\<lambda>x. tx_TraceID x = o_TraceID out) (transactions w) = None"
    using tx by (simp add: unseen_def)
  show ?thesis
    using assms ex sx same nofind
    by (simp add: handleQuickRedeemEvent_def handler_simps marketByCToken_row [OF row(1)] usable_def
        mustGetSupply_run [OF w(1) s(1) sid] liquidity_run unseen_tx [OF tx] quick_redeem_tx_def
        redeemed_def MaxPricision_def)
qed

end
