(* ===== verification/Borrow_Spec.thy ===== *)
theory Borrow_Spec
  imports Payee_Borrow Supply_Spec
begin

text \<open>
  What the handlers that borrow, repay and liquidate do on a database that does not fail, in the same
  form as for the supplies.
\<close>

section \<open>The balance of a borrow\<close>

definition balance :: "ext \<Rightarrow> Borrow \<Rightarrow> Market \<Rightarrow> rat" where
  "balance X b m = fst (BorrowBalance X b m)"

lemma BorrowBalance_normal:
  assumes "0 < m_BorrowIndex m" and "0 < b_InterestIndex b"
  shows "BorrowBalance X b m = (balance X b m, b, m)"
  using assms by (simp add: balance_def BorrowBalance_def Let_def)

section \<open>Borrow\<close>

definition borrow_tx :: "Output \<Rightarrow> string \<Rightarrow> string \<Rightarrow> string \<Rightarrow> Market \<Rightarrow> rat \<Rightarrow> rat \<Rightarrow> Transaction" where
  "borrow_tx output u f a m bal amount = BuildTransactionFromOutput u f ActionTypeBorrow output
     (Put ''borrow'' (JBorrow \<lparr>eb_UserID = u, eb_AssetID = a, eb_Principal = bal + amount,
        eb_InterestIndex = m_BorrowIndex m\<rparr>)
     (Put ''new_borrow_index'' (JDec (m_BorrowIndex m))
     (Put ''new_borrow_balance'' (JDec (bal + amount))
     (Put ''amount'' (JDec amount) (Put ''asset_id'' (JStr a) [])))))"

definition lent :: "Market \<Rightarrow> rat \<Rightarrow> Market" where
  "lent m amount = m\<lparr>m_TotalCash := dec_truncate MaxPricision (m_TotalCash m - amount),
     m_TotalBorrows := dec_truncate MaxPricision (m_TotalBorrows m + amount)\<rparr>"

definition borrowed :: "Borrow \<Rightarrow> Market \<Rightarrow> rat \<Rightarrow> Borrow" where
  "borrowed b m p = b\<lparr>b_Principal := p, b_InterestIndex := m_BorrowIndex m\<rparr>"

lemma borrow_run:
  assumes w: "faults w = []" "borrows_ok w"
    and scan: "scan_asset_amount X body = Some (asset, q)" "uuidToString X asset = a" "dec_truncate 8 q = amount"
    and row: "marketRow a w = Some r" "a \<noteq> ''''" and use: "usable X out r m" and tx: "unseen out w"
    and b: "borrowRow u a (ensureBorrow u a w) = Some b" "b_Version b < o_ID out"
    and idx: "0 < m_BorrowIndex m" "0 < b_InterestIndex b"
    and ok: "BorrowAllowed m amount" "markets_known [m] (ensureBorrow u a w) u"
      "amount * m_Price m \<le> liquidity_spec X [m] (ensureBorrow u a w) u"
    and acc: "AccrueInterest X (lent m amount) (o_CreatedAt out) = Ok m'"
  shows "handleBorrowEvent X out u f body w =
    (Ok (), setMarket X m' (o_ID out)
      (addTransfer (out_transfer X u f (o_TraceID out) a amount ActionTypeBorrowTransfer)
      (setBorrow (borrowed b m (balance X b m + amount)) (o_ID out)
      (addTransaction (borrow_tx out u f a m (balance X b m) amount) (ensureBorrow u a w)))))"
proof -
  note same = usable_same [OF use]
  note same' = accrue_same [OF acc, unfolded same_market_def]
  have ex: "list_ex (lock_match m_ID m_Version m') (markets w)"
    using marketRow_in [OF row(1)] same same' by (intro market_lock [of r]) (simp_all add: lent_def)
  have ver': "m_Version m' < o_ID out"
    using use same same' by (simp add: usable_def lent_def)
  have bx: "list_ex (lock_match b_ID b_Version (borrowed b m x)) (borrows (ensureBorrow u a w))" for x
    using b(1) by (intro borrow_lock) (simp_all add: borrowed_def)
  have nofind: "List.find (\<lambda>x. tx_TraceID x = o_TraceID out) (transactions w) = None"
    using tx by (simp add: unseen_def)
  have unseen': "transactionOf (o_TraceID out) (ensureBorrow u a w) = zero_transaction"
    using tx by (intro unseen_tx) simp
  have liq: "CalculateAccountLiquidity X u [m] (ensureBorrow u a w) =
      (Ok (liquidity_spec X [m] (ensureBorrow u a w) u), ensureBorrow u a w)"
    using w ok(2) by (simp add: liquidity_run)
  show ?thesis
    using assms ex bx same ver' nofind unseen' liq BorrowBalance_normal [OF idx, of X]
    by (simp add: handleBorrowEvent_def handler_simps marketByAsset_row [OF row(1)] usable_def
        getOrCreateBorrow_run [OF w b(1)] borrow_tx_def borrowed_def lent_def)
qed

text \<open>Outside the market's limits or the account's liquidity, nothing but the empty row is left.\<close>

lemma borrow_refused:
  assumes w: "faults w = []" "borrows_ok w"
    and scan: "scan_asset_amount X body = Some (asset, q)" "uuidToString X asset = a" "dec_truncate 8 q = amount"
    and row: "marketRow a w = Some r" "a \<noteq> ''''" and use: "usable X out r m" and tx: "unseen out w"
    and known: "markets_known [m] (ensureBorrow u a w) u"
    and bad: "\<not> (BorrowAllowed m amount \<and> amount * m_Price m \<le> liquidity_spec X [m] (ensureBorrow u a w) u)"
  shows "handleBorrowEvent X out u f body w =
    refused X out u f ActionTypeBorrow ErrBorrowNotAllowed ''payee/borrow-denied'' (ensureBorrow u a w)"
proof -
  obtain b where b: "borrowRow u a (ensureBorrow u a w) = Some b"
    using ensureBorrow_row [OF w(2)] by metis
  have unseen': "transactionOf (o_TraceID out) (ensureBorrow u a w) = zero_transaction"
    using tx by (intro unseen_tx) simp
  show ?thesis
    using assms unseen'
    by (auto simp: handleBorrowEvent_def handler_simps marketByAsset_row [OF row(1)] usable_def
        getOrCreateBorrow_run [OF w b] liquidity_run returnOrRefundError_run)
qed

section \<open>Repay\<close>

definition repay_tx :: "Output \<Rightarrow> string \<Rightarrow> string \<Rightarrow> Borrow \<Rightarrow> Market \<Rightarrow> rat \<Rightarrow> rat \<Rightarrow> Transaction" where
  "repay_tx output u f b m bal repay = BuildTransactionFromOutput u f ActionTypeRepay output
     (Put ''borrow'' (JBorrow \<lparr>eb_UserID = b_UserID b, eb_AssetID = b_AssetID b,
        eb_Principal = dec_truncate MaxPricision (bal - repay), eb_InterestIndex = m_BorrowIndex m\<rparr>)
     (Put ''new_index'' (JDec (m_BorrowIndex m))
     (Put ''new_balance'' (JDec (dec_truncate MaxPricision (bal - repay)))
     (Put ''repay_amount'' (JDec repay) []))))"

definition repaid :: "int \<Rightarrow> Market \<Rightarrow> rat \<Rightarrow> Market" where
  "repaid sv m repay =
     (let m = m\<lparr>m_TotalBorrows := dec_truncate MaxPricision (m_TotalBorrows m - repay),
           m_TotalCash := dec_truncate MaxPricision (m_TotalCash m + repay)\<rparr>
      in if sv > 0 \<and> m_TotalBorrows m < 0 then m\<lparr>m_TotalBorrows := 0\<rparr> else m)"

definition addRefund :: "rat \<Rightarrow> Transfer \<Rightarrow> world \<Rightarrow> world" where
  "addRefund amount t w = (if 0 < amount then addTransfer t w else w)"

lemma addRefund_frames [simp]:
  "markets (addRefund x t w) = markets w" "supplies (addRefund x t w) = supplies w"
  "borrows (addRefund x t w) = borrows w" "transactions (addRefund x t w) = transactions w"
  "users (addRefund x t w) = users w" "faults (addRefund x t w) = faults w" "sysversion (addRefund x t w) = sysversion w"
  "marketRow a (addRefund x t w) = marketRow a w" "borrowRow u a (addRefund x t w) = borrowRow u a w"
  "ctokenRow a (addRefund x t w) = ctokenRow a w" "supplyRow u a (addRefund x t w) = supplyRow u a w"
  "markets_ok (addRefund x t w) = markets_ok w" "borrows_ok (addRefund x t w) = borrows_ok w"
  by (simp_all add: addRefund_def)

lemma repay_run:
  assumes w: "faults w = []" "borrows_ok w"
    and row: "marketRow (o_AssetID out) w = Some r" "o_AssetID out \<noteq> ''''" "0 < m_ID r" "m_Version r < o_ID out"
    and acc: "AccrueInterest X (afterFind r) (o_CreatedAt out) = Ok m" and tx: "unseen out w"
    and b: "borrowRow u (o_AssetID out) w = Some b" "b_Version b < o_ID out"
    and idx: "0 < m_BorrowIndex m" "0 < b_InterestIndex b"
    and repay: "min (o_Amount out) (balance X b m) = repay"
    and acc': "AccrueInterest X (repaid (sysversion w) m repay) (o_CreatedAt out) = Ok m'"
  shows "handleRepayEvent X out u f body w =
    (Ok (), setMarket X m' (o_ID out)
      (setBorrow (borrowed b m (balance X b m - repay)) (o_ID out)
      (addRefund (dec_truncate 8 (o_Amount out - repay))
        (out_transfer X u f (o_TraceID out) (o_AssetID out) (dec_truncate 8 (o_Amount out - repay)) ActionTypeRepayRefundTransfer)
      (addTransaction (repay_tx out u f b m (balance X b m) repay) w))))"
proof -
  note same = accrue_same [OF acc, unfolded same_market_def]
  note same' = accrue_same [OF acc', unfolded same_market_def]
  have bid: "0 < b_ID b"
    using w(2) borrowRow_in [OF b(1)] by (auto simp: borrows_ok_def list_all_iff)
  have ex: "list_ex (lock_match m_ID m_Version m') (markets w)"
    using marketRow_in [OF row(1)] same same' by (intro market_lock [of r]) (simp_all add: repaid_def Let_def)
  have ver': "m_Version m' < o_ID out" "m_Version m = m_Version r"
    using row(4) same same' by (simp_all add: repaid_def Let_def)
  have bx: "list_ex (lock_match b_ID b_Version (borrowed b m x)) (borrows w)" for x
    using b(1) by (intro borrow_lock) (simp_all add: borrowed_def)
  have nofind: "List.find (\<lambda>x. tx_TraceID x = o_TraceID out) (transactions w) = None"
    using tx by (simp add: unseen_def)
  have rep: "(if balance X b m < o_Amount out then balance X b m else o_Amount out) = repay"
    using repay by (auto simp: min_def split: if_splits)
  have acc2: "AccrueInterest X (let market = m\<lparr>m_TotalBorrows := dec_truncate MaxPricision (m_TotalBorrows m - repay),
        m_TotalCash := dec_truncate MaxPricision (m_TotalCash m + repay)\<rparr> in
        (if 0 < sysversion w \<and> m_TotalBorrows market < 0 then market\<lparr>m_TotalBorrows := 0\<rparr> else market))
      (o_CreatedAt out) = Ok m'"
    using acc' by (simp add: repaid_def)
  have un: "unmarshal_decimal ''repay_amount'' (Put ''borrow'' x (Put ''new_index'' y (Put ''new_balance'' z
      (Put ''repay_amount'' (JDec d) [])))) = Some d" for x y z d
    by simp
  show ?thesis
    using assms(1-12) ex bx ver' nofind acc2 rep un BorrowBalance_normal [OF idx, of X]
    by (cases "0 < dec_truncate 8 (o_Amount out - repay)")
      (simp_all add: handleRepayEvent_def handler_simps marketByAsset_row [OF row(1)]
        mustGetBorrow_run [OF w(1) b(1) bid] unseen_tx [OF tx] repay_tx_def borrowed_def addRefund_def
        del: unmarshal_Put_same unmarshal_Put_other)
qed

section \<open>Quick borrow\<close>

definition quick_borrow_tx ::
  "Output \<Rightarrow> string \<Rightarrow> string \<Rightarrow> Market \<Rightarrow> Market \<Rightarrow> Supply \<Rightarrow> rat \<Rightarrow> rat \<Rightarrow> rat \<Rightarrow> Transaction" where
  "quick_borrow_tx output u f sm bm s bal amount ctokens = BuildTransactionFromOutput u f ActionTypeQuickBorrow output
     (Put ''borrow'' (JBorrow \<lparr>eb_UserID = u, eb_AssetID = m_AssetID bm, eb_Principal = bal + amount,
        eb_InterestIndex = m_BorrowIndex bm\<rparr>)
     (Put ''supply'' (JSupply \<lparr>es_UserID = u, es_CTokenAssetID = m_CTokenAssetID sm,
        es_Collaterals = s_Collaterals s + ctokens\<rparr>)
     (Put ''new_borrow_index'' (JDec (m_BorrowIndex bm))
     (Put ''new_borrow_balance'' (JDec (bal + amount))
     (Put ''new_collaterals'' (JDec (s_Collaterals s + ctokens))
     (Put ''ctoken_asset_id'' (JStr (m_CTokenAssetID sm))
     (Put ''ctokens'' (JDec ctokens)
     (Put ''amount'' (JDec amount) (Put ''asset_id'' (JStr (m_AssetID bm)) [])))))))))"

text \<open>The collateral an output adds: the CTokens themselves, or the ones minted for it.\<close>

definition added_value :: "bool \<Rightarrow> Output \<Rightarrow> Market \<Rightarrow> rat" where
  "added_value is_ctoken out sm = (if is_ctoken
     then o_Amount out * m_ExchangeRate sm * m_CollateralFactor sm * m_Price sm
     else o_Amount out * m_CollateralFactor sm * m_Price sm)"

text \<open>With the underlying asset of another market: supply, pledge and borrow in one step.\<close>

lemma quick_borrow_run:
  fixes u :: string
  assumes w: "faults w = []" "supplies_ok w" "borrows_ok w"
    and scan: "scan_asset_amount X body = Some (asset, q)" "uuidToString X asset = a" "dec_truncate 8 q = amount"
    and brow: "marketRow a w = Some br" "a \<noteq> ''''" and buse: "usable X out br bm"
    and srow: "marketRow (o_AssetID out) w = Some sr" "o_AssetID out \<noteq> ''''" "a \<noteq> o_AssetID out"
    and suse: "usable X out sr sm" and tx: "unseen out w"
    and c: "m_CTokenAssetID sm = c" "c \<noteq> o_AssetID out"
    and w1: "ensureBorrow u a (ensureSupply u c w) = w1"
    and s: "supplyRow u c w1 = Some s" "s_Version s < o_ID out"
    and b: "borrowRow u a w1 = Some b" "b_Version b < o_ID out"
    and idx: "0 < m_BorrowIndex bm" "0 < b_InterestIndex b"
    and rate: "CurExchangeRate sm \<noteq> 0"
    and ct: "dec_truncate 8 (decDiv X (o_Amount out) (CurExchangeRate sm)) = ctokens" "0 < ctokens"
    and cf: "0 < m_CollateralFactor sm"
    and ok: "BorrowAllowed bm amount" "markets_known [sm, bm] w1 u"
      "amount * m_Price bm \<le> liquidity_spec X [sm, bm] w1 u + added_value False out sm"
      "\<not> 0 < m_MaxPledge sm \<or> totalPledged c w1 + ctokens \<le> m_MaxPledge sm"
    and acc: "AccrueInterest X (supplied sm ctokens (o_Amount out)) (o_CreatedAt out) = Ok sm'"
      "AccrueInterest X (lent bm amount) (o_CreatedAt out) = Ok bm'"
    and mk: "markets_ok w"
  shows "handleQuickBorrowEvent X out u f body w =
    (Ok (), setMarket X bm' (o_ID out) (setMarket X sm' (o_ID out)
      (addTransfer (out_transfer X u f (o_TraceID out) a amount ActionTypeQuickBorrowTransfer)
      (setBorrow (borrowed b bm (dec_truncate MaxPricision (balance X b bm + amount))) (o_ID out)
      (setSupply (s\<lparr>s_Collaterals := s_Collaterals s + ctokens\<rparr>) (o_ID out)
      (addTransaction (quick_borrow_tx out u f sm bm s (balance X b bm) amount ctokens) w1))))))"
proof -
  note bsame = usable_same [OF buse] and ssame = usable_same [OF suse]
  note bacc = accrue_same [OF acc(2), unfolded same_market_def] and sacc = accrue_same [OF acc(1), unfolded same_market_def]
  have aid: "m_AssetID bm = a" "m_AssetID sm = o_AssetID out"
    using bsame ssame marketRow_in [OF brow(1)] marketRow_in [OF srow(1)] by simp_all
  have csr: "m_CTokenAssetID sr = c" "m_AssetID sr = o_AssetID out"
    using c(1) ssame(3) marketRow_in [OF srow(1)] by simp_all
  have w1f: "faults w1 = []" "markets w1 = markets w" "transactions w1 = transactions w" "sysversion w1 = sysversion w"
    using w w1 by auto
  have ids: "m_ID br \<noteq> m_ID sr"
    using mk srow(3) marketRow_in [OF brow(1)] marketRow_in [OF srow(1)]
    by (auto simp: markets_ok_def distinct_map inj_on_def)
  have sex: "list_ex (lock_match m_ID m_Version sm') (markets w)"
    using marketRow_in [OF srow(1)] ssame sacc by (intro market_lock [of sr]) (simp_all add: supplied_def)
  have br: "br \<in> set (replace_rows (lock_match m_ID m_Version sm') (market_write X sm' v) (markets w))" for v
  proof -
    have "m_ID sm' = m_ID sr" "m_ID sr \<noteq> 0"
      using ssame sacc suse by (simp_all add: supplied_def usable_def)
    then have "\<not> lock_match m_ID m_Version sm' br"
      using ids by (simp add: lock_match_def)
    then show ?thesis
      using marketRow_in [OF brow(1)] by (force simp: replace_rows_map)
  qed
  have bex: "list_ex (lock_match m_ID m_Version bm') (replace_rows (lock_match m_ID m_Version sm') (market_write X sm' v) (markets w))" for v
    using br bsame bacc by (intro lock_ex [of br]) (simp_all add: lent_def)
  have ver: "m_Version sm' < o_ID out" "m_Version bm' < o_ID out"
    using suse buse ssame bsame sacc bacc by (simp_all add: usable_def supplied_def lent_def)
  have sx: "list_ex (lock_match s_ID s_Version (s\<lparr>s_Collaterals := x\<rparr>)) (supplies w1)" for x
    using s(1) by (intro supply_lock) simp_all
  have bx: "list_ex (lock_match b_ID b_Version (borrowed b bm x)) (borrows w1)" for x
    using b(1) by (intro borrow_lock) (simp_all add: borrowed_def)
  have nofind: "List.find (\<lambda>x. tx_TraceID x = o_TraceID out) (transactions w) = None"
    using tx by (simp add: unseen_def)
  have unseen1: "transactionOf (o_TraceID out) w1 = zero_transaction"
    using tx w1f by (intro unseen_tx) (simp add: unseen_def)
  have sum: "supply_SumOfSupplies c w1 = (Ok (totalPledged c w1), w1)"
    using s(1) w1f by (intro SumOfSupplies_run) simp_all
  have create: "getOrCreateSupply u c w = (Ok s, ensureSupply u c w)"
    using s(1) w w1 by (intro getOrCreateSupply_run) auto
  have create': "getOrCreateBorrow u a (ensureSupply u c w) = (Ok b, w1)"
    using b(1) w w1 getOrCreateBorrow_run [of "ensureSupply u c w" u a b] by (simp add: borrows_ok_def)
  have liq: "CalculateAccountLiquidity X u [sm, bm] w1 = (Ok (liquidity_spec X [sm, bm] w1 u), w1)"
    using w1f ok(2) by (simp add: liquidity_run)
  have allowed: "0 < amount" "m_BorrowCap bm \<le> m_TotalCash bm - m_Reserves bm"
    "amount \<le> m_TotalCash bm - m_Reserves bm - m_BorrowCap bm"
    using ok(1) by (auto simp: BorrowAllowed_iff)
  show ?thesis
    using w(1) scan brow srow(2,3) buse suse s(2) b(2) rate ct cf ok(3,4) acc c create create' liq sum
      sex bex ver sx bx nofind unseen1 w1f aid csr bsame(4,5) ssame(4,5) allowed BorrowBalance_normal [OF idx, of X]
    by (simp add: handleQuickBorrowEvent_def quick_borrow_record_def quick_borrow_apply_def handler_simps marketByAsset_row [OF brow(1)] marketByAsset_row [OF srow(1)]
        usable_def quick_borrow_tx_def borrowed_def supplied_def lent_def added_value_def Require_def
        setMarket_def [of X sm'] MaxPricision_def)
qed

end
