(* ===== verification/Liquidation_Spec.thy ===== *)
theory Liquidation_Spec
  imports Borrow_Spec
begin

text \<open>
  Liquidation on a database that does not fail: the amounts as a function, their bounds, and the final
  state. The last lemmas are about seizing collateral in the very market the debt is in, where the
  second of the two market updates is refused by the optimistic lock.
\<close>

section \<open>The amounts\<close>

definition seized_price :: "Market \<Rightarrow> rat" where
  "seized_price sm = dec_truncate MaxPricision (m_Price sm - m_Price sm * m_LiquidationIncentive sm)"

definition max_seize_value :: "Supply \<Rightarrow> Market \<Rightarrow> rat" where
  "max_seize_value s sm = dec_truncate MaxPricision
     (s_Collaterals s * CurExchangeRate sm * m_CloseFactor sm * seized_price sm)"

text \<open>The repaid value: what was paid, the share that may be seized, or the whole debt, whichever is least.\<close>

definition repay_value :: "Output \<Rightarrow> Supply \<Rightarrow> rat \<Rightarrow> Market \<Rightarrow> Market \<Rightarrow> rat" where
  "repay_value out s bal sm bm =
     min (min (dec_truncate MaxPricision (o_Amount out * m_Price bm)) (max_seize_value s sm))
       (dec_truncate MaxPricision (bal * m_Price bm))"

definition seized_amount :: "ext \<Rightarrow> Output \<Rightarrow> Supply \<Rightarrow> rat \<Rightarrow> Market \<Rightarrow> Market \<Rightarrow> rat" where
  "seized_amount X out s bal sm bm =
     (let v = repay_value out s bal sm bm; paid = dec_truncate MaxPricision (o_Amount out * m_Price bm)
      in if v = paid then dec_truncate MaxPricision (decDiv X v (seized_price sm)) else decDiv X v (seized_price sm))"

definition seized_ctokens :: "ext \<Rightarrow> Output \<Rightarrow> Supply \<Rightarrow> rat \<Rightarrow> Market \<Rightarrow> Market \<Rightarrow> rat" where
  "seized_ctokens X out s bal sm bm =
     dec_truncate 8 (decDiv X (seized_amount X out s bal sm bm) (CurExchangeRate sm))"

definition repay_amount :: "ext \<Rightarrow> Output \<Rightarrow> Supply \<Rightarrow> rat \<Rightarrow> Market \<Rightarrow> Market \<Rightarrow> rat" where
  "repay_amount X out s bal sm bm =
     min bal (dec_truncate MaxPricision (decDiv X (repay_value out s bal sm bm) (m_Price bm)))"

lemma trunc_quotient:
  "div_documented (decDiv X) \<Longrightarrow> b \<noteq> 0 \<Longrightarrow> dec_truncate MaxPricision (decDiv X a b) = decDiv X a b"
  by (simp add: MaxPricision_def truncate_on_grid decDiv_on_grid)

lemma amounts_run:
  assumes doc: "div_documented (decDiv X)"
    and nz: "seized_price sm \<noteq> 0" "CurExchangeRate sm \<noteq> 0" "m_Price bm \<noteq> 0"
  shows "liquidation_amounts X out s bal sm bm w =
    (Ok (seized_price sm, seized_ctokens X out s bal sm bm, repay_amount X out s bal sm bm), w)"
proof -
  define p v1 mx dv where defs: "p = seized_price sm" "v1 = dec_truncate MaxPricision (o_Amount out * m_Price bm)"
    "mx = max_seize_value s sm" "dv = dec_truncate MaxPricision (bal * m_Price bm)"
  note tq = trunc_quotient [OF doc nz(1)]
  have seized: "seized_amount X out s bal sm bm = decDiv X (min (min v1 mx) dv) p"
    by (simp add: seized_amount_def repay_value_def defs Let_def tq)
  have steps: "liquidation_amounts X out s bal sm bm w =
    (let v2 = (if v1 > mx then mx else v1); v3 = (if v2 > dv then dv else v2);
         r = dec_truncate MaxPricision (decDiv X v3 (m_Price bm))
     in (Ok (p, dec_truncate 8 (decDiv X (decDiv X v3 p) (CurExchangeRate sm)), if r > bal then bal else r), w))"
    using nz tq
    by (simp add: liquidation_amounts_def run_simps Let_def defs seized_price_def max_seize_value_def)
  have v3: "(let v2 = (if v1 > mx then mx else v1) in if v2 > dv then dv else v2) = min (min v1 mx) dv"
    by (auto simp: Let_def min_def)
  show ?thesis
    using steps v3
    by (auto simp: Let_def seized_ctokens_def seized repay_amount_def repay_value_def defs min_def)
qed

section \<open>Bounds\<close>

lemma repay_value_le:
  "repay_value out s bal sm bm \<le> dec_truncate MaxPricision (o_Amount out * m_Price bm)"
  "repay_value out s bal sm bm \<le> max_seize_value s sm"
  "repay_value out s bal sm bm \<le> dec_truncate MaxPricision (bal * m_Price bm)"
  by (auto simp: repay_value_def)

lemma repay_amount_le_balance: "repay_amount X out s bal sm bm \<le> bal"
  by (simp add: repay_amount_def)

lemma repay_value_nonneg:
  assumes "0 \<le> o_Amount out" "0 \<le> bal" "0 \<le> s_Collaterals s" "0 < CurExchangeRate sm" "0 \<le> m_CloseFactor sm"
    and "0 < seized_price sm" "0 < m_Price bm"
  shows "0 \<le> repay_value out s bal sm bm"
  using assms by (auto simp: repay_value_def max_seize_value_def intro!: dec_truncate_nonneg)

lemma repay_amount_le_paid:
  assumes doc: "div_documented (decDiv X)" and pos: "0 < m_Price bm" "0 \<le> o_Amount out" "on_grid 16 (o_Amount out)"
    and v: "0 \<le> repay_value out s bal sm bm"
  shows "repay_amount X out s bal sm bm \<le> o_Amount out"
proof -
  let ?v = "repay_value out s bal sm bm"
  have "?v \<le> o_Amount out * m_Price bm"
    using repay_value_le(1) [of out s bal sm bm] dec_truncate_le [of "o_Amount out * m_Price bm" MaxPricision] pos
    by (meson dual_order.trans mult_nonneg_nonneg order_less_imp_le)
  then have "?v / m_Price bm \<le> o_Amount out"
    using pos by (simp add: pos_divide_le_eq)
  then have "dec_round 16 (?v / m_Price bm) \<le> dec_round 16 (o_Amount out)"
    using v pos by (intro dec_round_mono) simp_all
  also have "\<dots> = o_Amount out"
    using pos by (simp add: dec_round_on_grid)
  finally have "decDiv X ?v (m_Price bm) \<le> o_Amount out"
    using doc pos by (simp add: div_documented_def)
  then show ?thesis
    using doc pos by (simp add: repay_amount_def trunc_quotient min.coboundedI2)
qed

text \<open>At most the close factor's share of the collateral is seized, up to the two roundings.\<close>

lemma seized_bound:
  assumes doc: "div_documented (decDiv X)" and price: "0 < seized_price sm" and rate: "0 < CurExchangeRate sm"
    and v: "0 \<le> repay_value out s bal sm bm"
    and nn: "0 \<le> s_Collaterals s" "0 \<le> m_CloseFactor sm"
  shows "seized_ctokens X out s bal sm bm \<le>
    s_Collaterals s * m_CloseFactor sm + (1 / CurExchangeRate sm + 1) / (2 * 10 ^ 16)"
proof -
  let ?v = "repay_value out s bal sm bm" and ?R = "CurExchangeRate sm" and ?p = "seized_price sm"
  let ?max = "s_Collaterals s * ?R * m_CloseFactor sm"
  have "?v \<le> ?max * ?p"
    using repay_value_le(2) [of out s bal sm bm] dec_truncate_le [of "?max * ?p" MaxPricision] price rate nn
    by (simp add: max_seize_value_def)
  then have vp: "?v / ?p \<le> ?max"
    using price by (simp add: pos_divide_le_eq)
  define q where "q = decDiv X ?v ?p"
  have q0: "0 \<le> q"
    using decDiv_nonneg [OF doc v price] by (simp add: q_def)
  have "q \<le> ?v / ?p + 1 / (2 * 10 ^ 16)"
    unfolding q_def using price by (intro decDiv_upper [OF doc]) simp
  with vp have qle: "q \<le> ?max + 1 / (2 * 10 ^ 16)" by linarith
  have seized: "seized_amount X out s bal sm bm = q"
    using price by (simp add: seized_amount_def Let_def q_def trunc_quotient [OF doc])
  define z where "z = decDiv X q ?R"
  have "seized_ctokens X out s bal sm bm \<le> z"
    using dec_truncate_le [of z 8] decDiv_nonneg [OF doc q0 rate] by (simp add: seized_ctokens_def seized z_def)
  moreover have "z \<le> q / ?R + 1 / (2 * 10 ^ 16)"
    unfolding z_def using rate by (intro decDiv_upper [OF doc]) simp
  moreover have "q / ?R \<le> (?max + 1 / (2 * 10 ^ 16)) / ?R"
    using qle rate by (intro divide_right_mono) simp_all
  ultimately have "seized_ctokens X out s bal sm bm \<le> (?max + 1 / (2 * 10 ^ 16)) / ?R + 1 / (2 * 10 ^ 16)"
    by linarith
  moreover have "(?max + e) / ?R + e = s_Collaterals s * m_CloseFactor sm + (1 / ?R + 1) * e" for e
  proof -
    have "?max / ?R = s_Collaterals s * m_CloseFactor sm" using rate by simp
    then show ?thesis by (simp add: add_divide_distrib distrib_right)
  qed
  ultimately show ?thesis by (metis mult_1_right times_divide_eq_right)
qed

section \<open>The run\<close>

definition liquidation_record ::
  "Output \<Rightarrow> string \<Rightarrow> string \<Rightarrow> string \<Rightarrow> Supply \<Rightarrow> Borrow \<Rightarrow> Market \<Rightarrow> string \<Rightarrow> rat \<Rightarrow> rat \<Rightarrow> rat \<Rightarrow> rat \<Rightarrow> Transaction" where
  "liquidation_record out u f v s b bm c price seized repay bal = BuildTransactionFromOutput u f ActionTypeLiquidate out
     (Put ''borrow'' (JBorrow \<lparr>eb_UserID = v, eb_AssetID = b_AssetID b, eb_Principal = bal - repay,
        eb_InterestIndex = m_BorrowIndex bm\<rparr>)
     (Put ''supply'' (JSupply \<lparr>es_UserID = v, es_CTokenAssetID = s_CTokenAssetID s, es_Collaterals = s_Collaterals s - seized\<rparr>)
     (Put ''repay_amount'' (JDec repay)
     (Put ''new_borrow_index'' (JDec (m_BorrowIndex bm))
     (Put ''new_borrow_balance'' (JDec (bal - repay))
     (Put ''new_collaterals'' (JDec (s_Collaterals s - seized))
     (Put ''price'' (JDec price)
     (Put ''repay_amount'' (JDec repay)
     (Put ''amount'' (JDec seized)
     (Put ''ctoken_asset_id'' (JStr c) []))))))))))"

text \<open>No market of the user's borrows and supplies is closed.\<close>

definition all_open :: "string \<Rightarrow> world \<Rightarrow> bool" where
  "all_open u w \<longleftrightarrow> list_all (\<lambda>b. b_AssetID b \<notin> set (closedMarkets (map afterFind (markets w)))) (user_borrows u w)
     \<and> list_all (\<lambda>s. s_CTokenAssetID s \<notin> set (closedMarkets (map afterFind (markets w)))) (user_supplies u w)"

lemma forE_Require:
  "forE xs (\<lambda>x. Require (P x) msg flags) w =
     (if list_all P xs then (Ok (), w) else (Err (CompoundError msg (fold (\<lambda>v flag. flag OR v) flags 0)), w))"
  by (induction xs) (auto simp: run_simps Require_def)

lemma HasClosedMarkets_run:
  assumes "faults w = []"
  shows "HasClosedMarkets u w =
    (if all_open u w then (Ok (), w) else (Err (CompoundError ''payee/market-closed'' FlagRefund), w))"
  using assms
  by (cases "list_all (\<lambda>b. b_AssetID b \<notin> set (closedMarkets (map afterFind (markets w)))) (user_borrows u w)")
    (auto simp: HasClosedMarkets_def run_simps store_simps Let_def forE_Require all_open_def)

text \<open>The state after the accounts and the transfers, before the markets are written.\<close>

definition liquidated ::
  "ext \<Rightarrow> Output \<Rightarrow> string \<Rightarrow> string \<Rightarrow> string \<Rightarrow> Supply \<Rightarrow> Borrow \<Rightarrow> Market \<Rightarrow> Market \<Rightarrow> string \<Rightarrow> world \<Rightarrow> world" where
  "liquidated X out u f v s b sm bm c w =
     (let bal = balance X b bm; seized = seized_ctokens X out s bal sm bm; repay = repay_amount X out s bal sm bm in
      addRefund (o_Amount out - repay)
        (out_transfer X u f (o_TraceID out) (o_AssetID out) (o_Amount out - repay) ActionTypeLiquidateRefundTransfer)
      (addTransfer (out_transfer X u f (o_TraceID out) (m_CTokenAssetID sm) seized ActionTypeLiquidateTransfer)
      (setBorrow (borrowed b bm (dec_truncate MaxPricision (bal - repay))) (o_ID out)
      (setSupply (s\<lparr>s_Collaterals := dec_truncate MaxPricision (s_Collaterals s - seized)\<rparr>) (o_ID out)
      (addTransaction (liquidation_record out u f v s b bm c (seized_price sm) seized repay bal) w)))))"

text \<open>A liquidation up to its two market updates.\<close>

lemma liquidation_until_markets:
  assumes w: "faults w = []" "supplies_ok w" "borrows_ok w" and doc: "div_documented (decDiv X)"
    and scan: "scan_two_uuids X body = Some (adr, ctok)" "uuidToString X ctok = c"
    and user: "user_FindByAddress (uuidToString X adr) w = (Ok su, w)" "0 < u_ID su" "u_UserID su = v"
    and srow: "ctokenRow c w = Some sr" "c \<noteq> ''''" "0 < m_ID sr"
    and brow: "marketRow (o_AssetID out) w = Some br" "o_AssetID out \<noteq> ''''" "0 < m_ID br" "m_Version br < o_ID out"
    and acc: "AccrueInterest X (afterFind sr) (o_CreatedAt out) = Ok sm"
      "AccrueInterest X (afterFind br) (o_CreatedAt out) = Ok bm"
    and s: "supplyRow v c w = Some s" "s_Version s < o_ID out"
    and b: "borrowRow v (o_AssetID out) w = Some b" "b_Version b < o_ID out"
    and idx: "0 < m_BorrowIndex bm" "0 < b_InterestIndex b"
    and nz: "seized_price sm \<noteq> 0" "CurExchangeRate sm \<noteq> 0" "m_Price bm \<noteq> 0"
    and tx: "unseen out w"
    and ok: "all_open v w" "markets_known [bm, sm] w v" "liquidity_spec X [bm, sm] w v < 0"
  shows "handleLiquidationEvent X out u f body w =
    (seqE (if o_ID out > m_Version sm
           then seqE (accrue X sm out) (\<lambda>sm. market_Update X sm (o_ID out)) else ret ()) (\<lambda>_.
     seqE (getS sysversion) (\<lambda>sv.
     seqE (accrue X (repaid sv bm (repay_amount X out s (balance X b bm) sm bm)) out)
       (\<lambda>bm. market_Update X bm (o_ID out)))))
      (liquidated X out u f v s b sm bm c w)"
proof -
  note ssame = accrue_same [OF acc(1), unfolded same_market_def] and bsame = accrue_same [OF acc(2), unfolded same_market_def]
  have cid: "m_CTokenAssetID sm = c" "m_AssetID bm = o_AssetID out" "m_Version bm = m_Version br"
    using ssame bsame ctokenRow_in [OF srow(1)] marketRow_in [OF brow(1)] by simp_all
  have sid: "0 < s_ID s" and bid: "0 < b_ID b"
    using w(2,3) supplyRow_in [OF s(1)] borrowRow_in [OF b(1)] by (auto simp: supplies_ok_def borrows_ok_def list_all_iff)
  have sx: "list_ex (lock_match s_ID s_Version (s\<lparr>s_Collaterals := x\<rparr>)) (supplies w)" for x
    using s(1) by (intro supply_lock) simp_all
  have bx: "list_ex (lock_match b_ID b_Version (borrowed b bm x)) (borrows w)" for x
    using b(1) by (intro borrow_lock) (simp_all add: borrowed_def)
  have nofind: "List.find (\<lambda>x. tx_TraceID x = o_TraceID out) (transactions w) = None"
    using tx by (simp add: unseen_def)
  have seize: "SeizeTokenAllowed s b (liquidity_spec X [bm, sm] w v)"
    using ok(3) supplyRow_in [OF s(1)] borrowRow_in [OF b(1)] by (simp add: SeizeTokenAllowed_iff)
  let ?repay = "repay_amount X out s (balance X b bm) sm bm"
  have bver: "m_Version bm < o_ID out"
    using brow(4) cid by simp
  have prefix: "handleLiquidationEvent X out u f body w =
    liquidation_apply X out u f s b sm bm (seized_ctokens X out s (balance X b bm) sm bm) ?repay
      (addTransaction (liquidation_record out u f v s b bm c (seized_price sm)
         (seized_ctokens X out s (balance X b bm) sm bm) ?repay (balance X b bm)) w)"
    using w(1) scan user srow(2,3) brow(2,3,4) acc cid seize nofind ok(1,2) BorrowBalance_normal [OF idx, of X]
    by (simp add: handleLiquidationEvent_def handler_simps marketByCToken_row [OF srow(1)] marketByAsset_row [OF brow(1)]
        mustGetSupply_run [OF w(1) s(1) sid] mustGetBorrow_run [OF w(1) b(1) bid] unseen_tx [OF tx] liquidity_run
        HasClosedMarkets_run liquidation_tx_def amounts_run [OF doc nz] liquidation_record_def)
  show ?thesis
    unfolding prefix
    using w(1) s(2) b(2) sx bx bver BorrowBalance_normal [OF idx, of X]
    by (cases "0 < o_Amount out - ?repay")
      (simp_all add: liquidation_apply_def handler_simps liquidated_def borrowed_def addRefund_def repaid_def seqE_assoc)
qed

text \<open>An account whose liquidity is not negative cannot be liquidated.\<close>

lemma liquidation_refused:
  assumes w: "faults w = []" "supplies_ok w" "borrows_ok w"
    and scan: "scan_two_uuids X body = Some (adr, ctok)" "uuidToString X ctok = c"
    and user: "user_FindByAddress (uuidToString X adr) w = (Ok su, w)" "0 < u_ID su" "u_UserID su = v"
    and srow: "ctokenRow c w = Some sr" "c \<noteq> ''''" "0 < m_ID sr"
    and brow: "marketRow (o_AssetID out) w = Some br" "o_AssetID out \<noteq> ''''" "0 < m_ID br" "m_Version br < o_ID out"
    and acc: "AccrueInterest X (afterFind sr) (o_CreatedAt out) = Ok sm"
      "AccrueInterest X (afterFind br) (o_CreatedAt out) = Ok bm"
    and s: "supplyRow v c w = Some s" and b: "borrowRow v (o_AssetID out) w = Some b" and tx: "unseen out w"
    and ok: "all_open v w" "markets_known [bm, sm] w v" and solvent: "0 \<le> liquidity_spec X [bm, sm] w v"
  shows "handleLiquidationEvent X out u f body w =
    refused X out u f ActionTypeLiquidate ErrSeizeNotAllowed ''payee/seize-denied'' w"
proof -
  note ssame = accrue_same [OF acc(1), unfolded same_market_def] and bsame = accrue_same [OF acc(2), unfolded same_market_def]
  have cid: "m_CTokenAssetID sm = c" "m_AssetID bm = o_AssetID out" "m_Version bm = m_Version br"
    using ssame bsame ctokenRow_in [OF srow(1)] marketRow_in [OF brow(1)] by simp_all
  have sid: "0 < s_ID s" and bid: "0 < b_ID b"
    using w(2,3) supplyRow_in [OF s(1)] borrowRow_in [OF b(1)] by (auto simp: supplies_ok_def borrows_ok_def list_all_iff)
  show ?thesis
    using w(1) scan user srow(2,3) brow(2,3,4) acc cid ok(1,2) solvent
    by (simp add: handleLiquidationEvent_def handler_simps marketByCToken_row [OF srow(1)] marketByAsset_row [OF brow(1)]
        mustGetSupply_run [OF w(1) s(1) sid] mustGetBorrow_run [OF w(1) b(1) bid] unseen_tx [OF tx] liquidity_run
        HasClosedMarkets_run SeizeTokenAllowed_iff returnOrRefundError_run)
qed

text \<open>Nor can one with a closed market among its own: the same guards, and the check of the markets fails.\<close>

lemma liquidation_closed:
  assumes w: "faults w = []" "supplies_ok w" "borrows_ok w"
    and scan: "scan_two_uuids X body = Some (adr, ctok)" "uuidToString X ctok = c"
    and user: "user_FindByAddress (uuidToString X adr) w = (Ok su, w)" "0 < u_ID su" "u_UserID su = v"
    and srow: "ctokenRow c w = Some sr" "c \<noteq> ''''" "0 < m_ID sr"
    and brow: "marketRow (o_AssetID out) w = Some br" "o_AssetID out \<noteq> ''''" "0 < m_ID br" "m_Version br < o_ID out"
    and acc: "AccrueInterest X (afterFind sr) (o_CreatedAt out) = Ok sm"
      "AccrueInterest X (afterFind br) (o_CreatedAt out) = Ok bm"
    and s: "supplyRow v c w = Some s" and b: "borrowRow v (o_AssetID out) w = Some b" and tx: "unseen out w"
    and closed: "\<not> all_open v w"
  shows "handleLiquidationEvent X out u f body w =
    refused X out u f ActionTypeLiquidate ErrMarketClosed ''payee/market-closed'' w"
proof -
  note ssame = accrue_same [OF acc(1), unfolded same_market_def] and bsame = accrue_same [OF acc(2), unfolded same_market_def]
  have cid: "m_CTokenAssetID sm = c" "m_AssetID bm = o_AssetID out" "m_Version bm = m_Version br"
    using ssame bsame ctokenRow_in [OF srow(1)] marketRow_in [OF brow(1)] by simp_all
  have sid: "0 < s_ID s" and bid: "0 < b_ID b"
    using w(2,3) supplyRow_in [OF s(1)] borrowRow_in [OF b(1)] by (auto simp: supplies_ok_def borrows_ok_def list_all_iff)
  show ?thesis
    using w(1) scan user srow(2,3) brow(2,3,4) acc cid closed
    by (simp add: handleLiquidationEvent_def handler_simps marketByCToken_row [OF srow(1)] marketByAsset_row [OF brow(1)]
        mustGetSupply_run [OF w(1) s(1) sid] mustGetBorrow_run [OF w(1) b(1) bid] unseen_tx [OF tx]
        HasClosedMarkets_run returnOrRefundError_run)
qed

lemma liquidated_frames [simp]:
  "markets (liquidated X out u f v s b sm bm c w) = markets w"
  "faults (liquidated X out u f v s b sm bm c w) = faults w"
  "sysversion (liquidated X out u f v s b sm bm c w) = sysversion w"
  "marketRow a (liquidated X out u f v s b sm bm c w) = marketRow a w"
  "markets_ok (liquidated X out u f v s b sm bm c w) = markets_ok w"
  "ctokenRow a (liquidated X out u f v s b sm bm c w) = ctokenRow a w"
  "users (liquidated X out u f v s b sm bm c w) = users w"
  by (simp_all add: liquidated_def Let_def)

text \<open>The lookup of the seized user reads the users only.\<close>

lemma user_FindByAddress_users:
  assumes "user_FindByAddress a w = (Ok su, w)" and "faults w = []" "faults w' = []" "users w' = users w"
  shows "user_FindByAddress a w' = (Ok su, w')"
  using assms by (auto simp: user_FindByAddress_def run_simps store_simps split: option.splits)

lemma liquidated_rows:
  assumes "supplies_ok w" "borrows_ok w" and "supplyRow v c w = Some s" and "borrowRow v a w = Some b"
  shows "supplyRow v c (liquidated X out u f v s b sm bm c' w) = Some (s\<lparr>s_Collaterals :=
      dec_truncate MaxPricision (s_Collaterals s - seized_ctokens X out s (balance X b bm) sm bm), s_Version := o_ID out\<rparr>)"
    and "borrowRow v a (liquidated X out u f v s b sm bm c' w) = Some ((borrowed b bm
      (dec_truncate MaxPricision (balance X b bm - repay_amount X out s (balance X b bm) sm bm)))\<lparr>b_Version := o_ID out\<rparr>)"
  using assms supplyRow_in [OF assms(3)] borrowRow_in [OF assms(4)]
  by (simp_all add: liquidated_def Let_def supplyRow_setSupply [where r = s] borrowRow_setBorrow [where r = b] borrowed_def)

section \<open>Two different markets\<close>

lemma liquidation_markets_distinct:
  assumes w: "faults w = []" and rows: "sr \<in> set (markets w)" "br \<in> set (markets w)" "m_ID sr \<noteq> m_ID br" "m_ID sr \<noteq> 0"
    and sm: "m_ID sm = m_ID sr" "m_Version sm = m_Version sr" "m_Version sr < o_ID out"
    and bm: "m_ID bm = m_ID br" "m_Version bm = m_Version br" "m_Version br < o_ID out"
    and acc: "AccrueInterest X sm (o_CreatedAt out) = Ok sm'"
      "AccrueInterest X (repaid (sysversion w) bm repay) (o_CreatedAt out) = Ok bm'"
  shows "seqE (if o_ID out > m_Version sm
       then seqE (accrue X sm out) (\<lambda>sm. market_Update X sm (o_ID out)) else ret ()) (\<lambda>_.
     seqE (getS sysversion) (\<lambda>sv.
     seqE (accrue X (repaid sv bm repay) out) (\<lambda>bm. market_Update X bm (o_ID out)))) w =
    (Ok (), setMarket X bm' (o_ID out) (setMarket X sm' (o_ID out) w))"
proof -
  note same = accrue_same [OF acc(1), unfolded same_market_def] accrue_same [OF acc(2), unfolded same_market_def]
  have ids: "m_ID sm' = m_ID sr" "m_Version sm' = m_Version sr" "m_ID bm' = m_ID br" "m_Version bm' = m_Version br"
    using same sm bm by (simp_all add: repaid_def Let_def)
  have sex: "list_ex (lock_match m_ID m_Version sm') (markets w)"
    using rows ids by (intro market_lock [of sr]) simp_all
  have "\<not> lock_match m_ID m_Version sm' br"
    using rows ids by (simp add: lock_match_def)
  then have "br \<in> set (markets (setMarket X sm' (o_ID out) w))"
    using rows(2) by (force simp: setMarket_def replace_rows_map)
  then have bex: "list_ex (lock_match m_ID m_Version bm') (markets (setMarket X sm' (o_ID out) w))"
    using ids by (intro market_lock [of br]) simp_all
  show ?thesis
    using w sm bm acc ids sex bex by (simp add: run_simps store_simps)
qed

text \<open>The whole liquidation.\<close>

lemma liquidation_run:
  assumes w: "faults w = []" "supplies_ok w" "borrows_ok w" and doc: "div_documented (decDiv X)"
    and scan: "scan_two_uuids X body = Some (adr, ctok)" "uuidToString X ctok = c"
    and user: "user_FindByAddress (uuidToString X adr) w = (Ok su, w)" "0 < u_ID su" "u_UserID su = v"
    and srow: "ctokenRow c w = Some sr" "c \<noteq> ''''" "0 < m_ID sr" "m_Version sr < o_ID out"
    and brow: "marketRow (o_AssetID out) w = Some br" "o_AssetID out \<noteq> ''''" "0 < m_ID br" "m_Version br < o_ID out"
    and two: "m_ID sr \<noteq> m_ID br"
    and acc: "AccrueInterest X (afterFind sr) (o_CreatedAt out) = Ok sm"
      "AccrueInterest X (afterFind br) (o_CreatedAt out) = Ok bm"
    and s: "supplyRow v c w = Some s" "s_Version s < o_ID out"
    and b: "borrowRow v (o_AssetID out) w = Some b" "b_Version b < o_ID out"
    and idx: "0 < m_BorrowIndex bm" "0 < b_InterestIndex b"
    and nz: "seized_price sm \<noteq> 0" "CurExchangeRate sm \<noteq> 0" "m_Price bm \<noteq> 0"
    and tx: "unseen out w"
    and ok: "all_open v w" "markets_known [bm, sm] w v" "liquidity_spec X [bm, sm] w v < 0"
  obtains sm' bm' where
    "AccrueInterest X sm (o_CreatedAt out) = Ok sm'"
    "AccrueInterest X (repaid (sysversion w) bm (repay_amount X out s (balance X b bm) sm bm)) (o_CreatedAt out) = Ok bm'"
    "handleLiquidationEvent X out u f body w =
      (Ok (), setMarket X bm' (o_ID out) (setMarket X sm' (o_ID out) (liquidated X out u f v s b sm bm c w)))"
proof -
  let ?w = "liquidated X out u f v s b sm bm c w" and ?repay = "repay_amount X out s (balance X b bm) sm bm"
  obtain sm' bm' where acc': "AccrueInterest X sm (o_CreatedAt out) = Ok sm'"
      "AccrueInterest X (repaid (sysversion ?w) bm ?repay) (o_CreatedAt out) = Ok bm'"
    using accrue_any [OF acc(1)] by metis
  have sm: "m_ID sm = m_ID sr" "m_Version sm = m_Version sr" and bm: "m_ID bm = m_ID br" "m_Version bm = m_Version br"
    using accrue_same [OF acc(1)] accrue_same [OF acc(2)] by (simp_all add: same_market_def)
  have rows: "sr \<in> set (markets ?w)" "br \<in> set (markets ?w)" "m_ID sr \<noteq> 0" "faults ?w = []"
    using ctokenRow_in [OF srow(1)] marketRow_in [OF brow(1)] srow(3) w(1) by auto
  note tail = liquidation_markets_distinct [OF rows(4,1,2) two rows(3) sm srow(4) bm brow(4) acc']
  have "handleLiquidationEvent X out u f body w = (Ok (), setMarket X bm' (o_ID out) (setMarket X sm' (o_ID out) ?w))"
    using tail liquidation_until_markets [OF w doc scan user srow(1,2,3) brow acc s b idx nz tx ok, of u f]
    by simp
  with acc' show thesis
    by (intro that [of sm' bm']) simp_all
qed

section \<open>The same market\<close>

text \<open>
  When the seized collateral is in the market of the debt, the handler holds two copies of the row.
  The first update moves the row's version on, the second is refused, and the repayment reaches
  neither \<open>TotalBorrows\<close> nor \<open>TotalCash\<close>.
\<close>

lemma liquidation_markets_same:
  assumes w: "faults w = []" and row: "r \<in> set (markets w)" "m_ID r \<noteq> 0"
    and sm: "m_ID sm = m_ID r" "m_Version sm = m_Version r" "m_Version r < o_ID out"
    and bm: "m_ID bm = m_ID r" "m_Version bm = m_Version r"
    and acc: "AccrueInterest X sm (o_CreatedAt out) = Ok sm'"
      "AccrueInterest X (repaid (sysversion w) bm repay) (o_CreatedAt out) = Ok bm'"
  shows "seqE (if o_ID out > m_Version sm
       then seqE (accrue X sm out) (\<lambda>sm. market_Update X sm (o_ID out)) else ret ()) (\<lambda>_.
     seqE (getS sysversion) (\<lambda>sv.
     seqE (accrue X (repaid sv bm repay) out) (\<lambda>bm. market_Update X bm (o_ID out)))) w =
    (Err ErrOptimisticLock, setMarket X sm' (o_ID out) w)"
proof -
  note same = accrue_same [OF acc(1), unfolded same_market_def] accrue_same [OF acc(2), unfolded same_market_def]
  have ids: "m_ID sm' = m_ID r" "m_Version sm' = m_Version r" "m_ID bm' = m_ID r" "m_Version bm' = m_Version r"
    using same sm bm by (simp_all add: repaid_def Let_def)
  have sex: "list_ex (lock_match m_ID m_Version sm') (markets w)"
    using row ids by (intro market_lock [of r]) simp_all
  have "lock_update m_ID m_Version (market_write X) sm' (o_ID out) (markets w) = Ok (markets (setMarket X sm' (o_ID out) w))"
    using sex by (simp add: lock_update_def setMarket_def)
  from market_asset.second_update_refused [OF this, of bm' "o_ID out"]
  have "\<not> list_ex (lock_match m_ID m_Version bm') (markets (setMarket X sm' (o_ID out) w))"
    using ids row sm by (simp add: lock_update_def split: if_splits)
  then show ?thesis
    using w sm bm acc ids sex by (simp add: run_simps store_simps market_Update_locked)
qed

text \<open>The retry of an output whose borrow market has moved on does nothing.\<close>

lemma liquidation_outdated:
  assumes w: "faults w = []" and scan: "scan_two_uuids X body = Some (adr, ctok)" "uuidToString X ctok = c"
    and user: "user_FindByAddress (uuidToString X adr) w = (Ok su, w)" "0 < u_ID su"
    and srow: "ctokenRow c w = Some sr" "c \<noteq> ''''" "0 < m_ID sr"
    and brow: "marketRow (o_AssetID out) w = Some br" "o_AssetID out \<noteq> ''''" "0 < m_ID br" "o_ID out \<le> m_Version br"
  shows "handleLiquidationEvent X out u f body w = (Ok (), w)"
  using assms
  by (simp add: handleLiquidationEvent_def handler_simps marketByCToken_row [OF srow(1)] marketByAsset_row [OF brow(1)])

end
