(* ===== verification/Solvency.thy ===== *)
theory Solvency
  imports Liquidation_Spec
begin

text \<open>
  Accounts stay solvent: how the liquidity of an account changes when one of its rows does, and what
  the writes of the handlers keep of the market invariant.
\<close>

section \<open>Sums over one replaced row\<close>

lemma sum_replace:
  assumes "distinct xs" and "r \<in> set xs"
  shows "sum_list (map g (map (\<lambda>x. if x = r then r' else x) xs)) = sum_list (map g xs) - g r + (g r' :: rat)"
  using assms
proof (induction xs)
  case Nil
  then show ?case by simp
next
  case (Cons x xs)
  show ?case
  proof (cases "x = r")
    case True
    with Cons have "map (\<lambda>x. if x = r then r' else x) xs = xs"
      by (auto intro: map_idI)
    with True show ?thesis by simp
  next
    case False
    with Cons show ?thesis by (simp add: comp_def)
  qed
qed

lemma setBorrow_rows:
  assumes "borrows_ok w" and "borrowRow u a w = Some r" and "b_ID s = b_ID r" "b_Version s = b_Version r"
    and "b_UserID s = u"
  shows "user_borrows u (setBorrow s v w) =
    map (\<lambda>x. if x = r then s\<lparr>b_Version := v\<rparr> else x) (user_borrows u w)"
    and "r \<in> set (user_borrows u w)" and "distinct (user_borrows u w)"
proof -
  have mem: "r \<in> set (borrows w)" "b_UserID r = u"
    using borrowRow_in [OF assms(2)] by auto
  have inj: "x = y" if "x \<in> set (borrows w)" "y \<in> set (borrows w)" "b_ID x = b_ID y" for x y
    using assms(1) that by (auto simp: borrows_ok_def distinct_map inj_on_def)
  have nz: "b_ID r \<noteq> 0"
    using assms(1) mem by (auto simp: borrows_ok_def list_all_iff)
  have match: "lock_match b_ID b_Version s x \<longleftrightarrow> x = r" if "x \<in> set (borrows w)" for x
    using inj [OF that mem(1)] assms(3,4) nz by (auto simp: lock_match_def)
  have wr: "borrow_write s v r = s\<lparr>b_Version := v\<rparr>"
    using assms(3) by (simp add: borrow_write_def)
  have "borrows (setBorrow s v w) = map (\<lambda>x. if x = r then s\<lparr>b_Version := v\<rparr> else x) (borrows w)"
    using match wr by (auto simp: setBorrow_def replace_rows_map)
  then show "user_borrows u (setBorrow s v w) = map (\<lambda>x. if x = r then s\<lparr>b_Version := v\<rparr> else x) (user_borrows u w)"
    using assms(5) mem by (auto simp: user_borrows_def filter_map comp_def intro!: map_cong filter_cong)
  show "r \<in> set (user_borrows u w)"
    using mem by (simp add: user_borrows_def)
  show "distinct (user_borrows u w)"
    using assms(1) by (simp add: user_borrows_def borrows_ok_def distinct_map)
qed

lemma supplies_setSupply:
  assumes "supplies_ok w" and "r \<in> set (supplies w)" and "s_ID s = s_ID r" "s_Version s = s_Version r"
  shows "supplies (setSupply s v w) = map (\<lambda>x. if x = r then s\<lparr>s_Version := v\<rparr> else x) (supplies w)"
proof -
  have inj: "x = y" if "x \<in> set (supplies w)" "y \<in> set (supplies w)" "s_ID x = s_ID y" for x y
    using assms(1) that by (auto simp: supplies_ok_def distinct_map inj_on_def)
  have nz: "s_ID r \<noteq> 0"
    using assms(1,2) by (auto simp: supplies_ok_def list_all_iff)
  have match: "lock_match s_ID s_Version s x \<longleftrightarrow> x = r" if "x \<in> set (supplies w)" for x
    using inj [OF that assms(2)] assms(3,4) nz by (auto simp: lock_match_def)
  have wr: "supply_write s v r = s\<lparr>s_Version := v\<rparr>"
    using assms(3) by (simp add: supply_write_def)
  show ?thesis
    using match wr by (auto simp: setSupply_def replace_rows_map)
qed

lemma setSupply_rows:
  assumes "supplies_ok w" and "supplyRow u a w = Some r" and "s_ID s = s_ID r" "s_Version s = s_Version r"
    and "s_UserID s = u"
  shows "user_supplies u (setSupply s v w) =
    map (\<lambda>x. if x = r then s\<lparr>s_Version := v\<rparr> else x) (user_supplies u w)"
    and "r \<in> set (user_supplies u w)" and "distinct (user_supplies u w)"
proof -
  have mem: "r \<in> set (supplies w)" "s_UserID r = u"
    using supplyRow_in [OF assms(2)] by auto
  show "user_supplies u (setSupply s v w) = map (\<lambda>x. if x = r then s\<lparr>s_Version := v\<rparr> else x) (user_supplies u w)"
    using supplies_setSupply [OF assms(1) mem(1) assms(3,4)] assms(5) mem
    by (auto simp: user_supplies_def filter_map comp_def intro!: map_cong filter_cong)
  show "r \<in> set (user_supplies u w)"
    using mem by (simp add: user_supplies_def)
  show "distinct (user_supplies u w)"
    using assms(1) by (simp add: user_supplies_def supplies_ok_def distinct_map)
qed

text \<open>A change of one row moves the total pledged in its CToken by the same amount.\<close>

lemma totalPledged_setSupply:
  assumes "supplies_ok w" and "supplyRow u c w = Some r" and "s_ID s = s_ID r" "s_Version s = s_Version r"
    and "s_CTokenAssetID s = c"
  shows "totalPledged c (setSupply s v w) = totalPledged c w - s_Collaterals r + s_Collaterals s"
proof -
  have mem: "r \<in> set (supplies w)" "s_CTokenAssetID r = c"
    using supplyRow_in [OF assms(2)] by auto
  have rows: "filter (\<lambda>x. s_CTokenAssetID x = c) (supplies (setSupply s v w)) =
      map (\<lambda>x. if x = r then s\<lparr>s_Version := v\<rparr> else x) (filter (\<lambda>x. s_CTokenAssetID x = c) (supplies w))"
    using supplies_setSupply [OF assms(1) mem(1) assms(3,4)] assms(5) mem
    by (auto simp: filter_map comp_def intro!: map_cong filter_cong)
  have "distinct (filter (\<lambda>x. s_CTokenAssetID x = c) (supplies w))"
    using assms(1) by (simp add: supplies_ok_def distinct_map)
  then show ?thesis
    using sum_replace [of "filter (\<lambda>x. s_CTokenAssetID x = c) (supplies w)" r s_Collaterals "s\<lparr>s_Version := v\<rparr>"] mem
    by (simp add: totalPledged_def rows)
qed

section \<open>Liquidity after a change\<close>

lemma value_frames:
  "markets w' = markets w \<Longrightarrow> collateral_value new w' s = collateral_value new w s"
  "markets w' = markets w \<Longrightarrow> debt_value X new w' b = debt_value X new w b"
  by (simp_all add: collateral_value_def debt_value_def supplyMarketOf_def borrowMarketOf_def
      marketByAsset_def marketByCToken_def cong: option.case_cong)

lemma liquidity_setBorrow:
  assumes "borrows_ok w" and "borrowRow u a w = Some r" and "b_ID s = b_ID r" "b_Version s = b_Version r"
    and "b_UserID s = u"
  shows "liquidity_spec X new (setBorrow s v w) u =
    liquidity_spec X new w u + debt_value X new w r - debt_value X new w (s\<lparr>b_Version := v\<rparr>)"
proof -
  note rows = setBorrow_rows [OF assms]
  have "user_supplies u (setBorrow s v w) = user_supplies u w"
    by (simp add: user_supplies_def)
  moreover have "sum_list (map (debt_value X new w) (user_borrows u (setBorrow s v w))) =
      sum_list (map (debt_value X new w) (user_borrows u w)) - debt_value X new w r + debt_value X new w (s\<lparr>b_Version := v\<rparr>)"
    unfolding rows(1) by (rule sum_replace [OF rows(3,2)])
  moreover have "debt_value X new (setBorrow s v w) = debt_value X new w"
    "collateral_value new (setBorrow s v w) = collateral_value new w"
    by (rule ext, rule value_frames, simp)+
  ultimately show ?thesis by (simp add: liquidity_spec_def)
qed

lemma liquidity_setSupply:
  assumes "supplies_ok w" and "supplyRow u c w = Some r" and "s_ID s = s_ID r" "s_Version s = s_Version r"
    and "s_UserID s = u"
  shows "liquidity_spec X new (setSupply s v w) u =
    liquidity_spec X new w u - collateral_value new w r + collateral_value new w (s\<lparr>s_Version := v\<rparr>)"
proof -
  note rows = setSupply_rows [OF assms]
  have "user_borrows u (setSupply s v w) = user_borrows u w"
    by (simp add: user_borrows_def)
  moreover have "sum_list (map (collateral_value new w) (user_supplies u (setSupply s v w))) =
      sum_list (map (collateral_value new w) (user_supplies u w)) - collateral_value new w r + collateral_value new w (s\<lparr>s_Version := v\<rparr>)"
    unfolding rows(1) by (rule sum_replace [OF rows(3,2)])
  moreover have "debt_value X new (setSupply s v w) = debt_value X new w"
    "collateral_value new (setSupply s v w) = collateral_value new w"
    by (rule ext, rule value_frames, simp)+
  ultimately show ?thesis by (simp add: liquidity_spec_def)
qed

lemma Ceil_grid: "on_grid 16 x \<Longrightarrow> Ceil x 16 = x"
proof -
  assume "on_grid 16 x"
  then obtain k where "x = of_int k / 10 ^ 16" by (auto simp: on_grid_def)
  then have "dec_shift 16 x = of_int k" by (simp add: dec_shift_def)
  then show ?thesis
    using dec_shift_inverse [of 16 x] by (simp add: Ceil_def dec_ceil_def)
qed

text \<open>A principal written at the market's index is its own balance.\<close>

lemma balance_fresh:
  assumes doc: "div_documented (decDiv X)" and idx: "0 < m_BorrowIndex m" "b_InterestIndex b = m_BorrowIndex m"
    and grid: "on_grid 16 (b_Principal b)"
  shows "balance X b m = b_Principal b"
proof -
  have "decDiv X (b_Principal b * m_BorrowIndex m) (m_BorrowIndex m) = dec_round 16 (b_Principal b)"
    using doc idx by (simp add: div_documented_def)
  also have "\<dots> = b_Principal b"
    using grid by (rule dec_round_on_grid)
  finally show ?thesis
    using idx Ceil_grid [OF grid] by (simp add: balance_def BorrowBalance_def Let_def MaxPricision_def)
qed

text \<open>The market handed over stands for its row, so writing that row leaves the liquidity as it is.\<close>

lemma liquidity_setMarket:
  assumes ok: "markets_ok w" and r: "r \<in> set (markets w)"
    and m: "m \<in> set new" "m_AssetID m = m_AssetID r" "m_CTokenAssetID m = m_CTokenAssetID r"
    and s: "m_ID s = m_ID r" "m_Version s = m_Version r" "m_AssetID s = m_AssetID r" "m_CTokenAssetID s = m_CTokenAssetID r"
  shows "liquidity_spec X new (setMarket X' s v w) u = liquidity_spec X new w u"
proof -
  have row: "marketRow (m_AssetID r) w = Some r" and crow: "ctokenRow (m_CTokenAssetID r) w = Some r"
    using ok r by (auto simp: marketRow_def ctokenRow_def markets_ok_def intro: find_key)
  have a: "marketByAsset a (setMarket X' s v w) = marketByAsset a w" if "a \<noteq> m_AssetID r" for a
    using marketRow_setMarket [OF ok row s(1,2,3), of a X' v] that by (simp add: marketByAsset_def marketRow_def)
  have c: "marketByCToken c (setMarket X' s v w) = marketByCToken c w" if "c \<noteq> m_CTokenAssetID r" for c
    using ctokenRow_setMarket [OF ok crow s(1,2,4), of c X' v] that by (simp add: marketByCToken_def ctokenRow_def)
  have fa: "findMarketByAssetID new (m_AssetID r) \<noteq> None"
    using m by (auto simp: findMarketByAssetID_def find_None_iff)
  have fc: "findMarketByCtokenAssetID new (m_CTokenAssetID r) \<noteq> None"
    using m by (auto simp: findMarketByCtokenAssetID_def find_None_iff)
  have "borrowMarketOf new (setMarket X' s v w) b = borrowMarketOf new w b" for b
    using a [of "b_AssetID b"] fa
    by (cases "b_AssetID b = m_AssetID r") (auto simp: borrowMarketOf_def split: option.splits)
  moreover have "supplyMarketOf new (setMarket X' s v w) y = supplyMarketOf new w y" for y
    using c [of "s_CTokenAssetID y"] fc
    by (cases "s_CTokenAssetID y = m_CTokenAssetID r") (auto simp: supplyMarketOf_def split: option.splits)
  ultimately have "debt_value X new (setMarket X' s v w) = debt_value X new w"
    "collateral_value new (setMarket X' s v w) = collateral_value new w"
    by (simp_all add: debt_value_def collateral_value_def fun_eq_iff)
  then show ?thesis
    by (simp add: liquidity_spec_def user_supplies_def user_borrows_def)
qed

lemma liquidity_frames [simp]:
  "liquidity_spec X new (addTransfer t w) u = liquidity_spec X new w u"
  "liquidity_spec X new (addTransaction x w) u = liquidity_spec X new w u"
proof -
  have "debt_value X new (addTransfer t w) = debt_value X new w" "collateral_value new (addTransfer t w) = collateral_value new w"
    "debt_value X new (addTransaction x w) = debt_value X new w" "collateral_value new (addTransaction x w) = collateral_value new w"
    by (rule ext, rule value_frames, simp)+
  then show "liquidity_spec X new (addTransfer t w) u = liquidity_spec X new w u"
    "liquidity_spec X new (addTransaction x w) u = liquidity_spec X new w u"
    by (simp_all add: liquidity_spec_def user_supplies_def user_borrows_def)
qed

section \<open>Balances are on the grid\<close>

lemma on_grid_finer: "on_grid p x \<Longrightarrow> p \<le> q \<Longrightarrow> on_grid q x"
proof -
  assume "on_grid p x" and le: "p \<le> q"
  then obtain k where "x = of_int k / 10 ^ p" by (auto simp: on_grid_def)
  moreover have "(10 :: rat) ^ q = 10 ^ p * 10 ^ (q - p)"
    using le by (simp flip: power_add)
  ultimately have "x = of_int (k * 10 ^ (q - p)) / 10 ^ q"
    by simp
  then show "on_grid q x" by (rule on_gridI)
qed

lemma Ceil_on_grid: "on_grid p (Ceil x (int p))"
  by (rule on_gridI [of _ "\<lceil>x * 10 ^ p\<rceil>"]) (simp add: Ceil_def dec_shift_def dec_ceil_def power_int_minus divide_inverse)

lemma balance_on_grid:
  assumes "0 < m_BorrowIndex m" "0 < b_InterestIndex b"
  shows "on_grid 16 (balance X b m)"
  using Ceil_on_grid [of 16] assms by (simp add: balance_def BorrowBalance_def Let_def MaxPricision_def)

end
