(* ===== verification/Payee_Proposal.thy ===== *)
theory Payee_Proposal
  imports Payee_Borrow
begin

text \<open>
  Governance: the proposal handlers of the three protocol versions (\<open>proposal.go\<close>,
  \<open>proposal_v0.go\<close>, \<open>proposal_v1.go\<close>, \<open>proposal_v2.go\<close>), the execution of a passed proposal
  (\<open>proposal_passed.go\<close>, \<open>proposal_market.go\<close>, \<open>proposal_market_status.go\<close>, \<open>proposal_oracle.go\<close>,
  \<open>proposal_sys.go\<close>, \<open>proposal_withdraw.go\<close>) and the notifications of \<open>service/proposal/service.go\<close>,
  of which the recipients and the message identifiers are modelled and the rendered text is not.
\<close>

section \<open>strconv.ParseInt and strings.ToUpper\<close>

definition is_digit :: "char \<Rightarrow> bool" where
  "is_digit c \<longleftrightarrow> 48 \<le> (of_char c :: nat) \<and> (of_char c :: nat) \<le> 57"

fun digits_value :: "int \<Rightarrow> string \<Rightarrow> int" where
  "digits_value acc [] = acc"
| "digits_value acc (c # cs) = digits_value (acc * 10 + (int (of_char c) - 48)) cs"

definition ParseInt64 :: "string \<Rightarrow> int option" where
  "ParseInt64 s =
     (let (sign, ds) = (case s of [] \<Rightarrow> (1, []) | c # cs \<Rightarrow>
            if c = CHR ''-'' then (- 1, cs) else if c = CHR ''+'' then (1, cs) else (1, c # cs))
      in if ds = [] \<or> \<not> list_all is_digit ds then None
         else (let v = sign * digits_value 0 ds in if int64 v then Some v else None))"

text \<open>On the letters of ASCII, which are the letters of market symbols.\<close>

definition ToUpper :: "string \<Rightarrow> string" where
  "ToUpper s = map (\<lambda>c. let n = (of_char c :: nat) in if 97 \<le> n \<and> n \<le> 122 then char_of (n - 32) else c) s"

section \<open>service/proposal/service.go\<close>

text \<open>\<open>trace, _ := uuid.FromString(...)\<close>: an error leaves the nil UUID. The callers pass \<open>w.sysversion\<close>. The
  result is the code of the payment, which the notices show as a link.\<close>

definition vote_memo :: "ext \<Rightarrow> Proposal \<Rightarrow> int \<Rightarrow> bytes option" where
  "vote_memo X proposal sysver =
     (let trace = (case uuidFromString X (p_TraceID proposal) of None \<Rightarrow> uuid_Nil | Some u \<Rightarrow> u) in
      if sysver < 2 then Encode [encode_int (actionCode ActionTypeProposalVote), Some trace]
      else map_option (\<lambda>memo. EncodeTransactionAction X \<lparr>ta_FollowID = [], ta_Body = memo\<rparr>)
        (Encode [ActionType_MarshalBinary ActionTypeProposalVote, Some trace]))"

definition requestVoteAction :: "ext \<Rightarrow> System \<Rightarrow> Proposal \<Rightarrow> (world, string) go" where
  "requestVoteAction X S proposal =
     seqE (getS sysversion) (\<lambda>sysver. case vote_memo X proposal sysver of
       None \<Rightarrow> throw (GoError ''mtg: no enough bytes to encode'')
     | Some memo \<Rightarrow>
         (case voteAction X (VoteAsset S) (VoteAmount S) (uuidModify X (p_TraceID proposal) (ClientID S))
             (StdEncode memo) (MemberIDs S) (Threshold S) of
            None \<Rightarrow> throw (GoError ''VerifyPayment'')
          | Some code \<Rightarrow> ret code))"

definition post_id :: "ext \<Rightarrow> System \<Rightarrow> Proposal \<Rightarrow> string \<Rightarrow> string" where
  "post_id X S p admin = uuidModify X (p_TraceID p) (ClientID S @ admin)"

definition BuildMessage :: "string \<Rightarrow> string \<Rightarrow> Message" where
  "BuildMessage messageID recipientID = \<lparr>msg_ID = 0, msg_MessageID = messageID, msg_UserID = recipientID\<rparr>"

definition ProposalCreated :: "ext \<Rightarrow> System \<Rightarrow> Proposal \<Rightarrow> string \<Rightarrow> (world, unit) go" where
  "ProposalCreated X S p by_user =
     seqE (requestVoteAction X S p) (\<lambda>_.
     message_Create (concat (map (\<lambda>admin.
       [BuildMessage (post_id X S p admin) admin,
        BuildMessage (uuidModify X (post_id X S p admin) ''buttons'') admin]) (Admins S))))"

definition ProposalApproved :: "ext \<Rightarrow> System \<Rightarrow> Proposal \<Rightarrow> string \<Rightarrow> (world, unit) go" where
  "ProposalApproved X S p by_user =
     message_Create (map (\<lambda>admin.
       BuildMessage (uuidModify X (post_id X S p admin) (''Approved By '' @ by_user)) admin) (Admins S))"

definition ProposalPassed :: "ext \<Rightarrow> System \<Rightarrow> Proposal \<Rightarrow> (world, unit) go" where
  "ProposalPassed X S p =
     message_Create (map (\<lambda>admin.
       BuildMessage (uuidModify X (post_id X S p admin) ''Proposal Passed'') admin) (Admins S))"

section \<open>worker/payee/proposal_market.go\<close>

definition new_market :: "MarketReq \<Rightarrow> Output \<Rightarrow> Market" where
  "new_market req output = zero_market\<lparr>
     m_Symbol := ToUpper (mr_Symbol req),
     m_AssetID := mr_AssetID req,
     m_CTokenAssetID := mr_CTokenAssetID req,
     m_InitExchangeRate := mr_InitExchange req,
     m_ExchangeRate := mr_InitExchange req,
     m_ReserveFactor := mr_ReserveFactor req,
     m_LiquidationIncentive := mr_LiquidationIncentive req,
     m_BorrowCap := mr_BorrowCap req,
     m_BorrowIndex := 1,
     m_CollateralFactor := mr_CollateralFactor req,
     m_CloseFactor := mr_CloseFactor req,
     m_BaseRate := mr_BaseRate req,
     m_Multiplier := mr_Multiplier req,
     m_JumpMultiplier := mr_JumpMultiplier req,
     m_Kink := mr_Kink req,
     m_Price := mr_Price req,
     m_PriceThreshold := mr_PriceThreshold req,
     m_MaxPledge := mr_MaxPledge req,
     m_PriceUpdatedAt := o_CreatedAt output,
     m_Status := MarketStatusClose,
     m_Version := o_ID output\<rparr>"

text \<open>Each parameter is taken over only inside its range.\<close>

definition apply_market_req :: "MarketReq \<Rightarrow> Market \<Rightarrow> Market" where
  "apply_market_req req market =
     (let market = (if 0 < mr_InitExchange req then market\<lparr>m_InitExchangeRate := mr_InitExchange req\<rparr> else market);
          market = (if 0 < mr_ReserveFactor req \<and> mr_ReserveFactor req < 1
                    then market\<lparr>m_ReserveFactor := mr_ReserveFactor req\<rparr> else market);
          market = (if mr_LiquidationIncentive req \<ge> LiquidationIncentiveMin \<and> mr_LiquidationIncentive req \<le> LiquidationIncentiveMax
                    then market\<lparr>m_LiquidationIncentive := mr_LiquidationIncentive req\<rparr> else market);
          market = (if \<not> mr_CollateralFactor req < 0 \<and> mr_CollateralFactor req \<le> CollateralFactorMax
                    then market\<lparr>m_CollateralFactor := mr_CollateralFactor req\<rparr> else market);
          market = (if 0 < mr_BaseRate req \<and> mr_BaseRate req < 1
                    then market\<lparr>m_BaseRate := mr_BaseRate req\<rparr> else market);
          market = (if \<not> mr_BorrowCap req < 0 then market\<lparr>m_BorrowCap := mr_BorrowCap req\<rparr> else market);
          market = (if mr_CloseFactor req \<ge> CloseFactorMin \<and> mr_CloseFactor req \<le> CloseFactorMax
                    then market\<lparr>m_CloseFactor := mr_CloseFactor req\<rparr> else market);
          market = (if 0 < mr_Multiplier req \<and> mr_Multiplier req < 1
                    then market\<lparr>m_Multiplier := mr_Multiplier req\<rparr> else market);
          market = (if \<not> mr_JumpMultiplier req < 0 \<and> mr_JumpMultiplier req < 1
                    then market\<lparr>m_JumpMultiplier := mr_JumpMultiplier req\<rparr> else market);
          market = (if \<not> mr_Kink req < 0 \<and> mr_Kink req < 1
                    then market\<lparr>m_Kink := mr_Kink req\<rparr> else market);
          market = (if mr_PriceThreshold req > 0 then market\<lparr>m_PriceThreshold := mr_PriceThreshold req\<rparr>
                    else if mr_PriceThreshold req < 0 then market\<lparr>m_PriceThreshold := 0\<rparr> else market);
          market = (if 0 < mr_Price req then market\<lparr>m_Price := mr_Price req\<rparr> else market);
          market = (if \<not> mr_MaxPledge req < 0 then market\<lparr>m_MaxPledge := mr_MaxPledge req\<rparr> else market)
      in market)"

definition handleMarketEvent :: "ext \<Rightarrow> Proposal \<Rightarrow> MarketReq \<Rightarrow> Output \<Rightarrow> (world, unit) go" where
  "handleMarketEvent X p req output =
     seqE (market_Find (mr_AssetID req)) (\<lambda>market.
     if m_ID market = 0
     then seqE (market_Create (new_market req output)) (\<lambda>_. ret ())
     else if m_Version market \<ge> o_ID output then ret ()
     else
     seqE (accrue X market output) (\<lambda>market.
     market_Update X (apply_market_req req market) (o_ID output)))"

section \<open>worker/payee/proposal_market_status.go\<close>

definition handleOpenMarketEvent :: "ext \<Rightarrow> Proposal \<Rightarrow> MarketStatusReq \<Rightarrow> Output \<Rightarrow> (world, unit) go" where
  "handleOpenMarketEvent X p req output =
     seqE (mustGetMarket (ms_AssetID req)) (\<lambda>market.
     seqE (accrue X market output) (\<lambda>market.
     market_Update X (market\<lparr>m_Status := MarketStatusOpen\<rparr>) (o_ID output)))"

definition handleCloseMarketEvent :: "ext \<Rightarrow> Proposal \<Rightarrow> MarketStatusReq \<Rightarrow> Output \<Rightarrow> (world, unit) go" where
  "handleCloseMarketEvent X p req output =
     seqE (mustGetMarket (ms_AssetID req)) (\<lambda>market.
     seqE (accrue X market output) (\<lambda>market.
     market_Update X (market\<lparr>m_Status := MarketStatusClose\<rparr>) (o_ID output)))"

section \<open>worker/payee/proposal_oracle.go\<close>

text \<open>Decoding a signer's public key: \<open>None\<close> when the base64 or the key is bad.\<close>

definition decode_signer_key :: "ext \<Rightarrow> string \<Rightarrow> bytes option" where
  "decode_signer_key X publicKey = (case StdDecode publicKey of
     None \<Rightarrow> None | Some bts \<Rightarrow> blstPub X bts)"

definition handleAddOracleSignerEvent :: "ext \<Rightarrow> Proposal \<Rightarrow> AddOracleSignerReq \<Rightarrow> Output \<Rightarrow> (world, unit) go" where
  "handleAddOracleSignerEvent X p req output =
     seqE (Require (decode_signer_key X (ao_PublicKey req) \<noteq> None) ''payee/invalid-oracle-signer'' []) (\<lambda>_.
     signer_Save (ao_UserID req) (ao_PublicKey req))"

definition handleRemoveOracleSignerEvent :: "Proposal \<Rightarrow> RemoveOracleSignerReq \<Rightarrow> Output \<Rightarrow> (world, unit) go" where
  "handleRemoveOracleSignerEvent p req output = signer_Delete (ro_UserID req)"

section \<open>worker/payee/proposal_sys.go\<close>

text \<open>The inner loop of \<open>migrateV1\<close>: the users to update, each with a new address.\<close>

fun migrate_collect :: "ext \<Rightarrow> User list \<Rightarrow> (world, User list) go" where
  "migrate_collect X [] = ret []"
| "migrate_collect X (user # us) =
     (let addressV0 = BuildUserAddressV0 X (u_UserID user) in
      if u_Address user = addressV0
      then seqE (uuid_New X) (\<lambda>a.
           seqE (migrate_collect X us) (\<lambda>updates.
           ret (user\<lparr>u_AddressV0 := Some addressV0, u_Address := a\<rparr> # updates)))
      else migrate_collect X us)"

definition migrate_limit :: nat where
  "migrate_limit = 500"

text \<open>The outer loop, with the number of rounds as fuel; the lemmas show that it never runs out.\<close>

fun migrateV1_loop :: "ext \<Rightarrow> nat \<Rightarrow> int \<Rightarrow> (world, unit) go" where
  "migrateV1_loop X 0 from = panic ''out of fuel''"
| "migrateV1_loop X (Suc n) from =
     seqE (user_List from migrate_limit) (\<lambda>us.
     let from' = (if us = [] then from else u_ID (last us)) in
     seqE (migrate_collect X us) (\<lambda>updates.
     seqE (user_MigrateToV1 updates) (\<lambda>_.
     if length us < migrate_limit then ret () else migrateV1_loop X n from')))"

definition migrateV1 :: "ext \<Rightarrow> int \<Rightarrow> (world, unit) go" where
  "migrateV1 X version = (\<lambda>w. migrateV1_loop X (Suc (length (users w))) 0 w)"

definition migrateSystem :: "ext \<Rightarrow> int \<Rightarrow> int \<Rightarrow> (world, unit) go" where
  "migrateSystem X sysver version =
     seqE (getS sysversion) (\<lambda>sv. if sv < 1 then migrateV1 X version else ret ())"

definition setProperty :: "ext \<Rightarrow> Output \<Rightarrow> Proposal \<Rightarrow> SetPropertyReq \<Rightarrow> (world, unit) go" where
  "setProperty X output p action =
     seqE (Require (sp_Key action \<noteq> '''') ''payee/empty-key'' []) (\<lambda>_.
     seqE (if sp_Key action = SysVersionKey
           then (let ver = ParseInt64 (sp_Value action) in
                seqE (Require (ver \<noteq> None) ''payee/invalid-sysversion'' []) (\<lambda>_.
                seqE (validateNewSysVersion (the ver)) (\<lambda>_.
                migrateSystem X (the ver) (o_ID output))))
           else ret ()) (\<lambda>_.
     property_Save (sp_Key action) (sp_Value action)))"

section \<open>worker/payee/proposal_withdraw.go\<close>

definition handleWithdrawEvent :: "ext \<Rightarrow> Proposal \<Rightarrow> WithdrawReq \<Rightarrow> Output \<Rightarrow> (world, unit) go" where
  "handleWithdrawEvent X p req output =
     (let amount = dec_truncate 8 (wr_Amount req) in
     seqE (mustGetMarket (wr_Asset req)) (\<lambda>market.
     seqE (Require (amount \<le> m_Reserves market) ''payee/skip/insufficient-reserves'' []) (\<lambda>_.
     seqE (wallet_CreateTransfers [zero_transfer\<lparr>
         t_TraceID := uuidModify X (p_TraceID p) ''withdraw-reverses'',
         t_AssetID := wr_Asset req,
         t_Amount := amount,
         t_Threshold := 1,
         t_Opponents := [wr_Opponent req]\<rparr>]) (\<lambda>_.
     if o_ID output > m_Version market
     then seqE (accrue X (market\<lparr>
            m_TotalCash := m_TotalCash market - amount,
            m_Reserves := m_Reserves market - amount\<rparr>) output) (\<lambda>market.
          market_Update X market (o_ID output))
     else ret ()))))"

section \<open>worker/payee/proposal_passed.go\<close>

text \<open>The content of a proposal is always the request of its action, as \<open>buildProposalV1\<close> makes it.\<close>

definition handlePassedProposalInternal :: "ext \<Rightarrow> Proposal \<Rightarrow> Output \<Rightarrow> (world, unit) go" where
  "handlePassedProposalInternal X p output =
     (case (p_Action p, p_Content p) of
        (ActionTypeProposalUpsertMarket, MarketContent req) \<Rightarrow> handleMarketEvent X p req output
      | (ActionTypeProposalWithdrawReserves, WithdrawContent req) \<Rightarrow> handleWithdrawEvent X p req output
      | (ActionTypeProposalCloseMarket, MarketStatusContent req) \<Rightarrow> handleCloseMarketEvent X p req output
      | (ActionTypeProposalOpenMarket, MarketStatusContent req) \<Rightarrow> handleOpenMarketEvent X p req output
      | (ActionTypeProposalAddOracleSigner, AddOracleSignerContent req) \<Rightarrow> handleAddOracleSignerEvent X p req output
      | (ActionTypeProposalRemoveOracleSigner, RemoveOracleSignerContent req) \<Rightarrow> handleRemoveOracleSignerEvent p req output
      | (ActionTypeProposalSetProperty, SetPropertyContent req) \<Rightarrow> setProperty X output p req
      | _ \<Rightarrow> ret ())"

definition handlePassedProposal :: "ext \<Rightarrow> Proposal \<Rightarrow> Output \<Rightarrow> (world, unit) go" where
  "handlePassedProposal X p output = handlePassedProposalInternal X p output"

section \<open>worker/payee/proposal.go\<close>

definition validateProposal :: "ext \<Rightarrow> Proposal \<Rightarrow> (world, unit) go" where
  "validateProposal X p =
     (case (p_Action p, p_Content p) of
        (ActionTypeProposalSetProperty, SetPropertyContent content) \<Rightarrow>
          seqE (Require (sp_Key content \<noteq> '''') ''payee/empty-key'' []) (\<lambda>_.
          if sp_Key content = SysVersionKey
          then (let ver = ParseInt64 (sp_Value content) in
               seqE (Require (ver \<noteq> None) ''payee/invalid-sysversion'' []) (\<lambda>_.
               validateNewSysVersion (the ver)))
          else ret ())
      | (ActionTypeProposalAddOracleSigner, AddOracleSignerContent content) \<Rightarrow>
          Require (decode_signer_key X (ao_PublicKey content) \<noteq> None) ''payee/invalid-oracle-signer'' []
      | _ \<Rightarrow> ret ())"

definition handleShoutProposal :: "ext \<Rightarrow> System \<Rightarrow> Output \<Rightarrow> bytes \<Rightarrow> (world, unit) go" where
  "handleShoutProposal X S output message =
     seqE (Require (IsMember S (o_Sender output)) ''payee/not-member'' []) (\<lambda>_.
     let trace = scan_uuid X message in
     seqE (Require (trace \<noteq> None) ''payee/mtgscan'' []) (\<lambda>_.
     seqE (mustGetProposal (uuidToString X (fst (the trace)))) (\<lambda>proposal.
     ProposalCreated X S proposal (o_Sender output))))"

section \<open>worker/payee/proposal_v1.go\<close>

definition UnmarshalOr :: "('a \<Rightarrow> Content) \<Rightarrow> 'a \<Rightarrow> 'a option \<Rightarrow> Content" where
  "UnmarshalOr con zero r = con (case r of None \<Rightarrow> zero | Some x \<Rightarrow> x)"

text \<open>\<open>content.UnmarshalBinary(message)\<close>: on an error the zero request is kept.\<close>

definition proposal_content :: "ext \<Rightarrow> ActionType \<Rightarrow> bytes \<Rightarrow> Content option" where
  "proposal_content X action message = (case action of
     ActionTypeProposalUpsertMarket \<Rightarrow> Some (UnmarshalOr MarketContent zero_MarketReq (MarketReq_UnmarshalBinary X message))
   | ActionTypeProposalWithdrawReserves \<Rightarrow> Some (UnmarshalOr WithdrawContent zero_WithdrawReq (WithdrawReq_UnmarshalBinary X message))
   | ActionTypeProposalCloseMarket \<Rightarrow> Some (UnmarshalOr MarketStatusContent zero_MarketStatusReq (MarketStatusReq_UnmarshalBinary X message))
   | ActionTypeProposalOpenMarket \<Rightarrow> Some (UnmarshalOr MarketStatusContent zero_MarketStatusReq (MarketStatusReq_UnmarshalBinary X message))
   | ActionTypeProposalAddOracleSigner \<Rightarrow> Some (UnmarshalOr AddOracleSignerContent zero_AddOracleSignerReq (AddOracleSignerReq_UnmarshalBinary X message))
   | ActionTypeProposalRemoveOracleSigner \<Rightarrow> Some (UnmarshalOr RemoveOracleSignerContent zero_RemoveOracleSignerReq (RemoveOracleSignerReq_UnmarshalBinary X message))
   | ActionTypeProposalSetProperty \<Rightarrow> Some (UnmarshalOr SetPropertyContent zero_SetProperty (SetProperty_UnmarshalBinary message))
   | _ \<Rightarrow> None)"

definition buildProposalV1 :: "ext \<Rightarrow> Output \<Rightarrow> ActionType \<Rightarrow> bytes \<Rightarrow> (world, Proposal) go" where
  "buildProposalV1 X output action message =
     (case proposal_content X action message of
        None \<Rightarrow> throw (GoError ''unknown proposal action'')
      | Some content \<Rightarrow>
          (let p = zero_proposal\<lparr>
             p_CreatedAt := o_CreatedAt output,
             p_UpdatedAt := o_CreatedAt output,
             p_TraceID := o_TraceID output,
             p_Creator := o_Sender output,
             p_AssetID := o_AssetID output,
             p_Amount := o_Amount output,
             p_Action := action,
             p_Version := o_ID output,
             p_Content := content\<rparr>
           in seqE (validateProposal X p) (\<lambda>_. ret p)))"

text \<open>
  \<open>HandleTransfer\<close> of \<open>service/wallet/wallet.go\<close>: the wallet service asks the Mixin API for a payment
  from the node's own wallet.
\<close>

definition HandleTransfer :: "ext \<Rightarrow> Transfer \<Rightarrow> (world, unit) go" where
  "HandleTransfer X t = (if handleTransfer X (t_TraceID t)
     then (\<lambda>w. (Ok (), w\<lparr>forwarded := forwarded w @ [t]\<rparr>))
     else throw (GoError ''HandleTransfer''))"

definition forward_transfer :: "ext \<Rightarrow> System \<Rightarrow> Output \<Rightarrow> Proposal \<Rightarrow> bytes \<Rightarrow> Transfer" where
  "forward_transfer X S output p data = zero_transfer\<lparr>
     t_TraceID := uuidModify X (o_TraceID output) (p_TraceID p @ ClientID S),
     t_AssetID := VoteAsset S,
     t_Amount := VoteAmount S,
     t_Threshold := Threshold S,
     t_Opponents := MemberIDs S,
     t_Memo := StdEncode data\<rparr>"

text \<open>\<open>pid, _ := uuid.FromString(...)\<close> and \<open>data, _ := mtg.Encode(...)\<close>: errors leave the zero value.\<close>

definition forwardProposalV1 :: "ext \<Rightarrow> System \<Rightarrow> Output \<Rightarrow> Proposal \<Rightarrow> ActionType \<Rightarrow> (world, unit) go" where
  "forwardProposalV1 X S output p action =
     (let pid = (case uuidFromString X (p_TraceID p) of None \<Rightarrow> uuid_Nil | Some u \<Rightarrow> u);
          data = (case Encode [encode_int (actionCode action), Some pid] of None \<Rightarrow> [] | Some d \<Rightarrow> d)
      in HandleTransfer X (forward_transfer X S output p data))"

definition announce ::
  "(Output \<Rightarrow> Proposal \<Rightarrow> ActionType \<Rightarrow> (world, unit) go) \<Rightarrow> ext \<Rightarrow> System \<Rightarrow> Output \<Rightarrow> Proposal \<Rightarrow> (world, unit) go" where
  "announce fwd X S output proposal =
     (if IsMember S (o_Sender output) then ProposalCreated X S proposal (o_Sender output)
      else if IsStaff S (o_Sender output) then fwd output proposal ActionTypeProposalShout
      else ret ())"

definition handleMakeProposalV1 :: "ext \<Rightarrow> System \<Rightarrow> Output \<Rightarrow> bytes \<Rightarrow> (world, unit) go" where
  "handleMakeProposalV1 X S output message =
     (case scan1 scan_int 0 message of
        None \<Rightarrow> ret ()
      | Some (v, message) \<Rightarrow>
          (let action = toAction v in
           if \<not> IsProposalAction action then ret ()
           else
           seqE (buildProposalV1 X output action message) (\<lambda>proposal.
           seqE (proposal_Create proposal) (\<lambda>proposal.
           announce (forwardProposalV1 X S) X S output proposal))))"

text \<open>
  The member's branch of a vote, which versions 1 and 2 share line by line: validation, the vote, the
  notifications, the threshold, the update and the execution.
\<close>

definition cast_vote :: "ext \<Rightarrow> System \<Rightarrow> Output \<Rightarrow> Proposal \<Rightarrow> (world, Proposal) go" where
  "cast_vote X S output proposal =
     (let proposal = proposal\<lparr>p_Votes := p_Votes proposal @ [o_Sender output]\<rparr> in
      seqE (ProposalApproved X S proposal (o_Sender output)) (\<lambda>_.
      seqE (if length (p_Votes proposal) \<ge> Threshold S
            then (let proposal = proposal\<lparr>p_PassedAt := Some (o_CreatedAt output)\<rparr> in
                 seqE (ProposalPassed X S proposal) (\<lambda>_. ret proposal))
            else ret proposal) (\<lambda>proposal.
      proposal_Update X proposal (o_ID output))))"

definition member_vote :: "ext \<Rightarrow> System \<Rightarrow> Output \<Rightarrow> Proposal \<Rightarrow> (world, unit) go" where
  "member_vote X S output proposal =
     seqE (validateProposal X proposal) (\<lambda>_.
     let handled = (p_PassedAt proposal \<noteq> None \<or> o_Sender output \<in> set (p_Votes proposal)) in
     seqE (if \<not> handled then cast_vote X S output proposal else ret proposal) (\<lambda>proposal.
     if p_PassedAt proposal \<noteq> None \<and> p_Version proposal = o_ID output
     then handlePassedProposal X proposal output
     else ret ()))"

definition handleVoteProposalV1 :: "ext \<Rightarrow> System \<Rightarrow> Output \<Rightarrow> bytes \<Rightarrow> (world, unit) go" where
  "handleVoteProposalV1 X S output message =
     (case scan_uuid X message of
        None \<Rightarrow> ret ()
      | Some (trace, message) \<Rightarrow>
          seqE (mustGetProposal (uuidToString X trace)) (\<lambda>proposal.
          if IsStaff S (o_Sender output) then forwardProposalV1 X S output proposal ActionTypeProposalVote
          else if IsMember S (o_Sender output) then member_vote X S output proposal
          else ret ()))"

section \<open>worker/payee/proposal_v2.go\<close>

definition forwardProposal :: "ext \<Rightarrow> System \<Rightarrow> Output \<Rightarrow> Proposal \<Rightarrow> ActionType \<Rightarrow> (world, unit) go" where
  "forwardProposal X S output p action =
     (let pid = (case uuidFromString X (p_TraceID p) of None \<Rightarrow> uuid_Nil | Some u \<Rightarrow> u);
          data = (case Encode [ActionType_MarshalBinary action, Some pid] of None \<Rightarrow> [] | Some d \<Rightarrow> d);
          data = EncodeTransactionAction X \<lparr>ta_FollowID = [], ta_Body = data\<rparr>
      in HandleTransfer X (forward_transfer X S output p data))"

definition handleMakeProposal :: "ext \<Rightarrow> System \<Rightarrow> Output \<Rightarrow> bytes \<Rightarrow> (world, unit) go" where
  "handleMakeProposal X S output message =
     (let scanned = scan1 ActionType_UnmarshalBinary ActionTypeDefault message in
      seqE (Require (scanned \<noteq> None) ''payee/mtgscan'' []) (\<lambda>_.
      let (action, message) = the scanned in
      seqE (buildProposalV1 X output action message) (\<lambda>proposal.
      seqE (proposal_Create proposal) (\<lambda>proposal.
      announce (forwardProposal X S) X S output proposal))))"

definition handleVoteProposal :: "ext \<Rightarrow> System \<Rightarrow> Output \<Rightarrow> bytes \<Rightarrow> (world, unit) go" where
  "handleVoteProposal X S output message =
     (case scan_uuid X message of
        None \<Rightarrow> ret ()
      | Some (trace, message) \<Rightarrow>
          seqE (mustGetProposal (uuidToString X trace)) (\<lambda>proposal.
          if IsStaff S (o_Sender output) then forwardProposal X S output proposal ActionTypeProposalVote
          else if IsMember S (o_Sender output) then member_vote X S output proposal
          else ret ()))"

section \<open>worker/payee/proposal_v0.go\<close>

definition handleVoteProposalEventV0 :: "ext \<Rightarrow> System \<Rightarrow> Output \<Rightarrow> Member \<Rightarrow> bytes \<Rightarrow> (world, unit) go" where
  "handleVoteProposalEventV0 X S output member body =
     (case scan_uuid X body of
        None \<Rightarrow> ret ()
      | Some (traceID, body) \<Rightarrow>
          seqE (mustGetProposal (uuidToString X traceID)) (\<lambda>p.
          let passed = (p_PassedAt p \<noteq> None) in
          if passed \<and> p_Version p < o_ID output then ret ()
          else
          seqE (if \<not> passed \<and> mb_ClientID member \<notin> set (p_Votes p)
                then (let p = p\<lparr>p_Votes := p_Votes p @ [mb_ClientID member]\<rparr> in
                     seqE (ProposalApproved X S p (mb_ClientID member)) (\<lambda>_.
                     let passed = (length (p_Votes p) \<ge> Threshold S) in
                     seqE (if passed
                           then (let p = p\<lparr>p_PassedAt := Some (o_CreatedAt output)\<rparr> in
                                seqE (ProposalPassed X S p) (\<lambda>_. ret p))
                           else ret p) (\<lambda>p.
                     seqE (proposal_Update X p (o_ID output)) (\<lambda>p. ret (passed, p)))))
                else ret (passed, p)) (\<lambda>(passed, p).
          if passed then handlePassedProposal X p output else ret ())))"

text \<open>
  \<open>mtg.Scan(body, &content)\<close>: the request is itself one length-prefixed field, so an empty field
  leaves the zero request. An action without a request panics (\<open>log.Panicf\<close>).
\<close>

definition proposal_content_v0 :: "ext \<Rightarrow> ActionType \<Rightarrow> bytes \<Rightarrow> (world, Content option) go" where
  "proposal_content_v0 X action body = (case action of
     ActionTypeProposalUpsertMarket \<Rightarrow> ret (map_option (MarketContent \<circ> fst) (scan1 (MarketReq_UnmarshalBinary X) zero_MarketReq body))
   | ActionTypeProposalWithdrawReserves \<Rightarrow> ret (map_option (WithdrawContent \<circ> fst) (scan1 (WithdrawReq_UnmarshalBinary X) zero_WithdrawReq body))
   | ActionTypeProposalCloseMarket \<Rightarrow> ret (map_option (MarketStatusContent \<circ> fst) (scan1 (MarketStatusReq_UnmarshalBinary X) zero_MarketStatusReq body))
   | ActionTypeProposalOpenMarket \<Rightarrow> ret (map_option (MarketStatusContent \<circ> fst) (scan1 (MarketStatusReq_UnmarshalBinary X) zero_MarketStatusReq body))
   | ActionTypeProposalAddOracleSigner \<Rightarrow> ret (map_option (AddOracleSignerContent \<circ> fst) (scan1 (AddOracleSignerReq_UnmarshalBinary X) zero_AddOracleSignerReq body))
   | ActionTypeProposalRemoveOracleSigner \<Rightarrow> ret (map_option (RemoveOracleSignerContent \<circ> fst) (scan1 (RemoveOracleSignerReq_UnmarshalBinary X) zero_RemoveOracleSignerReq body))
   | ActionTypeProposalSetProperty \<Rightarrow> ret (map_option (SetPropertyContent \<circ> fst) (scan1 SetProperty_UnmarshalBinary zero_SetProperty body))
   | _ \<Rightarrow> panic ''unknown proposal action'')"

definition handleCreateProposalEventV0 ::
  "ext \<Rightarrow> System \<Rightarrow> Output \<Rightarrow> Member \<Rightarrow> ActionType \<Rightarrow> string \<Rightarrow> bytes \<Rightarrow> (world, unit) go" where
  "handleCreateProposalEventV0 X S output member action traceID body =
     seqE (proposal_content_v0 X action body) (\<lambda>content. case content of
       None \<Rightarrow> ret ()
     | Some content \<Rightarrow>
         (let p = zero_proposal\<lparr>
            p_TraceID := traceID,
            p_Creator := mb_ClientID member,
            p_AssetID := o_AssetID output,
            p_Amount := o_Amount output,
            p_Action := action,
            p_CreatedAt := o_CreatedAt output,
            p_UpdatedAt := o_CreatedAt output,
            p_Content := content\<rparr> in
          seqE (proposal_Create p) (\<lambda>p.
          ProposalCreated X S p (mb_ClientID member))))"

definition handleProposalActionV0 ::
  "ext \<Rightarrow> System \<Rightarrow> Output \<Rightarrow> Member \<Rightarrow> ActionType \<Rightarrow> bytes \<Rightarrow> (world, unit) go" where
  "handleProposalActionV0 X S output member action body =
     (if action = ActionTypeProposalVote then handleVoteProposalEventV0 X S output member body
      else handleCreateProposalEventV0 X S output member action (o_TraceID output) body)"

end
