(* ===== verification/Payee_Dispatch.thy ===== *)
theory Payee_Dispatch
  imports Payee_Proposal
begin

text \<open>
  The payee's loop: oracle prices (\<open>price.go\<close>), the dispatch of user actions (\<open>user_action.go\<close>),
  the three memo formats (\<open>payee_v1.go\<close>, \<open>payee_v2.go\<close>, \<open>payee_v3.go\<close>), \<open>handleOutput\<close> and \<open>run\<close>
  (\<open>payee.go\<close>). One call of \<open>run\<close> handles the outputs after the checkpoint in order and moves the
  checkpoint past each; \<open>Run\<close> calls it again and again, whatever it returned.
\<close>

section \<open>worker/payee/price.go\<close>

record Signer =
  sg_Index :: nat
  sg_VerifyKey :: bytes

definition verifyPriceData :: "ext \<Rightarrow> PriceData \<Rightarrow> Signer list \<Rightarrow> int \<Rightarrow> bool" where
  "verifyPriceData X p sgs threshold =
     (let pubs = map sg_VerifyKey
            (filter (\<lambda>signer. sg_Index signer < 64 \<and> bit (cs_Mask (pd_Signature p)) (sg_Index signer)) sgs)
      in int (length pubs) \<ge> threshold
         \<and> blstVerify X pubs (Payload X p) (cs_Signature (pd_Signature p)))"

text \<open>The loop that decodes the signers, with indices from 1.\<close>

fun build_signers :: "ext \<Rightarrow> nat \<Rightarrow> OracleSigner list \<Rightarrow> (world, Signer list) go" where
  "build_signers X idx [] = ret []"
| "build_signers X idx (s # ss) =
     seqE (Require (decode_signer_key X (os_PublicKey s) \<noteq> None) ''payee/invalid-oracle-signer'' []) (\<lambda>_.
     seqE (build_signers X (idx + 1) ss) (\<lambda>signers.
     ret (\<lparr>sg_Index = idx + 1, sg_VerifyKey = the (decode_signer_key X (os_PublicKey s))\<rparr> # signers)))"

definition decodeMemo :: "string \<Rightarrow> bytes" where
  "decodeMemo memo = (case StdDecode memo of
     Some b \<Rightarrow> b
   | None \<Rightarrow> (case URLDecode memo of Some b \<Rightarrow> b | None \<Rightarrow> bytes_of_string memo))"

definition handlePriceEvent :: "ext \<Rightarrow> Output \<Rightarrow> (world, unit) go" where
  "handlePriceEvent X output =
     (let parsed = PriceData_UnmarshalBinary X (decodeMemo (o_Memo output)) in
     seqE (Require (parsed \<noteq> None) ''payee/invalid-price-data'' []) (\<lambda>_.
     let priceData = the parsed;
         priceTime = pd_Timestamp priceData * 1000000000 in
     seqE (mustGetMarket (pd_AssetID priceData)) (\<lambda>market.
     if m_Version market \<ge> o_ID output then ret ()
     else
     let market = market\<lparr>m_Price := pd_Price priceData\<rparr> in
     seqE (getS sysversion) (\<lambda>sv.
     if sv \<ge> 3 \<and> m_PriceUpdatedAt market > priceTime then ret ()
     else
     let market = market\<lparr>m_PriceUpdatedAt := if sv < 3 then o_CreatedAt output else priceTime\<rparr> in
     seqE signer_FindAll (\<lambda>ss.
     seqE (build_signers X 0 ss) (\<lambda>signers.
     seqE (Require (verifyPriceData X priceData signers (m_PriceThreshold market)) ''payee/oracle-verify-failed'' []) (\<lambda>_.
     seqE (accrue X market output) (\<lambda>market.
     market_Update X market (o_ID output)))))))))"

section \<open>worker/payee/user_action.go\<close>

definition handleUserAction :: "ext \<Rightarrow> Output \<Rightarrow> ActionType \<Rightarrow> string \<Rightarrow> bytes \<Rightarrow> (world, unit) go" where
  "handleUserAction X output actionType followID body =
     (case actionType of
        ActionTypeSupply \<Rightarrow> handleSupplyEvent X output (o_Sender output) followID body
      | ActionTypeBorrow \<Rightarrow> handleBorrowEvent X output (o_Sender output) followID body
      | ActionTypeRedeem \<Rightarrow> handleRedeemEvent X output (o_Sender output) followID body
      | ActionTypeRepay \<Rightarrow> handleRepayEvent X output (o_Sender output) followID body
      | ActionTypePledge \<Rightarrow> handlePledgeEvent X output (o_Sender output) followID body
      | ActionTypeUnpledge \<Rightarrow> handleUnpledgeEvent X output (o_Sender output) followID body
      | ActionTypeQuickPledge \<Rightarrow> handleQuickPledgeEvent X output (o_Sender output) followID body
      | ActionTypeQuickBorrow \<Rightarrow> handleQuickBorrowEvent X output (o_Sender output) followID body
      | ActionTypeQuickRedeem \<Rightarrow> handleQuickRedeemEvent X output (o_Sender output) followID body
      | ActionTypeLiquidate \<Rightarrow> handleLiquidationEvent X output (o_Sender output) followID body
      | _ \<Rightarrow> handleRefundEventV0 X output (o_Sender output) followID ActionTypeRefundTransfer ErrUnknown)"

text \<open>Looking up the sender and registering him if he is new, the same lines in the three versions.\<close>

definition ensure_user :: "ext \<Rightarrow> Output \<Rightarrow> (world, unit) go" where
  "ensure_user X output =
     seqE (user_Find (o_Sender output)) (\<lambda>user.
     if u_ID user = 0
     then seqE (uuid_New X) (\<lambda>address.
          seqE (user_Create (zero_user\<lparr>
              u_UserID := o_Sender output,
              u_Address := address,
              u_AddressV0 := Some (BuildUserAddressV0 X (o_Sender output))\<rparr>)) (\<lambda>_. ret ()))
     else ret ())"

section \<open>worker/payee/payee_v1.go\<close>

text \<open>
  A panic of the decryption (an empty ciphertext) is not recovered; an error leaves the message as it
  is.
\<close>

definition handleOutputV1 :: "ext \<Rightarrow> System \<Rightarrow> Output \<Rightarrow> (world, unit) go" where
  "handleOutputV1 X S output =
     (let message = decodeMemo (o_Memo output) in
     seqE (getS sysversion) (\<lambda>sv.
     case (if sv < 1 then DecodeMemberActionV0 X message (Members S) else None) of
       Some (member, action, body) \<Rightarrow> handleProposalActionV0 X S output member action body
     | None \<Rightarrow>
     (case Decrypt X message (PrivateKey S) of
       Panic p \<Rightarrow> panic p
     | r \<Rightarrow>
     (let message = (case r of Ok body \<Rightarrow> body | _ \<Rightarrow> message) in
     case scan1 scan_int 0 message of
       None \<Rightarrow> ret ()
     | Some (v, message) \<Rightarrow>
     (let action = toAction v in
     if action = ActionTypeProposalMake then handleMakeProposalV1 X S output message
     else if action = ActionTypeProposalShout then handleShoutProposal X S output message
     else if action = ActionTypeProposalVote then handleVoteProposalV1 X S output message
     else (case scan_uuid X message of
       None \<Rightarrow> ret ()
     | Some (followID, message) \<Rightarrow>
         seqE (ensure_user X output) (\<lambda>_.
         handleUserAction X output action (uuidToString X followID) message)))))))"

section \<open>worker/payee/payee_v2.go and payee_v3.go\<close>

text \<open>
  The memo of versions 2 and up: the action, the follow identifier and the message. When the payload
  decodes but its action does not, the message is nil.
\<close>

definition decode_payload :: "ext \<Rightarrow> bytes \<Rightarrow> ActionType \<times> string \<times> bytes" where
  "decode_payload X message = (case DecodeTransactionAction X message of
     None \<Rightarrow> (ActionTypeDefault, '''', message)
   | Some payload \<Rightarrow> (case scan1 ActionType_UnmarshalBinary ActionTypeDefault (ta_Body payload) of
       None \<Rightarrow> (ActionTypeDefault, '''', [])
     | Some (action, message) \<Rightarrow>
         (action,
          (case uuidOfBytes X (ta_FollowID payload) of
             Some follow \<Rightarrow> if follow \<noteq> uuid_Nil then uuidToString X follow else ''''
           | None \<Rightarrow> ''''),
          message)))"

definition handleOutputV2 :: "ext \<Rightarrow> System \<Rightarrow> Output \<Rightarrow> (world, unit) go" where
  "handleOutputV2 X S output =
     (let (action, followID, message) = decode_payload X (decodeMemo (o_Memo output)) in
     if action = ActionTypeProposalMake then handleMakeProposal X S output message
     else if action = ActionTypeProposalShout then handleShoutProposal X S output message
     else if action = ActionTypeProposalVote then handleVoteProposal X S output message
     else
       seqE (ensure_user X output) (\<lambda>_.
       handleUserAction X output action followID message))"

text \<open>
  \<open>strings.ToLower(memo) == "deposit"\<close>. Besides the ASCII letters only the dotted capital I (U+0130,
  the bytes C4 B0) is lowered to a letter of that word.
\<close>

fun lower_memo :: "string \<Rightarrow> string" where
  "lower_memo [] = []"
| "lower_memo (c # cs) =
     (if c = CHR 0xC4 \<and> cs \<noteq> [] \<and> hd cs = CHR 0xB0 then CHR ''i'' # lower_memo (tl cs)
      else (let n = (of_char c :: nat) in if 65 \<le> n \<and> n \<le> 90 then char_of (n + 32) else c) # lower_memo cs)"

text \<open>
  Version 3 also returns the follow identifier, which names the refund \<open>handleOutput\<close> makes; an error
  of the user store returns none. The pair of results is the error's continuation here.
\<close>

definition handleOutputV3 ::
  "ext \<Rightarrow> System \<Rightarrow> Output \<Rightarrow> (string \<Rightarrow> err \<Rightarrow> (world, unit) go) \<Rightarrow> (world, unit) go" where
  "handleOutputV3 X S output onErr =
     (if lower_memo (o_Memo output) = ''deposit'' then ret ()
     else
     let (action, followID, message) = decode_payload X (decodeMemo (o_Memo output)) in
     if action = ActionTypeProposalMake then tryE (handleMakeProposal X S output message) (onErr followID) ret
     else if action = ActionTypeProposalShout then tryE (handleShoutProposal X S output message) (onErr followID) ret
     else if action = ActionTypeProposalVote then tryE (handleVoteProposal X S output message) (onErr followID) ret
     else
       tryE (ensure_user X output) (onErr '''') (\<lambda>_.
       tryE (handleUserAction X output action followID message) (onErr followID) ret))"

section \<open>worker/payee/payee.go\<close>

text \<open>The end of \<open>handleOutput\<close>: a flagged error is refunded, another compound error is dropped.\<close>

definition refund_on_error :: "ext \<Rightarrow> Output \<Rightarrow> string \<Rightarrow> err \<Rightarrow> (world, unit) go" where
  "refund_on_error X output followID e =
     (case e of
        CompoundError msg flag \<Rightarrow>
          (if ShouldRefund flag
           then (let memo = json_TransferAction (zero_TransferAction\<lparr>a_Source := ActionTypeRefundTransfer,
                              a_FollowID := followID, a_Message := msg\<rparr>)
                 in wallet_CreateTransfers [zero_transfer\<lparr>
                      t_TraceID := uuidModify X (o_TraceID output) memo,
                      t_AssetID := o_AssetID output,
                      t_Amount := o_Amount output,
                      t_Memo := StdEncode (bytes_of_string memo),
                      t_Threshold := 1,
                      t_Opponents := [o_Sender output]\<rparr>])
           else ret ())
      | _ \<Rightarrow> throw e)"

definition handleOutput :: "ext \<Rightarrow> System \<Rightarrow> Output \<Rightarrow> (world, unit) go" where
  "handleOutput X S output =
     tryE (handlePriceEvent X output)
       (\<lambda>e. if \<not> is_CompoundError e then throw e
            else if o_Sender output = '''' then ret ()
            else
            seqE (getS sysversion) (\<lambda>sv.
            if sv = 0 \<or> sv = 1 then tryE (handleOutputV1 X S output) (refund_on_error X output '''') ret
            else if sv = 2 then tryE (handleOutputV2 X S output) (refund_on_error X output '''') ret
            else handleOutputV3 X S output (refund_on_error X output)))
       ret"

definition checkpointKey :: string where
  "checkpointKey = ''outputs_checkpoint''"

definition payee_limit :: nat where
  "payee_limit = 500"

definition run :: "ext \<Rightarrow> System \<Rightarrow> (world, unit) go" where
  "run X S =
     seqE (loadSysVersion X) (\<lambda>_.
     seqE (property_Get checkpointKey) (\<lambda>v.
     seqE (wallet_List (castInt64 X v) payee_limit) (\<lambda>outs.
     if length outs \<le> 0 then throw (GoError ''no more outputs'')
     else forE outs (\<lambda>output.
       seqE (handleOutput X S output) (\<lambda>_.
       property_Save checkpointKey (itoa (o_ID output)))))))"

text \<open>\<open>Run\<close>: one call of \<open>run\<close> after another; an error only changes the pause. A panic ends the process.\<close>

inductive payee_step :: "ext \<Rightarrow> System \<Rightarrow> world \<Rightarrow> world \<Rightarrow> bool" for X S where
  run_ok: "run X S w = (Ok (), w') \<Longrightarrow> payee_step X S w w'"
| run_err: "run X S w = (Err e, w') \<Longrightarrow> payee_step X S w w'"

end
