(* ===== verification/Example.thy ===== *)
theory Example
  imports Payee_Dispatch
begin

text \<open>
  A concrete instance of the model: externals with the documented behaviour, two markets, accounts
  and outputs. The witnesses of the properties evaluate the model on it.
\<close>

section \<open>Externals\<close>

text \<open>Numbers in base 255, least digit first, with the byte 255 as the end mark.\<close>

fun enc255 :: "nat \<Rightarrow> bytes" where
  "enc255 n = (if n = 0 then [255] else of_nat (n mod 255) # enc255 (n div 255))"

declare enc255.simps [simp del]

fun dec255 :: "bytes \<Rightarrow> (nat \<times> bytes) option" where
  "dec255 [] = None"
| "dec255 (b # bs) = (if b = 255 then Some (0, bs)
     else map_option (\<lambda>(n, r). (unat b + 255 * n, r)) (dec255 bs))"

definition marshal0 :: "rat \<Rightarrow> bytes" where
  "marshal0 d = (case quotient_of d of (p, q) \<Rightarrow>
     (if p < 0 then 1 else 0) # enc255 (nat \<bar>p\<bar>) @ enc255 (nat q))"

definition unmarshal0 :: "bytes \<Rightarrow> rat option" where
  "unmarshal0 bs = (case bs of [] \<Rightarrow> None | s # r \<Rightarrow> (case dec255 r of
     None \<Rightarrow> None
   | Some (p, r') \<Rightarrow> (case dec255 r' of
       None \<Rightarrow> None
     | Some (q, _) \<Rightarrow> Some ((if s = 1 then - 1 else 1) * of_nat p / of_nat q))))"

text \<open>An envelope: the bytes of the first part each after a one, then a zero and the second part.\<close>

fun unpack0 :: "bytes \<Rightarrow> (bytes \<times> bytes) option" where
  "unpack0 [] = None"
| "unpack0 [b] = (if b = 0 then Some ([], []) else None)"
| "unpack0 (b # x # r) =
     (if b = 0 then Some ([], x # r)
      else if b = 1 then map_option (\<lambda>(f, body). (x # f, body)) (unpack0 r) else None)"

lemma unpack0_pack: "unpack0 (concat (map (\<lambda>x. [1, x]) f) @ 0 # b) = Some (f, b)"
  by (induction f) (cases b; simp)+

definition ext0 :: ext where
  "ext0 = \<lparr>
     decDiv = quo16,
     decMarshal = marshal0,
     decUnmarshal = unmarshal0,
     decString = (\<lambda>d. ''1''),
     uuidOfBytes = (\<lambda>b. if length b = 16 then Some b else None),
     uuidToString = string_of_bytes,
     uuidFromString = (\<lambda>s. if length s = 16 then Some (bytes_of_string s) else None),
     uuidModify = (\<lambda>a b. a @ ''/'' @ b),
     uuidMD5 = (\<lambda>s. s),
     uuidNew = (\<lambda>n. ''new-'' @ itoa (int n)),
     castInt64 = (\<lambda>s. case ParseInt64 s of None \<Rightarrow> 0 | Some i \<Rightarrow> i),
     msgpackDecode = unpack0,
     msgpackEncode = (\<lambda>f b. concat (map (\<lambda>x. [1, x]) f) @ 0 # b),
     blstPub = (\<lambda>b. Some b),
     blstSig = (\<lambda>b. Some b),
     blstVerify = (\<lambda>pubs payload sig. sig = [1]),
     edVerify = (\<lambda>pk body sig. True),
     sha512 = (\<lambda>b. replicate 64 0),
     checkKey = (\<lambda>k. True),
     checkScalar = (\<lambda>k. True),
     geScalarMult = (\<lambda>a p. replicate 32 0),
     aesEncryptCBC = (\<lambda>key iv b. b),
     aesDecryptCBC = (\<lambda>key iv b. b),
     gormInt = (\<lambda>old new. if new = 0 then old else new),
     gormModel = (\<lambda>old new. new),
     hashMembers = (\<lambda>ms. concat ms),
     voteAction = (\<lambda>asset amount trace memo receivers threshold. Some trace),
     handleTransfer = (\<lambda>t. True),
     genesis = 0\<rparr>"

section \<open>Markets, accounts and outputs\<close>

definition btc :: string where "btc = ''btc0000000000000''"
definition usd :: string where "usd = ''usd0000000000000''"
definition cbtc :: string where "cbtc = ''cbtc000000000000''"
definition cusd :: string where "cusd = ''cusd000000000000''"
definition alice :: string where "alice = ''alice''"
definition bob :: string where "bob = ''bob''"
definition alice_address :: string where "alice_address = ''addr000000000000''"

definition btc_market :: Market where
  "btc_market = zero_market\<lparr>m_ID := 1, m_AssetID := btc, m_Symbol := ''BTC'', m_CTokenAssetID := cbtc,
     m_TotalCash := 100, m_CTokens := 100, m_InitExchangeRate := 1, m_ReserveFactor := 1 / 10,
     m_LiquidationIncentive := 1 / 10, m_CollateralFactor := 1 / 2, m_CloseFactor := 1 / 2,
     m_BaseRate := 1 / 40, m_Multiplier := 1 / 10, m_Price := 10, m_ExchangeRate := 1,
     m_BorrowIndex := 1, m_Version := 1, m_Status := MarketStatusOpen, m_BlockNumber := 1\<rparr>"

definition usd_market :: Market where
  "usd_market = zero_market\<lparr>m_ID := 2, m_AssetID := usd, m_Symbol := ''USD'', m_CTokenAssetID := cusd,
     m_TotalCash := 1000, m_TotalBorrows := 20, m_CTokens := 1020, m_InitExchangeRate := 1,
     m_ReserveFactor := 1 / 10, m_LiquidationIncentive := 1 / 10, m_CollateralFactor := 1 / 2,
     m_CloseFactor := 1 / 2, m_BaseRate := 1 / 40, m_Multiplier := 1 / 10, m_Price := 1,
     m_ExchangeRate := 1, m_BorrowIndex := 1, m_Version := 1, m_Status := MarketStatusOpen,
     m_BlockNumber := 1\<rparr>"

definition world0 :: world where
  "world0 = \<lparr>markets = [btc_market, usd_market],
     supplies = [\<lparr>s_ID = 1, s_UserID = alice, s_CTokenAssetID = cbtc, s_Collaterals = 10, s_Version = 1\<rparr>],
     borrows = [\<lparr>b_ID = 1, b_UserID = alice, b_AssetID = usd, b_Principal = 20, b_InterestIndex = 1, b_Version = 1\<rparr>],
     users = [\<lparr>u_ID = 1, u_UserID = alice, u_Address = alice_address, u_AddressV0 = Some ''a0''\<rparr>],
     transactions = [], transfers = [], proposals = [], signers = [], properties = [], messages = [],
     outputs = [], rawOutputs = [], rawTransactions = [], forwarded = [], uuids = 0, sysversion = 5,
     rawOutputID = 0, rawSeq = 0, conversations = [], delivered = [], net = 0, faults = []\<rparr>"

definition later :: time where
  "later = 30 * 1000000000"

definition output0 :: Output where
  "output0 = \<lparr>o_ID = 7, o_CreatedAt = later, o_UpdatedAt = 0, o_Version = 1, o_TraceID = ''t7'',
     o_AssetID = btc, o_Sender = alice, o_Amount = 4, o_Memo = '''', o_State = '''', o_SpentBy = '''',
     o_Data = None, o_UTXO = None\<rparr>"

text \<open>A memo body with an asset and an amount and one with two identifiers.\<close>

definition body0 :: "string \<Rightarrow> rat \<Rightarrow> bytes" where
  "body0 asset amount = the (Encode [Some (bytes_of_string asset), Some (marshal0 amount)])"

definition ids0 :: "string \<Rightarrow> string \<Rightarrow> bytes" where
  "ids0 a b = the (Encode [Some (bytes_of_string a), Some (bytes_of_string b)])"

definition supply0 :: Supply where
  "supply0 = \<lparr>s_ID = 1, s_UserID = alice, s_CTokenAssetID = cbtc, s_Collaterals = 10, s_Version = 1\<rparr>"

definition borrow0 :: Borrow where
  "borrow0 = \<lparr>b_ID = 1, b_UserID = alice, b_AssetID = usd, b_Principal = 20, b_InterestIndex = 1, b_Version = 1\<rparr>"

text \<open>A market proposal and an oracle price.\<close>

definition market_req0 :: MarketReq where
  "market_req0 = zero_MarketReq\<lparr>mr_Symbol := ''BTC'', mr_AssetID := btc, mr_CTokenAssetID := cbtc,
     mr_InitExchange := 1, mr_CollateralFactor := 3 / 4, mr_PriceThreshold := 2\<rparr>"

definition price0 :: PriceData where
  "price0 = \<lparr>pd_Timestamp = 40, pd_AssetID = btc, pd_Price = 11, pd_Signature = \<lparr>cs_Signature = [1], cs_Mask = 6\<rparr>\<rparr>"

text \<open>Alice in debt beyond her collateral, and Bob's payment to liquidate her.\<close>

definition borrow1 :: Borrow where
  "borrow1 = borrow0\<lparr>b_Principal := 60\<rparr>"

definition world1 :: world where
  "world1 = world0\<lparr>borrows := [borrow1]\<rparr>"

definition output1 :: Output where
  "output1 = output0\<lparr>o_AssetID := usd, o_Amount := 9, o_Sender := bob\<rparr>"

text \<open>The same debt with collateral in the market of the debt.\<close>

definition supply2 :: Supply where
  "supply2 = supply0\<lparr>s_CTokenAssetID := cusd, s_Collaterals := 100\<rparr>"

definition world2 :: world where
  "world2 = world1\<lparr>supplies := [supply2]\<rparr>"

text \<open>The two markets one block later, with the interest of that block.\<close>

definition btc_later :: Market where
  "btc_later = btc_market\<lparr>m_BlockNumber := 2, m_BorrowRatePerBlock := 2972793 / 250000000000000,
     m_BorrowIndex := 250000002972793 / 250000000000000\<rparr>"

definition usd_later :: Market where
  "usd_later = usd_market\<lparr>m_BlockNumber := 2, m_TotalBorrows := 10000000128238129 / 500000000000000,
     m_Reserves := 128238129 / 5000000000000000, m_UtilizationRate := 196078433842649 / 10000000000000000,
     m_ExchangeRate := 5000000001131513 / 5000000000000000, m_SupplyRatePerBlock := 90521 / 400000000000000,
     m_BorrowRatePerBlock := 128238129 / 10000000000000000,
     m_BorrowIndex := 10000000128238129 / 10000000000000000\<rparr>"

section \<open>The externals behave as documented\<close>

lemma dec255_enc255: "dec255 (enc255 n @ r) = Some (n, r)"
proof (induction n rule: enc255.induct)
  case (1 n)
  show ?case
  proof (cases "n = 0")
    case True
    then show ?thesis by (simp add: enc255.simps [of 0])
  next
    case False
    have lt: "n mod 255 < 255" by simp
    have u: "unat (of_nat (n mod 255) :: byte) = n mod 255"
      using lt by (intro unat_byte) simp
    have "(of_nat (n mod 255) :: byte) \<noteq> 255"
    proof
      assume "(of_nat (n mod 255) :: byte) = 255"
      then have "unat (of_nat (n mod 255) :: byte) = 255" by simp
      with u lt show False by simp
    qed
    with False u 1 show ?thesis
      by (simp add: enc255.simps [of n])
  qed
qed

lemma unmarshal0_marshal0: "unmarshal0 (marshal0 d) = Some d"
proof -
  obtain p q where pq: "quotient_of d = (p, q)" by (cases "quotient_of d")
  have q: "0 < q" and d: "d = of_int p / of_int q"
    using quotient_of_denom_pos [OF pq] quotient_of_div [OF pq] by simp_all
  have "of_nat (nat q) = (of_int q :: rat)"
    using q by simp
  then have "unmarshal0 (marshal0 d) = Some (of_int p / of_int q)"
    by (simp add: marshal0_def unmarshal0_def pq dec255_enc255
        dec255_enc255 [where r = "[]", simplified])
  with d show ?thesis by simp
qed

lemma ext0_div [simp]: "decDiv ext0 = quo16"
  by (simp add: ext0_def)

lemma ext0_documented: "div_documented (decDiv ext0)"
  by simp

lemma ext0_codec: "codec_documented ext0"
proof -
  have "marshal0 d \<noteq> []" for d
    by (simp add: marshal0_def split: prod.splits)
  then show ?thesis
    by (auto simp: codec_documented_def ext0_def unmarshal0_marshal0 bytes_of_string_def split: if_splits)
qed

lemma ext0_gorm: "gorm_documented ext0"
  by (simp add: gorm_documented_def ext0_def)

section \<open>Evaluating the rate model\<close>

text \<open>With these rules \<open>simp\<close> evaluates accrual on concrete markets, the argument of a \<open>let\<close> first.\<close>

lemmas rate_eval = AccrueInterest_def refresh_rates_def accrue_blocks_def UtilizationRate_def GetExchangeRate_def
  GetBaseRatePerBlock_def GetMultiplierPerBlock_def GetJumpMultiplierPerBlock_def GetBorrowRatePerBlock_def
  GetSupplyRatePerBlock_def curSupplyRatePerBlockInternal_def curBorrowRatePerBlockInternal_def compound_consts
  quo16_def dec_round_def dec_truncate_def dec_shift_def dec_ceil_def GetBlockByTime_def unix_seconds_def
  afterFind_def Let_def

lemmas ids_eval = btc_def usd_def cbtc_def cusd_def alice_def bob_def alice_address_def

lemmas market_eval = btc_market_def usd_market_def btc_later_def usd_later_def zero_market_def
  MarketStatusOpen_def MarketStatusClose_def

lemma ext0_genesis [simp]: "genesis ext0 = 0"
  by (simp add: ext0_def)

lemma accrue_btc [simp]: "AccrueInterest ext0 btc_market later = Ok btc_later"
  by (simp add: rate_eval market_eval later_def cong: let_weak_cong)

lemma accrue_usd [simp]: "AccrueInterest ext0 usd_market later = Ok usd_later"
  by (simp add: rate_eval market_eval later_def cong: let_weak_cong)

lemma afterFind_example [simp]: "afterFind btc_market = btc_market" "afterFind usd_market = usd_market"
  by (simp_all add: afterFind_def Let_def market_eval)

lemma ext0_envelope: "envelope_documented ext0"
  by (simp add: envelope_documented_def ext0_def unpack0_pack split: if_splits)

end
