(* ===== verification/Example_State.thy ===== *)
theory Example_State
  imports Solvency Example
begin

text \<open>Facts about the concrete state that the witnesses share.\<close>

lemma world0_ok [simp]:
  "faults world0 = []" "markets_ok world0" "supplies_ok world0" "borrows_ok world0" "sysversion world0 = 5"
  by code_simp+

lemma world0_rows [simp]:
  "marketRow btc world0 = Some btc_market" "marketRow usd world0 = Some usd_market"
  "ctokenRow cbtc world0 = Some btc_market" "ctokenRow cusd world0 = Some usd_market"
  "supplyRow alice cbtc world0 = Some supply0" "borrowRow alice usd world0 = Some borrow0"
  by code_simp+

lemma output0_fields [simp]:
  "o_ID output0 = 7" "o_CreatedAt output0 = later" "o_AssetID output0 = btc" "o_Amount output0 = 4"
  "o_TraceID output0 = ''t7''" "o_Sender output0 = alice"
  by (simp_all add: output0_def)

lemma rows0_fields [simp]:
  "s_ID supply0 = 1" "s_UserID supply0 = alice" "s_CTokenAssetID supply0 = cbtc" "s_Collaterals supply0 = 10" "s_Version supply0 = 1"
  "b_ID borrow0 = 1" "b_UserID borrow0 = alice" "b_AssetID borrow0 = usd" "b_Principal borrow0 = 20"
  "b_InterestIndex borrow0 = 1" "b_Version borrow0 = 1"
  by (simp_all add: supply0_def borrow0_def)

lemma usable0 [simp]: "usable ext0 output0 btc_market btc_later" "usable ext0 output0 usd_market usd_later"
  by (simp_all add: usable_def, simp_all add: market_eval)

lemma unseen0 [simp]: "unseen output0 world0"
  by code_simp

lemma uuid0 [simp]: "uuidToString ext0 (bytes_of_string a) = a"
  by (simp add: ext0_def)

lemma assets_ne [simp]: "btc \<noteq> ''''" "usd \<noteq> ''''" "cbtc \<noteq> ''''" "cusd \<noteq> ''''" "btc \<noteq> usd" "usd \<noteq> btc" "cbtc \<noteq> cusd" "cusd \<noteq> cbtc"
  by (simp_all add: ids_eval)

lemma later_fields [simp]:
  "m_ID btc_later = 1" "m_AssetID btc_later = btc" "m_CTokenAssetID btc_later = cbtc" "m_Price btc_later = 10"
  "m_ExchangeRate btc_later = 1" "m_CollateralFactor btc_later = 1 / 2" "m_TotalCash btc_later = 100" "m_CTokens btc_later = 100"
  "m_ID usd_later = 2" "m_AssetID usd_later = usd" "m_CTokenAssetID usd_later = cusd" "m_Price usd_later = 1"
  "m_ExchangeRate usd_later = 5000000001131513 / 5000000000000000" "m_CollateralFactor usd_later = 1 / 2"
  "m_BorrowIndex usd_later = 10000000128238129 / 10000000000000000"
  "m_TotalCash usd_later = 1000" "m_Reserves usd_later = 128238129 / 5000000000000000"
  "m_BorrowCap usd_later = 0" "m_MaxPledge btc_later = 0" "m_MaxPledge usd_later = 0"
  "0 < m_BorrowIndex btc_later" "m_LiquidationIncentive btc_later = 1 / 10" "m_CloseFactor btc_later = 1 / 2"
  by (simp_all add: market_eval)

lemma accounts0 [simp]: "user_supplies alice world0 = [supply0]" "user_borrows alice world0 = [borrow0]"
  by code_simp+

lemma by_ctoken0 [simp]: "marketByCToken cbtc world0 = btc_market" "marketByCToken cusd world0 = usd_market"
  "marketByAsset btc world0 = btc_market" "marketByAsset usd world0 = usd_market"
  by (simp_all add: marketByCToken_row marketByAsset_row)

lemma balance0: "balance ext0 borrow0 usd_later = 10000000128238129 / 500000000000000"
  by (simp add: balance_def BorrowBalance_def rate_eval Ceil_def cong: let_weak_cong)

lemma balance_stored: "fst (BorrowBalance ext0 borrow0 usd_market) = 20"
  by (simp add: BorrowBalance_def rate_eval Ceil_def market_eval cong: let_weak_cong)

text \<open>Ten CTokens at price 10 and factor a half, less the debt of twenty and its interest.\<close>

lemma liquidity0: "liquidity_spec ext0 [usd_later] world0 alice = 50 - 10000000128238129 / 500000000000000"
  "markets_known [usd_later] world0 alice"
  "liquidity_spec ext0 [btc_later] world0 alice = 30" "markets_known [btc_later] world0 alice"
  using balance0 balance_stored
  by (simp_all add: liquidity_spec_def collateral_value_def debt_value_def supplyMarketOf_def borrowMarketOf_def
      findMarketByCtokenAssetID_def findMarketByAssetID_def balance_def markets_known_def)
    (simp_all add: market_eval)

section \<open>The insolvent account\<close>

lemma world1_ok [simp]:
  "faults world1 = []" "markets_ok world1" "supplies_ok world1" "borrows_ok world1" "sysversion world1 = 5"
  by code_simp+

lemma world1_rows [simp]:
  "marketRow usd world1 = Some usd_market" "ctokenRow cbtc world1 = Some btc_market"
  "supplyRow alice cbtc world1 = Some supply0" "borrowRow alice usd world1 = Some borrow1"
  by code_simp+

lemma output1_fields [simp]:
  "o_ID output1 = 7" "o_CreatedAt output1 = later" "o_AssetID output1 = usd" "o_Amount output1 = 9"
  "o_TraceID output1 = ''t7''" "o_Sender output1 = bob"
  by (simp_all add: output1_def)

lemma borrow1_fields [simp]:
  "b_ID borrow1 = 1" "b_UserID borrow1 = alice" "b_AssetID borrow1 = usd" "b_Principal borrow1 = 60"
  "b_InterestIndex borrow1 = 1" "b_Version borrow1 = 1"
  by (simp_all add: borrow1_def)

lemma liquidator0: "scan_two_uuids ext0 (ids0 alice_address cbtc) = Some (bytes_of_string alice_address, bytes_of_string cbtc)"
  "unseen output1 world1" "all_open alice world1"
  by code_simp+

lemma seized_user:
  "user_FindByAddress (uuidToString ext0 (bytes_of_string alice_address)) world1 = (Ok (hd (users world1)), world1)"
  "0 < u_ID (hd (users world1))" "u_UserID (hd (users world1)) = alice"
  by (simp_all add: user_FindByAddress_def run_simps store_simps world1_def world0_def)

lemma accounts1 [simp]: "user_supplies alice world1 = [supply0]" "user_borrows alice world1 = [borrow1]"
  by code_simp+

lemma balance1: "balance ext0 borrow1 usd_later = 30000000384714387 / 500000000000000"
  by (simp add: balance_def BorrowBalance_def rate_eval Ceil_def cong: let_weak_cong)

lemma liquidity1: "liquidity_spec ext0 [usd_later, btc_later] world1 alice < 0" "markets_known [usd_later, btc_later] world1 alice"
  using balance1
  by (simp_all add: liquidity_spec_def collateral_value_def debt_value_def supplyMarketOf_def borrowMarketOf_def
      findMarketByCtokenAssetID_def findMarketByAssetID_def balance_def markets_known_def)

lemma prices1 [simp]: "seized_price btc_later = 9" "CurExchangeRate btc_later = 1"
  by (simp_all add: seized_price_def CurExchangeRate_def dec_truncate_def)

lemma market_ids [simp]: "m_ID btc_market = 1" "m_ID usd_market = 2" "m_Version btc_market = 1" "m_Version usd_market = 1"
  by (simp_all add: market_eval)

end
