(* ===== verification/Props_Solvency.thy ===== *)
theory Props_Solvency
  imports Example_State
begin

text \<open>
  Properties of the handlers that touch an account's collateral or debt: what they do, and that the
  account stays solvent.
\<close>

section \<open>Borrowing\<close>

lemma borrow_liquidity:
  assumes ok: "markets_ok w" "borrows_ok w" and doc: "div_documented (decDiv X)"
    and row: "marketRow a w = Some r" and use: "usable X out r m"
    and b: "borrowRow u a w = Some b"
    and idx: "0 < m_BorrowIndex m" "0 < b_InterestIndex b"
    and acc: "AccrueInterest X (lent m amount) (o_CreatedAt out) = Ok m'" and grid: "on_grid 8 amount"
  shows "liquidity_spec X [m] (setMarket X m' (o_ID out)
      (addTransfer t (setBorrow (borrowed b m (balance X b m + amount)) (o_ID out) (addTransaction x w)))) u =
    liquidity_spec X [m] w u - amount * m_Price m"
proof -
  note same = usable_same [OF use]
  note same' = accrue_same [OF acc, unfolded same_market_def]
  let ?b = "(borrowed b m (balance X b m + amount))\<lparr>b_Version := o_ID out\<rparr>"
  have r: "r \<in> set (markets w)" "m_AssetID r = a" and bk: "b_UserID b = u" "b_AssetID b = a"
    using marketRow_in [OF row] borrowRow_in [OF b] by auto
  have val: "debt_value X [m] w y = balance X y m * m_Price m" if "b_AssetID y = a" for y
    using that same r by (simp add: debt_value_def borrowMarketOf_def findMarketByAssetID_def balance_def)
  have "on_grid 16 (balance X b m + amount)"
    using balance_on_grid [OF idx] grid by (intro on_grid_add on_grid_finer [of 8 amount 16]) simp_all
  then have "balance X ?b m = balance X b m + amount"
    using idx doc by (subst balance_fresh) (simp_all add: borrowed_def)
  then have new: "debt_value X [m] w ?b = (balance X b m + amount) * m_Price m"
    using val [of ?b] bk by (simp add: borrowed_def)
  have "liquidity_spec X [m] (setMarket X m' (o_ID out)
      (addTransfer t (setBorrow (borrowed b m (balance X b m + amount)) (o_ID out) (addTransaction x w)))) u =
    liquidity_spec X [m] (setBorrow (borrowed b m (balance X b m + amount)) (o_ID out) (addTransaction x w)) u"
    using ok r same same' by (subst liquidity_setMarket [where r = r and m = m]) (simp_all add: lent_def)
  also have "\<dots> = liquidity_spec X [m] w u + debt_value X [m] (addTransaction x w) b - debt_value X [m] (addTransaction x w) ?b"
    using ok b bk by (subst liquidity_setBorrow [where r = b and a = a]) (simp_all add: borrowed_def)
  also have "\<dots> = liquidity_spec X [m] w u - amount * m_Price m"
    using new val [OF bk(2)] value_frames(2) [of "addTransaction x w" w X "[m]"] by (simp add: algebra_simps)
  finally show ?thesis .
qed

text \<open>
  C1. Borrowing keeps accounts solvent. On an open market the output has not touched, the handler lets a
  borrow through exactly when the amount is within the market's cash and cap and its value within the
  liquidity of the account. Then it succeeds, and the liquidity the account service computes in the state
  it leaves, with the market accrued to the output's time, is the liquidity before less the value of the
  loan, and is not negative. Otherwise the output is refunded and no balance changes.
\<close>

theorem borrow_keeps_solvent:
  assumes "faults w = []" "markets_ok w" "borrows_ok w" "div_documented (decDiv X)"
    and "scan_asset_amount X body = Some (asset, q)" "uuidToString X asset = a" "dec_truncate 8 q = amount"
    and "marketRow a w = Some r" "a \<noteq> ''''" "usable X out r m" "unseen out w" "ensureBorrow u a w = w1"
    and "borrowRow u a w1 = Some b" "b_Version b < o_ID out" "0 < m_BorrowIndex m" "0 < b_InterestIndex b"
    and "markets_known [m] w1 u"
  shows "if BorrowAllowed m amount \<and> amount * m_Price m \<le> liquidity_spec X [m] w1 u
    then \<exists>w'. handleBorrowEvent X out u f body w = (Ok (), w')
      \<and> liquidity_spec X [m] w' u = liquidity_spec X [m] w1 u - amount * m_Price m
      \<and> 0 \<le> liquidity_spec X [m] w' u
    else handleBorrowEvent X out u f body w =
      refused X out u f ActionTypeBorrow ErrBorrowNotAllowed ''payee/borrow-denied'' w1"
proof (cases "BorrowAllowed m amount \<and> amount * m_Price m \<le> liquidity_spec X [m] w1 u")
  case True
  obtain m' where acc: "AccrueInterest X (lent m amount) (o_CreatedAt out) = Ok m'"
    using accrue_any assms(10) unfolding usable_def by blast
  have run: "handleBorrowEvent X out u f body w =
    (Ok (), setMarket X m' (o_ID out)
      (addTransfer (out_transfer X u f (o_TraceID out) a amount ActionTypeBorrowTransfer)
      (setBorrow (borrowed b m (balance X b m + amount)) (o_ID out)
      (addTransaction (borrow_tx out u f a m (balance X b m) amount) w1))))"
    using borrow_run [of w X body asset q a amount r out m u b m' f] assms acc True by simp
  have w1: "markets_ok w1" "borrows_ok w1" "marketRow a w1 = Some r" "on_grid 8 amount"
    using assms ensureBorrow_ok [OF assms(3)] by (auto simp: markets_ok_def)
  note liq = borrow_liquidity [OF w1(1,2) assms(4) w1(3) assms(10,13,15,16) acc w1(4)]
  show ?thesis
    using run liq True by simp
next
  case False
  then show ?thesis
    using borrow_refused [OF assms(1,3,5,6,7,8,9,10,11), of u f] assms(12,17) by auto
qed

theorem borrow_keeps_solvent_witness:
  "\<exists>w'. handleBorrowEvent ext0 output0 alice ''f'' (body0 usd 5) world0 = (Ok (), w')
    \<and> liquidity_spec ext0 [usd_later] w' alice = liquidity_spec ext0 [usd_later] world0 alice - 5 * m_Price usd_later
    \<and> 0 \<le> liquidity_spec ext0 [usd_later] w' alice"
proof -
  have scan: "scan_asset_amount ext0 (body0 usd 5) = Some (bytes_of_string usd, 5)"
    by code_simp
  have w1: "ensureBorrow alice usd world0 = world0"
    by (simp add: ensureBorrow_def)
  have five: "dec_truncate 8 5 = 5"
    by (simp add: dec_truncate_def)
  show ?thesis
    using borrow_keeps_solvent [OF world0_ok(1,2,4) ext0_documented scan uuid0 five world0_rows(2) assets_ne(2)
          usable0(2) unseen0 w1 world0_rows(6), of "''f''"]
    by (simp add: liquidity0 BorrowAllowed_iff)
qed

section \<open>Pledged collateral\<close>

lemma unpledge_liquidity:
  assumes ok: "markets_ok w" "supplies_ok w"
    and row: "ctokenRow c w = Some r" and use: "usable X out r m" and s: "supplyRow u c w = Some s"
    and grid: "on_grid 16 (s_Collaterals s)" "on_grid 8 amount"
  shows "liquidity_spec X [m] (setMarket X m (o_ID out)
      (addTransfer t (setSupply (s\<lparr>s_Collaterals := dec_truncate MaxPricision (s_Collaterals s - amount)\<rparr>) (o_ID out)
        (addTransaction x w)))) u =
    liquidity_spec X [m] w u - amount * m_ExchangeRate m * m_CollateralFactor m * m_Price m"
proof -
  note same = usable_same [OF use]
  let ?s = "s\<lparr>s_Collaterals := dec_truncate MaxPricision (s_Collaterals s - amount)\<rparr>"
  have r: "r \<in> set (markets w)" "m_CTokenAssetID r = c" and sk: "s_UserID s = u" "s_CTokenAssetID s = c"
    using ctokenRow_in [OF row] supplyRow_in [OF s] by auto
  have val: "collateral_value [m] w y = s_Collaterals y * m_ExchangeRate m * m_CollateralFactor m * m_Price m"
    if "s_CTokenAssetID y = c" for y
    using that same r by (simp add: collateral_value_def supplyMarketOf_def findMarketByCtokenAssetID_def)
  have "on_grid 16 (s_Collaterals s - amount)"
    using grid by (intro on_grid_diff on_grid_finer [of 8 amount 16]) simp_all
  then have "s_Collaterals ?s = s_Collaterals s - amount"
    by (simp add: MaxPricision_def truncate_on_grid)
  then have new: "collateral_value [m] w (?s\<lparr>s_Version := o_ID out\<rparr>) =
      (s_Collaterals s - amount) * m_ExchangeRate m * m_CollateralFactor m * m_Price m"
    using val [of "?s\<lparr>s_Version := o_ID out\<rparr>"] sk by simp
  have "liquidity_spec X [m] (setMarket X m (o_ID out) (addTransfer t (setSupply ?s (o_ID out) (addTransaction x w)))) u =
    liquidity_spec X [m] (setSupply ?s (o_ID out) (addTransaction x w)) u"
    using ok r same by (subst liquidity_setMarket [where r = r and m = m]) simp_all
  also have "\<dots> = liquidity_spec X [m] w u - collateral_value [m] (addTransaction x w) s
      + collateral_value [m] (addTransaction x w) (?s\<lparr>s_Version := o_ID out\<rparr>)"
    using ok s sk by (subst liquidity_setSupply [where r = s and c = c]) simp_all
  also have "\<dots> = liquidity_spec X [m] w u - amount * m_ExchangeRate m * m_CollateralFactor m * m_Price m"
    using new val [OF sk(2)] value_frames(1) [of "addTransaction x w" w "[m]"] by (simp add: algebra_simps)
  finally show ?thesis .
qed

text \<open>
  C3. Releasing collateral leaves the account solvent. The handler releases CTokens exactly when the user
  has them pledged and their value, weighted with the collateral factor, is within the liquidity. The row
  then holds exactly the amount less, the CTokens are sent out, and the liquidity the account service
  computes afterwards is the one before less the weighted value, and is not negative. Otherwise the
  output is refunded and no row changes.
\<close>

theorem unpledge_keeps_solvent:
  assumes "faults w = []" "markets_ok w" "supplies_ok w"
    and "scan_asset_amount X body = Some (asset, q)" "uuidToString X asset = c" "dec_truncate 8 q = amount"
    and "ctokenRow c w = Some r" "c \<noteq> ''''" "usable X out r m" "unseen out w"
    and "supplyRow u c w = Some s" "s_Version s < o_ID out" "on_grid 16 (s_Collaterals s)"
    and "markets_known [m] w u"
  shows "if amount \<le> s_Collaterals s \<and>
      amount * m_ExchangeRate m * m_CollateralFactor m * m_Price m \<le> liquidity_spec X [m] w u
    then \<exists>w'. handleUnpledgeEvent X out u f body w = (Ok (), w')
    \<and> supplyRow u c w' = Some (s\<lparr>s_Collaterals := s_Collaterals s - amount, s_Version := o_ID out\<rparr>)
    \<and> transfers w' = create_transfer (out_transfer X u f (o_TraceID out) c amount ActionTypeUnpledgeTransfer) (transfers w)
    \<and> liquidity_spec X [m] w' u =
        liquidity_spec X [m] w u - amount * m_ExchangeRate m * m_CollateralFactor m * m_Price m
    \<and> 0 \<le> liquidity_spec X [m] w' u
    else handleUnpledgeEvent X out u f body w = (if s_Collaterals s < amount
     then refused X out u f ActionTypeUnpledge ErrInsufficientCollaterals ''payee/insufficient-collaterals'' w
     else refused X out u f ActionTypeUnpledge ErrInsufficientLiquidity ''payee/insufficient-borrow-balance'' w)"
proof (cases "amount \<le> s_Collaterals s \<and>
      amount * m_ExchangeRate m * m_CollateralFactor m * m_Price m \<le> liquidity_spec X [m] w u")
  case True
  have run: "handleUnpledgeEvent X out u f body w =
    (Ok (), setMarket X m (o_ID out)
      (addTransfer (out_transfer X u f (o_TraceID out) c amount ActionTypeUnpledgeTransfer)
      (setSupply (s\<lparr>s_Collaterals := dec_truncate MaxPricision (s_Collaterals s - amount)\<rparr>) (o_ID out)
      (addTransaction (unpledge_tx out u f c s amount) w))))"
    using assms True by (intro unpledge_run) auto
  have grid: "on_grid 8 amount"
    using assms(6) by auto
  note liq = unpledge_liquidity [OF assms(2,3,7,9,11,13) grid]
  have "on_grid 16 (s_Collaterals s - amount)"
    using grid assms(13) by (intro on_grid_diff on_grid_finer [of 8 amount 16]) simp_all
  then have row: "supplyRow u c (setSupply (s\<lparr>s_Collaterals := dec_truncate MaxPricision (s_Collaterals s - amount)\<rparr>) (o_ID out)
      (addTransaction (unpledge_tx out u f c s amount) w)) = Some (s\<lparr>s_Collaterals := s_Collaterals s - amount, s_Version := o_ID out\<rparr>)"
    using assms(3,11) supplyRow_in [OF assms(11)]
    by (subst supplyRow_setSupply [where r = s and u = u and c = c]) (simp_all add: MaxPricision_def truncate_on_grid)
  show ?thesis
    using run liq True row by simp
next
  case False
  then show ?thesis
    using unpledge_refused [OF assms(1,3,4,5,6,7,8,9,10,11,14)] by auto
qed

theorem unpledge_keeps_solvent_witness:
  "\<exists>w'. handleUnpledgeEvent ext0 output0 alice ''f'' (body0 cbtc 3) world0 = (Ok (), w')
    \<and> supplyRow alice cbtc w' = Some (supply0\<lparr>s_Collaterals := s_Collaterals supply0 - 3, s_Version := o_ID output0\<rparr>)
    \<and> transfers w' = create_transfer (out_transfer ext0 alice ''f'' (o_TraceID output0) cbtc 3 ActionTypeUnpledgeTransfer)
        (transfers world0)
    \<and> liquidity_spec ext0 [btc_later] w' alice = liquidity_spec ext0 [btc_later] world0 alice
        - 3 * m_ExchangeRate btc_later * m_CollateralFactor btc_later * m_Price btc_later
    \<and> 0 \<le> liquidity_spec ext0 [btc_later] w' alice"
proof -
  have scan: "scan_asset_amount ext0 (body0 cbtc 3) = Some (bytes_of_string cbtc, 3)"
    by code_simp
  have grid: "on_grid 16 (s_Collaterals supply0)"
    by (simp add: on_grid_numeral)
  have three: "dec_truncate 8 3 = 3"
    by (simp add: dec_truncate_def)
  show ?thesis
    using unpledge_keeps_solvent [OF world0_ok(1,2,3) scan uuid0 three world0_rows(3) assets_ne(3)
          usable0(1) unseen0 world0_rows(5) _ grid, of "''f''"]
    by (simp add: liquidity0)
qed

text \<open>
  C21. The account service computes what it promises: whenever the markets of the user's supplies and
  borrows are known, its two loops return the value of the collateral (collateral times exchange rate,
  collateral factor and price) less the value of the accrued debts, with the markets it was handed in
  place of the stored ones; otherwise it returns an error. It never changes the state.
\<close>

theorem liquidity_refines:
  assumes "faults w = []"
  shows "CalculateAccountLiquidity X u new w =
    (if markets_known new w u then (Ok (liquidity_spec X new w u), w) else (Err (GoError ''no market''), w))"
  using assms by (rule liquidity_run)

theorem liquidity_refines_witness:
  "CalculateAccountLiquidity ext0 alice [btc_later] world0 = (Ok 30, world0)"
  using liquidity_refines [OF world0_ok(1), of ext0 alice "[btc_later]"] liquidity0 by simp

end
