(* ===== verification/Props_Liquidation.thy ===== *)
theory Props_Liquidation
  imports Example_State
begin

text \<open>Properties of liquidation: who can be liquidated, for how much, and what happens to the books.\<close>

text \<open>
  C2. Only an account whose liquidity is negative is liquidated, and the liquidator gets no more than he
  may. When a market of the account's own supplies or borrows is closed the handler refuses; when its
  markets are open it refuses unless the liquidity is negative, at zero too. Otherwise it takes the seized
  CTokens off the collateral and the repaid amount off the accrued debt, where the repaid amount exceeds
  neither the debt nor the payment and the seized CTokens exceed the close factor's share of the collateral
  at most by the two roundings of the divisions.

  This is what the code does, and the documents say otherwise on two points. \<open>README_zh.md\<close> (line 204) and
  \<open>docs/design.md\<close> (line 191) say that one closed market stops the liquidations of all markets; the theorem
  asks only for the account's own markets (\<open>all_open\<close>, after \<open>HasClosedMarkets\<close>), so that with any other market
  closed the liquidation goes through. \<open>docs/design.md\<close> (line 57) lets an account be liquidated at liquidity
  zero, where the code refuses.
\<close>

theorem liquidation_effect:
  assumes "faults w = []" "supplies_ok w" "borrows_ok w" "div_documented (decDiv X)"
    and "scan_two_uuids X body = Some (adr, ctok)" "uuidToString X ctok = c"
    and "user_FindByAddress (uuidToString X adr) w = (Ok su, w)" "0 < u_ID su" "u_UserID su = v"
    and "ctokenRow c w = Some sr" "c \<noteq> ''''" "0 < m_ID sr" "m_Version sr < o_ID out"
    and "marketRow (o_AssetID out) w = Some br" "o_AssetID out \<noteq> ''''" "0 < m_ID br" "m_Version br < o_ID out"
    and "m_ID sr \<noteq> m_ID br"
    and "AccrueInterest X (afterFind sr) (o_CreatedAt out) = Ok sm"
    and "AccrueInterest X (afterFind br) (o_CreatedAt out) = Ok bm"
    and "supplyRow v c w = Some s" "s_Version s < o_ID out" "0 \<le> s_Collaterals s"
    and "borrowRow v (o_AssetID out) w = Some b" "b_Version b < o_ID out" "0 \<le> balance X b bm"
    and "0 < m_BorrowIndex bm" "0 < b_InterestIndex b"
    and "0 < seized_price sm" "0 < CurExchangeRate sm" "0 < m_Price bm" "0 \<le> m_CloseFactor sm"
    and "0 \<le> o_Amount out" "on_grid 16 (o_Amount out)"
    and "unseen out w" "markets_known [bm, sm] w v"
    and "repay_amount X out s (balance X b bm) sm bm = repay" "seized_ctokens X out s (balance X b bm) sm bm = seized"
  shows "if \<not> all_open v w
    then handleLiquidationEvent X out u f body w =
      refused X out u f ActionTypeLiquidate ErrMarketClosed ''payee/market-closed'' w
    else if liquidity_spec X [bm, sm] w v < 0
    then \<exists>w'. handleLiquidationEvent X out u f body w = (Ok (), w')
      \<and> supplyRow v c w' = Some (s\<lparr>s_Collaterals := dec_truncate MaxPricision (s_Collaterals s - seized), s_Version := o_ID out\<rparr>)
      \<and> borrowRow v (o_AssetID out) w' = Some (b\<lparr>b_Principal := dec_truncate MaxPricision (balance X b bm - repay),
          b_InterestIndex := m_BorrowIndex bm, b_Version := o_ID out\<rparr>)
      \<and> repay \<le> balance X b bm \<and> repay \<le> o_Amount out
      \<and> seized \<le> s_Collaterals s * m_CloseFactor sm + (1 / CurExchangeRate sm + 1) / (2 * 10 ^ 16)
    else handleLiquidationEvent X out u f body w =
      refused X out u f ActionTypeLiquidate ErrSeizeNotAllowed ''payee/seize-denied'' w"
proof -
  consider (closed) "\<not> all_open v w" | (low) "all_open v w" "liquidity_spec X [bm, sm] w v < 0"
    | (solvent) "all_open v w" "0 \<le> liquidity_spec X [bm, sm] w v"
    by fastforce
  then show ?thesis
  proof cases
    case closed
    then show ?thesis
      using liquidation_closed [OF assms(1-3,5-12,14-17,19,20,21,24,35)] by simp
  next
    case low
    have nz: "seized_price sm \<noteq> 0" "CurExchangeRate sm \<noteq> 0" "m_Price bm \<noteq> 0"
      using assms(29-31) by auto
    obtain sm' bm' where run: "handleLiquidationEvent X out u f body w =
        (Ok (), setMarket X bm' (o_ID out) (setMarket X sm' (o_ID out) (liquidated X out u f v s b sm bm c w)))"
      by (rule liquidation_run [OF assms(1-22,24,25,27,28) nz assms(35) low(1) assms(36) low(2)])
    note rows = liquidated_rows [OF assms(2,3,21,24)]
    have v0: "0 \<le> repay_value out s (balance X b bm) sm bm"
      by (rule repay_value_nonneg [OF assms(33,26,23,30,32,29,31)])
    note bounds = repay_amount_le_balance [of X out s "balance X b bm" sm bm] repay_amount_le_paid [OF assms(4,31,33,34) v0]
      seized_bound [OF assms(4,29,30) v0 assms(23,32)]
    show ?thesis
      using run rows bounds low assms(37,38) by (simp add: borrowed_def)
  next
    case solvent
    then show ?thesis
      using liquidation_refused [OF assms(1-3,5-12,14-17,19,20,21,24,35) solvent(1) assms(36)] by simp
  qed
qed

theorem liquidation_effect_witness:
  "\<exists>w'. handleLiquidationEvent ext0 output1 bob ''f'' (ids0 alice_address cbtc) world1 = (Ok (), w')
      \<and> supplyRow alice cbtc w' = Some (supply0\<lparr>s_Collaterals := 9, s_Version := 7\<rparr>)
      \<and> borrowRow alice usd w' = Some (borrow1\<lparr>b_Principal := 25500000384714387 / 500000000000000,
          b_InterestIndex := m_BorrowIndex usd_later, b_Version := 7\<rparr>)"
proof -
  have grid: "on_grid 16 (o_Amount output1)"
    by (simp add: on_grid_numeral)
  have repay: "repay_amount ext0 output1 supply0 (balance ext0 borrow1 usd_later) btc_later usd_later = 9"
    and seized: "seized_ctokens ext0 output1 supply0 (balance ext0 borrow1 usd_later) btc_later usd_later = 1"
    unfolding repay_amount_def seized_ctokens_def seized_amount_def repay_value_def max_seize_value_def balance1
    by (simp_all add: rate_eval cong: let_weak_cong)
  have acc: "AccrueInterest ext0 (afterFind btc_market) (o_CreatedAt output1) = Ok btc_later"
    "AccrueInterest ext0 (afterFind usd_market) (o_CreatedAt output1) = Ok usd_later"
    by simp_all
  have user: "0 < u_ID (hd (users world1))" by (rule seized_user)
  show ?thesis
    using liquidation_effect [OF world1_ok(1,3,4) ext0_documented liquidator0(1) uuid0 seized_user
          world1_rows(2) assets_ne(3) _ _ _ _ _ _ _ acc world1_rows(3) _ _ _ _ _ _ _ _ _ _ _ _ grid
          liquidator0(2) liquidity1(2) repay seized, of bob "''f''"] liquidator0(3) liquidity1(1) balance1
    by (simp add: dec_truncate_def MaxPricision_def)
qed

text \<open>
  C12. Collateral seized in the very market the debt is in: the handler holds two copies of the row, the
  second of its two market updates is refused by the optimistic lock after everything else was written,
  and the retry of the same output does nothing, so that the repaid amount never reaches \<open>TotalBorrows\<close>
  and \<open>TotalCash\<close> of the market.
\<close>

theorem liquidation_same_market_stuck:
  assumes "faults w = []" "supplies_ok w" "borrows_ok w" "markets_ok w" "div_documented (decDiv X)"
    and "scan_two_uuids X body = Some (adr, ctok)" "uuidToString X ctok = c"
    and "user_FindByAddress (uuidToString X adr) w = (Ok su, w)" "0 < u_ID su" "u_UserID su = v"
    and "ctokenRow c w = Some r" "c \<noteq> ''''" "marketRow (o_AssetID out) w = Some r" "o_AssetID out \<noteq> ''''"
    and "0 < m_ID r" "m_Version r < o_ID out"
    and "AccrueInterest X (afterFind r) (o_CreatedAt out) = Ok m"
    and "supplyRow v c w = Some s" "s_Version s < o_ID out"
    and "borrowRow v (o_AssetID out) w = Some b" "b_Version b < o_ID out"
    and "0 < m_BorrowIndex m" "0 < b_InterestIndex b"
    and "seized_price m \<noteq> 0" "CurExchangeRate m \<noteq> 0" "m_Price m \<noteq> 0"
    and "unseen out w" "all_open v w" "markets_known [m, m] w v" "liquidity_spec X [m, m] w v < 0"
    and "params_ok (afterFind r)" "0 \<le> m_TotalBorrows r"
  shows "\<exists>w' r'. handleLiquidationEvent X out u f body w = (Err ErrOptimisticLock, w')
    \<and> marketRow (o_AssetID out) w' = Some r'
    \<and> m_TotalBorrows r' = m_TotalBorrows m \<and> m_TotalCash r' = m_TotalCash m
    \<and> handleLiquidationEvent X out u f body w' = (Ok (), w')"
proof -
  let ?l = "liquidated X out u f v s b m m c w"
  have acc': "AccrueInterest X m (o_CreatedAt out) = Ok m"
    using accrue_twice [OF assms(5) _ _ assms(17)] assms(31,32) by simp
  obtain bm' where acc2: "AccrueInterest X (repaid (sysversion ?l) m (repay_amount X out s (balance X b m) m m)) (o_CreatedAt out) = Ok bm'"
    using accrue_any [OF acc'] by blast
  have same: "m_ID m = m_ID r" "m_Version m = m_Version r" "m_AssetID m = o_AssetID out" "m_CTokenAssetID m = c"
    using accrue_same [OF assms(17)] marketRow_in [OF assms(13)] ctokenRow_in [OF assms(11)] by (simp_all add: same_market_def)
  have r: "r \<in> set (markets ?l)" "m_ID r \<noteq> 0" "faults ?l = []"
    using marketRow_in [OF assms(13)] assms(15,1) by auto
  let ?w = "setMarket X m (o_ID out) ?l" and ?r = "market_write X m (o_ID out) r"
  have run: "handleLiquidationEvent X out u f body w = (Err ErrOptimisticLock, ?w)"
    using liquidation_until_markets [OF assms(1-3,5-12,15,13-17) assms(17-30), of u f]
      liquidation_markets_same [OF r(3,1,2) same(1,2) assms(16) same(1,2) acc' acc2]
    by simp
  have rows: "marketRow (o_AssetID out) ?w = Some ?r" "ctokenRow c ?w = Some ?r"
    using marketRow_setMarket [of ?l "o_AssetID out" r m "o_AssetID out"] ctokenRow_setMarket [of ?l c r m c] assms(4,11,13) same
    by simp_all
  have vals: "m_TotalBorrows ?r = m_TotalBorrows m" "m_TotalCash ?r = m_TotalCash m" "m_Version ?r = o_ID out" "0 < m_ID ?r"
    using assms(15) same by (simp_all add: market_write_def)
  have user: "user_FindByAddress (uuidToString X adr) ?w = (Ok su, ?w)"
    using assms(1) by (intro user_FindByAddress_users [OF assms(8)]) (simp_all add: setMarket_def)
  have retry: "handleLiquidationEvent X out u f body ?w = (Ok (), ?w)"
    using assms(1) vals
    by (intro liquidation_outdated [OF _ assms(6,7) user assms(9) rows(2) assms(12) _ rows(1) assms(14)]) simp_all
  show ?thesis
    using run rows(1) vals retry by blast
qed

theorem liquidation_same_market_stuck_witness:
  "\<exists>w' r'. handleLiquidationEvent ext0 output1 bob ''f'' (ids0 alice_address cusd) world2 = (Err ErrOptimisticLock, w')
    \<and> marketRow usd w' = Some r'
    \<and> m_TotalBorrows r' = m_TotalBorrows usd_later \<and> m_TotalCash r' = m_TotalCash usd_later
    \<and> handleLiquidationEvent ext0 output1 bob ''f'' (ids0 alice_address cusd) w' = (Ok (), w')"
proof -
  have w: "faults world2 = []" "supplies_ok world2" "borrows_ok world2" "markets_ok world2"
    "scan_two_uuids ext0 (ids0 alice_address cusd) = Some (bytes_of_string alice_address, bytes_of_string cusd)"
    "ctokenRow cusd world2 = Some usd_market" "marketRow usd world2 = Some usd_market"
    "supplyRow alice cusd world2 = Some supply2" "borrowRow alice usd world2 = Some borrow1"
    "unseen output1 world2" "all_open alice world2"
    "user_supplies alice world2 = [supply2]" "user_borrows alice world2 = [borrow1]"
    by code_simp+
  have user: "user_FindByAddress (uuidToString ext0 (bytes_of_string alice_address)) world2 = (Ok (hd (users world2)), world2)"
    "0 < u_ID (hd (users world2))" "u_UserID (hd (users world2)) = alice"
    by (simp_all add: user_FindByAddress_def run_simps store_simps world2_def world1_def world0_def)
  have liq: "markets_known [usd_later, usd_later] world2 alice" "liquidity_spec ext0 [usd_later, usd_later] world2 alice < 0"
    using balance1
    by (simp_all add: w liquidity_spec_def collateral_value_def debt_value_def supplyMarketOf_def borrowMarketOf_def
        findMarketByCtokenAssetID_def findMarketByAssetID_def balance_def markets_known_def supply2_def)
  have par: "params_ok (afterFind usd_market)" "0 \<le> m_TotalBorrows usd_market" "seized_price usd_later \<noteq> 0" "CurExchangeRate usd_later \<noteq> 0"
    by (simp_all add: params_ok_def seized_price_def CurExchangeRate_def dec_truncate_def MaxPricision_def)
      (simp_all add: market_eval)
  have mkt: "marketRow (o_AssetID output1) world2 = Some usd_market" "borrowRow alice (o_AssetID output1) world2 = Some borrow1"
    "s_Version supply2 < o_ID output1" "AccrueInterest ext0 (afterFind usd_market) (o_CreatedAt output1) = Ok usd_later"
    by (simp_all add: w supply2_def)
  show ?thesis
    using liquidation_same_market_stuck [OF w(1-4) ext0_documented w(5) uuid0 user w(6) assets_ne(4) mkt(1) _ _ _ mkt(4)
        w(8) mkt(3) mkt(2) _ _ _ par(3,4) _ w(10,11) liq par(1,2), of bob "''f''"]
    by auto
qed

end
