(* ===== verification/Props_Supply.thy ===== *)
theory Props_Supply
  imports Example_State
begin

text \<open>
  Properties of the handlers that move cash and CTokens: supply, redeem, repay, pledge and the quick
  variants, each on every amount an output can have.
\<close>

section \<open>Supply\<close>

lemma supply_refused:
  assumes w: "faults w = []" and row: "marketRow (o_AssetID out) w = Some r" "o_AssetID out \<noteq> ''''"
    and use: "usable X out r m" and rate: "CurExchangeRate m \<noteq> 0"
    and ct: "\<not> 0 < dec_truncate 8 (decDiv X (o_Amount out) (CurExchangeRate m))"
  shows "handleSupplyEvent X out u f body w =
    refused X out u f ActionTypeSupply ErrInvalidAmount ''payee/amount-too-small'' w"
  using assms
  by (simp add: handleSupplyEvent_def handler_simps marketByAsset_row [OF row(1)] usable_def returnOrRefundError_run)

text \<open>
  C5. Supplying mints at the exchange rate, rounded down to eight places. A payment worth at least one
  such unit raises the market's cash by exactly the payment and its CTokens by exactly the minted amount,
  which is sent to the sender and is worth no more than the payment, up to the rounding of the division.
  A smaller payment is refunded.
\<close>

theorem supply_mints:
  assumes "faults w = []" "markets_ok w" "div_documented (decDiv X)"
    and "marketRow (o_AssetID out) w = Some r" "o_AssetID out \<noteq> ''''" "usable X out r m" "unseen out w"
    and "0 < CurExchangeRate m" "0 \<le> o_Amount out"
    and "on_grid 16 (m_TotalCash r)" "on_grid 16 (m_CTokens r)" "on_grid 16 (o_Amount out)"
    and "dec_truncate 8 (decDiv X (o_Amount out) (CurExchangeRate m)) = ctokens"
  shows "if 0 < ctokens
    then \<exists>w' r'. handleSupplyEvent X out u f body w = (Ok (), w')
      \<and> marketRow (o_AssetID out) w' = Some r'
      \<and> m_TotalCash r' = m_TotalCash r + o_Amount out \<and> m_CTokens r' = m_CTokens r + ctokens
      \<and> transfers w' = create_transfer
          (out_transfer X u f (o_TraceID out) (m_CTokenAssetID r) ctokens ActionTypeMint) (transfers w)
      \<and> ctokens * CurExchangeRate m \<le> o_Amount out + CurExchangeRate m / (2 * 10 ^ 16)
    else handleSupplyEvent X out u f body w =
      refused X out u f ActionTypeSupply ErrInvalidAmount ''payee/amount-too-small'' w"
proof (cases "0 < ctokens")
  case True
  note same = usable_same [OF assms(6)]
  have rate: "CurExchangeRate m \<noteq> 0" using assms(8) by simp
  let ?s = "supplied m ctokens (o_Amount out)"
  have run: "handleSupplyEvent X out u f body w = (Ok (), setMarket X ?s (o_ID out)
      (addTransfer (out_transfer X u f (o_TraceID out) (m_CTokenAssetID r) ctokens ActionTypeMint)
      (addTransaction (supply_tx out u f m ctokens) w)))"
    using supply_run [OF assms(1,4,5,6) rate assms(13) [symmetric] True assms(7)] .
  have row: "marketRow (o_AssetID out) (setMarket X ?s (o_ID out) w1) = Some (market_write X ?s (o_ID out) r)"
    if "markets_ok w1" "marketRow (o_AssetID out) w1 = Some r" for w1
    using that same marketRow_in [OF assms(4)]
    by (subst marketRow_setMarket [where r = r and a = "o_AssetID out"]) (simp_all add: supplied_def)
  have grid: "on_grid 16 ctokens"
    using assms(13) on_grid_finer [of 8 ctokens 16] by auto
  have cash: "dec_truncate 16 (m_TotalCash r + o_Amount out) = m_TotalCash r + o_Amount out"
    "dec_truncate 16 (m_CTokens r + ctokens) = m_CTokens r + ctokens"
    using assms(10-12) grid by (auto intro: truncate_on_grid on_grid_add)
  have "ctokens \<le> decDiv X (o_Amount out) (CurExchangeRate m)"
    using assms(13) dec_truncate_le decDiv_nonneg [OF assms(3,9,8)] by blast
  also have "\<dots> \<le> o_Amount out / CurExchangeRate m + 1 / (2 * 10 ^ 16)"
    by (rule decDiv_upper [OF assms(3) rate])
  finally have "ctokens * CurExchangeRate m \<le> (o_Amount out / CurExchangeRate m + 1 / (2 * 10 ^ 16)) * CurExchangeRate m"
    using assms(8) by (intro mult_right_mono) simp_all
  then have bound: "ctokens * CurExchangeRate m \<le> o_Amount out + CurExchangeRate m / (2 * 10 ^ 16)"
    using rate by (simp add: distrib_right)
  show ?thesis
    using run row bound cash assms(2,4) same True by (simp add: market_write_def supplied_def)
next
  case False
  then show ?thesis
    using supply_refused [OF assms(1,4,5,6)] assms(8,13) by simp
qed

theorem supply_mints_witness:
  "\<exists>w' r'. handleSupplyEvent ext0 output0 alice ''f'' [] world0 = (Ok (), w')
    \<and> marketRow btc w' = Some r' \<and> m_TotalCash r' = 104 \<and> m_CTokens r' = 104"
proof -
  have m: "m_TotalCash btc_market = 100" "m_CTokens btc_market = 100"
    by (simp_all add: market_eval)
  have grid: "on_grid 16 (m_TotalCash btc_market)" "on_grid 16 (m_CTokens btc_market)" "on_grid 16 (o_Amount output0)"
    unfolding m by (simp_all add: on_grid_numeral)
  have ct: "dec_truncate 8 (decDiv ext0 (o_Amount output0) (CurExchangeRate btc_later)) = 4"
    by (simp add: quo16_def dec_round_def dec_truncate_def)
  show ?thesis
    using supply_mints [OF world0_ok(1,2) ext0_documented _ _ usable0(1) unseen0 _ _ grid ct, of alice "''f''" "[]"] m
    by auto
qed

section \<open>Redeem\<close>

text \<open>
  C4. Redeeming never touches the reserves. CTokens are redeemed exactly when the market has issued that
  many and their value is below the cash that is not reserved; the payment is their value rounded down to
  eight places, the market loses exactly the payment and exactly the CTokens, and the cash left still
  covers the reserves. Otherwise the CTokens are refunded.
\<close>

theorem redeem_keeps_reserves:
  assumes "faults w = []" "markets_ok w" "ctokenRow (o_AssetID out) w = Some r" "o_AssetID out \<noteq> ''''"
    and "usable X out r m" "unseen out w" "0 < m_ExchangeRate m" "0 \<le> o_Amount out"
    and "on_grid 16 (m_TotalCash r)" "on_grid 16 (m_CTokens r)" "on_grid 16 (o_Amount out)"
    and "dec_truncate 8 (m_ExchangeRate m * o_Amount out) = amount"
  shows "if o_Amount out \<le> m_CTokens r \<and> o_Amount out * m_ExchangeRate m < m_TotalCash r - m_Reserves m
    then \<exists>w' r'. handleRedeemEvent X out u f body w = (Ok (), w')
      \<and> ctokenRow (o_AssetID out) w' = Some r'
      \<and> m_TotalCash r' = m_TotalCash r - amount \<and> m_CTokens r' = m_CTokens r - o_Amount out
      \<and> transfers w' = create_transfer
          (out_transfer X u f (o_TraceID out) (m_AssetID r) amount ActionTypeRedeemTransfer) (transfers w)
      \<and> amount \<le> o_Amount out * m_ExchangeRate m \<and> m_Reserves r' < m_TotalCash r'
    else handleRedeemEvent X out u f body w =
      refused X out u f ActionTypeRedeem ErrRedeemNotAllowed ''payee/pledge-denied'' w"
proof -
  note same = usable_same [OF assms(5)]
  have cur: "CurExchangeRate m = m_ExchangeRate m"
    using assms(7) by (simp add: CurExchangeRate_def)
  have allowed: "RedeemAllowed m (o_Amount out) \<longleftrightarrow> o_Amount out * m_ExchangeRate m < m_TotalCash r - m_Reserves m"
    using same by (simp add: RedeemAllowed_def Let_def)
  note run = redeem_run [OF assms(1,3,4,5,6) refl, of u f body, unfolded cur allowed assms(12) same]
  show ?thesis
  proof (cases "o_Amount out \<le> m_CTokens r \<and> o_Amount out * m_ExchangeRate m < m_TotalCash r - m_Reserves m")
    case True
    let ?s = "redeemed m amount (o_Amount out)"
    have row: "ctokenRow (o_AssetID out) (setMarket X ?s (o_ID out) w1) = Some (market_write X ?s (o_ID out) r)"
      if "markets_ok w1" "ctokenRow (o_AssetID out) w1 = Some r" for w1
      using that same ctokenRow_in [OF assms(3)]
      by (subst ctokenRow_setMarket [where r = r and c = "o_AssetID out"]) (simp_all add: redeemed_def)
    have grid: "on_grid 16 amount"
      using assms(12) on_grid_finer [of 8 amount 16] by auto
    have vals: "dec_truncate 16 (m_TotalCash r - amount) = m_TotalCash r - amount"
      "dec_truncate 16 (m_CTokens r - o_Amount out) = m_CTokens r - o_Amount out"
      using assms(9-11) grid by (auto intro: truncate_on_grid on_grid_diff)
    have le: "amount \<le> o_Amount out * m_ExchangeRate m"
      using assms(7,8,12) dec_truncate_le [of "m_ExchangeRate m * o_Amount out" 8] by (simp add: mult.commute)
    show ?thesis
      using run row [of "addTransfer _ (addTransaction _ w)"] True le vals assms(2,3) same
      by (simp add: market_write_def redeemed_def)
  next
    case False
    then show ?thesis
      using run by (auto simp: refused_def)
  qed
qed

theorem redeem_keeps_reserves_witness:
  "\<exists>w' r'. handleRedeemEvent ext0 (output0\<lparr>o_AssetID := cbtc\<rparr>) alice ''f'' [] world0 = (Ok (), w')
    \<and> ctokenRow cbtc w' = Some r' \<and> m_TotalCash r' = 96 \<and> m_CTokens r' = 96"
proof -
  let ?out = "output0\<lparr>o_AssetID := cbtc\<rparr>"
  have m: "m_TotalCash btc_market = 100" "m_CTokens btc_market = 100" "m_Reserves btc_later = 0"
    by (simp_all add: market_eval)
  have use: "usable ext0 ?out btc_market btc_later" "unseen ?out world0" "ctokenRow (o_AssetID ?out) world0 = Some btc_market"
    using usable0(1) unseen0 by (simp_all add: usable_def unseen_def)
  have grid: "on_grid 16 (m_TotalCash btc_market)" "on_grid 16 (m_CTokens btc_market)" "on_grid 16 (o_Amount ?out)"
    unfolding m by (simp_all add: on_grid_numeral)
  have ct: "dec_truncate 8 (m_ExchangeRate btc_later * o_Amount ?out) = 4"
    by (simp add: dec_truncate_def)
  show ?thesis
    using redeem_keeps_reserves [OF world0_ok(1,2) use(3) _ use(1,2) _ _ grid ct, of alice "''f''" "[]"] m
    by auto
qed

section \<open>Repay\<close>

text \<open>
  C6. Repaying takes the smaller of the payment and the accrued debt off the principal, moves the index of
  the borrow to the market's, and sends the rest of the payment back, rounded down to eight places; the
  repaid amount and the refund together never exceed the payment.
\<close>

theorem repay_settles:
  assumes "faults w = []" "borrows_ok w" "marketRow (o_AssetID out) w = Some r" "o_AssetID out \<noteq> ''''"
    and "0 < m_ID r" "m_Version r < o_ID out" "AccrueInterest X (afterFind r) (o_CreatedAt out) = Ok m" "unseen out w"
    and "borrowRow u (o_AssetID out) w = Some b" "b_Version b < o_ID out" "0 < m_BorrowIndex m" "0 < b_InterestIndex b"
    and "min (o_Amount out) (balance X b m) = repay"
  shows "\<exists>w'. handleRepayEvent X out u f body w = (Ok (), w')
    \<and> borrowRow u (o_AssetID out) w' = Some (b\<lparr>b_Principal := balance X b m - repay,
        b_InterestIndex := m_BorrowIndex m, b_Version := o_ID out\<rparr>)
    \<and> transfers w' = (let refund = dec_truncate 8 (o_Amount out - repay) in
        if 0 < refund
        then create_transfer (out_transfer X u f (o_TraceID out) (o_AssetID out) refund ActionTypeRepayRefundTransfer) (transfers w)
        else transfers w)
    \<and> repay + dec_truncate 8 (o_Amount out - repay) \<le> o_Amount out"
proof -
  obtain m' where acc: "AccrueInterest X (repaid (sysversion w) m repay) (o_CreatedAt out) = Ok m'"
    using accrue_any [OF assms(7)] by blast
  note run = repay_run [OF assms(1-13) acc, of f body]
  have row: "borrowRow u (o_AssetID out) (setBorrow (borrowed b m x) (o_ID out) w1) =
      Some (b\<lparr>b_Principal := x, b_InterestIndex := m_BorrowIndex m, b_Version := o_ID out\<rparr>)"
    if "borrows_ok w1" "borrowRow u (o_AssetID out) w1 = Some b" for x w1
    using that borrowRow_in [OF assms(9)]
    by (subst borrowRow_setBorrow [where r = b and u = u and a = "o_AssetID out"]) (simp_all add: borrowed_def)
  have "0 \<le> o_Amount out - repay"
    using assms(13) by auto
  from dec_truncate_le [OF this, of 8] have "repay + dec_truncate 8 (o_Amount out - repay) \<le> o_Amount out"
    by simp
  then show ?thesis
    using run row assms(2,9) by (simp add: addRefund_def Let_def)
qed

theorem repay_settles_witness:
  "\<exists>w'. handleRepayEvent ext0 (output0\<lparr>o_AssetID := usd, o_Amount := 30\<rparr>) alice ''f'' [] world0 = (Ok (), w')
    \<and> borrowRow alice usd w' = Some (borrow0\<lparr>b_Principal := 0, b_InterestIndex := m_BorrowIndex usd_later, b_Version := 7\<rparr>)"
proof -
  let ?out = "output0\<lparr>o_AssetID := usd, o_Amount := 30\<rparr>"
  have "AccrueInterest ext0 (afterFind usd_market) (o_CreatedAt ?out) = Ok usd_later" "unseen ?out world0"
    "marketRow (o_AssetID ?out) world0 = Some usd_market" "borrowRow alice (o_AssetID ?out) world0 = Some borrow0"
    "min (o_Amount ?out) (balance ext0 borrow0 usd_later) = balance ext0 borrow0 usd_later"
    using unseen0 by (simp_all add: unseen_def balance0)
  then show ?thesis
    using repay_settles [of world0 ?out usd_market ext0 usd_later alice borrow0 "balance ext0 borrow0 usd_later" "''f''" "[]"]
    by auto
qed

section \<open>Pledge\<close>

text \<open>
  C7. Pledging respects the market's limits. CTokens are pledged exactly when the market has issued that
  many, it accepts collateral, and, where a limit is set, the total pledged stays within it. Then the
  user's row and the total both grow by exactly the amount. Otherwise the CTokens are refunded and no
  collateral changes.
\<close>

theorem pledge_within_limits:
  assumes "faults w = []" "supplies_ok w" "ctokenRow (o_AssetID out) w = Some r" "o_AssetID out = c" "c \<noteq> ''''"
    and "usable X out r m" "unseen out w" "ensureSupply u c w = w1" "supplyRow u c w1 = Some s" "s_Version s < o_ID out"
  shows "if o_Amount out \<le> m_CTokens m \<and> 0 < m_CollateralFactor m
      \<and> (\<not> 0 < m_MaxPledge m \<or> totalPledged c w1 + o_Amount out \<le> m_MaxPledge m)
    then \<exists>w'. handlePledgeEvent X out u f body w = (Ok (), w')
      \<and> supplyRow u c w' = Some (s\<lparr>s_Collaterals := s_Collaterals s + o_Amount out, s_Version := o_ID out\<rparr>)
      \<and> totalPledged c w' = totalPledged c w1 + o_Amount out
      \<and> (0 < m_MaxPledge m \<longrightarrow> totalPledged c w' \<le> m_MaxPledge m)
    else handlePledgeEvent X out u f body w =
      (if o_Amount out \<le> m_CTokens m \<and> 0 < m_CollateralFactor m
       then (Err (CompoundError ''payee/max-pledge-exceeded'' FlagRefund), w1)
       else refused X out u f ActionTypePledge ErrPledgeNotAllowed ''payee/pledge-denied'' w1)"
proof (cases "o_Amount out \<le> m_CTokens m \<and> 0 < m_CollateralFactor m
      \<and> (\<not> 0 < m_MaxPledge m \<or> totalPledged c w1 + o_Amount out \<le> m_MaxPledge m)")
  case True
  have run: "handlePledgeEvent X out u f body w = (Ok (), setMarket X m (o_ID out)
      (setSupply (s\<lparr>s_Collaterals := s_Collaterals s + o_Amount out\<rparr>) (o_ID out)
      (addTransaction (pledge_tx out u f s) w1)))"
    using pledge_run [of w out r X m u s f body] assms True by simp
  have ok: "supplies_ok (addTransaction (pledge_tx out u f s) w1)"
    using ensureSupply_ok [OF assms(2)] assms(8) by auto
  have s': "supplyRow u c (addTransaction (pledge_tx out u f s) w1) = Some s" and k: "s_UserID s = u" "s_CTokenAssetID s = c"
    using assms(9) supplyRow_in [OF assms(9)] by auto
  let ?s = "s\<lparr>s_Collaterals := s_Collaterals s + o_Amount out\<rparr>"
  have row: "supplyRow u c (setSupply ?s (o_ID out) (addTransaction (pledge_tx out u f s) w1)) =
      Some (s\<lparr>s_Collaterals := s_Collaterals s + o_Amount out, s_Version := o_ID out\<rparr>)"
    using ok s' k by (subst supplyRow_setSupply [where r = s and u = u and c = c]) simp_all
  have total: "totalPledged c (setSupply ?s (o_ID out) (addTransaction (pledge_tx out u f s) w1)) = totalPledged c w1 + o_Amount out"
    using totalPledged_setSupply [OF ok s', of ?s "o_ID out"] k by (simp add: totalPledged_def)
  have frame: "totalPledged c (setMarket X m (o_ID out) w2) = totalPledged c w2" for w2
    by (simp add: totalPledged_def)
  show ?thesis
    using run row total True by (simp add: frame)
next
  case False
  then show ?thesis
    using pledge_refused [OF assms(1,2,3) _ assms(6,7), of u f body] assms(4,5,8) by (auto simp: not_le)
qed

theorem pledge_within_limits_witness:
  "\<exists>w'. handlePledgeEvent ext0 (output0\<lparr>o_AssetID := cbtc\<rparr>) alice ''f'' [] world0 = (Ok (), w')
    \<and> supplyRow alice cbtc w' = Some (supply0\<lparr>s_Collaterals := 14, s_Version := 7\<rparr>)
    \<and> totalPledged cbtc w' = totalPledged cbtc world0 + 4"
proof -
  let ?out = "output0\<lparr>o_AssetID := cbtc\<rparr>"
  have use: "usable ext0 ?out btc_market btc_later" "unseen ?out world0" "ctokenRow (o_AssetID ?out) world0 = Some btc_market"
    "o_AssetID ?out = cbtc" "ensureSupply alice cbtc world0 = world0"
    using usable0(1) unseen0 by (simp_all add: usable_def unseen_def ensureSupply_def)
  show ?thesis
    using pledge_within_limits [OF world0_ok(1,3) use(3,4) assets_ne(3) use(1,2,5) world0_rows(5), of "''f''" "[]"]
    by auto
qed

section \<open>A negative amount\<close>

text \<open>
  C13. The amount of an unpledge is not checked for its sign. A memo with a negative amount, sent by a user
  with collateral whose account is solvent, is let through and raises his collateral by the absolute
  amount although no CTokens were paid in.
\<close>

theorem unpledge_negative_credits:
  assumes "faults w = []" "supplies_ok w"
    and "scan_asset_amount X body = Some (asset, q)" "uuidToString X asset = c" "dec_truncate 8 q = amount" "amount < 0"
    and "ctokenRow c w = Some r" "c \<noteq> ''''" "usable X out r m" "unseen out w"
    and "supplyRow u c w = Some s" "s_Version s < o_ID out" "on_grid 16 (s_Collaterals s)" "0 \<le> s_Collaterals s"
    and "markets_known [m] w u" "0 \<le> liquidity_spec X [m] w u"
    and "0 \<le> m_ExchangeRate m" "0 \<le> m_CollateralFactor m" "0 \<le> m_Price m"
  shows "\<exists>w' s'. handleUnpledgeEvent X out u f body w = (Ok (), w')
    \<and> supplyRow u c w' = Some s' \<and> s_Collaterals s' = s_Collaterals s + \<bar>amount\<bar>"
proof -
  have "amount * m_ExchangeRate m * m_CollateralFactor m * m_Price m \<le> 0"
    using assms(6,17-19) by (simp add: mult_nonpos_nonneg)
  then have run: "handleUnpledgeEvent X out u f body w =
    (Ok (), setMarket X m (o_ID out)
      (addTransfer (out_transfer X u f (o_TraceID out) c amount ActionTypeUnpledgeTransfer)
      (setSupply (s\<lparr>s_Collaterals := dec_truncate MaxPricision (s_Collaterals s - amount)\<rparr>) (o_ID out)
      (addTransaction (unpledge_tx out u f c s amount) w))))"
    using assms by (intro unpledge_run) auto
  have "on_grid 16 amount"
    using assms(5) on_grid_finer [of 8 amount 16] by auto
  then have "dec_truncate MaxPricision (s_Collaterals s - amount) = s_Collaterals s + \<bar>amount\<bar>"
    using assms(6,13) by (simp add: MaxPricision_def truncate_on_grid on_grid_diff)
  then have "supplyRow u c (setSupply (s\<lparr>s_Collaterals := dec_truncate MaxPricision (s_Collaterals s - amount)\<rparr>) (o_ID out)
      (addTransaction (unpledge_tx out u f c s amount) w)) =
      Some (s\<lparr>s_Collaterals := s_Collaterals s + \<bar>amount\<bar>, s_Version := o_ID out\<rparr>)"
    using assms(2,11) supplyRow_in [OF assms(11)]
    by (subst supplyRow_setSupply [where r = s and u = u and c = c]) simp_all
  then show ?thesis
    using run by simp
qed

theorem unpledge_negative_credits_witness:
  "\<exists>w' s'. handleUnpledgeEvent ext0 output0 alice ''f'' (body0 cbtc (- 5)) world0 = (Ok (), w')
    \<and> supplyRow alice cbtc w' = Some s' \<and> s_Collaterals s' = 15"
proof -
  have scan: "scan_asset_amount ext0 (body0 cbtc (- 5)) = Some (bytes_of_string cbtc, - 5)"
    by code_simp
  have five: "dec_truncate 8 (- 5) = - 5"
    by (simp add: dec_truncate_def)
  have grid: "on_grid 16 (s_Collaterals supply0)"
    by (simp add: on_grid_numeral)
  show ?thesis
    using unpledge_negative_credits [OF world0_ok(1,3) scan uuid0 five _ world0_rows(3) assets_ne(3) usable0(1) unseen0
        world0_rows(5) _ grid, of "''f''"]
    by (simp add: liquidity0)
qed

end
