(* ===== verification/Props_Rates.thy ===== *)
theory Props_Rates
  imports Example_State
begin

text \<open>Properties of the interest-rate model and of interest accrual.\<close>

section \<open>Accrual\<close>

text \<open>
  C8. Accrual keeps a market in balance. On a market with amounts that are not negative, reserves within
  cash and borrows, and parameters in their ranges, accruing to a valid time keeps all of that, never
  lowers the borrows, the reserves or the borrow index, gives to the reserves at most what is added to the
  borrows, and changes nothing but the accrual's own fields.
\<close>

theorem accrual_keeps_balance:
  assumes "div_documented (decDiv X)" "params_ok m" "amounts_ok m" "GetBlockByTime X t = Some n"
  shows "\<exists>m'. AccrueInterest X m t = Ok m' \<and> amounts_ok m' \<and> params_ok m' \<and> same_market m m'
    \<and> m_TotalBorrows m \<le> m_TotalBorrows m' \<and> m_Reserves m \<le> m_Reserves m' \<and> m_BorrowIndex m \<le> m_BorrowIndex m'
    \<and> m_Reserves m' - m_Reserves m \<le> m_TotalBorrows m' - m_TotalBorrows m
    \<and> m_BlockNumber m' = max n (m_BlockNumber m)"
proof -
  obtain m' where m': "AccrueInterest X m t = Ok m'"
    using assms(4) by (simp add: AccrueInterest_def Let_def)
  have nn: "0 \<le> m_TotalBorrows m" "0 < m_BorrowIndex m"
    using assms(3) by (simp_all add: amounts_ok_def)
  have block: "m_BlockNumber m' = max n (m_BlockNumber m)"
    using m' assms(4) by (auto simp: AccrueInterest_def Let_def accrue_blocks_def)
  show ?thesis
    using m' accrue_amounts_ok [OF assms(1,2,3) m'] accrue_params_ok [OF m'] assms(2) accrue_same [OF m']
      accrue_grows [OF assms(1,2) nn m'] block
    by blast
qed

theorem accrual_keeps_balance_witness:
  "\<exists>m'. AccrueInterest ext0 usd_market later = Ok m' \<and> amounts_ok m' \<and> m_BlockNumber m' = 2"
proof -
  have par: "params_ok usd_market" "amounts_ok usd_market" and b: "m_BlockNumber usd_market = 1"
    by (simp_all add: params_ok_def amounts_ok_def market_eval)
  have "GetBlockByTime ext0 later = Some 2"
    by (simp add: GetBlockByTime_def unix_seconds_def later_def SecondsPerBlock_def)
  from accrual_keeps_balance [OF ext0_documented par this] b show ?thesis
    by auto
qed

text \<open>
  C9. Accruing a second time to the same time changes nothing, so that a handler may accrue before and
  after its own change without charging interest twice.
\<close>

theorem accrual_idempotent:
  assumes "div_documented (decDiv X)" "params_ok m" "0 \<le> m_TotalBorrows m" "AccrueInterest X m t = Ok m'"
  shows "AccrueInterest X m' t = Ok m'"
  using assms by (rule accrue_twice)

theorem accrual_idempotent_witness: "AccrueInterest ext0 usd_later later = Ok usd_later"
proof -
  have "params_ok usd_market" "0 \<le> m_TotalBorrows usd_market"
    by (simp_all add: params_ok_def market_eval)
  then show ?thesis
    by (rule accrual_idempotent [OF ext0_documented _ _ accrue_usd])
qed

section \<open>The rate model\<close>

text \<open>
  C10. The rates are ordered and rise with the use of the market. With reserves within the cash and
  parameters in their ranges, the utilization lies between 0 and 1, the supply rate between 0 and the
  borrow rate, and a market that is lent out more charges no less.
\<close>

theorem rates_ordered:
  assumes "div_documented (decDiv X)" "params_ok m" "0 \<le> m_TotalBorrows m" "m_Reserves m \<le> m_TotalCash m"
    and "UtilizationRate X (m_TotalCash m) (m_TotalBorrows m) (m_Reserves m) = u" "u \<le> u'"
  shows "0 \<le> u \<and> u \<le> 1
    \<and> 0 \<le> curSupplyRatePerBlockInternal X m
    \<and> curSupplyRatePerBlockInternal X m \<le> curBorrowRatePerBlockInternal X m
    \<and> curBorrowRatePerBlockInternal X m
        \<le> GetBorrowRatePerBlock X u' (m_BaseRate m) (m_Multiplier m) (m_JumpMultiplier m) (m_Kink m)"
proof -
  have u: "0 \<le> u" "u \<le> 1"
    using UtilizationRate_nonneg [OF assms(1,3)] UtilizationRate_le_one [OF assms(1,3,4)] assms(5) by auto
  have par: "0 \<le> m_BaseRate m" "0 \<le> m_Multiplier m" "0 \<le> m_JumpMultiplier m" "0 \<le> m_Kink m"
    "0 \<le> m_ReserveFactor m" "m_ReserveFactor m \<le> 1"
    using assms(2) by (simp_all add: params_ok_def)
  show ?thesis
    using u GetSupplyRate_le_borrow [OF assms(1) u par] GetBorrowRate_mono [OF assms(1,6) par(2,3,4)]
    by (simp add: curSupplyRatePerBlockInternal_def curBorrowRatePerBlockInternal_def assms(5))
qed

theorem rates_ordered_witness:
  "0 \<le> curSupplyRatePerBlockInternal ext0 usd_market
    \<and> curSupplyRatePerBlockInternal ext0 usd_market \<le> curBorrowRatePerBlockInternal ext0 usd_market"
proof -
  have "params_ok usd_market" "0 \<le> m_TotalBorrows usd_market" "m_Reserves usd_market \<le> m_TotalCash usd_market"
    by (simp_all add: params_ok_def market_eval)
  from rates_ordered [OF ext0_documented this refl order_refl] show ?thesis
    by blast
qed

text \<open>
  C11. The balance of a borrow at the index it was last written with is its principal, at a later index it
  is the principal scaled by the two indices to within one unit of the sixteenth place, and it does not
  shrink when the index grows. The ceiling the code applies has no effect, because the division has
  already rounded to the sixteenth place, so that the balance may be rounded down.
\<close>

theorem balance_scales:
  assumes "div_documented (decDiv X)" "0 \<le> b_Principal b" "0 < b_InterestIndex b" "b_InterestIndex b \<le> m_BorrowIndex m"
    and "on_grid 16 (b_Principal b)"
  shows "\<bar>balance X b m - b_Principal b * m_BorrowIndex m / b_InterestIndex b\<bar> \<le> 1 / (2 * 10 ^ 16)
    \<and> b_Principal b \<le> balance X b m
    \<and> balance X b m = decDiv X (b_Principal b * m_BorrowIndex m) (b_InterestIndex b)"
proof -
  let ?q = "decDiv X (b_Principal b * m_BorrowIndex m) (b_InterestIndex b)"
  have idx: "0 < m_BorrowIndex m" using assms(3,4) by linarith
  have "on_grid 16 ?q"
    using decDiv_on_grid [OF assms(1)] assms(3) by simp
  then have bal: "balance X b m = ?q"
    using idx assms(3) by (simp add: balance_def BorrowBalance_def Let_def MaxPricision_def Ceil_grid)
  have "b_Principal b * b_InterestIndex b \<le> b_Principal b * m_BorrowIndex m"
    using assms(2,4) by (intro mult_left_mono) simp_all
  then have "b_Principal b \<le> b_Principal b * m_BorrowIndex m / b_InterestIndex b"
    using assms(3) by (simp add: pos_le_divide_eq)
  then have "dec_round 16 (b_Principal b) \<le> dec_round 16 (b_Principal b * m_BorrowIndex m / b_InterestIndex b)"
    using assms(2) by (intro dec_round_mono)
  then have "b_Principal b \<le> ?q"
    using assms(1,3,5) by (simp add: div_documented_def dec_round_on_grid)
  moreover have "\<bar>?q - b_Principal b * m_BorrowIndex m / b_InterestIndex b\<bar> \<le> 1 / (2 * 10 ^ 16)"
    using decDiv_near [OF assms(1)] assms(3) by simp
  ultimately show ?thesis
    using bal by simp
qed

theorem balance_scales_witness:
  "\<bar>balance ext0 borrow0 usd_later - 20 * m_BorrowIndex usd_later / 1\<bar> \<le> 1 / (2 * 10 ^ 16)
    \<and> 20 \<le> balance ext0 borrow0 usd_later"
proof -
  have "0 \<le> b_Principal borrow0" "0 < b_InterestIndex borrow0" "b_InterestIndex borrow0 \<le> m_BorrowIndex usd_later"
    "on_grid 16 (b_Principal borrow0)"
    by (simp_all add: on_grid_numeral)
  from balance_scales [OF ext0_documented this] show ?thesis
    unfolding rows0_fields by blast
qed

end
