(* ===== verification/Props_Codec.thy ===== *)
theory Props_Codec
  imports Example_State
begin

text \<open>Properties of the memo formats: what was encoded is read back, and who can read an encrypted memo.\<close>

section \<open>Round trips\<close>

text \<open>
  A memo body with an asset and an amount, encoded as length-prefixed fields, is read back by the
  scan of the unpledge, borrow and quick handlers, whatever follows it.
\<close>

lemma asset_amount_roundtrip:
  assumes "codec_documented X" "uuidFromString X s = Some asset"
    and "Encode [Some asset, encode_dec X amount] = Some body"
  shows "scan_asset_amount X (body @ rest) = Some (asset, amount)"
  using assms
  by (clarsimp simp: Encode_Some_iff simp del: Encode.simps(3))
    (simp add: scan_asset_amount_def scan_fields)

lemma asset_amount_roundtrip_witness:
  "scan_asset_amount ext0 (body0 usd (7 / 2) @ [1, 2]) = Some (bytes_of_string usd, 7 / 2)"
proof -
  have "uuidFromString ext0 usd = Some (bytes_of_string usd)"
    "Encode [Some (bytes_of_string usd), encode_dec ext0 (7 / 2)] = Some (body0 usd (7 / 2))"
    by code_simp+
  then show ?thesis
    by (rule asset_amount_roundtrip [OF ext0_codec])
qed

text \<open>
  C14. A market proposal survives its encoding: when its identifiers are canonical and its price threshold
  fits in 64 bits, decoding the bytes it is encoded to gives the same request, all seventeen fields.
\<close>

theorem market_req_roundtrip:
  assumes "codec_documented X" "canonical_uuid X (mr_AssetID w)" "canonical_uuid X (mr_CTokenAssetID w)"
    and "int64 (mr_PriceThreshold w)" "MarketReq_MarshalBinary X w = Some data"
  shows "MarketReq_UnmarshalBinary X data = Some w"
  using assms by (rule MarketReq_roundtrip)

theorem market_req_roundtrip_witness:
  "MarketReq_UnmarshalBinary ext0 (the (MarketReq_MarshalBinary ext0 market_req0)) = Some market_req0"
proof -
  have "canonical_uuid ext0 (mr_AssetID market_req0)" "canonical_uuid ext0 (mr_CTokenAssetID market_req0)"
    "int64 (mr_PriceThreshold market_req0)"
    "MarketReq_MarshalBinary ext0 market_req0 = Some (the (MarketReq_MarshalBinary ext0 market_req0))"
    by code_simp+
  then show ?thesis
    by (rule market_req_roundtrip [OF ext0_codec])
qed

text \<open>
  C15. A signed oracle price survives its encoding, signature and signer mask included.
\<close>

theorem price_data_roundtrip:
  assumes "codec_documented X" "canonical_uuid X (pd_AssetID p)" "int64 (pd_Timestamp p)"
    and "valid_signature X (pd_Signature p)" "PriceData_MarshalBinary X p = Ok data"
  shows "PriceData_UnmarshalBinary X data = Some p"
  using assms by (rule PriceData_roundtrip)

theorem price_data_roundtrip_witness:
  "\<exists>data. PriceData_MarshalBinary ext0 price0 = Ok data \<and> PriceData_UnmarshalBinary ext0 data = Some price0"
proof -
  have data: "PriceData_MarshalBinary ext0 price0 =
      Ok (case PriceData_MarshalBinary ext0 price0 of Ok d \<Rightarrow> d | _ \<Rightarrow> [])"
    by code_simp
  have id: "canonical_uuid ext0 (pd_AssetID price0)"
    by code_simp
  have "int64 (pd_Timestamp price0)" "valid_signature ext0 (pd_Signature price0)"
    by (simp_all add: int64_def valid_signature_def uint64_def price0_def ext0_def)
  from price_data_roundtrip [OF ext0_codec id this data] data show ?thesis
    by blast
qed

section \<open>Encryption\<close>

text \<open>
  Padding to the cipher's block size is undone, and pads to whole blocks.
\<close>

lemma padding_roundtrip:
  "UnPKCS7Padding (PKCS7Padding data 16) = Ok data \<and> length (PKCS7Padding data 16) mod 16 = 0"
  using UnPKCS7_PKCS7 [of 16 data] PKCS7_length [of 16 data] by simp

text \<open>
  C16. An encrypted memo is readable by everyone. The conversion of the private key works on a copy of its
  array, so that the scalar is always zero; a point times zero is the same for every point, and therefore
  decryption gives the plain text under any private key whatsoever, not only the receiver's.
\<close>

theorem memo_readable_by_anyone:
  assumes "\<And>p q. geScalarMult X (replicate 32 0) p = geScalarMult X (replicate 32 0) q"
    and "\<And>p. length (geScalarMult X (replicate 32 0) p) = 32"
    and "\<And>key iv b. length b mod 16 = 0 \<Longrightarrow>
      aesDecryptCBC X key iv (aesEncryptCBC X key iv b) = b \<and> length (aesEncryptCBC X key iv b) = length b"
    and "length privateKey = 64" "checkKey X (drop 32 privateKey)"
    and "Encrypt X body privateKey publicKey = Ok c"
  shows "Decrypt X c anyPrivateKey = Ok body"
proof -
  define tmp where "tmp = geScalarMult X (replicate 32 0) (replicate 32 0)"
  have tmp: "geScalarMult X (replicate 32 0) p = tmp" "length tmp = 32" for p
    using assms(1,2) by (auto simp: tmp_def)
  have ok: "checkScalar X (replicate 32 0)" and c: "c = drop 32 privateKey @ aesEncryptCBC X (take 16 tmp) (drop 16 tmp) (PKCS7Padding body 16)"
    using assms(6) tmp
    by (auto simp: Encrypt_def keyPairsToAesKeyIv_def aes_Encrypt_def Let_def split: if_splits)
  note aes = assms(3) [of "PKCS7Padding body 16", OF PKCS7_length]
  show ?thesis
    using assms(4,5) ok tmp aes UnPKCS7_PKCS7 [of 16 body] PKCS7_length [of 16 body]
    by (simp add: c Decrypt_def keyPairsToAesKeyIv_def aes_Decrypt_def Let_def)
qed

theorem memo_readable_by_anyone_witness:
  "\<exists>c. Encrypt ext0 [1, 2, 3] (replicate 64 7) (replicate 32 9) = Ok c \<and> Decrypt ext0 c (replicate 64 5) = Ok [1, 2, 3]"
proof -
  have "\<exists>c. Encrypt ext0 [1, 2, 3] (replicate 64 7) (replicate 32 9) = Ok c"
    by (simp add: Encrypt_def keyPairsToAesKeyIv_def aes_Encrypt_def ext0_def)
  then obtain c where "Encrypt ext0 [1, 2, 3] (replicate 64 7) (replicate 32 9) = Ok c" ..
  then show ?thesis
    using memo_readable_by_anyone [of ext0 "replicate 64 7" "[1, 2, 3]" "replicate 32 9" c "replicate 64 5"]
    by (auto simp: ext0_def)
qed

end
