(* ===== verification/Faults.thy ===== *)
theory Faults
  imports Solvency
begin

text \<open>
  Handlers on a database that may fail. \<open>outcomes m w P\<close> says that \<open>P\<close> holds of the result and the
  state for every way the database calls of \<open>m\<close> can go from \<open>w\<close> on: each goes through, fails before it
  takes effect, or takes effect and then reports a failure. The rules follow the structure of a handler,
  so that a proof walks through its calls once. The payee runs a failed output again, so a handler is
  safe when a fault-free run from every such state ends where the undisturbed run ends.
\<close>

definition outcomes :: "(world, 'a) go \<Rightarrow> world \<Rightarrow> ('a res \<Rightarrow> world \<Rightarrow> bool) \<Rightarrow> bool" where
  "outcomes m w P \<longleftrightarrow> (\<forall>fs r w'. m (w\<lparr>faults := fs\<rparr>) = (r, w') \<longrightarrow> P r (w'\<lparr>faults := []\<rparr>))"

text \<open>A step that neither reads nor changes the list of faults.\<close>

definition uniform :: "(world \<Rightarrow> 'a res \<times> world) \<Rightarrow> bool" where
  "uniform f \<longleftrightarrow> (\<forall>w fs. f (w\<lparr>faults := fs\<rparr>) = (fst (f w), (snd (f w))\<lparr>faults := fs\<rparr>))"

lemma uniformD: "uniform f \<Longrightarrow> f (w\<lparr>faults := fs\<rparr>) = (fst (f w), (snd (f w))\<lparr>faults := fs\<rparr>)"
  by (simp add: uniform_def)

lemma faults_empty [simp]: "faults w = [] \<Longrightarrow> w\<lparr>faults := []\<rparr> = w"
  by simp

lemma uniform_faults: "uniform f \<Longrightarrow> faults w = [] \<Longrightarrow> (snd (f w))\<lparr>faults := []\<rparr> = snd (f w)"
  using uniformD [where f = f and w = w and fs = "[]"] by (metis faults_empty snd_conv)

lemma outcomes_dbio:
  assumes "uniform f" "faults w = []" "P (fst (f w)) (snd (f w))" "P (Err DBError) w" "P (Err DBError) (snd (f w))"
  shows "outcomes (dbio f) w P"
  unfolding outcomes_def
proof (intro allI impI)
  fix fs r w'
  assume run: "dbio f (w\<lparr>faults := fs\<rparr>) = (r, w')"
  note u = uniformD [OF assms(1), where w = w] and e = uniform_faults [OF assms(1,2)]
  show "P r (w'\<lparr>faults := []\<rparr>)"
  proof (cases fs)
    case Nil
    with run u e assms(3) show ?thesis by (auto simp: dbio_def)
  next
    case (Cons x fs')
    with run u e assms show ?thesis by (cases x) (auto simp: dbio_def)
  qed
qed

lemma outcomes_query:
  assumes "\<And>w fs. f (w\<lparr>faults := fs\<rparr>) = f w" "faults w = []" "P (Ok (f w)) w" "P (Err DBError) w"
  shows "outcomes (query f) w P"
  unfolding query_def using assms by (intro outcomes_dbio) (auto simp: uniform_def)

lemma outcomes_pure:
  assumes "\<And>fs. m (w\<lparr>faults := fs\<rparr>) = (r, w\<lparr>faults := fs\<rparr>)" "faults w = []" "P r w"
  shows "outcomes m w P"
  using assms by (auto simp: outcomes_def)

lemma outcomes_seqE:
  assumes "outcomes m w (\<lambda>r w'. case r of Ok a \<Rightarrow> outcomes (k a) w' P | Err e \<Rightarrow> P (Err e) w' | Panic p \<Rightarrow> P (Panic p) w')"
  shows "outcomes (seqE m k) w P"
  unfolding outcomes_def
proof (intro allI impI)
  fix fs r w'
  assume run: "seqE m k (w\<lparr>faults := fs\<rparr>) = (r, w')"
  obtain r1 w1 where m: "m (w\<lparr>faults := fs\<rparr>) = (r1, w1)" by fastforce
  with assms have step: "case r1 of Ok a \<Rightarrow> outcomes (k a) (w1\<lparr>faults := []\<rparr>) P
      | Err e \<Rightarrow> P (Err e) (w1\<lparr>faults := []\<rparr>) | Panic p \<Rightarrow> P (Panic p) (w1\<lparr>faults := []\<rparr>)"
    by (auto simp: outcomes_def)
  show "P r (w'\<lparr>faults := []\<rparr>)"
  proof (cases r1)
    case (Ok a)
    with run m have k: "k a (w1\<lparr>faults := []\<rparr>\<lparr>faults := faults w1\<rparr>) = (r, w')"
      by (simp add: run_simps)
    have "outcomes (k a) (w1\<lparr>faults := []\<rparr>) P"
      using step Ok by simp
    then show ?thesis
      unfolding outcomes_def using k by blast
  qed (use run m step in \<open>auto simp: run_simps\<close>)
qed

lemma outcomes_tryE:
  assumes "outcomes m w (\<lambda>r w'. case r of Ok a \<Rightarrow> outcomes (k a) w' P | Err e \<Rightarrow> outcomes (h e) w' P | Panic p \<Rightarrow> P (Panic p) w')"
  shows "outcomes (tryE m h k) w P"
  unfolding outcomes_def
proof (intro allI impI)
  fix fs r w'
  assume run: "tryE m h k (w\<lparr>faults := fs\<rparr>) = (r, w')"
  obtain r1 w1 where m: "m (w\<lparr>faults := fs\<rparr>) = (r1, w1)" by fastforce
  with assms have step: "case r1 of Ok a \<Rightarrow> outcomes (k a) (w1\<lparr>faults := []\<rparr>) P
      | Err e \<Rightarrow> outcomes (h e) (w1\<lparr>faults := []\<rparr>) P | Panic p \<Rightarrow> P (Panic p) (w1\<lparr>faults := []\<rparr>)"
    by (auto simp: outcomes_def)
  show "P r (w'\<lparr>faults := []\<rparr>)"
  proof (cases r1)
    case (Ok a)
    with run m have k: "k a (w1\<lparr>faults := []\<rparr>\<lparr>faults := faults w1\<rparr>) = (r, w')"
      by (simp add: run_simps)
    have "outcomes (k a) (w1\<lparr>faults := []\<rparr>) P"
      using step Ok by simp
    then show ?thesis
      unfolding outcomes_def using k by blast
  next
    case (Err e)
    with run m have h: "h e (w1\<lparr>faults := []\<rparr>\<lparr>faults := faults w1\<rparr>) = (r, w')"
      by (simp add: run_simps)
    have "outcomes (h e) (w1\<lparr>faults := []\<rparr>) P"
      using step Err by simp
    then show ?thesis
      unfolding outcomes_def using h by blast
  qed (use run m step in \<open>auto simp: run_simps\<close>)
qed

section \<open>Rules of the operations\<close>

lemma outcomes_ret: "faults w = [] \<Longrightarrow> P (Ok a) w \<Longrightarrow> outcomes (ret a) w P"
  by (rule outcomes_pure) (simp_all add: run_simps)

lemma outcomes_throw: "faults w = [] \<Longrightarrow> P (Err e) w \<Longrightarrow> outcomes (throw e) w P"
  by (rule outcomes_pure) (simp_all add: run_simps)

lemma outcomes_Require: "faults w = [] \<Longrightarrow> b \<Longrightarrow> P (Ok ()) w \<Longrightarrow> outcomes (Require b msg fl) w P"
  by (rule outcomes_pure) (simp_all add: run_simps)

lemma outcomes_accrue:
  "faults w = [] \<Longrightarrow> AccrueInterest X m (o_CreatedAt out) = Ok m' \<Longrightarrow> P (Ok m') w \<Longrightarrow> outcomes (accrue X m out) w P"
  by (rule outcomes_pure) (simp_all add: run_simps)

lemma outcomes_decDivM:
  "faults w = [] \<Longrightarrow> b \<noteq> 0 \<Longrightarrow> P (Ok (decDiv X a b)) w \<Longrightarrow> outcomes (decDivM X a b) w P"
  by (rule outcomes_pure) (simp_all add: run_simps)

text \<open>A database failure is no compound error, so it is returned as it is.\<close>

lemma outcomes_return_DBError:
  "faults w = [] \<Longrightarrow> P (Err DBError) w \<Longrightarrow> outcomes (returnOrRefundError X DBError out u f origin code) w P"
  by (rule outcomes_pure) (simp_all add: returnOrRefundError_def is_CompoundError_def run_simps)

lemma outcomes_mustGetMarket:
  assumes "faults w = []" "marketRow a w = Some r" "a \<noteq> ''''" "0 < m_ID r" "P (Ok (afterFind r)) w" "P (Err DBError) w"
  shows "outcomes (mustGetMarket a) w P"
  unfolding mustGetMarket_def market_Find_def
  using assms
  by (auto simp: marketByAsset_def marketRow_def intro!: outcomes_seqE outcomes_query outcomes_Require outcomes_ret)

lemma outcomes_mustGetMarketWithCToken:
  assumes "faults w = []" "ctokenRow a w = Some r" "a \<noteq> ''''" "0 < m_ID r" "P (Ok (afterFind r)) w" "P (Err DBError) w"
  shows "outcomes (mustGetMarketWithCToken a) w P"
  unfolding mustGetMarketWithCToken_def market_FindByCToken_def
  using assms
  by (auto simp: marketByCToken_def ctokenRow_def intro!: outcomes_seqE outcomes_query outcomes_Require outcomes_ret)

lemma outcomes_transaction_Find:
  "faults w = [] \<Longrightarrow> P (Ok (transactionOf t w)) w \<Longrightarrow> P (Err DBError) w \<Longrightarrow> outcomes (transaction_FindByTraceID t) w P"
  unfolding transaction_FindByTraceID_def by (rule outcomes_query) (simp_all add: transactionOf_def)

lemma outcomes_transaction_Create:
  assumes "faults w = []" "List.find (\<lambda>x. tx_TraceID x = tx_TraceID t) (transactions w) = None"
    and "P (Ok (t\<lparr>tx_ID := next_id (map tx_ID (transactions w))\<rparr>)) (addTransaction t w)"
    and "P (Err DBError) w" "P (Err DBError) (addTransaction t w)"
  shows "outcomes (transaction_Create t) w P"
  unfolding transaction_Create_def
proof (rule outcomes_dbio)
  let ?f = "\<lambda>w. case first_or_create tx_ID (\<lambda>i r. r\<lparr>tx_ID := i\<rparr>) (\<lambda>x. tx_TraceID x = tx_TraceID t) t (transactions w) of
       (r, ts) \<Rightarrow> (Ok r, w\<lparr>transactions := ts\<rparr>)"
  show "uniform ?f"
    by (auto simp: uniform_def case_prod_beta)
  have "?f w = (Ok (t\<lparr>tx_ID := next_id (map tx_ID (transactions w))\<rparr>), addTransaction t w)"
    using assms(2) by (simp add: first_or_create_def addTransaction_def Let_def)
  with assms(3,5) show "P (fst (?f w)) (snd (?f w))" "P (Err DBError) (snd (?f w))"
    by simp_all
qed (use assms in simp_all)

lemma outcomes_transferOut:
  assumes "faults w = []" "P (Ok ()) (addTransfer (out_transfer X u f tr a amt src) w)"
    and "P (Err DBError) w" "P (Err DBError) (addTransfer (out_transfer X u f tr a amt src) w)"
  shows "outcomes (transferOut X u f tr a amt (out_action src f)) w P"
proof -
  have "(\<lambda>w. (Ok (), w\<lparr>transfers := fold create_transfer (sort_transfers [t]) (transfers w)\<rparr>)) = (\<lambda>w. (Ok (), addTransfer t w))" for t
    by (simp add: addTransfer_def fun_eq_iff)
  then show ?thesis
    unfolding transferOut_def wallet_CreateTransfers_def
    using assms by (auto simp: uniform_def addTransfer_def out_transfer_def out_action_def intro!: outcomes_dbio)
qed

lemma outcomes_market_Update:
  assumes "faults w = []" "m_Version s < v" "list_ex (lock_match m_ID m_Version s) (markets w)"
    and "P (Ok ()) (setMarket X s v w)" "P (Err DBError) w" "P (Err DBError) (setMarket X s v w)"
  shows "outcomes (market_Update X s v) w P"
  unfolding market_Update_def store_Update_def
  using assms by (auto simp: uniform_def lock_update_def setMarket_def intro!: outcomes_dbio split: res.splits)

lemma outcomes_supply_Update:
  assumes "faults w = []" "s_Version s < v" "list_ex (lock_match s_ID s_Version s) (supplies w)"
    and "P (Ok ()) (setSupply s v w)" "P (Err DBError) w" "P (Err DBError) (setSupply s v w)"
  shows "outcomes (supply_Update s v) w P"
  unfolding supply_Update_def store_Update_def
  using assms by (auto simp: uniform_def lock_update_def setSupply_def intro!: outcomes_dbio split: res.splits)

lemma outcomes_borrow_Update:
  assumes "faults w = []" "b_Version s < v" "list_ex (lock_match b_ID b_Version s) (borrows w)"
    and "P (Ok ()) (setBorrow s v w)" "P (Err DBError) w" "P (Err DBError) (setBorrow s v w)"
  shows "outcomes (borrow_Update s v) w P"
  unfolding borrow_Update_def store_Update_def
  using assms by (auto simp: uniform_def lock_update_def setBorrow_def intro!: outcomes_dbio split: res.splits)

lemmas outcomes_rules = outcomes_seqE outcomes_tryE outcomes_ret outcomes_throw outcomes_Require outcomes_accrue
  outcomes_decDivM outcomes_return_DBError outcomes_transaction_Find outcomes_transferOut

section \<open>Running an output again\<close>

lemma BuildTransaction_trace [simp]: "tx_TraceID (BuildTransactionFromOutput u f a out extra) = o_TraceID out"
  by (simp add: BuildTransactionFromOutput_def)

lemma addTransaction_seen: "\<not> unseen out w \<Longrightarrow> tx_TraceID t = o_TraceID out \<Longrightarrow> addTransaction t w = w"
  by (auto simp: unseen_def addTransaction_def first_or_create_def)

lemma seen_tx: "transactions_ok w \<Longrightarrow> \<not> unseen out w \<Longrightarrow> 0 < tx_ID (transactionOf (o_TraceID out) w)"
  by (auto simp: unseen_def transactionOf_def first_or_def transactions_ok_def list_all_iff dest: find_Some_set)

lemma unseen_addTransaction: "tx_TraceID t = o_TraceID out \<Longrightarrow> \<not> unseen out (addTransaction t w)"
  by (auto simp: unseen_def addTransaction_def first_or_create_def Let_def find_append_None split: option.splits)

lemma transactions_ok_frames [simp]:
  "transactions_ok (addTransfer x w) = transactions_ok w" "transactions_ok (setMarket X s v w) = transactions_ok w"
  "transactions_ok (setSupply z v w) = transactions_ok w" "transactions_ok (setBorrow b v w) = transactions_ok w"
  by (simp_all add: transactions_ok_def)

lemma unseen_other_frames [simp]:
  "unseen out (addTransfer x w) = unseen out w" "unseen out (setMarket X s v w) = unseen out w"
  "unseen out (setSupply z v w) = unseen out w" "unseen out (setBorrow b v w) = unseen out w"
  by (simp_all add: unseen_def)

lemma transactions_ok_add [simp]: "transactions_ok w \<Longrightarrow> transactions_ok (addTransaction t w)"
  by (auto simp: transactions_ok_def addTransaction_def first_or_create_def Let_def next_id_pos split: option.splits)

text \<open>Supply, whether or not its transaction was recorded before.\<close>

lemma supply_run_again:
  assumes w: "faults w = []" and row: "marketRow (o_AssetID out) w = Some r" "o_AssetID out \<noteq> ''''"
    and use: "usable X out r m" and rate: "CurExchangeRate m \<noteq> 0"
    and ct: "dec_truncate 8 (decDiv X (o_Amount out) (CurExchangeRate m)) = ctokens" "0 < ctokens"
    and tx: "transactions_ok w"
  shows "handleSupplyEvent X out u f body w =
    (Ok (), setMarket X (supplied m ctokens (o_Amount out)) (o_ID out)
      (addTransfer (out_transfer X u f (o_TraceID out) (m_CTokenAssetID r) ctokens ActionTypeMint)
      (addTransaction (supply_tx out u f m ctokens) w)))"
proof (cases "unseen out w")
  case True
  then show ?thesis using supply_run [OF w row use rate ct(1) [symmetric] ct(2)] by simp
next
  case False
  note same = usable_same [OF use]
  have ex: "list_ex (lock_match m_ID m_Version (supplied m a b)) (markets w)" for a b
    using marketRow_in [OF row(1)] same by (intro market_lock [of r]) (simp_all add: supplied_def)
  have "addTransaction (supply_tx out u f m ctokens) w = w"
    using False by (rule addTransaction_seen) (simp add: supply_tx_def)
  then show ?thesis
    using assms ex same seen_tx [OF tx False]
    by (simp add: handleSupplyEvent_def handler_simps marketByAsset_row [OF row(1)] usable_def supplied_def)
qed

end
