(* ===== verification/Retry.thy ===== *)
theory Retry
  imports Faults
begin

text \<open>
  Outputs that are handled until they go through. \<open>attempt h\<close> is one run of the handler \<open>h\<close> on a database
  that may fail at any call. The states between the writes of a handler are its stages; a handler whose
  attempts lead from stages to stages, and whose undisturbed run ends in the same way from each of them,
  takes effect once however often it was cut off.
\<close>

definition attempt :: "(world, 'a) go \<Rightarrow> world \<Rightarrow> world \<Rightarrow> bool" where
  "attempt h w w' \<longleftrightarrow> (\<exists>fs. w' = (snd (h (w\<lparr>faults := fs\<rparr>)))\<lparr>faults := []\<rparr>)"

lemma attempt_outcome: "outcomes h w (\<lambda>r. P) \<Longrightarrow> attempt h w w' \<Longrightarrow> P w'"
  by (auto simp: attempt_def outcomes_def) (metis surjective_pairing)

lemma attempts_stages:
  assumes "(attempt h)\<^sup>*\<^sup>* w w'" "w \<in> S" "\<And>s. s \<in> S \<Longrightarrow> outcomes h s (\<lambda>r s'. s' \<in> S)"
  shows "w' \<in> S"
  using assms(1,2) by (induction rule: rtranclp_induct) (auto dest: attempt_outcome [OF assms(3)])

lemma outcomes_mono: "outcomes m w P \<Longrightarrow> (\<And>r s. P r s \<Longrightarrow> Q r s) \<Longrightarrow> outcomes m w Q"
  by (auto simp: outcomes_def)

section \<open>Calls that only read\<close>

text \<open>Whatever fails, the state stays; a read ends as it would undisturbed or with the driver's error.\<close>

definition ends :: "(world, 'a) go \<Rightarrow> world \<Rightarrow> 'a res \<Rightarrow> bool" where
  "ends m w r \<longleftrightarrow> (\<forall>fs. \<exists>r' fs'. m (w\<lparr>faults := fs\<rparr>) = (r', w\<lparr>faults := fs'\<rparr>) \<and> r' \<in> {r, Err DBError}
     \<and> (fs = [] \<longrightarrow> r' = r \<and> fs' = []))"

definition reads :: "(world, 'a) go \<Rightarrow> bool" where
  "reads m \<longleftrightarrow> (\<forall>w. \<exists>r. ends m w r)"

lemma endsE:
  assumes "ends m w r"
  obtains r' fs' where "m (w\<lparr>faults := fs\<rparr>) = (r', w\<lparr>faults := fs'\<rparr>)" "r' \<in> {r, Err DBError}"
    "fs = [] \<longrightarrow> r' = r \<and> fs' = []"
  using assms unfolding ends_def by blast

lemma ends_query: "(\<And>fs. f (w\<lparr>faults := fs\<rparr>) = f w) \<Longrightarrow> ends (query f) w (Ok (f w))"
  unfolding ends_def
proof
  fix fs
  assume "\<And>fs. f (w\<lparr>faults := fs\<rparr>) = f w"
  then show "\<exists>r' fs'. query f (w\<lparr>faults := fs\<rparr>) = (r', w\<lparr>faults := fs'\<rparr>) \<and> r' \<in> {Ok (f w), Err DBError}
      \<and> (fs = [] \<longrightarrow> r' = Ok (f w) \<and> fs' = [])"
    by (cases fs) (auto simp: query_def dbio_def split: fault.split)
qed

lemma ends_seqE:
  assumes m: "ends m w (Ok a)" and k: "ends (k a) w r"
  shows "ends (seqE m k) w r"
  unfolding ends_def
proof
  fix fs
  obtain r1 fs1 where m1: "m (w\<lparr>faults := fs\<rparr>) = (r1, w\<lparr>faults := fs1\<rparr>)" "r1 \<in> {Ok a, Err DBError}"
      "fs = [] \<longrightarrow> r1 = Ok a \<and> fs1 = []"
    by (rule endsE [OF m, of fs])
  obtain r2 fs2 where k2: "k a (w\<lparr>faults := fs1\<rparr>) = (r2, w\<lparr>faults := fs2\<rparr>)" "r2 \<in> {r, Err DBError}"
      "fs1 = [] \<longrightarrow> r2 = r \<and> fs2 = []"
    by (rule endsE [OF k, of fs1])
  have "seqE m k (w\<lparr>faults := fs\<rparr>) = (if r1 = Ok a then (r2, w\<lparr>faults := fs2\<rparr>) else (Err DBError, w\<lparr>faults := fs1\<rparr>))"
    using m1(1,2) k2(1) by (auto simp: seqE_def tryE_def throw_def)
  with m1(2,3) k2(2,3) show "\<exists>r' fs'. seqE m k (w\<lparr>faults := fs\<rparr>) = (r', w\<lparr>faults := fs'\<rparr>) \<and> r' \<in> {r, Err DBError}
      \<and> (fs = [] \<longrightarrow> r' = r \<and> fs' = [])"
    by (intro exI [of _ "if r1 = Ok a then r2 else Err DBError"] exI [of _ "if r1 = Ok a then fs2 else fs1"]) auto
qed

lemma ends_seqE_stop:
  assumes m: "ends m w r" and r: "\<And>a. r \<noteq> Ok a"
  obtains r' where "ends (seqE m k) w r'"
proof -
  let ?r = "case r of Ok a \<Rightarrow> undefined | Err e \<Rightarrow> Err e | Panic p \<Rightarrow> Panic p"
  have "ends (seqE m k) w ?r"
    unfolding ends_def
  proof
    fix fs
    obtain r1 fs1 where m1: "m (w\<lparr>faults := fs\<rparr>) = (r1, w\<lparr>faults := fs1\<rparr>)" "r1 \<in> {r, Err DBError}"
        "fs = [] \<longrightarrow> r1 = r \<and> fs1 = []"
      by (rule endsE [OF m, of fs])
    have "seqE m k (w\<lparr>faults := fs\<rparr>) = (if r1 = r then ?r else Err DBError, w\<lparr>faults := fs1\<rparr>)"
      using m1(1,2) r by (cases r) (auto simp: seqE_def tryE_def throw_def)
    with m1(2,3) show "\<exists>r' fs'. seqE m k (w\<lparr>faults := fs\<rparr>) = (r', w\<lparr>faults := fs'\<rparr>) \<and> r' \<in> {?r, Err DBError}
        \<and> (fs = [] \<longrightarrow> r' = ?r \<and> fs' = [])"
      by (intro exI [of _ "if r1 = r then ?r else Err DBError"] exI [of _ fs1] conjI) auto
  qed
  then show thesis
    by (rule that)
qed

lemma reads_query: "(\<And>w fs. f (w\<lparr>faults := fs\<rparr>) = f w) \<Longrightarrow> reads (query f)"
  unfolding reads_def by (blast intro: ends_query)

lemma reads_ret: "reads (ret a)" and reads_throw: "reads (throw e)"
  by (auto simp: reads_def ends_def run_simps)

lemma reads_seqE:
  assumes "reads m" "\<And>a. reads (k a)"
  shows "reads (seqE m k)"
  unfolding reads_def
proof
  fix w
  obtain r where r: "ends m w r"
    using assms(1) unfolding reads_def by blast
  show "\<exists>r. ends (seqE m k) w r"
  proof (cases "\<exists>a. r = Ok a")
    case True
    with r assms(2) show ?thesis
      unfolding reads_def by (blast intro: ends_seqE)
  next
    case False
    with r show ?thesis
      by (blast elim: ends_seqE_stop)
  qed
qed

lemma reads_foldE: "(\<And>x acc. reads (f x acc)) \<Longrightarrow> reads (foldE xs acc f)"
  by (induction xs arbitrary: acc) (simp_all add: reads_ret reads_seqE)

lemma outcomes_reads:
  assumes "reads m" "faults w = []" "P (fst (m w)) w" "P (Err DBError) w"
  shows "outcomes m w P"
  unfolding outcomes_def
proof (intro allI impI)
  fix fs r w'
  assume run: "m (w\<lparr>faults := fs\<rparr>) = (r, w')"
  obtain r0 where r0: "ends m w r0"
    using assms(1) unfolding reads_def by blast
  have "fst (m w) = r0"
    using endsE [OF r0, of "[]" "fst (m w) = r0"] assms(2) by auto
  moreover have "r \<in> {r0, Err DBError} \<and> w'\<lparr>faults := []\<rparr> = w"
    by (rule endsE [OF r0, of fs]) (use run assms(2) in auto)
  ultimately show "P r (w'\<lparr>faults := []\<rparr>)"
    using assms(3,4) by auto
qed

lemma marketBy_faults [simp]:
  "marketByAsset a (w\<lparr>faults := fs\<rparr>) = marketByAsset a w" "marketByCToken a (w\<lparr>faults := fs\<rparr>) = marketByCToken a w"
  by (simp_all add: marketByAsset_def marketByCToken_def)

lemma reads_market_Find: "reads (market_Find a)" and reads_market_FindByCToken: "reads (market_FindByCToken a)"
  by (simp_all add: market_Find_def market_FindByCToken_def reads_ret reads_query)

lemma reads_liquidity: "reads (CalculateAccountLiquidity X u ms)"
  unfolding CalculateAccountLiquidity_def supply_FindByUser_def borrow_FindByUser_def supply_step_def borrow_step_def
  by (intro reads_seqE reads_query reads_foldE reads_ret; simp add: reads_market_Find reads_market_FindByCToken
      reads_ret reads_throw case_prod_beta split: option.split)

lemma outcomes_liquidity:
  assumes "faults w = []" "markets_known ms w u" "P (Ok (liquidity_spec X ms w u)) w" "P (Err DBError) w"
  shows "outcomes (CalculateAccountLiquidity X u ms) w P"
  using assms by (intro outcomes_reads [OF reads_liquidity]) (simp_all add: liquidity_run)

section \<open>Rows that are created on demand\<close>

lemma ensure_present:
  "supplyRow u c w = Some s \<Longrightarrow> ensureSupply u c w = w" "borrowRow u a w = Some b \<Longrightarrow> ensureBorrow u a w = w"
  by (simp_all add: ensureSupply_def ensureBorrow_def)

lemma ensureSupply_idem [simp]: "supplies_ok w \<Longrightarrow> ensureSupply u c (ensureSupply u c w) = ensureSupply u c w"
  by (erule ensureSupply_row [of w u c]) (rule ensure_present)

lemma ensureBorrow_idem [simp]: "borrows_ok w \<Longrightarrow> ensureBorrow u a (ensureBorrow u a w) = ensureBorrow u a w"
  by (erule ensureBorrow_row [of w u a]) (rule ensure_present)

lemma outcomes_Find:
  "faults w = [] \<Longrightarrow> P (Ok (supplyOf u c w)) w \<Longrightarrow> P (Err DBError) w \<Longrightarrow> outcomes (supply_Find u c) w P"
  "faults w = [] \<Longrightarrow> Q (Ok (borrowOf u a w)) w \<Longrightarrow> Q (Err DBError) w \<Longrightarrow> outcomes (borrow_Find u a) w Q"
  unfolding supply_Find_def borrow_Find_def by (auto intro!: outcomes_query simp: supplyOf_def borrowOf_def)

lemma outcomes_Create:
  assumes "faults w = []" "supplyRow u c w = None" "s = zero_supply\<lparr>s_UserID := u, s_CTokenAssetID := c\<rparr>"
    and "P (Ok (s\<lparr>s_ID := next_id (map s_ID (supplies w))\<rparr>)) (ensureSupply u c w)"
    and "P (Err DBError) w" "P (Err DBError) (ensureSupply u c w)"
  shows "outcomes (supply_Create s) w P"
proof -
  have "list_ex (\<lambda>r. s_UserID r = u \<and> s_CTokenAssetID r = c) (supplies w) = False"
    using assms(2) by (auto simp: supplyRow_def find_None_set list_ex_iff)
  then show ?thesis
    unfolding supply_Create_def using assms
    by (intro outcomes_dbio) (auto simp: uniform_def Let_def ensureSupply_def zero_supply_def)
qed

lemma outcomes_Create':
  assumes "faults w = []" "borrowRow u a w = None" "b = zero_borrow\<lparr>b_UserID := u, b_AssetID := a\<rparr>"
    and "P (Ok (b\<lparr>b_ID := next_id (map b_ID (borrows w)), b_InterestIndex := 1\<rparr>)) (ensureBorrow u a w)"
    and "P (Err DBError) w" "P (Err DBError) (ensureBorrow u a w)"
  shows "outcomes (borrow_Create b) w P"
proof -
  have "list_ex (\<lambda>r. b_UserID r = u \<and> b_AssetID r = a) (borrows w) = False"
    using assms(2) by (auto simp: borrowRow_def find_None_set list_ex_iff)
  then show ?thesis
    unfolding borrow_Create_def using assms
    by (intro outcomes_dbio) (auto simp: uniform_def Let_def ensureBorrow_def zero_borrow_def)
qed

lemma outcomes_getOrCreateSupply:
  assumes w: "faults w = []" "supplies_ok w" "supplyRow u c (ensureSupply u c w) = Some s"
    and P: "P (Ok s) (ensureSupply u c w)" "P (Err DBError) w" "P (Err DBError) (ensureSupply u c w)"
  shows "outcomes (getOrCreateSupply u c) w P"
proof (cases "supplyRow u c w")
  case None
  then have "supplyOf u c w = zero_supply"
    by (simp add: supplyOf_def supplyRow_def first_or_def)
  moreover have "s = zero_supply\<lparr>s_UserID := u, s_CTokenAssetID := c\<rparr>\<lparr>s_ID := next_id (map s_ID (supplies w))\<rparr>"
    using None w(3) by (auto simp: ensureSupply_def supplyRow_def find_append_None)
  ultimately show ?thesis
    unfolding getOrCreateSupply_def using w P None
    by (intro outcomes_seqE outcomes_Find) (auto simp: zero_supply_def intro!: outcomes_Create)
next
  case (Some r)
  then have "0 < s_ID r" "ensureSupply u c w = w" "s = r" "supplyOf u c w = r"
    using w supplyRow_in [OF Some] by (auto simp: supplies_ok_def list_all_iff ensureSupply_def supplyOf_row)
  then show ?thesis
    unfolding getOrCreateSupply_def using w P by (intro outcomes_seqE outcomes_Find) (auto intro!: outcomes_ret)
qed

lemma outcomes_getOrCreateBorrow:
  assumes w: "faults w = []" "borrows_ok w" "borrowRow u a (ensureBorrow u a w) = Some b"
    and P: "P (Ok b) (ensureBorrow u a w)" "P (Err DBError) w" "P (Err DBError) (ensureBorrow u a w)"
  shows "outcomes (getOrCreateBorrow u a) w P"
proof (cases "borrowRow u a w")
  case None
  then have "borrowOf u a w = zero_borrow"
    by (simp add: borrowOf_def borrowRow_def first_or_def)
  moreover have "b = zero_borrow\<lparr>b_UserID := u, b_AssetID := a\<rparr>\<lparr>b_ID := next_id (map b_ID (borrows w)), b_InterestIndex := 1\<rparr>"
    using None w(3) by (auto simp: ensureBorrow_def borrowRow_def find_append_None)
  ultimately show ?thesis
    unfolding getOrCreateBorrow_def using w P None
    by (intro outcomes_seqE outcomes_Find) (auto simp: zero_borrow_def intro!: outcomes_Create')
next
  case (Some r)
  then have "0 < b_ID r" "ensureBorrow u a w = w" "b = r" "borrowOf u a w = r"
    using w borrowRow_in [OF Some] by (auto simp: borrows_ok_def list_all_iff ensureBorrow_def borrowOf_row)
  then show ?thesis
    unfolding getOrCreateBorrow_def using w P by (intro outcomes_seqE outcomes_Find) (auto intro!: outcomes_ret)
qed

lemma outcomes_sysversion: "faults w = [] \<Longrightarrow> P (Ok (sysversion w)) w \<Longrightarrow> outcomes (getS sysversion) w P"
  by (rule outcomes_pure) (simp_all add: run_simps)

lemma outcomes_mustGetSupply:
  assumes "faults w = []" "supplyRow u c w = Some s" "0 < s_ID s" "P (Ok s) w" "P (Err DBError) w"
  shows "outcomes (mustGetSupply u c) w P"
  unfolding mustGetSupply_def using assms
  by (intro outcomes_seqE outcomes_Find)
    (auto simp: supplyOf_row intro!: outcomes_seqE outcomes_sysversion outcomes_Require outcomes_ret)

section \<open>A row written back keeps its keys\<close>

lemma lock_match_row:
  assumes "distinct (map rid rows)" "r \<in> set rows" "x \<in> set rows" "lock_match rid rver s x" "rid s = rid r" "rid r \<noteq> 0"
  shows "x = r"
  using assms by (auto simp: lock_match_def distinct_map dest: inj_onD)

lemma map_written:
  assumes "distinct (map rid rows)" "r \<in> set rows" "rid s = rid r" "rid r \<noteq> 0" "key (f r) = key r"
  shows "map key (replace_rows (lock_match rid rver s) f rows) = map key rows"
  using lock_match_row [OF assms(1,2) _ _ assms(3,4)] assms(5) by (auto simp: replace_rows_map)

lemma supplies_ok_setSupply [simp]:
  assumes "supplies_ok w" "supplyRow u c w = Some r" "s_ID s = s_ID r" "s_UserID s = u" "s_CTokenAssetID s = c"
  shows "supplies_ok (setSupply s v w)"
proof -
  note r = supplyRow_in [OF assms(2)]
  have ids: "distinct (map s_ID (supplies w))" "0 < s_ID r"
    using assms(1) r by (auto simp: supplies_ok_def list_all_iff)
  have m: "map s_ID (supplies (setSupply s v w)) = map s_ID (supplies w)" "map (\<lambda>s. (s_UserID s, s_CTokenAssetID s)) (supplies (setSupply s v w)) = map (\<lambda>s. (s_UserID s, s_CTokenAssetID s)) (supplies w)"
    unfolding setSupply_def using ids r assms(3-5)
    by (auto simp: supply_write_def intro!: map_written [where r = r])
  have "list_all (\<lambda>i. 0 < i) (map s_ID (supplies w))"
    using assms(1) by (simp add: supplies_ok_def list_all_iff)
  then have "list_all (\<lambda>i. 0 < i) (map s_ID (supplies (setSupply s v w)))"
    by (simp only: m)
  then have "list_all (\<lambda>r. 0 < s_ID r) (supplies (setSupply s v w))"
    by (simp add: list.pred_map comp_def)
  with assms(1) show ?thesis
    unfolding supplies_ok_def m by simp
qed

lemma borrows_ok_setBorrow [simp]:
  assumes "borrows_ok w" "borrowRow u a w = Some r" "b_ID b = b_ID r" "b_UserID b = u" "b_AssetID b = a"
  shows "borrows_ok (setBorrow b v w)"
proof -
  note r = borrowRow_in [OF assms(2)]
  have ids: "distinct (map b_ID (borrows w))" "0 < b_ID r"
    using assms(1) r by (auto simp: borrows_ok_def list_all_iff)
  have m: "map b_ID (borrows (setBorrow b v w)) = map b_ID (borrows w)" "map (\<lambda>b. (b_UserID b, b_AssetID b)) (borrows (setBorrow b v w)) = map (\<lambda>b. (b_UserID b, b_AssetID b)) (borrows w)"
    unfolding setBorrow_def using ids r assms(3-5)
    by (auto simp: borrow_write_def intro!: map_written [where r = r])
  have "list_all (\<lambda>i. 0 < i) (map b_ID (borrows w))"
    using assms(1) by (simp add: borrows_ok_def list_all_iff)
  then have "list_all (\<lambda>i. 0 < i) (map b_ID (borrows (setBorrow b v w)))"
    by (simp only: m)
  then have "list_all (\<lambda>r. 0 < b_ID r) (borrows (setBorrow b v w))"
    by (simp add: list.pred_map comp_def)
  with assms(1) show ?thesis
    unfolding borrows_ok_def m by simp
qed

end
