(* ===== verification/Retry_Supply.thy ===== *)
theory Retry_Supply
  imports Retry
begin

text \<open>
  The stages of a redemption (transaction, payment, market) and of an unpledge (transaction, collateral,
  payment, market).
\<close>

section \<open>Redeem\<close>

lemma redeem_resume:
  assumes s: "faults s = []" "transactions_ok s" "\<not> unseen out s"
    and row: "ctokenRow (o_AssetID out) s = Some r" "o_AssetID out \<noteq> ''''" and use: "usable X out r m"
    and amount: "amount = dec_truncate 8 (CurExchangeRate m * o_Amount out)"
    and F: "F = addTransfer (out_transfer X u f (o_TraceID out) (m_AssetID r) amount ActionTypeRedeemTransfer) s"
    and M: "M = setMarket X (redeemed m amount (o_Amount out)) (o_ID out) F"
  shows "handleRedeemEvent X out u f body s = (Ok (), M)"
    and "outcomes (handleRedeemEvent X out u f body) s (\<lambda>r' s'. s' \<in> {s, F, M})"
proof -
  note same = usable_same [OF use]
  note tx = seen_tx [OF s(2,3)]
  have ex: "list_ex (lock_match m_ID m_Version (redeemed m x y)) (markets s)" for x y
    using ctokenRow_in [OF row(1)] same by (intro market_lock [of r]) (simp_all add: redeemed_def)
  show "handleRedeemEvent X out u f body s = (Ok (), M)"
    using assms ex same tx
    by (simp add: handleRedeemEvent_def handler_simps marketByCToken_row [OF row(1)] usable_def redeemed_def)
  have fF: "faults F = []" "markets F = markets s" and fM: "faults M = []"
    using s(1) by (simp_all add: F M)
  have mk: "AccrueInterest X (afterFind r) (o_CreatedAt out) = Ok m" "0 < m_ID r" "m_Status r \<noteq> MarketStatusClose"
      "m_Version r < o_ID out" "m_Version m < o_ID out"
    using use same by (simp_all add: usable_def)
  have M': "setMarket X (m\<lparr>m_TotalCash := dec_truncate 16 (m_TotalCash r - amount),
      m_CTokens := dec_truncate 16 (m_CTokens r - o_Amount out)\<rparr>) (o_ID out) F = M"
    using same by (simp add: M redeemed_def)
  show "outcomes (handleRedeemEvent X out u f body) s (\<lambda>r' s'. s' \<in> {s, F, M})"
    unfolding handleRedeemEvent_def Let_def amount [symmetric]
    using mk(2-5) s(1) tx fF fM ex [of amount "o_Amount out"] same
    by (intro outcomes_seqE outcomes_transaction_Find)
      (auto simp: IsMarketClosed_def redeemed_def F [symmetric] M' amount [symmetric]
        intro!: outcomes_tryE outcomes_seqE outcomes_Require outcomes_ret outcomes_return_DBError
          outcomes_mustGetMarketWithCToken [OF s(1) row] outcomes_accrue [OF s(1) mk(1)] outcomes_transferOut outcomes_market_Update)
qed

lemma redeem_start:
  assumes s: "faults s = []" "unseen out s"
    and row: "ctokenRow (o_AssetID out) s = Some r" "o_AssetID out \<noteq> ''''" and use: "usable X out r m"
    and amount: "amount = dec_truncate 8 (CurExchangeRate m * o_Amount out)"
    and ok: "o_Amount out \<le> m_CTokens m" "RedeemAllowed m (o_Amount out)"
    and T: "T = addTransaction (redeem_tx out u f m amount) s"
    and F: "F = addTransfer (out_transfer X u f (o_TraceID out) (m_AssetID r) amount ActionTypeRedeemTransfer) T"
    and M: "M = setMarket X (redeemed m amount (o_Amount out)) (o_ID out) F"
  shows "outcomes (handleRedeemEvent X out u f body) s (\<lambda>r' s'. s' \<in> {s, T, F, M})"
proof -
  note same = usable_same [OF use]
  have ex: "list_ex (lock_match m_ID m_Version (redeemed m x y)) (markets s)" for x y
    using ctokenRow_in [OF row(1)] same by (intro market_lock [of r]) (simp_all add: redeemed_def)
  have none: "List.find (\<lambda>x. tx_TraceID x = o_TraceID out) (transactions s) = None"
    and z: "transactionOf (o_TraceID out) s = zero_transaction"
    using s(2) unseen_tx [OF s(2)] by (simp_all add: unseen_def)
  have fT: "faults T = []" "markets T = markets s" and fF: "faults F = []" "markets F = markets s" and fM: "faults M = []"
    using s(1) by (simp_all add: T F M)
  have mk: "AccrueInterest X (afterFind r) (o_CreatedAt out) = Ok m" "0 < m_ID r" "m_Status r \<noteq> MarketStatusClose"
      "m_Version r < o_ID out" "m_Version m < o_ID out"
    using use same by (simp_all add: usable_def)
  have M': "setMarket X (m\<lparr>m_TotalCash := dec_truncate 16 (m_TotalCash r - amount),
      m_CTokens := dec_truncate 16 (m_CTokens r - o_Amount out)\<rparr>) (o_ID out) F = M"
    using same by (simp add: M redeemed_def)
  have tx: "addTransaction (BuildTransactionFromOutput u f ActionTypeRedeem out
      (Put ''amount'' (JDec amount) (Put ''asset_id'' (JStr (m_AssetID r)) []))) s = T"
    using same by (simp add: T redeem_tx_def)
  show ?thesis
    unfolding handleRedeemEvent_def Let_def
    using mk(2-5) s(1) none z fT fF fM ex [of amount "o_Amount out"] same ok
    by (intro outcomes_seqE outcomes_transaction_Find)
      (auto simp: IsMarketClosed_def redeemed_def F [symmetric] M' amount [symmetric]
        tx zero_transaction_def NewTransactionExtra_def
        intro!: outcomes_tryE outcomes_seqE outcomes_Require outcomes_ret outcomes_return_DBError
          outcomes_mustGetMarketWithCToken [OF s(1) row] outcomes_accrue [OF s(1) mk(1)] outcomes_transaction_Create
          outcomes_transferOut outcomes_market_Update)
qed

lemma redeem_done:
  assumes s: "faults s = []"
    and row: "ctokenRow (o_AssetID out) s = Some r" "o_AssetID out \<noteq> ''''" "0 < m_ID r" "o_ID out \<le> m_Version r"
  shows "handleRedeemEvent X out u f body s = (Ok (), s)"
    and "outcomes (handleRedeemEvent X out u f body) s (\<lambda>r' s'. s' = s)"
  subgoal
    using assms by (simp add: handleRedeemEvent_def handler_simps marketByCToken_row [OF row(1)])
  subgoal
    unfolding handleRedeemEvent_def using s row(3,4)
    by (intro outcomes_seqE outcomes_transaction_Find)
      (auto intro!: outcomes_tryE outcomes_mustGetMarketWithCToken [OF s row(1,2)] outcomes_ret outcomes_return_DBError)
  done

lemma redeem_stages:
  assumes w: "faults w = []" "markets_ok w" "transactions_ok w" "unseen out w"
    and row: "ctokenRow (o_AssetID out) w = Some r" "o_AssetID out \<noteq> ''''" and use: "usable X out r m"
    and ok: "o_Amount out \<le> m_CTokens m" "RedeemAllowed m (o_Amount out)"
    and run: "(attempt (handleRedeemEvent X out u f body))\<^sup>*\<^sup>* w w'"
  shows "handleRedeemEvent X out u f body w' = handleRedeemEvent X out u f body w"
proof -
  let ?h = "handleRedeemEvent X out u f body"
  define amount where "amount = dec_truncate 8 (CurExchangeRate m * o_Amount out)"
  define T where "T = addTransaction (redeem_tx out u f m amount) w"
  define F where "F = addTransfer (out_transfer X u f (o_TraceID out) (m_AssetID r) amount ActionTypeRedeemTransfer) T"
  define M where "M = setMarket X (redeemed m amount (o_Amount out)) (o_ID out) F"
  define S where "S = {w, T, F, M}"
  note same = usable_same [OF use]
  have T: "faults T = []" "transactions_ok T" "\<not> unseen out T" "ctokenRow (o_AssetID out) T = Some r"
    using w row by (simp_all add: T_def unseen_addTransaction redeem_tx_def)
  have F: "faults F = []" "transactions_ok F" "\<not> unseen out F" "ctokenRow (o_AssetID out) F = Some r"
    using T by (simp_all add: F_def)
  have M: "faults M = []" "ctokenRow (o_AssetID out) M = Some (market_write X (redeemed m amount (o_Amount out)) (o_ID out) r)"
    using F w(2) ctokenRow_setMarket [OF _ F(4), where s = "redeemed m amount (o_Amount out)" and X = X and v = "o_ID out"
        and c' = "o_AssetID out"] same ctokenRow_in [OF row(1)]
    by (simp_all add: M_def F_def T_def redeemed_def)
  have id: "0 < m_ID (market_write X (redeemed m amount (o_Amount out)) (o_ID out) r)"
      "o_ID out \<le> m_Version (market_write X (redeemed m amount (o_Amount out)) (o_ID out) r)"
    using use by (simp_all add: market_write_def usable_def)
  have FF: "F = addTransfer (out_transfer X u f (o_TraceID out) (m_AssetID r) amount ActionTypeRedeemTransfer) F"
    by (simp add: F_def)
  note start = redeem_start [OF w(1,4) row use amount_def ok T_def F_def M_def, of body]
  note again = redeem_resume [OF T(1-3) T(4) row(2) use amount_def F_def M_def, of body]
    redeem_resume [OF F(1-3) F(4) row(2) use amount_def FF M_def, of body]
  note fin = redeem_done [OF M(1,2) row(2) id, where X = X and u = u and f = f and body = body]
  have "outcomes ?h s (\<lambda>r s'. s' \<in> S)" if "s \<in> S" for s
    using that start again(2,4) fin(2) unfolding S_def by (elim insertE emptyE) (auto elim!: outcomes_mono)
  then have "w' \<in> S"
    by (intro attempts_stages [OF run]) (simp_all add: S_def)
  moreover have "?h w = (Ok (), M)"
    using redeem_run [OF w(1) row use w(4) amount_def] ok by (simp add: M_def F_def T_def)
  ultimately show ?thesis
    using again(1,3) fin(1) by (auto simp: S_def)
qed

section \<open>Unpledge\<close>

lemma unpledge_resume:
  assumes s: "faults s = []" "supplies_ok s" "transactions_ok s" "\<not> unseen out s"
    and scan: "scan_asset_amount X body = Some (asset, q)" "uuidToString X asset = c" "dec_truncate 8 q = amount"
    and row: "ctokenRow c s = Some r" "c \<noteq> ''''" and use: "usable X out r m" and z: "supplyRow u c s = Some z"
    and Z: "Z = (if s_Version z < o_ID out
       then setSupply (z\<lparr>s_Collaterals := dec_truncate MaxPricision (s_Collaterals z - amount)\<rparr>) (o_ID out) s else s)"
    and F: "F = addTransfer (out_transfer X u f (o_TraceID out) c amount ActionTypeUnpledgeTransfer) Z"
    and M: "M = setMarket X m (o_ID out) F"
  shows "handleUnpledgeEvent X out u f body s = (Ok (), M)"
    and "outcomes (handleUnpledgeEvent X out u f body) s (\<lambda>r' s'. s' \<in> {s, Z, F, M})"
proof -
  note same = usable_same [OF use]
  note tx = seen_tx [OF s(3,4)]
  have sid: "0 < s_ID z"
    using s(2) supplyRow_in [OF z] by (auto simp: supplies_ok_def list_all_iff)
  have ctok: "m_CTokenAssetID r = c" "m_CTokenAssetID m = c"
    using same ctokenRow_in [OF row(1)] by simp_all
  have ex: "list_ex (lock_match m_ID m_Version m) (markets s)"
    using ctokenRow_in [OF row(1)] same by (intro market_lock [of r]) simp_all
  have sx: "list_ex (lock_match s_ID s_Version (z\<lparr>s_Collaterals := x\<rparr>)) (supplies s)" for x
    using z by (intro supply_lock) simp_all
  show "handleUnpledgeEvent X out u f body s = (Ok (), M)"
    using assms ex sx same(1,2,4-10) tx ctok
    by (simp add: handleUnpledgeEvent_def handler_simps marketByCToken_row [OF row(1)] usable_def mustGetSupply_run [OF s(1) z sid])
  have fZ: "faults Z = []" "markets Z = markets s" and fF: "faults F = []" "markets F = markets s" and fM: "faults M = []"
    using s(1) by (simp_all add: Z F M)
  have mk: "AccrueInterest X (afterFind r) (o_CreatedAt out) = Ok m" "0 < m_ID r" "m_Status r \<noteq> MarketStatusClose"
      "m_Version r < o_ID out"
    using use by (simp_all add: usable_def)
  have new: "setSupply (z\<lparr>s_Collaterals := dec_truncate MaxPricision (s_Collaterals z - amount)\<rparr>) (o_ID out) s = Z"
    if "s_Version z < o_ID out"
    using that by (simp add: Z)
  have old: "Z = s" if "\<not> s_Version z < o_ID out"
    using that by (simp add: Z)
  have pay: "outcomes (seqE (transferOut X u f (o_TraceID out) c amount (out_action ActionTypeUnpledgeTransfer f)) (\<lambda>_.
      if o_ID out > m_Version m then market_Update X m (o_ID out) else ret ())) Z (\<lambda>r' s'. s' \<in> {s, Z, F, M})"
    using mk(4) same ex
    by (auto simp: F [symmetric] M [symmetric] fZ fF fM intro!: outcomes_seqE outcomes_transferOut outcomes_market_Update)
  show "outcomes (handleUnpledgeEvent X out u f body) s (\<lambda>r' s'. s' \<in> {s, Z, F, M})"
    unfolding handleUnpledgeEvent_def scan Let_def prod.case option.sel
    using mk(2-4) s(1) tx pay sx sid z fZ(1) same(4) old
    by (cases "s_Version z < o_ID out"; intro outcomes_tryE outcomes_Require)
      (auto simp: IsMarketClosed_def new ctok(2) intro!: outcomes_tryE outcomes_seqE outcomes_Require outcomes_ret outcomes_return_DBError
        outcomes_mustGetMarketWithCToken [OF s(1) row] outcomes_accrue [OF s(1) mk(1)] outcomes_mustGetSupply [OF s(1) z sid]
        outcomes_transaction_Find outcomes_supply_Update)
qed

lemma unpledge_start:
  assumes s: "faults s = []" "supplies_ok s" "unseen out s"
    and scan: "scan_asset_amount X body = Some (asset, q)" "uuidToString X asset = c" "dec_truncate 8 q = amount"
    and row: "ctokenRow c s = Some r" "c \<noteq> ''''" and use: "usable X out r m"
    and z: "supplyRow u c s = Some z" "s_Version z < o_ID out"
    and ok: "amount \<le> s_Collaterals z" "markets_known [m] s u"
      "amount * m_ExchangeRate m * m_CollateralFactor m * m_Price m \<le> liquidity_spec X [m] s u"
    and T: "T = addTransaction (unpledge_tx out u f c z amount) s"
    and Z: "Z = setSupply (z\<lparr>s_Collaterals := dec_truncate MaxPricision (s_Collaterals z - amount)\<rparr>) (o_ID out) T"
    and F: "F = addTransfer (out_transfer X u f (o_TraceID out) c amount ActionTypeUnpledgeTransfer) Z"
    and M: "M = setMarket X m (o_ID out) F"
  shows "outcomes (handleUnpledgeEvent X out u f body) s (\<lambda>r' s'. s' \<in> {s, T, Z, F, M})"
proof -
  note same = usable_same [OF use]
  have sid: "0 < s_ID z"
    using s(2) supplyRow_in [OF z(1)] by (auto simp: supplies_ok_def list_all_iff)
  have ctok: "m_CTokenAssetID m = c"
    using same ctokenRow_in [OF row(1)] by simp
  have ex: "list_ex (lock_match m_ID m_Version m) (markets s)"
    using ctokenRow_in [OF row(1)] same by (intro market_lock [of r]) simp_all
  have sx: "list_ex (lock_match s_ID s_Version (z\<lparr>s_Collaterals := x\<rparr>)) (supplies s)" for x
    using z by (intro supply_lock) simp_all
  have none: "List.find (\<lambda>x. tx_TraceID x = o_TraceID out) (transactions s) = None"
    and un: "transactionOf (o_TraceID out) s = zero_transaction"
    using s(3) unseen_tx [OF s(3)] by (simp_all add: unseen_def)
  have fT: "faults T = []" "supplies T = supplies s" and fZ: "faults Z = []" "markets Z = markets s"
    and fF: "faults F = []" "markets F = markets s" and fM: "faults M = []"
    using s(1) by (simp_all add: T Z F M)
  have mk: "AccrueInterest X (afterFind r) (o_CreatedAt out) = Ok m" "0 < m_ID r" "m_Status r \<noteq> MarketStatusClose"
      "m_Version r < o_ID out"
    using use by (simp_all add: usable_def)
  have pay: "outcomes (seqE (transferOut X u f (o_TraceID out) c amount (out_action ActionTypeUnpledgeTransfer f)) (\<lambda>_.
      if o_ID out > m_Version m then market_Update X m (o_ID out) else ret ())) Z (\<lambda>r' s'. s' \<in> {s, T, Z, F, M})"
    using mk(4) same ex
    by (auto simp: F [symmetric] M [symmetric] fZ fF fM intro!: outcomes_seqE outcomes_transferOut outcomes_market_Update)
  have tx: "addTransaction (BuildTransactionFromOutput u f ActionTypeUnpledge out
     (Put ''supply'' (JSupply \<lparr>es_UserID = u, es_CTokenAssetID = c, es_Collaterals = s_Collaterals z - amount\<rparr>)
     (Put ''new_collaterals'' (JDec (s_Collaterals z - amount))
     (Put ''amount'' (JDec amount) (Put ''ctoken_asset_id'' (JStr c) []))))) s = T"
    by (simp add: T unpledge_tx_def)
  show ?thesis
    unfolding handleUnpledgeEvent_def scan Let_def prod.case option.sel
    using mk(2-4) s(1) none un pay sx sid z fT fZ(1) same(4) ok
    by (intro outcomes_tryE outcomes_Require)
      (auto simp: IsMarketClosed_def tx Z [symmetric] ctok zero_transaction_def NewTransactionExtra_def
        intro!: outcomes_tryE outcomes_seqE outcomes_Require outcomes_ret outcomes_return_DBError
          outcomes_mustGetMarketWithCToken [OF s(1) row] outcomes_accrue [OF s(1) mk(1)] outcomes_mustGetSupply [OF s(1) z(1) sid]
          outcomes_transaction_Find outcomes_liquidity outcomes_transaction_Create outcomes_supply_Update)
qed

lemma unpledge_done:
  assumes s: "faults s = []"
    and scan: "scan_asset_amount X body = Some (asset, q)" "uuidToString X asset = c"
    and row: "ctokenRow c s = Some r" "c \<noteq> ''''" "0 < m_ID r" "o_ID out \<le> m_Version r"
  shows "handleUnpledgeEvent X out u f body s = (Ok (), s)"
    and "outcomes (handleUnpledgeEvent X out u f body) s (\<lambda>r' s'. s' = s)"
  subgoal
    using assms by (simp add: handleUnpledgeEvent_def handler_simps marketByCToken_row [OF row(1)])
  subgoal
    unfolding handleUnpledgeEvent_def scan Let_def prod.case option.sel using s row(3,4)
    by (intro outcomes_tryE outcomes_Require)
      (auto intro!: outcomes_seqE outcomes_mustGetMarketWithCToken [OF s row(1,2)] outcomes_ret)
  done

lemma unpledge_stages:
  assumes w: "faults w = []" "markets_ok w" "supplies_ok w" "transactions_ok w" "unseen out w"
    and scan: "scan_asset_amount X body = Some (asset, q)" "uuidToString X asset = c" "dec_truncate 8 q = amount"
    and row: "ctokenRow c w = Some r" "c \<noteq> ''''" and use: "usable X out r m"
    and z: "supplyRow u c w = Some z" "s_Version z < o_ID out"
    and ok: "amount \<le> s_Collaterals z" "markets_known [m] w u"
      "amount * m_ExchangeRate m * m_CollateralFactor m * m_Price m \<le> liquidity_spec X [m] w u"
    and run: "(attempt (handleUnpledgeEvent X out u f body))\<^sup>*\<^sup>* w w'"
  shows "handleUnpledgeEvent X out u f body w' = handleUnpledgeEvent X out u f body w"
proof -
  let ?h = "handleUnpledgeEvent X out u f body"
  define zc where "zc = z\<lparr>s_Collaterals := dec_truncate MaxPricision (s_Collaterals z - amount)\<rparr>"
  define T where "T = addTransaction (unpledge_tx out u f c z amount) w"
  define Z where "Z = setSupply zc (o_ID out) T"
  define F where "F = addTransfer (out_transfer X u f (o_TraceID out) c amount ActionTypeUnpledgeTransfer) Z"
  define M where "M = setMarket X m (o_ID out) F"
  define S where "S = {w, T, Z, F, M}"
  define z' where "z' = zc\<lparr>s_Version := o_ID out\<rparr>"
  note same = usable_same [OF use]
  have T: "faults T = []" "supplies_ok T" "transactions_ok T" "\<not> unseen out T" "ctokenRow c T = Some r" "supplyRow u c T = Some z"
    using w row z by (simp_all add: T_def unseen_addTransaction unpledge_tx_def)
  have zc: "s_ID zc = s_ID z" "s_Version zc = s_Version z" "s_UserID zc = u" "s_CTokenAssetID zc = c"
    using supplyRow_in [OF z(1)] by (simp_all add: zc_def)
  have Z: "faults Z = []" "supplies_ok Z" "transactions_ok Z" "\<not> unseen out Z" "ctokenRow c Z = Some r" "supplyRow u c Z = Some z'"
    using T supplyRow_setSupply [OF T(2,6) zc] supplies_ok_setSupply [OF T(2,6) zc(1,3,4)] by (simp_all add: Z_def z'_def)
  have F: "faults F = []" "supplies_ok F" "transactions_ok F" "\<not> unseen out F" "ctokenRow c F = Some r" "supplyRow u c F = Some z'"
    using Z by (simp_all add: F_def)
  have M: "faults M = []" "ctokenRow c M = Some (market_write X m (o_ID out) r)"
    using F w(2) ctokenRow_setMarket [OF _ F(5), where s = m and X = X and v = "o_ID out" and c' = c] same ctokenRow_in [OF row(1)]
    by (simp_all add: M_def F_def Z_def T_def)
  have id: "0 < m_ID (market_write X m (o_ID out) r)" "o_ID out \<le> m_Version (market_write X m (o_ID out) r)"
    using use by (simp_all add: market_write_def usable_def)
  have resume: "Z = (if s_Version z < o_ID out
        then setSupply (z\<lparr>s_Collaterals := dec_truncate MaxPricision (s_Collaterals z - amount)\<rparr>) (o_ID out) T else T)"
      "Z = (if s_Version z' < o_ID out
        then setSupply (z'\<lparr>s_Collaterals := dec_truncate MaxPricision (s_Collaterals z' - amount)\<rparr>) (o_ID out) Z else Z)"
      "F = (if s_Version z' < o_ID out
        then setSupply (z'\<lparr>s_Collaterals := dec_truncate MaxPricision (s_Collaterals z' - amount)\<rparr>) (o_ID out) F else F)"
      "F = addTransfer (out_transfer X u f (o_TraceID out) c amount ActionTypeUnpledgeTransfer) F"
    using z(2) by (simp_all add: Z_def F_def zc_def z'_def)
  note start = unpledge_start [OF w(1,3,5) scan row use z ok T_def Z_def [unfolded zc_def] F_def M_def]
  note again = unpledge_resume [OF T(1-4) scan T(5) row(2) use T(6) resume(1) F_def M_def]
    unpledge_resume [OF Z(1-4) scan Z(5) row(2) use Z(6) resume(2) F_def M_def]
    unpledge_resume [OF F(1-4) scan F(5) row(2) use F(6) resume(3,4) M_def]
  note fin = unpledge_done [OF M(1) scan(1,2) M(2) row(2) id, where u = u and f = f]
  have "outcomes ?h s (\<lambda>r s'. s' \<in> S)" if "s \<in> S" for s
    using that start again(2,4,6) fin(2) unfolding S_def by (elim insertE emptyE) (auto elim!: outcomes_mono)
  then have "w' \<in> S"
    by (intro attempts_stages [OF run]) (simp_all add: S_def)
  moreover have "?h w = (Ok (), M)"
    using unpledge_run [OF w(1,3) scan row use w(5) z ok] by (simp add: M_def F_def Z_def T_def zc_def)
  ultimately show ?thesis
    using again(1,3,5) fin(1) by (auto simp: S_def)
qed

section \<open>Supply\<close>

lemma supply_attempt:
  assumes s: "faults s = []" "transactions_ok s"
    and row: "marketRow (o_AssetID out) s = Some r" "o_AssetID out \<noteq> ''''" and use: "usable X out r m"
    and rate: "CurExchangeRate m \<noteq> 0" and ct: "dec_truncate 8 (decDiv X (o_Amount out) (CurExchangeRate m)) = ct" "0 < ct"
    and T: "T = addTransaction (supply_tx out u f m ct) s"
    and F: "F = addTransfer (out_transfer X u f (o_TraceID out) (m_CTokenAssetID r) ct ActionTypeMint) T"
    and M: "M = setMarket X (supplied m ct (o_Amount out)) (o_ID out) F"
  shows "outcomes (handleSupplyEvent X out u f body) s (\<lambda>r' s'. s' \<in> {s, T, F, M})"
proof -
  note same = usable_same [OF use]
  have ex: "list_ex (lock_match m_ID m_Version (supplied m a b)) (markets s)" for a b
    using marketRow_in [OF row(1)] same by (intro market_lock [of r]) (simp_all add: supplied_def)
  have fT: "faults T = []" "markets T = markets s" and fF: "faults F = []" "markets F = markets s" and fM: "faults M = []"
    using s(1) by (simp_all add: T F M)
  have mk: "AccrueInterest X (afterFind r) (o_CreatedAt out) = Ok m" "0 < m_ID r" "m_Status r \<noteq> MarketStatusClose"
      "m_Version r < o_ID out"
    using use by (simp_all add: usable_def)
  have tx: "addTransaction (BuildTransactionFromOutput u f ActionTypeSupply out
      (Put ''amount'' (JDec ct) (Put ''ctoken_asset_id'' (JStr (m_CTokenAssetID m)) []))) s = T"
    by (simp add: T supply_tx_def)
  have pay: "outcomes (seqE (transferOut X u f (o_TraceID out) (m_CTokenAssetID m) ct (out_action ActionTypeMint f)) (\<lambda>_.
      if o_ID out > m_Version m
      then market_Update X (m\<lparr>m_CTokens := dec_truncate 16 (m_CTokens m + ct),
             m_TotalCash := dec_truncate 16 (m_TotalCash m + o_Amount out)\<rparr>) (o_ID out)
      else ret ())) T (\<lambda>r' s'. s' \<in> {s, T, F, M})"
    unfolding same(3) supplied_def [symmetric] using mk(4) same(1,4) ex [of ct "o_Amount out"]
    by (intro outcomes_seqE outcomes_transferOut)
      (auto simp: F [symmetric] M [symmetric, unfolded supplied_def] fT fF fM supplied_def intro!: outcomes_market_Update)
  have seen: "T = s \<and> 0 < tx_ID (transactionOf (o_TraceID out) s)" if "\<not> unseen out s"
    using seen_tx [OF s(2) that] addTransaction_seen [OF that] by (simp add: T supply_tx_def)
  have none: "List.find (\<lambda>x. tx_TraceID x = o_TraceID out) (transactions s) = None
      \<and> transactionOf (o_TraceID out) s = zero_transaction" if "unseen out s"
    using unseen_tx [OF that] that by (simp add: unseen_def)
  show ?thesis
    unfolding handleSupplyEvent_def Let_def
    using mk(2-4) s(1) seen none pay fT ct(2) rate same(4)
    by (cases "unseen out s"; intro outcomes_tryE outcomes_mustGetMarket [OF s(1) row])
      (auto simp: IsMarketClosed_def tx ct(1) zero_transaction_def NewTransactionExtra_def
        intro!: outcomes_tryE outcomes_seqE outcomes_Require outcomes_ret outcomes_return_DBError outcomes_accrue [OF s(1) mk(1)]
          outcomes_decDivM outcomes_transaction_Find outcomes_transaction_Create)
qed

lemma supply_done:
  assumes "faults s = []" "marketRow (o_AssetID out) s = Some r" "o_AssetID out \<noteq> ''''" "0 < m_ID r" "o_ID out \<le> m_Version r"
  shows "outcomes (handleSupplyEvent X out u f body) s (\<lambda>r' s'. s' = s)"
  unfolding handleSupplyEvent_def using assms
  by (intro outcomes_tryE outcomes_mustGetMarket [OF assms(1-3)]) (auto intro!: outcomes_ret outcomes_return_DBError)

lemma supply_stages:
  assumes w: "faults w = []" "markets_ok w" "transactions_ok w"
    and row: "marketRow (o_AssetID out) w = Some r" "o_AssetID out \<noteq> ''''" and use: "usable X out r m"
    and rate: "CurExchangeRate m \<noteq> 0" and ct: "0 < dec_truncate 8 (decDiv X (o_Amount out) (CurExchangeRate m))"
    and run: "(attempt (handleSupplyEvent X out u f body))\<^sup>*\<^sup>* w w'"
  shows "handleSupplyEvent X out u f body w' = handleSupplyEvent X out u f body w"
proof -
  let ?h = "handleSupplyEvent X out u f body"
  define ct' where "ct' = dec_truncate 8 (decDiv X (o_Amount out) (CurExchangeRate m))"
  define T where "T = addTransaction (supply_tx out u f m ct') w"
  define F where "F = addTransfer (out_transfer X u f (o_TraceID out) (m_CTokenAssetID r) ct' ActionTypeMint) T"
  define M where "M = setMarket X (supplied m ct' (o_Amount out)) (o_ID out) F"
  define S where "S = {w, T, F, M}"
  note same = usable_same [OF use]
  note ct = ct'_def [symmetric] ct [folded ct'_def]
  have T: "faults T = []" "transactions_ok T" "\<not> unseen out T" "marketRow (o_AssetID out) T = Some r"
    using w row by (simp_all add: T_def unseen_addTransaction supply_tx_def)
  have F: "faults F = []" "transactions_ok F" "\<not> unseen out F" "marketRow (o_AssetID out) F = Some r"
    using T by (simp_all add: F_def)
  have id: "T = addTransaction (supply_tx out u f m ct') T" "F = addTransaction (supply_tx out u f m ct') F"
      "F = addTransfer (out_transfer X u f (o_TraceID out) (m_CTokenAssetID r) ct' ActionTypeMint) F"
    using addTransaction_seen [OF T(3)] addTransaction_seen [OF F(3)] by (simp_all add: supply_tx_def F_def)
  have M: "faults M = []" "marketRow (o_AssetID out) M = Some (market_write X (supplied m ct' (o_Amount out)) (o_ID out) r)"
    using F w(2) marketRow_setMarket [OF _ F(4), where s = "supplied m ct' (o_Amount out)" and X = X and v = "o_ID out"
        and a' = "o_AssetID out"] same marketRow_in [OF row(1)]
    by (simp_all add: M_def F_def T_def supplied_def)
  have wr: "0 < m_ID (market_write X (supplied m ct' (o_Amount out)) (o_ID out) r)"
      "o_ID out \<le> m_Version (market_write X (supplied m ct' (o_Amount out)) (o_ID out) r)"
    using use by (simp_all add: market_write_def usable_def)
  note walk = supply_attempt [OF w(1,3) row use rate ct T_def F_def M_def, of body]
    supply_attempt [OF T(1,2,4) row(2) use rate ct id(1) F_def M_def, of body]
    supply_attempt [OF F(1,2,4) row(2) use rate ct id(2,3) M_def, of body]
  note fin = supply_done [OF M row(2) wr] supply_outdated [OF M row(2) wr]
  have "outcomes ?h s (\<lambda>r s'. s' \<in> S)" if "s \<in> S" for s
    using that walk fin(1) [of X u f body] unfolding S_def by (elim insertE emptyE) (auto elim!: outcomes_mono)
  then have "w' \<in> S"
    by (intro attempts_stages [OF run]) (simp_all add: S_def)
  moreover have "?h w = (Ok (), M)" "?h T = (Ok (), M)" "?h F = (Ok (), M)"
    using supply_run_again [OF w(1) row use rate ct w(3)] supply_run_again [OF T(1,4) row(2) use rate ct T(2)]
      supply_run_again [OF F(1,4) row(2) use rate ct F(2)] id
    by (simp_all add: M_def F_def T_def)
  ultimately show ?thesis
    using fin(2) by (auto simp: S_def)
qed

end
