(* ===== verification/Retry_Borrow.thy ===== *)
theory Retry_Borrow
  imports Retry
begin

text \<open>
  The stages of a borrow: the borrower's row exists, the transaction is recorded, the debt is booked, the
  payment is queued, the market is written. Each attempt goes from stage to stage.
\<close>

text \<open>An attempt after the transaction was recorded; the debt may be booked already.\<close>

lemma borrow_resume:
  assumes s: "faults s = []" "borrows_ok s" "transactions_ok s" "\<not> unseen out s"
    and scan: "scan_asset_amount X body = Some (asset, q)" "uuidToString X asset = a" "dec_truncate 8 q = amount"
    and row: "marketRow a s = Some r" "a \<noteq> ''''" and use: "usable X out r m"
    and b: "borrowRow u a s = Some b" and idx: "0 < m_BorrowIndex m" "0 < b_InterestIndex b"
    and acc: "AccrueInterest X (lent m amount) (o_CreatedAt out) = Ok m'"
    and B: "B = (if b_Version b < o_ID out then setBorrow (borrowed b m (balance X b m + amount)) (o_ID out) s else s)"
    and F: "F = addTransfer (out_transfer X u f (o_TraceID out) a amount ActionTypeBorrowTransfer) B"
    and M: "M = setMarket X m' (o_ID out) F"
  shows "handleBorrowEvent X out u f body s = (Ok (), M)"
    and "outcomes (handleBorrowEvent X out u f body) s (\<lambda>r' s'. s' \<in> {s, B, F, M})"
proof -
  note same = usable_same [OF use]
  note same' = accrue_same [OF acc, unfolded same_market_def]
  note tx = seen_tx [OF s(3,4)]
  have ex: "list_ex (lock_match m_ID m_Version m') (markets s)"
    using marketRow_in [OF row(1)] same same' by (intro market_lock [of r]) (simp_all add: lent_def)
  have ver': "m_Version m' < o_ID out" "m_Version m = m_Version r" "\<not> o_ID out \<le> m_Version r" "m_Version r < o_ID out"
    using use same same' by (simp_all add: usable_def lent_def)
  have bx: "list_ex (lock_match b_ID b_Version (borrowed b m x)) (borrows s)" for x
    using b by (intro borrow_lock) (simp_all add: borrowed_def)
  have ens: "ensureBorrow u a s = s" "borrowRow u a (ensureBorrow u a s) = Some b"
    using b by (simp_all add: ensure_present)
  have fB: "faults B = []" "markets B = markets s" and fF: "faults F = []" "markets F = markets s" and fM: "faults M = []"
    using s(1) by (simp_all add: B F M)
  show "handleBorrowEvent X out u f body s = (Ok (), M)"
    using assms ex bx same ver' tx BorrowBalance_normal [OF idx, of X]
    by (simp add: handleBorrowEvent_def handler_simps marketByAsset_row [OF row(1)] usable_def
        getOrCreateBorrow_run [OF s(1,2) ens(2)] ens(1) borrowed_def lent_def)
  have mk: "AccrueInterest X (afterFind r) (o_CreatedAt out) = Ok m" "0 < m_ID r" "m_Status r \<noteq> MarketStatusClose"
    using use by (simp_all add: usable_def)
  have new: "B = setBorrow (borrowed b m (balance X b m + amount)) (o_ID out) s" if "b_Version b < o_ID out"
    using that by (simp add: B)
  have old: "B = s" if "\<not> b_Version b < o_ID out"
    using that by (simp add: B)
  have pay: "outcomes (seqE (transferOut X u f (o_TraceID out) a amount (out_action ActionTypeBorrowTransfer f)) (\<lambda>_.
     if o_ID out > m_Version m
     then seqE (accrue X (m\<lparr>m_TotalCash := dec_truncate MaxPricision (m_TotalCash m - amount),
            m_TotalBorrows := dec_truncate MaxPricision (m_TotalBorrows m + amount)\<rparr>) out) (\<lambda>market. market_Update X market (o_ID out))
     else ret ())) B (\<lambda>r' s'. s' \<in> {s, B, F, M})"
    using acc ver' ex
    by (auto simp: F [symmetric] M [symmetric] fB fF fM lent_def
        intro!: outcomes_seqE outcomes_transferOut outcomes_accrue [where m' = m'] outcomes_market_Update)
  show "outcomes (handleBorrowEvent X out u f body) s (\<lambda>r' s'. s' \<in> {s, B, F, M})"
    unfolding handleBorrowEvent_def scan Let_def prod.case option.sel
    using mk(2,3) s(1) tx ens(1) pay ver' BorrowBalance_normal [OF idx, of X] bx new old fB(1)
    by (cases "b_Version b < o_ID out"; intro outcomes_tryE outcomes_Require)
      (auto simp: IsMarketClosed_def borrowed_def intro!: outcomes_tryE outcomes_seqE outcomes_Require outcomes_ret outcomes_return_DBError
        outcomes_mustGetMarket [OF s(1) row]
        outcomes_accrue [OF s(1) mk(1)] outcomes_getOrCreateBorrow [OF s(1,2) ens(2)] outcomes_transaction_Find outcomes_borrow_Update)
qed

text \<open>The first attempt, and one that was cut off before the transaction was recorded.\<close>

lemma borrow_start:
  assumes s: "faults s = []" "borrows_ok s" "transactions_ok s" "unseen out s"
    and scan: "scan_asset_amount X body = Some (asset, q)" "uuidToString X asset = a" "dec_truncate 8 q = amount"
    and row: "marketRow a s = Some r" "a \<noteq> ''''" and use: "usable X out r m"
    and b: "borrowRow u a (ensureBorrow u a s) = Some b" "b_Version b < o_ID out"
    and idx: "0 < m_BorrowIndex m" "0 < b_InterestIndex b"
    and ok: "BorrowAllowed m amount" "markets_known [m] (ensureBorrow u a s) u"
      "amount * m_Price m \<le> liquidity_spec X [m] (ensureBorrow u a s) u"
    and acc: "AccrueInterest X (lent m amount) (o_CreatedAt out) = Ok m'"
    and T: "T = addTransaction (borrow_tx out u f a m (balance X b m) amount) (ensureBorrow u a s)"
    and B: "B = setBorrow (borrowed b m (balance X b m + amount)) (o_ID out) T"
    and F: "F = addTransfer (out_transfer X u f (o_TraceID out) a amount ActionTypeBorrowTransfer) B"
    and M: "M = setMarket X m' (o_ID out) F"
  shows "outcomes (handleBorrowEvent X out u f body) s (\<lambda>r' s'. s' \<in> {s, ensureBorrow u a s, T, B, F, M})"
proof -
  note same = usable_same [OF use]
  note same' = accrue_same [OF acc, unfolded same_market_def]
  have ex: "list_ex (lock_match m_ID m_Version m') (markets s)"
    using marketRow_in [OF row(1)] same same' by (intro market_lock [of r]) (simp_all add: lent_def)
  have ver': "m_Version m' < o_ID out" "m_Version m = m_Version r" "m_Version r < o_ID out"
    using use same same' by (simp_all add: usable_def lent_def)
  have bx: "list_ex (lock_match b_ID b_Version (borrowed b m x)) (borrows (ensureBorrow u a s))" for x
    using b by (intro borrow_lock) (simp_all add: borrowed_def)
  have none: "List.find (\<lambda>x. tx_TraceID x = o_TraceID out) (transactions s) = None"
    and z: "transactionOf (o_TraceID out) (ensureBorrow u a s) = zero_transaction"
    using s(4) unseen_tx [of out "ensureBorrow u a s"] by (simp_all add: unseen_def)
  have fT: "faults T = []" "borrows T = borrows (ensureBorrow u a s)" "markets T = markets s" and fB: "faults B = []" "markets B = markets s"
    and fF: "faults F = []" "markets F = markets s" and fM: "faults M = []" and fE: "faults (ensureBorrow u a s) = []"
    using s(1) by (simp_all add: T B F M)
  have mk: "AccrueInterest X (afterFind r) (o_CreatedAt out) = Ok m" "0 < m_ID r" "m_Status r \<noteq> MarketStatusClose"
    using use by (simp_all add: usable_def)
  have pay: "outcomes (seqE (transferOut X u f (o_TraceID out) a amount (out_action ActionTypeBorrowTransfer f)) (\<lambda>_.
     if o_ID out > m_Version m
     then seqE (accrue X (m\<lparr>m_TotalCash := dec_truncate MaxPricision (m_TotalCash m - amount),
            m_TotalBorrows := dec_truncate MaxPricision (m_TotalBorrows m + amount)\<rparr>) out) (\<lambda>market. market_Update X market (o_ID out))
     else ret ())) B (\<lambda>r' s'. s' \<in> {s, ensureBorrow u a s, T, B, F, M})"
    using acc ver' ex
    by (auto simp: F [symmetric] M [symmetric] fB fF fM lent_def
        intro!: outcomes_seqE outcomes_transferOut outcomes_accrue [where m' = m'] outcomes_market_Update)
  have tx: "addTransaction (BuildTransactionFromOutput u f ActionTypeBorrow out
      (Put ''borrow'' (JBorrow \<lparr>eb_UserID = u, eb_AssetID = a, eb_Principal = balance X b m + amount, eb_InterestIndex = m_BorrowIndex m\<rparr>)
      (Put ''new_borrow_index'' (JDec (m_BorrowIndex m)) (Put ''new_borrow_balance'' (JDec (balance X b m + amount))
      (Put ''amount'' (JDec amount) (Put ''asset_id'' (JStr a) [])))))) (ensureBorrow u a s) = T"
    by (simp add: T borrow_tx_def)
  show ?thesis
    unfolding handleBorrowEvent_def scan Let_def prod.case option.sel
    using mk(2,3) s(1) none z tx pay ver' BorrowBalance_normal [OF idx, of X] bx ok b(2) fT fE B fB(1)
    by (intro outcomes_tryE outcomes_Require)
      (auto simp: IsMarketClosed_def borrowed_def zero_transaction_def NewTransactionExtra_def
        intro!: outcomes_tryE outcomes_seqE outcomes_Require outcomes_ret outcomes_return_DBError outcomes_mustGetMarket [OF s(1) row]
          outcomes_accrue [OF s(1) mk(1)] outcomes_getOrCreateBorrow [OF s(1,2) b(1)] outcomes_transaction_Find outcomes_liquidity
          outcomes_transaction_Create outcomes_borrow_Update)
qed

text \<open>After the market was written an attempt does nothing.\<close>

lemma borrow_done:
  assumes s: "faults s = []"
    and scan: "scan_asset_amount X body = Some (asset, q)" "uuidToString X asset = a"
    and row: "marketRow a s = Some r" "a \<noteq> ''''" "0 < m_ID r" "o_ID out \<le> m_Version r"
  shows "handleBorrowEvent X out u f body s = (Ok (), s)"
    and "outcomes (handleBorrowEvent X out u f body) s (\<lambda>r' s'. s' = s)"
  subgoal
    using assms by (simp add: handleBorrowEvent_def handler_simps marketByAsset_row [OF row(1)])
  subgoal
    unfolding handleBorrowEvent_def scan Let_def prod.case option.sel using s row(3,4)
    by (intro outcomes_tryE outcomes_Require)
      (auto intro!: outcomes_tryE outcomes_mustGetMarket [OF s row(1,2)] outcomes_ret outcomes_return_DBError)
  done

lemma borrow_stages:
  assumes w: "faults w = []" "markets_ok w" "borrows_ok w" "transactions_ok w" "unseen out w"
    and scan: "scan_asset_amount X body = Some (asset, q)" "uuidToString X asset = a" "dec_truncate 8 q = amount"
    and row: "marketRow a w = Some r" "a \<noteq> ''''" and use: "usable X out r m"
    and b: "borrowRow u a (ensureBorrow u a w) = Some b" "b_Version b < o_ID out"
    and idx: "0 < m_BorrowIndex m" "0 < b_InterestIndex b"
    and ok: "BorrowAllowed m amount" "markets_known [m] (ensureBorrow u a w) u"
      "amount * m_Price m \<le> liquidity_spec X [m] (ensureBorrow u a w) u"
    and acc: "AccrueInterest X (lent m amount) (o_CreatedAt out) = Ok m'"
    and run: "(attempt (handleBorrowEvent X out u f body))\<^sup>*\<^sup>* w w'"
  shows "handleBorrowEvent X out u f body w' = handleBorrowEvent X out u f body w"
proof -
  let ?h = "handleBorrowEvent X out u f body"
  define E where "E = ensureBorrow u a w"
  define T where "T = addTransaction (borrow_tx out u f a m (balance X b m) amount) E"
  define B where "B = setBorrow (borrowed b m (balance X b m + amount)) (o_ID out) T"
  define F where "F = addTransfer (out_transfer X u f (o_TraceID out) a amount ActionTypeBorrowTransfer) B"
  define M where "M = setMarket X m' (o_ID out) F"
  define S where "S = {w, E, T, B, F, M}"
  note same = usable_same [OF use]
  note same' = accrue_same [OF acc, unfolded same_market_def]
  have E: "faults E = []" "markets_ok E" "borrows_ok E" "transactions_ok E" "unseen out E" "marketRow a E = Some r" "ensureBorrow u a E = E"
    using w row by (simp_all add: E_def ensureBorrow_ok markets_ok_def transactions_ok_def)
  have T: "faults T = []" "borrows_ok T" "transactions_ok T" "\<not> unseen out T" "marketRow a T = Some r" "borrowRow u a T = Some b"
    using E b(1) by (simp_all add: T_def E_def [symmetric] unseen_addTransaction borrow_tx_def)
  have nb: "b_ID (borrowed b m x) = b_ID b" "b_Version (borrowed b m x) = b_Version b" "b_UserID (borrowed b m x) = u"
      "b_AssetID (borrowed b m x) = a" "b_InterestIndex (borrowed b m x) = m_BorrowIndex m" for x
    using borrowRow_in [OF T(6)] by (simp_all add: borrowed_def)
  define b' where "b' = (borrowed b m (balance X b m + amount))\<lparr>b_Version := o_ID out\<rparr>"
  have B: "faults B = []" "borrows_ok B" "transactions_ok B" "\<not> unseen out B" "marketRow a B = Some r" "borrowRow u a B = Some b'"
    using T borrowRow_setBorrow [OF T(2,6) nb(1-4)] borrows_ok_setBorrow [OF T(2,6) nb(1,3,4)] by (simp_all add: B_def b'_def)
  have F: "faults F = []" "borrows_ok F" "transactions_ok F" "\<not> unseen out F" "marketRow a F = Some r" "borrowRow u a F = Some b'"
    using B by (simp_all add: F_def)
  have M: "faults M = []" "marketRow a M = Some (market_write X m' (o_ID out) r)"
    using F E(2) marketRow_setMarket [OF _ F(5), where s = m' and X = X and v = "o_ID out" and a' = a] same same' marketRow_in [OF row(1)]
    by (simp_all add: M_def F_def B_def T_def lent_def)
  have idx': "0 < b_InterestIndex b'" "\<not> b_Version b' < o_ID out"
    using idx nb by (simp_all add: b'_def)
  have id: "0 < m_ID (market_write X m' (o_ID out) r)" "o_ID out \<le> m_Version (market_write X m' (o_ID out) r)"
    using use by (simp_all add: market_write_def usable_def)
  have okE: "markets_known [m] (ensureBorrow u a E) u" "amount * m_Price m \<le> liquidity_spec X [m] (ensureBorrow u a E) u"
      "borrowRow u a (ensureBorrow u a E) = Some b"
    using ok(2,3) b(1) E(7) by (simp_all add: E_def)
  have defs: "T = addTransaction (borrow_tx out u f a m (balance X b m) amount) (ensureBorrow u a w)"
      "T = addTransaction (borrow_tx out u f a m (balance X b m) amount) (ensureBorrow u a E)"
    using E(7) by (simp_all add: T_def) (simp add: E_def)
  have resume: "B = (if b_Version b < o_ID out then setBorrow (borrowed b m (balance X b m + amount)) (o_ID out) T else T)"
      "B = (if b_Version b' < o_ID out then setBorrow (borrowed b' m (balance X b' m + amount)) (o_ID out) B else B)"
      "F = (if b_Version b' < o_ID out then setBorrow (borrowed b' m (balance X b' m + amount)) (o_ID out) F else F)"
      "F = addTransfer (out_transfer X u f (o_TraceID out) a amount ActionTypeBorrowTransfer) F"
    using b(2) idx'(2) by (simp_all add: B_def F_def)
  note start = borrow_start [OF w(1,3-5) scan row use b idx ok acc defs(1) B_def F_def M_def]
    borrow_start [OF E(1,3-5) scan E(6) row(2) use okE(3) b(2) idx ok(1) okE(1,2) acc defs(2) B_def F_def M_def]
  note again = borrow_resume [OF T(1-4) scan T(5) row(2) use T(6) idx acc resume(1) F_def M_def]
    borrow_resume [OF B(1-4) scan B(5) row(2) use B(6) idx(1) idx'(1) acc resume(2) F_def M_def]
    borrow_resume [OF F(1-4) scan F(5) row(2) use F(6) idx(1) idx'(1) acc resume(3,4) M_def]
  note fin = borrow_done [OF M(1) scan(1,2) M(2) row(2) id, of u f]
  have "outcomes ?h s (\<lambda>r s'. s' \<in> S)" if "s \<in> S" for s
    using that start again(2,4,6) fin(2) unfolding S_def E(7) E_def [symmetric]
    by (elim insertE emptyE) (auto elim!: outcomes_mono)
  then have "w' \<in> S"
    by (intro attempts_stages [OF run]) (simp_all add: S_def)
  moreover have "?h w = (Ok (), M)" "?h E = (Ok (), M)"
    using borrow_run [OF w(1,3) scan row use w(5) b idx ok acc]
      borrow_run [OF E(1,3) scan E(6) row(2) use E(5) okE(3) b(2) idx ok(1) okE(1,2) acc] E(7)
    by (simp_all add: M_def F_def B_def T_def E_def)
  ultimately show ?thesis
    using again(1,3,5) fin(1) by (auto simp: S_def)
qed

end
