(* ===== verification/Props_Retry.thy ===== *)
theory Props_Retry
  imports Retry_Supply Retry_Borrow Example_State
begin

text \<open>Properties of outputs that are handled again after a failure of the database.\<close>

lemma attempt_run: "(attempt h)\<^sup>*\<^sup>* w ((snd (h (w\<lparr>faults := fs\<rparr>)))\<lparr>faults := []\<rparr>)"
  by (intro r_into_rtranclp) (auto simp: attempt_def)

text \<open>
  C18. A supply takes effect exactly once, however the database fails. However many attempts were made and
  whatever subset of their database calls failed, before or after taking effect, handling the output on a
  working database then succeeds and ends in the state of one undisturbed run: one transaction, one mint, one
  change of the market.
\<close>

theorem supply_settles_once:
  assumes "faults w = []" "markets_ok w" "transactions_ok w" "unseen out w"
    and "marketRow (o_AssetID out) w = Some r" "o_AssetID out \<noteq> ''''" "usable X out r m"
    and "CurExchangeRate m \<noteq> 0" "dec_truncate 8 (decDiv X (o_Amount out) (CurExchangeRate m)) = ct" "0 < ct"
    and "(attempt (handleSupplyEvent X out u f body))\<^sup>*\<^sup>* w w'"
  shows "handleSupplyEvent X out u f body w' = handleSupplyEvent X out u f body w
    \<and> handleSupplyEvent X out u f body w = (Ok (), setMarket X (supplied m ct (o_Amount out)) (o_ID out)
      (addTransfer (out_transfer X u f (o_TraceID out) (m_CTokenAssetID r) ct ActionTypeMint)
      (addTransaction (supply_tx out u f m ct) w)))"
  using supply_stages [OF assms(1-3,5-8) _ assms(11)] supply_run [OF assms(1,5-8) assms(9) [symmetric] assms(10,4)] assms(9,10)
  by simp

theorem supply_settles_once_witness:
  "\<exists>w'. (attempt (handleSupplyEvent ext0 output0 alice ''f'' []))\<^sup>*\<^sup>* world0 w'
    \<and> w' = (snd (handleSupplyEvent ext0 output0 alice ''f'' [] (world0\<lparr>faults := [NoFault, NoFault, FailAfter]\<rparr>)))\<lparr>faults := []\<rparr>
    \<and> handleSupplyEvent ext0 output0 alice ''f'' [] w' = handleSupplyEvent ext0 output0 alice ''f'' [] world0"
proof -
  have tx: "transactions_ok world0" "marketRow (o_AssetID output0) world0 = Some btc_market" "o_AssetID output0 \<noteq> ''''"
    by (simp_all add: transactions_ok_def) (simp add: world0_def)
  have ct: "CurExchangeRate btc_later \<noteq> 0" "0 < dec_truncate 8 (decDiv ext0 (o_Amount output0) (CurExchangeRate btc_later))"
    by (simp_all add: quo16_def dec_round_def dec_truncate_def)
  from supply_settles_once [OF world0_ok(1,2) tx(1) unseen0 tx(2,3) usable0(1) ct(1) refl ct(2) attempt_run] attempt_run
  show ?thesis
    by blast
qed

text \<open>One rerun after one failure is the case of a single attempt.\<close>

lemma supply_effect_once:
  assumes "faults w = []" "markets_ok w" "transactions_ok w" "unseen out w"
    and "marketRow (o_AssetID out) w = Some r" "o_AssetID out \<noteq> ''''" "usable X out r m"
    and "CurExchangeRate m \<noteq> 0" "0 < dec_truncate 8 (decDiv X (o_Amount out) (CurExchangeRate m))"
    and "handleSupplyEvent X out u f body (w\<lparr>faults := fs\<rparr>) = (res, w1)"
  shows "handleSupplyEvent X out u f body (w1\<lparr>faults := []\<rparr>) = handleSupplyEvent X out u f body w"
  using supply_stages [OF assms(1-3,5-9) attempt_run, of u f body fs] assms(10) by simp

text \<open>
  C19. A redemption is paid exactly once. However many attempts of an allowed redemption failed, and at
  whatever calls of the database, handling the output on a working database then ends in the state of one
  undisturbed run: one transaction, one payment, one change of the market.
\<close>

theorem redeem_settles_once:
  assumes "faults w = []" "markets_ok w" "transactions_ok w" "unseen out w"
    and "ctokenRow (o_AssetID out) w = Some r" "o_AssetID out \<noteq> ''''" "usable X out r m"
    and "o_Amount out \<le> m_CTokens m" "RedeemAllowed m (o_Amount out)"
    and "amount = dec_truncate 8 (CurExchangeRate m * o_Amount out)"
    and "(attempt (handleRedeemEvent X out u f body))\<^sup>*\<^sup>* w w'"
  shows "handleRedeemEvent X out u f body w' = handleRedeemEvent X out u f body w
    \<and> handleRedeemEvent X out u f body w = (Ok (), setMarket X (redeemed m amount (o_Amount out)) (o_ID out)
      (addTransfer (out_transfer X u f (o_TraceID out) (m_AssetID r) amount ActionTypeRedeemTransfer)
      (addTransaction (redeem_tx out u f m amount) w)))"
  using redeem_stages [OF assms(1-9,11)] redeem_run [OF assms(1,5-7,4,10)] assms(8,9) by simp

theorem redeem_settles_once_witness:
  "\<exists>w'. (attempt (handleRedeemEvent ext0 (output0\<lparr>o_AssetID := cbtc\<rparr>) alice ''f'' []))\<^sup>*\<^sup>* world0 w'
    \<and> w' = (snd (handleRedeemEvent ext0 (output0\<lparr>o_AssetID := cbtc\<rparr>) alice ''f'' []
        (world0\<lparr>faults := [NoFault, NoFault, NoFault, FailAfter]\<rparr>)))\<lparr>faults := []\<rparr>
    \<and> transfers (snd (handleRedeemEvent ext0 (output0\<lparr>o_AssetID := cbtc\<rparr>) alice ''f'' [] w'))
      = create_transfer (out_transfer ext0 alice ''f'' (o_TraceID output0) btc 4 ActionTypeRedeemTransfer) (transfers world0)"
proof -
  let ?out = "output0\<lparr>o_AssetID := cbtc\<rparr>"
  have tx: "transactions_ok world0"
    by (simp add: transactions_ok_def) (simp add: world0_def)
  have use: "unseen ?out world0" "ctokenRow (o_AssetID ?out) world0 = Some btc_market" "o_AssetID ?out \<noteq> ''''"
      "usable ext0 ?out btc_market btc_later" "m_AssetID btc_market = btc"
    using usable0(1) unseen0 by (simp_all add: usable_def unseen_def market_eval)
  have ok: "o_Amount ?out \<le> m_CTokens btc_later" "RedeemAllowed btc_later (o_Amount ?out)"
      "4 = dec_truncate 8 (CurExchangeRate btc_later * o_Amount ?out)"
    by code_simp+
  from redeem_settles_once [OF world0_ok(1,2) tx use(1-4) ok attempt_run] attempt_run use(5) show ?thesis
    by (intro exI conjI) (rule attempt_run, rule refl, simp)
qed

text \<open>
  C20. Released collateral is paid out exactly once. However many attempts of an allowed unpledge failed, and
  at whatever calls of the database, handling the output on a working database then ends in the state of one
  undisturbed run: the collateral is taken off the user's row once and paid once.
\<close>

theorem unpledge_settles_once:
  assumes "faults w = []" "markets_ok w" "supplies_ok w" "transactions_ok w" "unseen out w"
    and "scan_asset_amount X body = Some (asset, q)" "uuidToString X asset = c" "dec_truncate 8 q = amount"
    and "ctokenRow c w = Some r" "c \<noteq> ''''" "usable X out r m"
    and "supplyRow u c w = Some s" "s_Version s < o_ID out"
    and "amount \<le> s_Collaterals s" "markets_known [m] w u"
    and "amount * m_ExchangeRate m * m_CollateralFactor m * m_Price m \<le> liquidity_spec X [m] w u"
    and "(attempt (handleUnpledgeEvent X out u f body))\<^sup>*\<^sup>* w w'"
  shows "handleUnpledgeEvent X out u f body w' = handleUnpledgeEvent X out u f body w
    \<and> handleUnpledgeEvent X out u f body w = (Ok (), setMarket X m (o_ID out)
      (addTransfer (out_transfer X u f (o_TraceID out) c amount ActionTypeUnpledgeTransfer)
      (setSupply (s\<lparr>s_Collaterals := dec_truncate MaxPricision (s_Collaterals s - amount)\<rparr>) (o_ID out)
      (addTransaction (unpledge_tx out u f c s amount) w))))"
  using unpledge_stages [OF assms] unpledge_run [OF assms(1,3,6-11,5,12-16)] by simp

theorem unpledge_settles_once_witness:
  "\<exists>w'. (attempt (handleUnpledgeEvent ext0 output0 alice ''f'' (body0 cbtc 3)))\<^sup>*\<^sup>* world0 w'
    \<and> w' = (snd (handleUnpledgeEvent ext0 output0 alice ''f'' (body0 cbtc 3)
        (world0\<lparr>faults := replicate 7 NoFault @ [FailAfter]\<rparr>)))\<lparr>faults := []\<rparr>
    \<and> transfers (snd (handleUnpledgeEvent ext0 output0 alice ''f'' (body0 cbtc 3) w'))
      = create_transfer (out_transfer ext0 alice ''f'' (o_TraceID output0) cbtc 3 ActionTypeUnpledgeTransfer) (transfers world0)"
proof -
  have tx: "transactions_ok world0"
    by (simp add: transactions_ok_def) (simp add: world0_def)
  have scan: "scan_asset_amount ext0 (body0 cbtc 3) = Some (bytes_of_string cbtc, 3)"
    by code_simp
  have three: "dec_truncate 8 3 = 3"
    by (simp add: dec_truncate_def)
  have ok: "s_Version supply0 < o_ID output0" "3 \<le> s_Collaterals supply0" "markets_known [btc_later] world0 alice"
      "3 * m_ExchangeRate btc_later * m_CollateralFactor btc_later * m_Price btc_later \<le> liquidity_spec ext0 [btc_later] world0 alice"
    by (simp_all add: liquidity0)
  from unpledge_settles_once [OF world0_ok(1-3) tx unseen0 scan uuid0 three world0_rows(3) assets_ne(3) usable0(1) world0_rows(5)
      ok attempt_run, of "''f''"]
  show ?thesis
    by (intro exI conjI) (rule attempt_run, rule refl, simp)
qed

text \<open>
  C17. A loan is paid out exactly once. However many attempts of an allowed borrow failed, and at whatever
  calls of the database, handling the output on a working database then ends in the state of one undisturbed
  run: the debt is booked once, the loan is paid once, and the market changes once.
\<close>

theorem borrow_settles_once:
  assumes "faults w = []" "markets_ok w" "borrows_ok w" "transactions_ok w" "unseen out w"
    and "scan_asset_amount X body = Some (asset, q)" "uuidToString X asset = a" "dec_truncate 8 q = amount"
    and "marketRow a w = Some r" "a \<noteq> ''''" "usable X out r m"
    and "borrowRow u a (ensureBorrow u a w) = Some b" "b_Version b < o_ID out" "0 < m_BorrowIndex m" "0 < b_InterestIndex b"
    and "BorrowAllowed m amount" "markets_known [m] (ensureBorrow u a w) u"
    and "amount * m_Price m \<le> liquidity_spec X [m] (ensureBorrow u a w) u"
    and "AccrueInterest X (lent m amount) (o_CreatedAt out) = Ok m'"
    and "(attempt (handleBorrowEvent X out u f body))\<^sup>*\<^sup>* w w'"
  shows "handleBorrowEvent X out u f body w' = handleBorrowEvent X out u f body w
    \<and> handleBorrowEvent X out u f body w = (Ok (), setMarket X m' (o_ID out)
      (addTransfer (out_transfer X u f (o_TraceID out) a amount ActionTypeBorrowTransfer)
      (setBorrow (borrowed b m (balance X b m + amount)) (o_ID out)
      (addTransaction (borrow_tx out u f a m (balance X b m) amount) (ensureBorrow u a w)))))"
  using borrow_stages [OF assms] borrow_run [OF assms(1,3,6-11,5,12-19)] by simp

theorem borrow_settles_once_witness:
  "\<exists>w'. (attempt (handleBorrowEvent ext0 output0 alice ''f'' (body0 usd 5)))\<^sup>*\<^sup>* world0 w'
    \<and> w' = (snd (handleBorrowEvent ext0 output0 alice ''f'' (body0 usd 5)
        (world0\<lparr>faults := replicate 7 NoFault @ [FailAfter]\<rparr>)))\<lparr>faults := []\<rparr>
    \<and> transfers (snd (handleBorrowEvent ext0 output0 alice ''f'' (body0 usd 5) w'))
      = create_transfer (out_transfer ext0 alice ''f'' (o_TraceID output0) usd 5 ActionTypeBorrowTransfer) (transfers world0)"
proof -
  have tx: "transactions_ok world0"
    by (simp add: transactions_ok_def) (simp add: world0_def)
  have scan: "scan_asset_amount ext0 (body0 usd 5) = Some (bytes_of_string usd, 5)"
    by code_simp
  have row: "ensureBorrow alice usd world0 = world0"
    by (simp add: ensureBorrow_def)
  have five: "dec_truncate 8 5 = 5"
    by (simp add: dec_truncate_def)
  have b: "borrowRow alice usd (ensureBorrow alice usd world0) = Some borrow0" "b_Version borrow0 < o_ID output0"
      "0 < m_BorrowIndex usd_later" "0 < b_InterestIndex borrow0"
    by (simp_all add: row)
  have ok: "BorrowAllowed usd_later 5" "markets_known [usd_later] (ensureBorrow alice usd world0) alice"
      "5 * m_Price usd_later \<le> liquidity_spec ext0 [usd_later] (ensureBorrow alice usd world0) alice"
    by (simp_all add: row liquidity0 BorrowAllowed_iff)
  obtain m' where m': "AccrueInterest ext0 (lent usd_later 5) (o_CreatedAt output0) = Ok m'"
    using usable0(2) accrue_any unfolding usable_def by metis
  from borrow_settles_once [OF world0_ok(1,2,4) tx unseen0 scan uuid0 five world0_rows(2) assets_ne(2) usable0(2) b ok m' attempt_run,
      of "''f''"]
  show ?thesis
    by (intro exI conjI) (rule attempt_run, rule refl, simp add: row)
qed

text \<open>
  C22. The optimistic lock refuses stale writers. After an update of a market went through, a second
  update made from the same read of the row, for whatever output, fails with the lock error and leaves
  the state alone.
\<close>

theorem stale_update_refused:
  assumes "faults w = []" "market_Update X m v w = (Ok (), w1)" "m_Version m < v" "m_ID m \<noteq> 0"
    and "m_ID m' = m_ID m" "m_Version m' = m_Version m" "m_Version m < v'"
  shows "market_Update X m' v' w1 = (Err ErrOptimisticLock, w1)"
proof -
  obtain rows where rows: "lock_update m_ID m_Version (market_write X) m v (markets w) = Ok rows" "w1 = w\<lparr>markets := rows\<rparr>"
    using assms(1-3) by (auto simp: market_Update_def store_Update_def dbio_def split: res.splits)
  from market_asset.second_update_refused [OF rows(1) assms(3,4,5,6), of v'] show ?thesis
    using assms(1,6,7) rows(2) by (simp add: market_Update_def store_Update_def dbio_def)
qed

theorem stale_update_refused_witness:
  "\<exists>w1. market_Update ext0 btc_later 7 world0 = (Ok (), w1) \<and> market_Update ext0 btc_later 8 w1 = (Err ErrOptimisticLock, w1)"
proof -
  have m: "m_Version btc_later = 1" "m_ID btc_later = 1"
    by (simp_all add: btc_later_def btc_market_def)
  then obtain w1 where "market_Update ext0 btc_later 7 world0 = (Ok (), w1)"
    using world0_ok(1)
    by (simp add: market_Update_def store_Update_def dbio_def lock_update_def lock_match_def world0_def)
  with stale_update_refused [OF world0_ok(1) this] m show ?thesis
    by auto
qed

end
