(* ===== verification/Payee_Relation.thy ===== *)
theory Payee_Relation
  imports Payee_Dispatch
begin

text \<open>
  What every run of the payee keeps. A relation between the state before and the state after that is
  reflexive and transitive and that the writes of the payee respect is respected by every handler and by
  \<open>run\<close>, whatever the outputs, the memos and the failures of the database. The locales say what a relation
  must promise and prove this once by walking through the handlers:

  \<^item> \<open>payee_writes\<close>: the writes of users, transactions, transfers, proposals, signers, messages, properties;
  \<^item> \<open>payee_outputs\<close>: with the handlers of markets and accounts respected as wholes, every output;
  \<^item> \<open>payee_runs\<close>: with the reload of the system version, every run and every step;
  \<^item> \<open>payee_stores\<close>: any write of a market, supply or borrow, which gives \<open>payee_outputs\<close>;
  \<^item> \<open>payee_relation\<close>: both, which gives \<open>payee_runs\<close>.
\<close>

definition keeps :: "(world \<Rightarrow> world \<Rightarrow> bool) \<Rightarrow> (world, 'a) go \<Rightarrow> bool" where
  "keeps R m \<longleftrightarrow> (\<forall>w. R w (snd (m w)))"

text \<open>Who may vote: a member by sender, or a member of the signed memos of version 0.\<close>

definition voter :: "System \<Rightarrow> string \<Rightarrow> bool" where
  "voter S v \<longleftrightarrow> IsMember S v \<or> (\<exists>m\<in>set (Members S). mb_ClientID m = v)"

text \<open>The proposal with one more vote, passed when the threshold is reached.\<close>

definition voted :: "System \<Rightarrow> string \<Rightarrow> time \<Rightarrow> Proposal \<Rightarrow> Proposal" where
  "voted S v t p = p\<lparr>p_Votes := p_Votes p @ [v],
     p_PassedAt := (if Threshold S \<le> Suc (length (p_Votes p)) then Some t else None)\<rparr>"

text \<open>A transfer as the payee makes it: not yet assigned, handled or passed.\<close>

definition fresh_transfer :: "Transfer \<Rightarrow> bool" where
  "fresh_transfer t \<longleftrightarrow> t_ID t = 0 \<and> \<not> t_Assigned t \<and> \<not> t_Handled t \<and> \<not> t_Passed t"

lemma fresh_transfers:
  "list_all fresh_transfer [NewRefundTransfer X out u f origin c]"
  "list_all fresh_transfer [zero_transfer\<lparr>t_TraceID := tr, t_Opponents := ops, t_Threshold := n, t_AssetID := a,
     t_Amount := x, t_Memo := m\<rparr>]"
  "list_all fresh_transfer [zero_transfer\<lparr>t_TraceID := tr, t_AssetID := a, t_Amount := x, t_Memo := m, t_Threshold := n,
     t_Opponents := ops\<rparr>]"
  "list_all fresh_transfer [zero_transfer\<lparr>t_TraceID := tr, t_AssetID := a, t_Amount := x, t_Threshold := n, t_Opponents := ops\<rparr>]"
  by (simp_all add: fresh_transfer_def zero_transfer_def NewRefundTransfer_def)

lemma keepsI: "(\<And>w. R w (snd (m w))) \<Longrightarrow> keeps R m"
  by (simp add: keeps_def)

lemma keepsD: "keeps R m \<Longrightarrow> R w (snd (m w))"
  by (simp add: keeps_def)

lemma keeps_if: "keeps R a \<Longrightarrow> keeps R b \<Longrightarrow> keeps R (if c then a else b)"
  by simp

lemma keeps_Let: "(\<And>x. keeps R (f x)) \<Longrightarrow> keeps R (Let x f)"
  by simp

lemma keeps_prod: "(\<And>a b. keeps R (f a b)) \<Longrightarrow> keeps R (case p of (a, b) \<Rightarrow> f a b)"
  by (cases p) simp

lemma keeps_option: "keeps R a \<Longrightarrow> (\<And>x. keeps R (f x)) \<Longrightarrow> keeps R (case z of None \<Rightarrow> a | Some x \<Rightarrow> f x)"
  by (cases z) simp_all

lemma keeps_res:
  "(\<And>a. keeps R (f a)) \<Longrightarrow> (\<And>e. keeps R (g e)) \<Longrightarrow> (\<And>p. keeps R (h p)) \<Longrightarrow>
   keeps R (case r of Ok a \<Rightarrow> f a | Err e \<Rightarrow> g e | Panic p \<Rightarrow> h p)"
  by (cases r) simp_all

lemma keeps_err:
  "(\<And>m f. keeps R (c m f)) \<Longrightarrow> keeps R d \<Longrightarrow> keeps R o' \<Longrightarrow> (\<And>s. keeps R (g s)) \<Longrightarrow>
   keeps R (case e of CompoundError m f \<Rightarrow> c m f | DBError \<Rightarrow> d | ErrOptimisticLock \<Rightarrow> o' | GoError s \<Rightarrow> g s)"
  by (cases e) simp_all

lemmas keeps_splits = keeps_if keeps_Let keeps_prod keeps_option keeps_res keeps_err

text \<open>Notifications leave the proposals alone, and a proposal that was found is a row of its table.\<close>

lemma message_Create_proposals: "message_Create ms w = (r, w') \<Longrightarrow> proposals w' = proposals w"
  by (auto simp: message_Create_def dbio_def split: list.splits fault.splits)

lemma mustGetProposal_in: "mustGetProposal t w = (Ok p, w') \<Longrightarrow> p \<in> set (proposals w')"
  by (auto simp: mustGetProposal_def proposal_Find_def query_def dbio_def seqE_def tryE_def throw_def ret_def Require_def
      proposalOf_def first_or_def zero_proposal_def
      split: prod.splits res.splits list.splits fault.splits if_splits option.splits dest: find_Some_set)

lemma validateProposal_run: "snd (validateProposal X p w) = w"
  by (cases "p_Action p"; cases "p_Content p")
    (simp_all add: validateProposal_def validateNewSysVersion_def seqE_def tryE_def getS_def throw_def ret_def Require_def Let_def)

section \<open>Reflexive and transitive relations\<close>

locale preserved =
  fixes R :: "world \<Rightarrow> world \<Rightarrow> bool"
  assumes R_refl: "R w w"
    and R_trans: "R u v \<Longrightarrow> R v w \<Longrightarrow> R u w"
    and R_faults: "R w (w\<lparr>faults := tl (faults w)\<rparr>)"
begin

lemma keeps_unchanged: "(\<And>w. snd (m w) = w) \<Longrightarrow> keeps R m"
  by (simp add: keeps_def R_refl)

lemma keeps_ret: "keeps R (ret a)"
  by (rule keeps_unchanged) (simp add: ret_def)

lemma keeps_throw: "keeps R (throw e)"
  by (rule keeps_unchanged) (simp add: throw_def)

lemma keeps_panic: "keeps R (panic e)"
  by (rule keeps_unchanged) (simp add: panic_def)

lemma keeps_getS: "keeps R (getS f)"
  by (rule keeps_unchanged) (simp add: getS_def)

lemma keeps_liftR: "keeps R (liftR r)"
  by (rule keeps_unchanged) (simp add: liftR_def)

lemma keeps_Require: "keeps R (Require c msg fl)"
  by (rule keeps_unchanged) (simp add: Require_def throw_def ret_def)

text \<open>A first step that keeps the relation, then a continuation that keeps it from where the step ends.\<close>

lemma after_try:
  assumes "R w (snd (m w))" "\<And>a w'. m w = (Ok a, w') \<Longrightarrow> R w' (snd (k a w'))"
    and "\<And>e w'. m w = (Err e, w') \<Longrightarrow> R w' (snd (h e w'))"
  shows "R w (snd (tryE m h k w))"
  using assms(1) by (cases rule: tryE_cases [of m w h k]) (auto intro: R_trans assms(2,3))

lemma keeps_tryE: "keeps R m \<Longrightarrow> (\<And>e. keeps R (h e)) \<Longrightarrow> (\<And>a. keeps R (k a)) \<Longrightarrow> keeps R (tryE m h k)"
  by (rule keepsI, rule after_try) (simp_all add: keepsD)

lemma keeps_seqE: "keeps R m \<Longrightarrow> (\<And>a. keeps R (k a)) \<Longrightarrow> keeps R (seqE m k)"
  by (simp add: seqE_def keeps_tryE keeps_throw)

lemma after_seq:
  assumes "R w (snd (m w))" "\<And>a w'. m w = (Ok a, w') \<Longrightarrow> R w' (snd (k a w'))"
  shows "R w (snd (seqE m k w))"
  unfolding seqE_def by (rule after_try) (simp_all add: assms throw_def R_refl)

lemma keeps_forE: "(\<And>x. keeps R (f x)) \<Longrightarrow> keeps R (forE xs f)"
  by (induction xs) (simp_all add: keeps_ret keeps_seqE)

lemma keeps_foldE: "(\<And>x a. keeps R (f x a)) \<Longrightarrow> keeps R (foldE xs a f)"
  by (induction xs arbitrary: a) (simp_all add: keeps_ret keeps_seqE)

lemma after_dbio:
  assumes "R w (snd (f w))" "\<And>fs. R (w\<lparr>faults := fs\<rparr>) (snd (f (w\<lparr>faults := fs\<rparr>)))"
  shows "R w (snd (dbio f w))"
proof (cases "faults w")
  case (Cons x fs)
  with R_faults [of w] have "R w (w\<lparr>faults := fs\<rparr>)"
    by simp
  with Cons R_trans [OF this assms(2)] show ?thesis
    by (cases x) (simp_all add: dbio_def)
qed (simp add: dbio_def assms(1))

lemma keeps_dbio: "(\<And>w. R w (snd (f w))) \<Longrightarrow> keeps R (dbio f)"
  by (rule keepsI, rule after_dbio)

lemma keeps_query: "keeps R (query f)"
  unfolding query_def by (rule keeps_dbio) (simp add: R_refl)

lemmas keeps_basic = keeps_ret keeps_throw keeps_panic keeps_getS keeps_liftR keeps_Require keeps_tryE keeps_seqE
  keeps_forE keeps_foldE keeps_query keeps_splits

text \<open>The reads.\<close>

lemma keeps_reads:
  "keeps R (market_Find a)" "keeps R (market_FindByCToken a)" "keeps R market_All"
  "keeps R (supply_Find u c)" "keeps R (supply_FindByUser u)" "keeps R (borrow_Find u a)" "keeps R (borrow_FindByUser u)"
  "keeps R (user_List i n)" "keeps R (user_Find u)" "keeps R (user_FindByAddress u)"
  "keeps R (transaction_FindByTraceID t)" "keeps R (wallet_List i n)" "keeps R (proposal_Find t)"
  "keeps R signer_FindAll" "keeps R (property_Get p)"
  by (simp_all add: market_Find_def market_FindByCToken_def market_All_def supply_Find_def supply_FindByUser_def
      borrow_Find_def borrow_FindByUser_def user_List_def user_Find_def user_FindByAddress_def transaction_FindByTraceID_def
      wallet_List_def proposal_Find_def signer_FindAll_def property_Get_def keeps_basic)

lemma keeps_SumOfSupplies: "keeps R (supply_SumOfSupplies c)"
  unfolding supply_SumOfSupplies_def by (rule keeps_dbio) (simp add: Let_def R_refl)

lemma keeps_accrue: "keeps R (accrue X m out)" "keeps R (decDivM X a b)"
  by (simp_all add: accrue_def decDivM_def keeps_basic)

lemma keeps_musts:
  "keeps R (mustGetMarket a)" "keeps R (mustGetMarketWithCToken a)" "keeps R (mustGetSupply u c)" "keeps R (mustGetBorrow u a)"
  "keeps R (mustGetProposal t)"
  by (simp_all add: mustGetMarket_def mustGetMarketWithCToken_def mustGetSupply_def mustGetBorrow_def mustGetProposal_def
      keeps_basic keeps_reads)

lemma keeps_liquidity: "keeps R (CalculateAccountLiquidity X u ms)"
  unfolding CalculateAccountLiquidity_def supply_step_def borrow_step_def
  by (intro keeps_basic keeps_reads)

lemma keeps_HasClosedMarkets: "keeps R (HasClosedMarkets u)"
  unfolding HasClosedMarkets_def by (intro keeps_basic keeps_reads)

lemma keeps_validate: "keeps R (validateNewSysVersion v)" "keeps R (validateProposal X p)"
proof -
  show "keeps R (validateNewSysVersion v)" for v
    unfolding validateNewSysVersion_def by (intro keeps_basic)
  then show "keeps R (validateProposal X p)"
    by (cases "p_Action p"; cases "p_Content p") (simp_all add: validateProposal_def keeps_basic)
qed

lemma keeps_build: "keeps R (buildProposalV1 X out a b)" "keeps R (requestVoteAction X S p)" "keeps R (build_signers X i ss)"
  "keeps R (proposal_content_v0 X a b)" "keeps R (liquidation_amounts X out s bal sm bm)"
proof -
  show "keeps R (buildProposalV1 X out a b)"
    unfolding buildProposalV1_def by (intro keeps_basic keeps_validate)
  show "keeps R (requestVoteAction X S p)"
    unfolding requestVoteAction_def by (intro keeps_basic)
  show "keeps R (build_signers X i ss)"
    by (induction ss arbitrary: i) (simp_all add: keeps_basic)
  show "keeps R (proposal_content_v0 X a b)"
    by (cases a) (simp_all add: proposal_content_v0_def keeps_basic)
  show "keeps R (liquidation_amounts X out s bal sm bm)"
    unfolding liquidation_amounts_def by (intro keeps_basic keeps_accrue)
qed

end

text \<open>The migration of the users leaves the running version alone, and so does the check of a new one.\<close>

interpretation same_version: preserved "\<lambda>w w'. sysversion w' = sysversion w"
  by unfold_locales simp_all

lemma migrate_sysversion: "sysversion (snd (migrateSystem X n i w)) = sysversion w"
proof -
  let ?R = "\<lambda>w w'. sysversion w' = sysversion w"
  have calls: "keeps ?R (uuid_New X)" "keeps ?R (user_MigrateToV1 us)" for us
    by (simp add: uuid_New_def keeps_def)
      (unfold user_MigrateToV1_def, rule same_version.keeps_dbio, simp split: option.split)
  have collect: "keeps ?R (migrate_collect X us)" for us
    by (induction us) (simp_all add: same_version.keeps_basic calls)
  have "keeps ?R (migrateV1_loop X k j)" for k j
    by (induction k arbitrary: j) (simp_all add: same_version.keeps_basic same_version.keeps_reads collect calls)
  then have "keeps ?R (migrateV1 X i)"
    by (simp add: keeps_def migrateV1_def del: migrateV1_loop.simps)
  then show ?thesis
    unfolding migrateSystem_def by (intro keepsD [where R = ?R] same_version.keeps_basic)
qed

lemma validate_version_cases:
  "validateNewSysVersion n w = (r, w') \<Longrightarrow> w' = w \<and> (r = Ok () \<longleftrightarrow> sysversion w < n \<and> n \<le> SysVersion)"
  by (auto simp: validateNewSysVersion_def Require_def getS_def seqE_def tryE_def throw_def ret_def split: if_splits)

text \<open>A value the program may store as the system version while it runs \<open>w\<close>.\<close>

definition newer_version :: "world \<Rightarrow> string \<Rightarrow> bool" where
  "newer_version w x \<longleftrightarrow> (\<exists>n. ParseInt64 x = Some n \<and> sysversion w < n \<and> n \<le> SysVersion)"

section \<open>What the writes of the payee must respect\<close>

text \<open>
  The writes that every part of the payee makes: users, transactions, transfers, proposals with their
  votes, signers, messages and properties, of which the system version is only set to a newer one.
\<close>

locale payee_writes = preserved +
  fixes S :: System
  assumes user_Create: "keeps R (user_Create u)"
    and user_Migrate: "keeps R (user_MigrateToV1 us)"
    and transaction_Create: "keeps R (transaction_Create t)"
    and CreateTransfers: "list_all fresh_transfer ts \<Longrightarrow> keeps R (wallet_CreateTransfers ts)"
    and proposal_Create: "p_Votes p = [] \<Longrightarrow> p_PassedAt p = None \<Longrightarrow> keeps R (proposal_Create p)"
    and signer_Save: "keeps R (signer_Save i k)"
    and signer_Delete: "keeps R (signer_Delete i)"
    and message_Create: "keeps R (message_Create ms)"
    and property_Save: "(k = SysVersionKey \<Longrightarrow> newer_version w x) \<Longrightarrow> R w (snd (property_Save k x w))"
    and HandleTransfer: "keeps R (HandleTransfer X tr)"
    and uuid_New: "keeps R (uuid_New X)"
    and vote: "p \<in> set (proposals w) \<Longrightarrow> voter S who \<Longrightarrow> who \<notin> set (p_Votes p) \<Longrightarrow> p_PassedAt p = None \<Longrightarrow>
      R w (snd (proposal_Update X (voted S who tm p) n w))"
begin

lemma keeps_Save: "k \<noteq> SysVersionKey \<Longrightarrow> keeps R (property_Save k x)"
  by (rule keepsI, rule property_Save) simp

lemmas keeps_stores = user_Create user_Migrate transaction_Create CreateTransfers fresh_transfers signer_Save signer_Delete
  message_Create HandleTransfer uuid_New

lemmas keeps_calls = keeps_basic keeps_reads keeps_SumOfSupplies keeps_accrue keeps_musts keeps_liquidity
  keeps_HasClosedMarkets keeps_validate keeps_build keeps_stores

lemma keeps_payments: "keeps R (transferOut X u f t a n act)" "keeps R (handleRefundEventV0 X out u f origin c)"
  "keeps R (returnOrRefundError X e out u f origin c)" "keeps R (refund_on_error X out f e)"
  unfolding transferOut_def handleRefundEventV0_def returnOrRefundError_def refund_on_error_def
  by (intro keeps_calls)+

lemma keeps_ensure_user: "keeps R (ensure_user X out)"
  unfolding ensure_user_def by (intro keeps_calls)

section \<open>Governance\<close>

lemma keeps_notices: "keeps R (ProposalCreated X S' p u)" "keeps R (ProposalApproved X S' p u)" "keeps R (ProposalPassed X S' p)"
  unfolding ProposalCreated_def ProposalApproved_def ProposalPassed_def by (intro keeps_calls)+

lemma keeps_migrate: "keeps R (migrateV1 X v)"
proof -
  have collect: "keeps R (migrate_collect X us)" for us
    by (induction us) (simp_all add: keeps_calls)
  have "keeps R (migrateV1_loop X n i)" for n i
    by (induction n arbitrary: i) (simp_all add: keeps_calls collect)
  then show ?thesis
    by (simp add: keeps_def migrateV1_def del: migrateV1_loop.simps)
qed

lemma keeps_migrateSystem: "keeps R (migrateSystem X n i)"
  unfolding migrateSystem_def by (intro keeps_calls keeps_migrate)

lemma keeps_setProperty: "keeps R (setProperty X out p req)"
proof (cases "sp_Key req = SysVersionKey")
  case True
  have "R w (snd (setProperty X out p req w))" for w
    unfolding setProperty_def
  proof (rule after_seq)
    fix u w0
    assume "Require (sp_Key req \<noteq> '''') ''payee/empty-key'' [] w = (Ok u, w0)"
    show "R w0 (snd ((seqE (if sp_Key req = SysVersionKey
           then (let ver = ParseInt64 (sp_Value req) in
                seqE (Require (ver \<noteq> None) ''payee/invalid-sysversion'' []) (\<lambda>_.
                seqE (validateNewSysVersion (the ver)) (\<lambda>_.
                migrateSystem X (the ver) (o_ID out))))
           else ret ()) (\<lambda>_. property_Save (sp_Key req) (sp_Value req))) w0))"
    proof (cases "ParseInt64 (sp_Value req)")
      case (Some n)
      have tail: "R w1 (snd (seqE (migrateSystem X n (o_ID out)) (\<lambda>_. property_Save (sp_Key req) (sp_Value req)) w1))"
        if "newer_version w1 (sp_Value req)" for w1
      proof (rule after_seq)
        fix a w2
        assume "migrateSystem X n (o_ID out) w1 = (Ok a, w2)"
        with migrate_sysversion [of X n "o_ID out" w1] that have "newer_version w2 (sp_Value req)"
          by (simp add: newer_version_def)
        then show "R w2 (snd (property_Save (sp_Key req) (sp_Value req) w2))"
          by (rule property_Save)
      qed (rule keepsD [OF keeps_migrateSystem])
      have "R w0 (snd (seqE (validateNewSysVersion n)
          (\<lambda>_. seqE (migrateSystem X n (o_ID out)) (\<lambda>_. property_Save (sp_Key req) (sp_Value req))) w0))"
        using Some by (intro after_seq keepsD [OF keeps_validate(1)] tail)
          (auto simp: newer_version_def dest: validate_version_cases)
      with True Some show ?thesis
        by (simp add: Require_def seqE_assoc)
    qed (use True in \<open>simp add: Require_def throw_def seqE_def tryE_def R_refl\<close>)
  qed (rule keepsD [OF keeps_Require])
  then show ?thesis
    by (rule keepsI)
next
  case False
  then show ?thesis
    unfolding setProperty_def by (simp only: if_False) (intro keeps_calls keeps_Save)
qed

end

section \<open>The payee, one output after the other\<close>

text \<open>
  With these writes respected and the handlers that touch markets, supplies and borrows respected as
  wholes, so is the handling of every output.
\<close>

locale payee_outputs = payee_writes +
  assumes keeps_user_action: "keeps R (handleUserAction X out a f body)"
    and keeps_price: "keeps R (handlePriceEvent X out)"
    and keeps_market_event: "keeps R (handleMarketEvent X p mr out)"
    and keeps_withdraw: "keeps R (handleWithdrawEvent X p wr out)"
    and keeps_open: "keeps R (handleOpenMarketEvent X p ms out)"
    and keeps_close: "keeps R (handleCloseMarketEvent X p ms out)"
begin

lemma keeps_passed: "keeps R (handlePassedProposal X p out)"
proof -
  have events: "keeps R (handleAddOracleSignerEvent X p ao out)" "keeps R (handleRemoveOracleSignerEvent p ro out)" for ao ro
    unfolding handleAddOracleSignerEvent_def handleRemoveOracleSignerEvent_def
    by (intro keeps_calls)+
  show ?thesis
    by (cases "p_Action p"; cases "p_Content p")
      (simp_all add: handlePassedProposal_def handlePassedProposalInternal_def events keeps_setProperty keeps_ret
        keeps_market_event keeps_withdraw keeps_open keeps_close)
qed

lemma keeps_cast_vote:
  assumes "p \<in> set (proposals w)" "voter S (o_Sender out)" "o_Sender out \<notin> set (p_Votes p)" "p_PassedAt p = None"
  shows "R w (snd (cast_vote X S out p w))"
proof -
  define q where "q = p\<lparr>p_Votes := p_Votes p @ [o_Sender out]\<rparr>"
  have q: "voted S (o_Sender out) (o_CreatedAt out) p
      = (if Threshold S \<le> length (p_Votes q) then q\<lparr>p_PassedAt := Some (o_CreatedAt out)\<rparr> else q)"
    using assms(4) by (cases p) (simp add: voted_def q_def)
  have upd: "R w' (snd (proposal_Update X (voted S (o_Sender out) (o_CreatedAt out) p) n w'))" if "proposals w' = proposals w" for w' n
    using assms that by (intro vote) simp_all
  show ?thesis
    unfolding cast_vote_def Let_def q_def [symmetric]
  proof (rule after_seq)
    show "R w (snd (ProposalApproved X S q (o_Sender out) w))"
      by (rule keepsD [OF keeps_notices(2)])
    fix a w1
    assume "ProposalApproved X S q (o_Sender out) w = (Ok a, w1)"
    then have w1: "proposals w1 = proposals w"
      by (auto simp: ProposalApproved_def dest: message_Create_proposals)
    show "R w1 (snd (seqE (if Threshold S \<le> length (p_Votes q)
          then seqE (ProposalPassed X S (q\<lparr>p_PassedAt := Some (o_CreatedAt out)\<rparr>))
            (\<lambda>_. ret (q\<lparr>p_PassedAt := Some (o_CreatedAt out)\<rparr>)) else ret q)
        (\<lambda>q. proposal_Update X q (o_ID out)) w1))"
    proof (cases "Threshold S \<le> length (p_Votes q)")
      case True
      have "R w1 (snd (seqE (ProposalPassed X S (q\<lparr>p_PassedAt := Some (o_CreatedAt out)\<rparr>))
          (\<lambda>_. proposal_Update X (q\<lparr>p_PassedAt := Some (o_CreatedAt out)\<rparr>) (o_ID out)) w1))"
        using upd q True w1
        by (intro after_seq keepsD [OF keeps_notices(3)]) (auto simp: ProposalPassed_def dest: message_Create_proposals)
      with True show ?thesis by (simp add: seqE_assoc)
    next
      case False
      with upd [OF w1] q show ?thesis by simp
    qed
  qed
qed

lemma keeps_member_vote:
  assumes "p \<in> set (proposals w)" "voter S (o_Sender out)"
  shows "R w (snd (member_vote X S out p w))"
  unfolding member_vote_def
proof (rule after_seq)
  show "R w (snd (validateProposal X p w))"
    by (rule keepsD [OF keeps_validate(2)])
  fix a w1
  assume "validateProposal X p w = (Ok a, w1)"
  then have "w1 = w"
    using validateProposal_run [of X p w] by simp
  then show "R w1 (snd ((let handled = p_PassedAt p \<noteq> None \<or> o_Sender out \<in> set (p_Votes p)
       in seqE (if \<not> handled then cast_vote X S out p else ret p)
           (\<lambda>q. if p_PassedAt q \<noteq> None \<and> p_Version q = o_ID out then handlePassedProposal X q out else ret ())) w1))"
    using assms keeps_cast_vote [of p w out X]
    by (simp only: Let_def, intro after_seq keepsD [OF keeps_if [OF keeps_passed keeps_ret]]) (auto simp: ret_def R_refl)
qed

lemma keeps_votes: "keeps R (handleVoteProposalV1 X S out msg)" "keeps R (handleVoteProposal X S out msg)"
proof -
  have fwd: "keeps R (forwardProposalV1 X S out p a)" "keeps R (forwardProposal X S out p a)" for p a
    unfolding forwardProposalV1_def forwardProposal_def by (intro keeps_calls)+
  have vote: "keeps R (seqE (mustGetProposal t) (\<lambda>p. if c then f p else if IsMember S (o_Sender out) then member_vote X S out p else ret ()))"
    if "\<And>p. keeps R (f p)" for t f c
    using that
    by (intro keepsI after_seq keepsD [OF keeps_musts(5)])
      (auto simp: ret_def R_refl voter_def keepsD intro: keeps_member_vote dest: mustGetProposal_in)
  show "keeps R (handleVoteProposalV1 X S out msg)" "keeps R (handleVoteProposal X S out msg)"
    unfolding handleVoteProposalV1_def handleVoteProposal_def by (intro keeps_splits keeps_ret vote fwd)+
qed

lemma keeps_makes: "keeps R (handleMakeProposalV1 X S out msg)" "keeps R (handleMakeProposal X S out msg)"
  "keeps R (handleShoutProposal X S out msg)" "keeps R (handleCreateProposalEventV0 X S out m a t msg)"
proof -
  have create: "keeps R (seqE (buildProposalV1 X out a b) (\<lambda>p. seqE (proposal_Create p) k))" if "\<And>p. keeps R (k p)" for a b k
  proof (intro keepsI after_seq keepsD [OF keeps_build(1)])
    fix w p w'
    assume "buildProposalV1 X out a b w = (Ok p, w')"
    then have "p_Votes p = []" "p_PassedAt p = None"
      by (auto simp: buildProposalV1_def zero_proposal_def Let_def throw_def ret_def split: option.splits elim!: seqE_OkE)
    then show "R w' (snd (proposal_Create p w'))"
      by (intro keepsD [OF proposal_Create])
    show "R w2 (snd (k q w2))" for q w2
      by (rule keepsD [OF that])
  qed
  have ann: "keeps R (announce (forwardProposalV1 X S) X S out p)" "keeps R (announce (forwardProposal X S) X S out p)" for p
    unfolding announce_def forwardProposalV1_def forwardProposal_def by (intro keeps_calls keeps_notices)+
  show "keeps R (handleMakeProposalV1 X S out msg)" "keeps R (handleMakeProposal X S out msg)"
    unfolding handleMakeProposalV1_def handleMakeProposal_def by (intro create ann keeps_calls)+
  show "keeps R (handleShoutProposal X S out msg)"
    unfolding handleShoutProposal_def by (intro keeps_calls keeps_notices)
  show "keeps R (handleCreateProposalEventV0 X S out m a t msg)"
    unfolding handleCreateProposalEventV0_def Let_def
    by (intro keeps_calls proposal_Create keeps_notices) (simp_all add: zero_proposal_def)
qed

lemma keeps_vote_v0:
  assumes "m \<in> set (Members S)"
  shows "keeps R (handleVoteProposalEventV0 X S out m body)"
proof -
  define v where "v = mb_ClientID m"
  have v: "voter S v"
    using assms by (auto simp: voter_def v_def)
  define upd where "upd p = (let p = p\<lparr>p_Votes := p_Votes p @ [v]\<rparr> in
      seqE (ProposalApproved X S p v) (\<lambda>_.
      let passed = (length (p_Votes p) \<ge> Threshold S) in
      seqE (if passed
            then (let p = p\<lparr>p_PassedAt := Some (o_CreatedAt out)\<rparr> in seqE (ProposalPassed X S p) (\<lambda>_. ret p))
            else ret p) (\<lambda>p.
      seqE (proposal_Update X p (o_ID out)) (\<lambda>p. ret (passed, p)))))" for p
  have cast: "upd p = seqE (cast_vote X S (out\<lparr>o_Sender := v\<rparr>) p) (\<lambda>q. ret (Threshold S \<le> Suc (length (p_Votes p)), q))" for p
    by (simp add: upd_def cast_vote_def seqE_assoc Let_def)
  have R_upd: "R w (snd (upd p w))" if "p \<in> set (proposals w)" "v \<notin> set (p_Votes p)" "p_PassedAt p = None" for p w
    unfolding cast using that v by (intro after_seq keeps_cast_vote) (simp_all add: ret_def R_refl)
  have body: "R w (snd ((let passed = p_PassedAt p \<noteq> None in
      if passed \<and> p_Version p < o_ID out then ret ()
      else seqE (if \<not> passed \<and> v \<notin> set (p_Votes p) then upd p else ret (passed, p))
        (\<lambda>(passed, p). if passed then handlePassedProposal X p out else ret ())) w))"
    if "p \<in> set (proposals w)" for p w
  proof (cases "p_PassedAt p = None \<and> v \<notin> set (p_Votes p)")
    case True
    then have "R w (snd (seqE (upd p) (\<lambda>(passed, p). if passed then handlePassedProposal X p out else ret ()) w))"
      using R_upd that by (intro after_seq keepsD [OF keeps_prod [OF keeps_if [OF keeps_passed keeps_ret]]]) simp_all
    with True show ?thesis by simp
  next
    case False
    then show ?thesis
      using keepsD [OF keeps_passed] keepsD [OF keeps_ret] by (auto simp: Let_def)
  qed
  show ?thesis
    unfolding handleVoteProposalEventV0_def v_def [symmetric] upd_def [symmetric]
    by (intro keeps_option keeps_prod keeps_ret keepsI after_seq keepsD [OF keeps_musts(5)] body)
      (simp add: mustGetProposal_in)
qed

section \<open>The dispatch and the loop\<close>

lemma decoded_member: "DecodeMemberActionV0 X msg ms = Some (m, a, b) \<Longrightarrow> m \<in> set ms"
  by (auto simp: DecodeMemberActionV0_def decodeMemberActionV0_def decodeMemberActionUnsecureV0_def Let_def
      split: option.splits if_splits bind_splits dest!: find_Some_set)

lemma keeps_v1: "keeps R (handleOutputV1 X S out)"
proof -
  have rest: "keeps R (case Decrypt X msg (PrivateKey S) of Panic p \<Rightarrow> panic p
     | r \<Rightarrow> (let message = (case r of Ok body \<Rightarrow> body | _ \<Rightarrow> msg) in
     case scan1 scan_int 0 message of None \<Rightarrow> ret () | Some (v, message) \<Rightarrow>
     (let action = toAction v in
     if action = ActionTypeProposalMake then handleMakeProposalV1 X S out message
     else if action = ActionTypeProposalShout then handleShoutProposal X S out message
     else if action = ActionTypeProposalVote then handleVoteProposalV1 X S out message
     else (case scan_uuid X message of None \<Rightarrow> ret ()
     | Some (followID, message) \<Rightarrow> seqE (ensure_user X out) (\<lambda>_.
         handleUserAction X out action (uuidToString X followID) message)))))" for msg
    by (intro keeps_basic keeps_makes keeps_votes keeps_ensure_user keeps_user_action)
  have v0: "keeps R (handleProposalActionV0 X S out m a b)" if "DecodeMemberActionV0 X msg (Members S) = Some (m, a, b)" for m a b msg
    using decoded_member [OF that] by (auto simp: handleProposalActionV0_def intro: keeps_vote_v0 keeps_makes)
  show ?thesis
    unfolding handleOutputV1_def Let_def [of "decodeMemo (o_Memo out)"]
    by (rule keeps_seqE [OF keeps_getS])
      (auto split: option.split intro: rest v0)
qed

lemma keeps_v23: "keeps R (handleOutputV2 X S out)"
    "(\<And>f e. keeps R (h f e)) \<Longrightarrow> keeps R (handleOutputV3 X S out h)"
  unfolding handleOutputV2_def handleOutputV3_def
  by (intro keeps_basic keeps_makes keeps_votes keeps_ensure_user keeps_user_action; assumption)+

lemma keeps_output: "keeps R (handleOutput X S out)"
  unfolding handleOutput_def
  by (intro keeps_basic keeps_price keeps_v1 keeps_v23 keeps_payments)

text \<open>What a run does after it has read the system version.\<close>

lemma keeps_loop: "keeps R (seqE (property_Get checkpointKey) (\<lambda>v.
     seqE (wallet_List (castInt64 X v) payee_limit) (\<lambda>outs.
     if length outs \<le> 0 then throw (GoError ''no more outputs'')
     else forE outs (\<lambda>output.
       seqE (handleOutput X S output) (\<lambda>_.
       property_Save checkpointKey (itoa (o_ID output)))))))"
  by (intro keeps_basic keeps_reads keeps_output keeps_Save) (simp add: checkpointKey_def SysVersionKey_def)

end

section \<open>Runs\<close>

locale payee_runs = payee_outputs +
  assumes R_sysversion: "R w (w\<lparr>sysversion := n\<rparr>)"
begin

lemma keeps_run: "keeps R (run X S)"
proof -
  have "keeps R (loadSysVersion X)"
    unfolding loadSysVersion_def ReadSysVersion_def
    by (intro keeps_basic keeps_reads) (simp add: keeps_def R_sysversion)
  then show ?thesis
    unfolding run_def by (intro keeps_seqE keeps_loop)
qed

lemma payee_step_R: "payee_step X S w w' \<Longrightarrow> R w w'"
  using keepsD [OF keeps_run] by (metis payee_step.cases snd_conv)

lemma payee_steps_R: "(payee_step X S)\<^sup>*\<^sup>* w w' \<Longrightarrow> R w w'"
  by (induction rule: rtranclp_induct) (auto intro: R_refl R_trans payee_step_R)

end

section \<open>Relations that every store operation respects\<close>

text \<open>When the relation survives any write of a market, a supply or a borrow, it survives the handlers.\<close>

locale payee_stores = payee_writes +
  assumes market_Create: "keeps R (market_Create m)"
    and market_Update: "keeps R (market_Update X m v)"
    and supply_Create: "keeps R (supply_Create s)"
    and supply_Update: "keeps R (supply_Update s v)"
    and borrow_Create: "keeps R (borrow_Create b)"
    and borrow_Update: "keeps R (borrow_Update b v)"
begin

lemmas keeps_tables = market_Create market_Update supply_Create supply_Update borrow_Create borrow_Update

lemma keeps_getOrCreate: "keeps R (getOrCreateSupply u c)" "keeps R (getOrCreateBorrow u a)"
  unfolding getOrCreateSupply_def getOrCreateBorrow_def by (intro keeps_calls keeps_tables)+

lemma keeps_supply_handlers:
  "keeps R (handleSupplyEvent X out u f body)" "keeps R (handleRedeemEvent X out u f body)"
  "keeps R (handlePledgeEvent X out u f body)" "keeps R (handleUnpledgeEvent X out u f body)"
  "keeps R (handleQuickPledgeEvent X out u f body)" "keeps R (handleQuickRedeemEvent X out u f body)"
  unfolding handleSupplyEvent_def handleRedeemEvent_def handlePledgeEvent_def handleUnpledgeEvent_def
    handleQuickPledgeEvent_def handleQuickRedeemEvent_def
  by (intro keeps_calls keeps_tables keeps_payments keeps_getOrCreate)+

lemma keeps_borrow_handlers:
  "keeps R (handleBorrowEvent X out u f body)" "keeps R (handleRepayEvent X out u f body)"
  "keeps R (handleQuickBorrowEvent X out u f body)"
  unfolding handleBorrowEvent_def handleRepayEvent_def handleQuickBorrowEvent_def quick_borrow_record_def quick_borrow_apply_def
  by (intro keeps_calls keeps_tables keeps_payments keeps_getOrCreate)+

lemma keeps_liquidation: "keeps R (handleLiquidationEvent X out u f body)"
  unfolding handleLiquidationEvent_def liquidation_tx_def liquidation_apply_def
  by (intro keeps_calls keeps_tables keeps_payments)

lemma keeps_user_handlers: "keeps R (handleUserAction X out a f body)"
  by (cases a) (simp_all add: handleUserAction_def keeps_supply_handlers keeps_borrow_handlers keeps_liquidation keeps_payments)

lemma keeps_market_handlers: "keeps R (handlePriceEvent X out)" "keeps R (handleMarketEvent X p mr out)"
  "keeps R (handleWithdrawEvent X p wr out)" "keeps R (handleOpenMarketEvent X p ms out)"
  "keeps R (handleCloseMarketEvent X p ms out)"
  unfolding handlePriceEvent_def handleMarketEvent_def handleWithdrawEvent_def handleOpenMarketEvent_def handleCloseMarketEvent_def
  by (intro keeps_calls keeps_tables)+

end

sublocale payee_stores \<subseteq> payee_outputs
  by unfold_locales (rule keeps_user_handlers keeps_market_handlers)+

locale payee_relation = payee_stores +
  assumes any_version: "R w (w\<lparr>sysversion := n\<rparr>)"

sublocale payee_relation \<subseteq> payee_runs
  by unfold_locales (rule any_version)

end
