(* ===== verification/Payee_Invariant.thy ===== *)
theory Payee_Invariant
  imports Payee_Relation
begin

text \<open>
  Two relations every run of the payee respects, as interpretations of \<open>payee_relation\<close>: the history
  of the tables (rows are never removed, ledger rows never change, versions only rise, the request of a
  proposal never changes) and the invariant behind the votes (identifiers are unique, users, transactions,
  transfers, proposals, signers and properties are unique by their keys, and a proposal has passed only with
  enough votes of distinct voters). The keys of all tables are the matter of \<open>Keys\<close>.
\<close>

section \<open>Rows that stay\<close>

text \<open>Every row of the old table is still there, in its place, as \<open>C\<close> allows it to change.\<close>

definition rows_kept :: "('r \<Rightarrow> 'r \<Rightarrow> bool) \<Rightarrow> 'r list \<Rightarrow> 'r list \<Rightarrow> bool" where
  "rows_kept C old new \<longleftrightarrow> length old \<le> length new \<and> (\<forall>i < length old. C (old ! i) (new ! i))"

lemma rows_kept_refl: "(\<And>r. C r r) \<Longrightarrow> rows_kept C xs xs"
  by (simp add: rows_kept_def)

lemma rows_kept_trans: "rows_kept C xs ys \<Longrightarrow> rows_kept C ys zs \<Longrightarrow> (\<And>a b c. C a b \<Longrightarrow> C b c \<Longrightarrow> C a c) \<Longrightarrow> rows_kept C xs zs"
  unfolding rows_kept_def by (meson order_less_le_trans order_trans)

lemma rows_kept_append: "(\<And>r. C r r) \<Longrightarrow> rows_kept C xs (xs @ ys)"
  by (simp add: rows_kept_def nth_append)

lemma rows_kept_replace: "(\<And>r. r \<in> set xs \<Longrightarrow> P r \<Longrightarrow> C r (f r)) \<Longrightarrow> (\<And>r. C r r) \<Longrightarrow> rows_kept C xs (replace_rows P f xs)"
  by (simp add: rows_kept_def replace_rows_map)

lemma rows_kept_create: "(\<And>r. C r r) \<Longrightarrow> rows_kept C xs (snd (first_or_create rid set_id P r xs))"
  by (simp add: first_or_create_def Let_def rows_kept_append rows_kept_refl split: option.split)

lemma rows_kept_fold: "(\<And>a xs. rows_kept C xs (f a xs)) \<Longrightarrow> (\<And>r. C r r) \<Longrightarrow> (\<And>a b c. C a b \<Longrightarrow> C b c \<Longrightarrow> C a c)
  \<Longrightarrow> rows_kept C xs (fold f as xs)"
proof (induction as arbitrary: xs)
  case (Cons a as)
  show ?case
    using rows_kept_trans [OF Cons(2) Cons(1)] Cons(2-4) by simp
qed (simp add: rows_kept_refl)

text \<open>How each kind of row may change.\<close>

definition versioned :: "('r \<Rightarrow> int) \<Rightarrow> ('r \<Rightarrow> int) \<Rightarrow> 'r \<Rightarrow> 'r \<Rightarrow> bool" where
  "versioned rid rver r r' \<longleftrightarrow> rid r' = rid r \<and> rver r \<le> rver r'"

definition same_user :: "User \<Rightarrow> User \<Rightarrow> bool" where
  "same_user u u' \<longleftrightarrow> u_ID u' = u_ID u \<and> u_UserID u' = u_UserID u"

definition same_request :: "Proposal \<Rightarrow> Proposal \<Rightarrow> bool" where
  "same_request p p' \<longleftrightarrow> p_ID p' = p_ID p \<and> p_TraceID p' = p_TraceID p \<and> p_Creator p' = p_Creator p
     \<and> p_Action p' = p_Action p \<and> p_Content p' = p_Content p"

definition history :: "world \<Rightarrow> world \<Rightarrow> bool" where
  "history w w' \<longleftrightarrow>
     rows_kept (=) (transactions w) (transactions w') \<and> rows_kept (=) (transfers w) (transfers w') \<and>
     outputs w' = outputs w \<and>
     rows_kept (versioned m_ID m_Version) (markets w) (markets w') \<and>
     rows_kept (versioned s_ID s_Version) (supplies w) (supplies w') \<and>
     rows_kept (versioned b_ID b_Version) (borrows w) (borrows w') \<and>
     rows_kept same_user (users w) (users w') \<and> rows_kept same_request (proposals w) (proposals w')"

lemma versioned_order [simp]: "versioned rid rver r r"
    "versioned rid rver a b \<Longrightarrow> versioned rid rver b c \<Longrightarrow> versioned rid rver a c"
  by (simp_all add: versioned_def)

lemma same_order [simp]: "same_user u u" "same_request p p"
    "same_user u v \<Longrightarrow> same_user v x \<Longrightarrow> same_user u x" "same_request p q \<Longrightarrow> same_request q r \<Longrightarrow> same_request p r"
  by (simp_all add: same_user_def same_request_def)

lemma history_refl: "history w w"
  by (simp add: history_def rows_kept_refl)

lemma history_trans: "history u v \<Longrightarrow> history v w \<Longrightarrow> history u w"
  unfolding history_def by (elim conjE, intro conjI; (erule (1) rows_kept_trans)?) (auto intro: versioned_order same_order)

interpretation history: preserved history
  by unfold_locales (rule history_refl, erule (1) history_trans, simp add: history_def rows_kept_refl)

text \<open>The three updates under the optimistic lock raise the version of the rows they write.\<close>

lemma locked_rows:
  assumes "rver s < v" "\<And>r. rid (wr s v r) = rid r" "\<And>r. rver (wr s v r) = v"
  shows "rows_kept (versioned rid rver) rows (replace_rows (lock_match rid rver s) (wr s v) rows)"
  using assms by (intro rows_kept_replace) (auto simp: versioned_def lock_match_def)

lemma migrate_users_kept: "migrate_users us rows = Some rows' \<Longrightarrow> rows_kept same_user rows rows'"
proof (induction us arbitrary: rows)
  case (Cons u us)
  then obtain rows1 where "migrate_user u rows = Some rows1" "migrate_users us rows1 = Some rows'"
    by (auto split: option.splits)
  moreover from this(1) have "rows_kept same_user rows rows1"
    by (auto simp: migrate_user_def Let_def same_user_def split: if_splits intro!: rows_kept_replace)
  ultimately show ?case
    using Cons.IH by (blast intro: rows_kept_trans same_order)
qed (simp add: rows_kept_refl)

lemma history_update:
  assumes "\<And>w rows. rows_kept (versioned rid rver) (get w) rows \<Longrightarrow> history w (put rows w)"
    and "\<And>s v r. rid (wr s v r) = rid r" "\<And>s v r. rver (wr s v r) = v"
  shows "keeps history (store_Update rid rver wr get put s v)"
proof (cases "rver s < v")
  case True
  have "history w (snd (case lock_update rid rver wr s v (get w) of
      Ok rows \<Rightarrow> (Ok (), put rows w) | Err e \<Rightarrow> (Err e, w) | Panic p \<Rightarrow> (Panic p, w)))" for w
    using assms(1) [OF locked_rows [where rid = rid and rver = rver and wr = wr, OF True assms(2,3)]] by (simp add: lock_update_def history_refl)
  with True show ?thesis
    by (simp add: store_Update_def history.keeps_dbio)
qed (simp add: store_Update_def history.keeps_ret)

lemma history_fields:
  "rows_kept (versioned m_ID m_Version) (markets w) ms \<Longrightarrow> history w (w\<lparr>markets := ms\<rparr>)"
  "rows_kept (versioned s_ID s_Version) (supplies w) ss \<Longrightarrow> history w (w\<lparr>supplies := ss\<rparr>)"
  "rows_kept (versioned b_ID b_Version) (borrows w) bs \<Longrightarrow> history w (w\<lparr>borrows := bs\<rparr>)"
  "rows_kept same_user (users w) us \<Longrightarrow> history w (w\<lparr>users := us\<rparr>)"
  "rows_kept (=) (transactions w) ts \<Longrightarrow> history w (w\<lparr>transactions := ts\<rparr>)"
  "rows_kept (=) (transfers w) rs \<Longrightarrow> history w (w\<lparr>transfers := rs\<rparr>)"
  "rows_kept same_request (proposals w) ps \<Longrightarrow> history w (w\<lparr>proposals := ps\<rparr>)"
  "history w (w\<lparr>signers := sg\<rparr>)" "history w (w\<lparr>messages := msgs\<rparr>)" "history w (w\<lparr>properties := pr\<rparr>)"
  "history w (w\<lparr>forwarded := fw\<rparr>)" "history w (w\<lparr>uuids := n\<rparr>)" "history w (w\<lparr>sysversion := sv\<rparr>)"
  by (simp_all add: history_def rows_kept_refl)

lemma snd_case_create: "snd (case first_or_create a b c d rows of (r, rs) \<Rightarrow> (Ok r, f rs)) = f (snd (first_or_create a b c d rows))"
  by (simp add: case_prod_beta)

interpretation payee_history: payee_relation history S for S
proof unfold_locales
  show "keeps history (market_Create m)" for m
    unfolding market_Create_def
    by (rule history.keeps_dbio) (simp add: snd_case_create history_refl history_fields rows_kept_create)
  show "keeps history (market_Update X m v)" for X m v
    unfolding market_Update_def by (rule history_update) (simp_all add: history_fields market_write_def)
  show "keeps history (supply_Create z)" for z
    unfolding supply_Create_def
    by (rule history.keeps_dbio) (simp add: history_refl history_fields rows_kept_append Let_def)
  show "keeps history (supply_Update z v)" for z v
    unfolding supply_Update_def by (rule history_update) (simp_all add: history_fields supply_write_def)
  show "keeps history (borrow_Create b)" for b
    unfolding borrow_Create_def
    by (rule history.keeps_dbio) (simp add: history_refl history_fields rows_kept_append Let_def)
  show "keeps history (borrow_Update b v)" for b v
    unfolding borrow_Update_def by (rule history_update) (simp_all add: history_fields borrow_write_def)
  show "keeps history (user_Create u)" for u
    unfolding user_Create_def
    by (rule history.keeps_dbio) (simp add: snd_case_create history_refl history_fields rows_kept_create)
  show "keeps history (user_MigrateToV1 us)" for us
    unfolding user_MigrateToV1_def
    by (rule history.keeps_dbio) (simp add: history_refl history_fields migrate_users_kept split: option.split)
  show "keeps history (transaction_Create t)" for t
    unfolding transaction_Create_def
    by (rule history.keeps_dbio) (simp add: snd_case_create history_fields rows_kept_create)
  show "keeps history (wallet_CreateTransfers ts)" for ts
    unfolding wallet_CreateTransfers_def create_transfer_def
    by (rule history.keeps_dbio) (simp add: history_fields rows_kept_fold rows_kept_create)
  show "keeps history (proposal_Create p)" for p
    unfolding proposal_Create_def
    by (rule history.keeps_dbio) (simp add: snd_case_create history_fields rows_kept_create)
  show "history w (snd (proposal_Update X (voted S who tm p) n w))" for w X who tm p n
    unfolding proposal_Update_def
    by (rule keepsD, rule history.keeps_dbio)
      (simp add: history_refl history_fields rows_kept_replace same_request_def)
  show "keeps history (HandleTransfer X t)" for X t
    by (simp add: HandleTransfer_def keeps_def throw_def history_refl history_fields)
qed (simp_all add: signer_Save_def signer_Delete_def message_Create_def property_Save_def uuid_New_def keeps_def
    history_fields history.keeps_dbio [THEN keepsD])

section \<open>The invariant of the state\<close>

definition ids_ok :: "('r \<Rightarrow> int) \<Rightarrow> 'r list \<Rightarrow> bool" where
  "ids_ok rid rows \<longleftrightarrow> distinct (map rid rows) \<and> list_all (\<lambda>r. 0 < rid r) rows"

definition keys_ok :: "('r \<Rightarrow> int) \<Rightarrow> ('r \<Rightarrow> 'k) \<Rightarrow> 'r list \<Rightarrow> bool" where
  "keys_ok rid key rows \<longleftrightarrow> ids_ok rid rows \<and> distinct (map key rows)"

definition rows_identified :: "world \<Rightarrow> bool" where
  "rows_identified w \<longleftrightarrow>
     ids_ok m_ID (markets w) \<and> ids_ok s_ID (supplies w) \<and> ids_ok b_ID (borrows w) \<and>
     keys_ok u_ID u_UserID (users w) \<and> keys_ok tx_ID tx_TraceID (transactions w) \<and>
     keys_ok t_ID t_TraceID (transfers w) \<and> keys_ok p_ID p_TraceID (proposals w) \<and>
     keys_ok os_ID os_UserID (signers w) \<and> distinct (map fst (properties w))"

text \<open>The votes of a proposal are those of distinct voters, and it has passed only with enough of them.\<close>

definition votes_ok :: "System \<Rightarrow> Proposal \<Rightarrow> bool" where
  "votes_ok S p \<longleftrightarrow> distinct (p_Votes p) \<and> list_all (voter S) (p_Votes p) \<and>
     (p_PassedAt p \<noteq> None \<longrightarrow> Threshold S \<le> length (p_Votes p))"

definition state_ok :: "System \<Rightarrow> world \<Rightarrow> bool" where
  "state_ok S w \<longleftrightarrow> rows_identified w \<and> list_all (votes_ok S) (proposals w)"

lemma ids_ok_append: "ids_ok rid rows \<Longrightarrow> rid r = next_id (map rid rows) \<Longrightarrow> ids_ok rid (rows @ [r])"
  using next_id_fresh [where ids = "map rid rows"] by (fastforce simp: ids_ok_def)

lemma map_replace: "(\<And>r. k (f r) = k r) \<Longrightarrow> map k (replace_rows P f rows) = map k rows"
  by (induction rows) simp_all

lemma ids_ok_map: "map rid rows' = map rid rows \<Longrightarrow> ids_ok rid rows' = ids_ok rid rows"
  unfolding ids_ok_def list.pred_map [of "\<lambda>i. 0 < i" rid, unfolded comp_def, symmetric] by simp

lemma ids_ok_replace: "(\<And>r. rid (f r) = rid r) \<Longrightarrow> ids_ok rid (replace_rows P f rows) = ids_ok rid rows"
  by (rule ids_ok_map) (rule map_replace)

lemma keys_ok_replace:
  "(\<And>r. rid (f r) = rid r) \<Longrightarrow> (\<And>r. key (f r) = key r) \<Longrightarrow> keys_ok rid key (replace_rows P f rows) = keys_ok rid key rows"
  by (simp add: keys_ok_def ids_ok_replace map_replace)

lemma keys_ok_create:
  assumes "keys_ok rid key rows" "\<And>i r. rid (set_id i r) = i" "\<And>i r. key (set_id i r) = key r"
  shows "keys_ok rid key (snd (first_or_create rid set_id (\<lambda>r'. key r' = key r) r rows))"
  using assms
  by (auto simp: first_or_create_def keys_ok_def Let_def ids_ok_append find_None_set split: option.split)

lemma keys_ok_filter: "keys_ok rid key rows \<Longrightarrow> keys_ok rid key (filter P rows)"
  by (auto simp: keys_ok_def ids_ok_def list_all_iff distinct_map_filter)

lemma keys_ok_fold: "keys_ok rid key rows \<Longrightarrow> (\<And>a rows. keys_ok rid key rows \<Longrightarrow> keys_ok rid key (f a rows))
  \<Longrightarrow> keys_ok rid key (fold f as rows)"
  by (induction as arbitrary: rows) simp_all

lemma migrate_users_keys: "migrate_users us rows = Some rows' \<Longrightarrow> keys_ok u_ID u_UserID rows' = keys_ok u_ID u_UserID rows"
  by (induction us arbitrary: rows)
    (auto simp: migrate_user_def Let_def keys_ok_replace split: option.splits if_splits)

abbreviation state_kept :: "System \<Rightarrow> world \<Rightarrow> world \<Rightarrow> bool" where
  "state_kept S w w' \<equiv> state_ok S w \<longrightarrow> state_ok S w'"

lemma state_ok_faults: "state_ok S (w\<lparr>faults := fs\<rparr>) = state_ok S w"
  by (simp add: state_ok_def rows_identified_def)

interpretation state_kept: preserved "state_kept S" for S
  by unfold_locales (simp_all add: state_ok_faults)

lemma state_update:
  assumes "\<And>w rows. state_ok S w \<Longrightarrow> state_ok S (put rows w) = ids_ok rid rows" "\<And>w. state_ok S w \<Longrightarrow> ids_ok rid (get w)"
    and "\<And>s v r. rid (wr s v r) = rid r"
  shows "keeps (state_kept S) (store_Update rid rver wr get put s v)"
proof -
  have "state_kept S w (snd (case lock_update rid rver wr s v (get w) of
      Ok rows \<Rightarrow> (Ok (), put rows w) | Err e \<Rightarrow> (Err e, w) | Panic p \<Rightarrow> (Panic p, w)))" for w
    using assms by (simp add: lock_update_def ids_ok_replace)
  then show ?thesis
    by (simp add: store_Update_def state_kept.keeps_dbio state_kept.keeps_ret)
qed

text \<open>A vote changes exactly the row it was cast on.\<close>

lemma vote_kept:
  assumes "p \<in> set (proposals w)" "voter S who" "who \<notin> set (p_Votes p)" "p_PassedAt p = None"
  shows "state_kept S w (snd (proposal_Update X (voted S who tm p) n w))"
proof -
  let ?w = "\<lambda>w. w\<lparr>proposals := replace_rows (lock_match p_ID p_Version (voted S who tm p))
      (\<lambda>r. r\<lparr>p_PassedAt := p_PassedAt (voted S who tm p), p_Votes := p_Votes (voted S who tm p), p_Version := n\<rparr>) (proposals w)\<rparr>"
  have step: "state_ok S (?w w')" if ok: "state_ok S w'" "proposals w' = proposals w" for w'
  proof -
    have keys: "keys_ok p_ID p_TraceID (proposals w)" and votes: "list_all (votes_ok S) (proposals w)"
      using ok by (simp_all add: state_ok_def rows_identified_def)
    have row: "r = p" if "lock_match p_ID p_Version (voted S who tm p) r" "r \<in> set (proposals w)" for r
    proof -
      have "p_ID r = p_ID p"
        using that(1) keys assms(1) by (auto simp: lock_match_def voted_def keys_ok_def ids_ok_def list_all_iff)
      moreover have "inj_on p_ID (set (proposals w))"
        using keys by (simp add: keys_ok_def ids_ok_def distinct_map)
      ultimately show ?thesis
        using that(2) assms(1) by (simp add: inj_on_eq_iff)
    qed
    have "votes_ok S (p\<lparr>p_PassedAt := p_PassedAt (voted S who tm p), p_Votes := p_Votes (voted S who tm p), p_Version := n\<rparr>)"
      using votes assms by (auto simp: votes_ok_def voted_def list_all_iff)
    with row votes have "list_all (votes_ok S) (proposals (?w w'))"
      using ok(2) by (auto simp: replace_rows_map list_all_iff)
    then show ?thesis
      using ok by (simp add: state_ok_def rows_identified_def keys_ok_replace)
  qed
  show ?thesis
    unfolding proposal_Update_def
    by (rule state_kept.after_dbio) (use step in \<open>simp_all add: state_ok_faults del: replace_rows.simps\<close>)
qed

lemma state_set:
  "state_ok S w \<Longrightarrow> state_ok S (w\<lparr>markets := ms\<rparr>) = ids_ok m_ID ms"
  "state_ok S w \<Longrightarrow> state_ok S (w\<lparr>supplies := ss\<rparr>) = ids_ok s_ID ss"
  "state_ok S w \<Longrightarrow> state_ok S (w\<lparr>borrows := bs\<rparr>) = ids_ok b_ID bs"
  "state_ok S w \<Longrightarrow> state_ok S (w\<lparr>users := us\<rparr>) = keys_ok u_ID u_UserID us"
  "state_ok S w \<Longrightarrow> state_ok S (w\<lparr>transactions := ts\<rparr>) = keys_ok tx_ID tx_TraceID ts"
  "state_ok S w \<Longrightarrow> state_ok S (w\<lparr>transfers := rs\<rparr>) = keys_ok t_ID t_TraceID rs"
  "state_ok S w \<Longrightarrow> state_ok S (w\<lparr>signers := sg\<rparr>) = keys_ok os_ID os_UserID sg"
  "state_ok S w \<Longrightarrow> state_ok S (w\<lparr>properties := pr\<rparr>) = distinct (map fst pr)"
  "state_ok S (w\<lparr>messages := msgs\<rparr>) = state_ok S w" "state_ok S (w\<lparr>forwarded := fw\<rparr>) = state_ok S w"
  "state_ok S (w\<lparr>uuids := n\<rparr>) = state_ok S w" "state_ok S (w\<lparr>sysversion := sv\<rparr>) = state_ok S w"
  by (simp_all add: state_ok_def rows_identified_def)

lemma state_get:
  assumes "state_ok S w"
  shows "ids_ok m_ID (markets w)" "ids_ok s_ID (supplies w)" "ids_ok b_ID (borrows w)" "keys_ok u_ID u_UserID (users w)"
    "keys_ok tx_ID tx_TraceID (transactions w)" "keys_ok t_ID t_TraceID (transfers w)"
    "keys_ok os_ID os_UserID (signers w)" "distinct (map fst (properties w))"
  using assms by (simp_all add: state_ok_def rows_identified_def)

lemma transfers_keys: "keys_ok t_ID t_TraceID rows \<Longrightarrow> keys_ok t_ID t_TraceID (fold create_transfer ts rows)"
  by (rule keys_ok_fold) (simp_all add: create_transfer_def keys_ok_create)

lemma first_create_ids: "ids_ok rid rows \<Longrightarrow> (\<And>i r. rid (set_id i r) = i) \<Longrightarrow> ids_ok rid (snd (first_or_create rid set_id P r rows))"
  by (auto simp: first_or_create_def Let_def ids_ok_append split: option.split)

lemma proposal_created:
  assumes "p_Votes p = []" "p_PassedAt p = None"
  shows "state_kept S w (w\<lparr>proposals := snd (first_or_create p_ID (\<lambda>i r. r\<lparr>p_ID := i\<rparr>) (\<lambda>r. p_TraceID r = p_TraceID p) p (proposals w))\<rparr>)"
  using assms keys_ok_create [where rid = p_ID and key = p_TraceID and set_id = "\<lambda>i r. r\<lparr>p_ID := i\<rparr>" and r = p]
  by (auto simp: state_ok_def rows_identified_def first_or_create_def Let_def votes_ok_def split: option.splits)

lemma signer_saved:
  "keys_ok os_ID os_UserID rows \<Longrightarrow> keys_ok os_ID os_UserID
     (replace_rows (\<lambda>s. os_UserID s = i) (\<lambda>s. s\<lparr>os_PublicKey := k\<rparr>) rows)"
  "keys_ok os_ID os_UserID rows \<Longrightarrow> \<not> list_ex (\<lambda>s. os_UserID s = i) rows \<Longrightarrow>
     keys_ok os_ID os_UserID (rows @ [\<lparr>os_ID = next_id (map os_ID rows), os_UserID = i, os_PublicKey = k\<rparr>])"
  by (simp add: keys_ok_replace) (auto simp: keys_ok_def ids_ok_append list_ex_iff)

lemma state_Save: "keeps (state_kept S) (property_Save k x)"
  unfolding property_Save_def
  by (rule state_kept.keeps_dbio) (simp add: state_set state_get distinct_update)

interpretation payee_state: payee_relation "state_kept S" S for S
proof unfold_locales
  show "keeps (state_kept S) (market_Create m)" for m
    unfolding market_Create_def
    by (rule state_kept.keeps_dbio) (simp add: state_set state_get first_create_ids snd_case_create)
  show "keeps (state_kept S) (market_Update X m v)" for X m v
    unfolding market_Update_def by (rule state_update) (simp_all add: state_set state_get market_write_def)
  show "keeps (state_kept S) (supply_Update z v)" for z v
    unfolding supply_Update_def by (rule state_update) (simp_all add: state_set state_get supply_write_def)
  show "keeps (state_kept S) (borrow_Update b v)" for b v
    unfolding borrow_Update_def by (rule state_update) (simp_all add: state_set state_get borrow_write_def)
  show "state_kept S w (snd (proposal_Update X (voted S who tm p) n w))"
    if "p \<in> set (proposals w)" "voter S who" "who \<notin> set (p_Votes p)" "p_PassedAt p = None" for w X who tm p n
    using that by (rule vote_kept)
  show "keeps (state_kept S) (supply_Create z)" for z
    unfolding supply_Create_def
    by (rule state_kept.keeps_dbio) (simp add: state_set state_get ids_ok_append Let_def)
  show "keeps (state_kept S) (borrow_Create b)" for b
    unfolding borrow_Create_def
    by (rule state_kept.keeps_dbio) (simp add: state_set state_get ids_ok_append Let_def)
  show "keeps (state_kept S) (user_Create u)" for u
    unfolding user_Create_def
    by (rule state_kept.keeps_dbio) (simp add: state_set state_get keys_ok_create snd_case_create)
  show "keeps (state_kept S) (user_MigrateToV1 us)" for us
    unfolding user_MigrateToV1_def
    by (rule state_kept.keeps_dbio) (simp add: state_set state_get  migrate_users_keys split: option.split)
  show "keeps (state_kept S) (transaction_Create t)" for t
    unfolding transaction_Create_def
    by (rule state_kept.keeps_dbio) (simp add: state_set state_get keys_ok_create snd_case_create)
  show "keeps (state_kept S) (wallet_CreateTransfers ts)" for ts
    unfolding wallet_CreateTransfers_def
    by (rule state_kept.keeps_dbio) (simp add: state_set state_get transfers_keys)
  show "keeps (state_kept S) (proposal_Create p)" if "p_Votes p = []" "p_PassedAt p = None" for p
    unfolding proposal_Create_def
    by (rule state_kept.keeps_dbio) (use that in \<open>simp add: snd_case_create proposal_created\<close>)
  show "keeps (state_kept S) (signer_Save i k)" for i k
    unfolding signer_Save_def
    by (rule state_kept.keeps_dbio) (simp add: state_set state_get signer_saved)
  show "keeps (state_kept S) (signer_Delete i)" for i
    unfolding signer_Delete_def
    by (rule state_kept.keeps_dbio) (simp add: state_set state_get keys_ok_filter)
  show "keeps (state_kept S) (message_Create ms)" for ms
    unfolding message_Create_def by (rule state_kept.keeps_dbio) (simp add: state_set state_get )
  show "state_kept S w (snd (property_Save k x w))" for w k x
    by (rule keepsD [OF state_Save])
  show "keeps (state_kept S) (HandleTransfer X t)" for X t
    by (simp add: state_set HandleTransfer_def keeps_def throw_def)
  show "keeps (state_kept S) (uuid_New X)" for X
    by (simp add: state_set uuid_New_def keeps_def)
  show "state_kept S w (w\<lparr>sysversion := n\<rparr>)" for w n
    by (simp add: state_set)
qed

end
