(* ===== verification/Governance_Spec.thy ===== *)
theory Governance_Spec
  imports Payee_Invariant Solvency
begin

text \<open>
  What the governance handlers do on a database that does not fail, and the guards that hold whatever it
  does: votes, the parameters of a market and oracle prices.
\<close>

section \<open>Votes\<close>

text \<open>The state after a vote: the notices are queued and the proposal's row carries the vote.\<close>

definition notices :: "ext \<Rightarrow> System \<Rightarrow> Output \<Rightarrow> Proposal \<Rightarrow> Message list" where
  "notices X S out p =
     map (\<lambda>admin. BuildMessage (uuidModify X (post_id X S p admin) (''Approved By '' @ o_Sender out)) admin) (Admins S)
     @ (if Threshold S \<le> Suc (length (p_Votes p))
        then map (\<lambda>admin. BuildMessage (uuidModify X (post_id X S p admin) ''Proposal Passed'') admin) (Admins S) else [])"

definition cast :: "System \<Rightarrow> Output \<Rightarrow> Proposal \<Rightarrow> Proposal" where
  "cast S out p = (voted S (o_Sender out) (o_CreatedAt out) p)\<lparr>p_Version := o_ID out\<rparr>"

definition recordVote :: "ext \<Rightarrow> System \<Rightarrow> Output \<Rightarrow> Proposal \<Rightarrow> world \<Rightarrow> world" where
  "recordVote X S out p w = w\<lparr>messages := fold add_message (notices X S out p) (messages w),
     proposals := map (\<lambda>r. if r = p then cast S out p else r) (proposals w)\<rparr>"

lemma post_id_voted [simp]: "post_id X S (p\<lparr>p_Votes := v\<rparr>) a = post_id X S p a" "post_id X S (p\<lparr>p_PassedAt := q\<rparr>) a = post_id X S p a"
  by (simp_all add: post_id_def)

lemma message_Create_run [store_simps]: "faults w = [] \<Longrightarrow> message_Create ms w = (Ok (), w\<lparr>messages := fold add_message ms (messages w)\<rparr>)"
  by (simp add: message_Create_def dbio_def)

lemma row_of_id:
  assumes "keys_ok p_ID p_TraceID ps" "p \<in> set ps" "p_ID s = p_ID p" "p_Version s = p_Version p"
  shows "list_ex (lock_match p_ID p_Version s) ps" "replace_rows (lock_match p_ID p_Version s) f ps = map (\<lambda>r. if r = p then f p else r) ps"
proof -
  have inj: "inj_on p_ID (set ps)" and pos: "p_ID p \<noteq> 0"
    using assms(1,2) by (auto simp: keys_ok_def ids_ok_def distinct_map list_all_iff)
  have "lock_match p_ID p_Version s r \<longleftrightarrow> r = p" if "r \<in> set ps" for r
    using inj_onD [OF inj, of r p] that assms(2-4) pos by (auto simp: lock_match_def)
  then show "list_ex (lock_match p_ID p_Version s) ps"
      "replace_rows (lock_match p_ID p_Version s) f ps = map (\<lambda>r. if r = p then f p else r) ps"
    using assms(2) by (auto simp: list_ex_iff replace_rows_map)
qed

lemma mustGetProposal_run:
  assumes "faults w = []" "keys_ok p_ID p_TraceID (proposals w)" "p \<in> set (proposals w)"
  shows "mustGetProposal (p_TraceID p) w = (Ok p, w)"
proof -
  have "List.find (\<lambda>q. p_TraceID q = p_TraceID p) (proposals w) = Some p" "0 < p_ID p"
    using assms(2,3) by (auto simp: keys_ok_def ids_ok_def list_all_iff intro: find_key)
  with assms(1) show ?thesis
    by (simp add: mustGetProposal_def proposal_Find_run proposalOf_def first_or_def run_simps store_simps Require_def)
qed

lemma cast_vote_run:
  assumes "faults w = []" "gorm_documented X" "keys_ok p_ID p_TraceID (proposals w)" "p \<in> set (proposals w)"
    and "p_PassedAt p = None"
  shows "cast_vote X S out p w = (Ok (cast S out p), recordVote X S out p w)"
proof -
  define q where "q = voted S (o_Sender out) (o_CreatedAt out) p"
  have row: "list_ex (lock_match p_ID p_Version q) (proposals w)"
      "\<And>f. replace_rows (lock_match p_ID p_Version q) f (proposals w) = map (\<lambda>r. if r = p then f p else r) (proposals w)"
    using assms(3,4) by (auto intro!: row_of_id simp: q_def voted_def)
  have upd: "proposal_Update X q (o_ID out) v = (Ok (cast S out p),
      v\<lparr>proposals := map (\<lambda>r. if r = p then cast S out p else r) (proposals v)\<rparr>)" if "faults v = []" "proposals v = proposals w" for v
  proof -
    have "cast S out p = q\<lparr>p_Version := o_ID out\<rparr>"
        "cast S out p = p\<lparr>p_PassedAt := p_PassedAt q, p_Votes := p_Votes q, p_Version := o_ID out\<rparr>"
      by (simp_all add: cast_def q_def voted_def)
    with that row assms(2) show ?thesis
      by (simp add: proposal_Update_def dbio_def gorm_documented_def)
  qed
  have q: "q = (if Threshold S \<le> Suc (length (p_Votes p)) then p\<lparr>p_Votes := p_Votes p @ [o_Sender out], p_PassedAt := Some (o_CreatedAt out)\<rparr>
      else p\<lparr>p_Votes := p_Votes p @ [o_Sender out]\<rparr>)"
    using assms(5) by (cases p) (simp add: q_def voted_def)
  show ?thesis
    using assms(1) upd
    by (cases "Threshold S \<le> Suc (length (p_Votes p))")
      (simp_all add: cast_vote_def Let_def ProposalApproved_def ProposalPassed_def store_simps run_simps recordVote_def notices_def
        q [symmetric] q)
qed

lemma vote_run_new:
  assumes "faults w = []" "gorm_documented X" "keys_ok p_ID p_TraceID (proposals w)" "p \<in> set (proposals w)"
    and "validateProposal X p w = (Ok (), w)" "p_PassedAt p = None" "o_Sender out \<notin> set (p_Votes p)"
  shows "member_vote X S out p w =
    (if Threshold S \<le> Suc (length (p_Votes p)) then handlePassedProposal X (cast S out p) out (recordVote X S out p w)
     else (Ok (), recordVote X S out p w))"
  using assms(5-7) cast_vote_run [OF assms(1-4,6)]
  by (simp add: member_vote_def run_simps Let_def) (simp add: cast_def voted_def)

lemma vote_run_old:
  assumes "validateProposal X p w = (Ok (), w)" "p_PassedAt p \<noteq> None \<or> o_Sender out \<in> set (p_Votes p)" "p_Version p \<noteq> o_ID out"
  shows "member_vote X S out p w = (Ok (), w)"
  using assms by (auto simp: member_vote_def run_simps Let_def)

lemma SysVersionKey_ne [simp]: "SysVersionKey \<noteq> []"
  by (simp add: SysVersionKey_def)

section \<open>Market parameters\<close>

text \<open>The ranges \<open>handleMarketEvent\<close> holds an existing market to.\<close>

definition in_range :: "Market \<Rightarrow> bool" where
  "in_range m \<longleftrightarrow> 0 < m_InitExchangeRate m \<and> 0 < m_ReserveFactor m \<and> m_ReserveFactor m < 1
     \<and> LiquidationIncentiveMin \<le> m_LiquidationIncentive m \<and> m_LiquidationIncentive m \<le> LiquidationIncentiveMax
     \<and> 0 \<le> m_CollateralFactor m \<and> m_CollateralFactor m \<le> CollateralFactorMax
     \<and> 0 < m_BaseRate m \<and> m_BaseRate m < 1 \<and> 0 \<le> m_BorrowCap m
     \<and> CloseFactorMin \<le> m_CloseFactor m \<and> m_CloseFactor m \<le> CloseFactorMax
     \<and> 0 < m_Multiplier m \<and> m_Multiplier m < 1 \<and> 0 \<le> m_JumpMultiplier m \<and> m_JumpMultiplier m < 1
     \<and> 0 \<le> m_Kink m \<and> m_Kink m < 1 \<and> 0 \<le> m_PriceThreshold m \<and> 0 < m_Price m \<and> 0 \<le> m_MaxPledge m"

lemma in_range_Let: "in_range a \<Longrightarrow> (\<And>x. in_range x \<Longrightarrow> in_range (f x)) \<Longrightarrow> in_range (Let a f)"
  by simp

lemma in_range_steps:
  assumes "in_range m"
  shows "in_range (if 0 < x then m\<lparr>m_InitExchangeRate := x\<rparr> else m)"
    and "in_range (if 0 < x \<and> x < 1 then m\<lparr>m_ReserveFactor := x\<rparr> else m)"
    and "in_range (if x \<ge> LiquidationIncentiveMin \<and> x \<le> LiquidationIncentiveMax then m\<lparr>m_LiquidationIncentive := x\<rparr> else m)"
    and "in_range (if \<not> x < 0 \<and> x \<le> CollateralFactorMax then m\<lparr>m_CollateralFactor := x\<rparr> else m)"
    and "in_range (if 0 < x \<and> x < 1 then m\<lparr>m_BaseRate := x\<rparr> else m)"
    and "in_range (if \<not> x < 0 then m\<lparr>m_BorrowCap := x\<rparr> else m)"
    and "in_range (if x \<ge> CloseFactorMin \<and> x \<le> CloseFactorMax then m\<lparr>m_CloseFactor := x\<rparr> else m)"
    and "in_range (if 0 < x \<and> x < 1 then m\<lparr>m_Multiplier := x\<rparr> else m)"
    and "in_range (if \<not> x < 0 \<and> x < 1 then m\<lparr>m_JumpMultiplier := x\<rparr> else m)"
    and "in_range (if \<not> x < 0 \<and> x < 1 then m\<lparr>m_Kink := x\<rparr> else m)"
    and "in_range (if n > 0 then m\<lparr>m_PriceThreshold := n\<rparr> else if n < 0 then m\<lparr>m_PriceThreshold := 0\<rparr> else m)"
    and "in_range (if 0 < x then m\<lparr>m_Price := x\<rparr> else m)"
    and "in_range (if \<not> x < 0 then m\<lparr>m_MaxPledge := x\<rparr> else m)"
  using assms by (simp_all add: in_range_def)

lemma apply_in_range: "in_range m \<Longrightarrow> in_range (apply_market_req req m)"
  unfolding apply_market_req_def by (intro in_range_Let; (rule in_range_steps; assumption)?; assumption?)

section \<open>Oracle prices\<close>

text \<open>A read changes nothing but what the database will do next.\<close>

definition only_faults :: "world \<Rightarrow> world \<Rightarrow> bool" where
  "only_faults w w' \<longleftrightarrow> (\<exists>fs. w' = w\<lparr>faults := fs\<rparr>)"

lemma faults_self: "\<exists>fs. w = w\<lparr>faults := fs\<rparr>"
  by (rule exI [of _ "faults w"]) simp

interpretation reading: preserved only_faults
  by unfold_locales (auto simp: only_faults_def intro: faults_self)

lemma mustGetMarket_Ok:
  assumes "mustGetMarket a w = (Ok m, w1)"
  shows "m = marketByAsset a w \<and> 0 < m_ID m \<and> (\<exists>fs. w1 = w\<lparr>faults := fs\<rparr>)"
  using assms
  by (auto simp: mustGetMarket_def market_Find_def query_def dbio_def seqE_def tryE_def throw_def ret_def Require_def zero_market_def
      marketByAsset_def split: if_splits prod.splits res.splits list.splits fault.splits intro: faults_self)

lemma market_Update_changes:
  assumes "market_Update X m v w = (r, w')" "markets w' \<noteq> markets w"
  shows "m_Version m < v \<and> markets w' = replace_rows (lock_match m_ID m_Version m) (market_write X m v) (markets w)"
  using assms
  by (auto simp: market_Update_def store_Update_def dbio_def lock_update_def ret_def split: if_splits list.splits fault.splits)

text \<open>If a sequence changes the markets and its first step only reads, the continuation changes them.\<close>

lemma seq_changes:
  assumes "seqE m k w = (r, w')" "markets w' \<noteq> markets w" "keeps only_faults m"
  obtains a fs where "m w = (Ok a, w\<lparr>faults := fs\<rparr>)" "k a (w\<lparr>faults := fs\<rparr>) = (r, w')"
proof -
  obtain fs where "snd (m w) = w\<lparr>faults := fs\<rparr>"
    using keepsD [OF assms(3)] by (auto simp: only_faults_def)
  then obtain res where m: "m w = (res, w\<lparr>faults := fs\<rparr>)"
    by (metis prod.collapse)
  show ?thesis
  proof (cases res)
    case (Ok a)
    with m assms(1) that show ?thesis by (simp add: seqE_Ok)
  qed (use m assms(1,2) in \<open>auto simp: seqE_Err seqE_Panic\<close>)
qed

lemma marketByAsset_faults [simp]: "marketByAsset a (w\<lparr>faults := fs\<rparr>) = marketByAsset a w"
  by (simp add: marketByAsset_def)

lemma marketByAsset_asset: "0 < m_ID (marketByAsset a w) \<Longrightarrow> m_AssetID (marketByAsset a w) = a"
  by (auto simp: marketByAsset_def zero_market_def afterFind_def Let_def split: option.splits dest!: find_Some_set)

lemma query_Ok: "query f w = (Ok a, w1) \<Longrightarrow> \<exists>fs. a = f (w\<lparr>faults := fs\<rparr>) \<and> w1 = w\<lparr>faults := fs\<rparr>"
  by (auto simp: query_def dbio_def split: list.splits fault.splits)
    (metis faults_self)

lemma build_signers_state: "build_signers X i ss w = (Ok sgs, w1) \<Longrightarrow> w1 = w \<and> build_signers X i ss v = (Ok sgs, v)"
  by (induction ss arbitrary: i sgs)
    (fastforce simp: ret_def Require_def throw_def seqE_def tryE_def split: if_splits prod.splits res.splits)+

text \<open>
  The keys a signature counts for: those of the registered signers whose position, from 1, is set in the
  mask of the signature.
\<close>

definition signing_keys :: "ext \<Rightarrow> nat \<Rightarrow> OracleSigner list \<Rightarrow> bytes list" where
  "signing_keys X named ss = map (\<lambda>(i, s). the (decode_signer_key X (os_PublicKey s)))
     (filter (\<lambda>(i, s). i < 64 \<and> bit named i) (enumerate 1 ss))"

lemma build_signers_keys:
  "build_signers X k ss w = (Ok sgs, w1) \<Longrightarrow>
   map sg_VerifyKey (filter (\<lambda>s. sg_Index s < 64 \<and> bit named (sg_Index s)) sgs) =
     map (\<lambda>(i, s). the (decode_signer_key X (os_PublicKey s)))
       (filter (\<lambda>(i, s). i < 64 \<and> bit named i) (enumerate (Suc k) ss))"
  by (induction ss arbitrary: k sgs)
    (fastforce simp: ret_def Require_def throw_def seqE_def tryE_def split: if_splits prod.splits res.splits)+

lemma verified_price:
  assumes "build_signers X 0 ss w = (Ok sgs, w1)" "verifyPriceData X pd sgs threshold"
  shows "threshold \<le> int (length (signing_keys X (cs_Mask (pd_Signature pd)) ss))"
    and "blstVerify X (signing_keys X (cs_Mask (pd_Signature pd)) ss) (Payload X pd) (cs_Signature (pd_Signature pd))"
  using assms(2) by (simp_all add: verifyPriceData_def signing_keys_def build_signers_keys [OF assms(1)])

text \<open>The part of the handler from the signers on.\<close>

definition priceTail :: "ext \<Rightarrow> PriceData \<Rightarrow> Output \<Rightarrow> Market \<Rightarrow> (world, unit) go" where
  "priceTail X pd out m =
     seqE signer_FindAll (\<lambda>ss.
     seqE (build_signers X 0 ss) (\<lambda>signers.
     seqE (Require (verifyPriceData X pd signers (m_PriceThreshold m)) ''payee/oracle-verify-failed'' []) (\<lambda>_.
     seqE (accrue X m out) (\<lambda>market. market_Update X market (o_ID out)))))"

lemma priceTail_changes:
  assumes "priceTail X pd out m w = (r, w')" "markets w' \<noteq> markets w"
  obtains sgs m' where "build_signers X 0 (signers w) w = (Ok sgs, w)" "verifyPriceData X pd sgs (m_PriceThreshold m)"
    and "AccrueInterest X m (o_CreatedAt out) = Ok m'"
    and "markets w' = replace_rows (lock_match m_ID m_Version m') (market_write X m' (o_ID out)) (markets w)"
proof -
  from seq_changes [OF assms [unfolded priceTail_def] reading.keeps_reads(14)] obtain ss fs where
    "signer_FindAll w = (Ok ss, w\<lparr>faults := fs\<rparr>)" and
    k1: "seqE (build_signers X 0 ss) (\<lambda>signers.
     seqE (Require (verifyPriceData X pd signers (m_PriceThreshold m)) ''payee/oracle-verify-failed'' []) (\<lambda>_.
     seqE (accrue X m out) (\<lambda>market. market_Update X market (o_ID out)))) (w\<lparr>faults := fs\<rparr>) = (r, w')"
    by blast
  then have ss: "ss = signers w"
    by (auto simp: signer_FindAll_def dest: query_Ok)
  have ne: "markets w' \<noteq> markets (w\<lparr>faults := fs\<rparr>)"
    using assms(2) by simp
  from seq_changes [OF k1 ne reading.keeps_build(3)] obtain sgs fs' where
    b: "build_signers X 0 ss (w\<lparr>faults := fs\<rparr>) = (Ok sgs, w\<lparr>faults := fs'\<rparr>)" and
    k2: "seqE (Require (verifyPriceData X pd sgs (m_PriceThreshold m)) ''payee/oracle-verify-failed'' []) (\<lambda>_.
     seqE (accrue X m out) (\<lambda>market. market_Update X market (o_ID out))) (w\<lparr>faults := fs'\<rparr>) = (r, w')"
    by auto
  have v: "verifyPriceData X pd sgs (m_PriceThreshold m)"
    using k2 assms(2) by (auto simp: Require_def run_simps split: if_splits)
  with k2 obtain m' where acc: "AccrueInterest X m (o_CreatedAt out) = Ok m'"
    and upd: "market_Update X m' (o_ID out) (w\<lparr>faults := fs'\<rparr>) = (r, w')"
    using assms(2) by (cases "AccrueInterest X m (o_CreatedAt out)") (auto simp: Require_def accrue_def run_simps)
  have rows: "markets w' = replace_rows (lock_match m_ID m_Version m') (market_write X m' (o_ID out)) (markets w)"
    using market_Update_changes [OF upd] assms(2) by simp
  show ?thesis
    using that build_signers_state [OF b, of w] ss v acc rows by simp
qed

text \<open>What a price must have passed when the markets change.\<close>

lemma price_changes:
  assumes "handlePriceEvent X out w = (r, w')" "markets w' \<noteq> markets w"
  obtains pd m where "PriceData_UnmarshalBinary X (decodeMemo (o_Memo out)) = Some pd"
    and "m = marketByAsset (pd_AssetID pd) w" "0 < m_ID m" "m_Version m < o_ID out"
    and "3 \<le> sysversion w \<Longrightarrow> m_PriceUpdatedAt m \<le> pd_Timestamp pd * 1000000000"
    and "\<exists>fs. priceTail X pd out (m\<lparr>m_Price := pd_Price pd, m_PriceUpdatedAt :=
           if sysversion w < 3 then o_CreatedAt out else pd_Timestamp pd * 1000000000\<rparr>) (w\<lparr>faults := fs\<rparr>) = (r, w')"
proof -
  obtain pd where pd: "PriceData_UnmarshalBinary X (decodeMemo (o_Memo out)) = Some pd"
    using assms by (auto simp: handlePriceEvent_def Require_def run_simps throw_def seqE_def tryE_def Let_def split: if_splits)
  define t where "t = pd_Timestamp pd * 1000000000"
  define m where "m = marketByAsset (pd_AssetID pd) w"
  define k where "k market = (if m_Version market \<ge> o_ID out then ret ()
     else seqE (getS sysversion) (\<lambda>sv.
     if sv \<ge> 3 \<and> m_PriceUpdatedAt market > t then ret ()
     else priceTail X pd out (market\<lparr>m_Price := pd_Price pd, m_PriceUpdatedAt := if sv < 3 then o_CreatedAt out else t\<rparr>)))" for market
  from pd assms(1) have "seqE (mustGetMarket (pd_AssetID pd)) k w = (r, w')"
    by (simp add: handlePriceEvent_def Require_def Let_def t_def priceTail_def k_def [abs_def] cong del: if_weak_cong)
  from seq_changes [OF this assms(2) reading.keeps_musts(1)] obtain m1 fs where
    "mustGetMarket (pd_AssetID pd) w = (Ok m1, w\<lparr>faults := fs\<rparr>)" and k1: "k m1 (w\<lparr>faults := fs\<rparr>) = (r, w')"
    by blast
  then have m1: "m1 = m" "0 < m_ID m"
    using mustGetMarket_Ok by (auto simp: m_def)
  with k1 assms(2) have "m_Version m < o_ID out" "3 \<le> sysversion w \<Longrightarrow> m_PriceUpdatedAt m \<le> t"
    "priceTail X pd out (m\<lparr>m_Price := pd_Price pd, m_PriceUpdatedAt := if sysversion w < 3 then o_CreatedAt out else t\<rparr>)
       (w\<lparr>faults := fs\<rparr>) = (r, w')"
    by (auto simp: k_def run_simps split: if_splits)
  with that [OF pd m_def m1(2)] show ?thesis
    unfolding t_def by blast
qed

section \<open>A memo that blocks the payee\<close>

text \<open>
  A proposal with an action that has no request ends in an error that is not a compound error, so
  \<open>handleOutput\<close> hands it on and leaves the state as it was.
\<close>

lemma make_unknown:
  assumes "scan1 ActionType_UnmarshalBinary ActionTypeDefault msg = Some (a, b)" "proposal_content X a b = None"
  shows "handleMakeProposal X S out msg w = (Err (GoError ''unknown proposal action''), w)"
  using assms by (simp add: handleMakeProposal_def buildProposalV1_def Require_def run_simps)

lemma output_unknown:
  assumes "PriceData_UnmarshalBinary X (decodeMemo (o_Memo out)) = None" "o_Sender out \<noteq> ''''" "3 \<le> sysversion w"
    and "lower_memo (o_Memo out) \<noteq> ''deposit''"
    and "decode_payload X (decodeMemo (o_Memo out)) = (ActionTypeProposalMake, f, msg)"
    and "scan1 ActionType_UnmarshalBinary ActionTypeDefault msg = Some (a, b)" "proposal_content X a b = None"
  shows "handleOutput X S out w = (Err (GoError ''unknown proposal action''), w)"
  using assms(1-5) make_unknown [OF assms(6,7)]
  by (simp add: handleOutput_def handlePriceEvent_def Require_def is_CompoundError_def run_simps handleOutputV3_def
      refund_on_error_def)

text \<open>The value of a property, and the outputs the next run will handle.\<close>

definition property :: "string \<Rightarrow> world \<Rightarrow> string" where
  "property k w = (case map_of (properties w) k of None \<Rightarrow> '''' | Some v \<Rightarrow> v)"

definition pending :: "ext \<Rightarrow> world \<Rightarrow> Output list" where
  "pending X w = map afterFindOutput (take payee_limit (filter (\<lambda>x. castInt64 X (property checkpointKey w) < o_ID x) (outputs w)))"

lemma property_Get_run [store_simps]: "faults w = [] \<Longrightarrow> property_Get k w = (Ok (property k w), w)"
  by (simp add: property_Get_def query_run property_def)

lemma run_pending:
  assumes "faults w = []"
  shows "run X S w = (let w' = w\<lparr>sysversion := castInt64 X (property SysVersionKey w)\<rparr> in
    if pending X w = [] then (Err (GoError ''no more outputs''), w')
    else forE (pending X w) (\<lambda>output. seqE (handleOutput X S output) (\<lambda>_. property_Save checkpointKey (itoa (o_ID output)))) w')"
  using assms
  by (simp add: run_def loadSysVersion_def ReadSysVersion_def run_simps store_simps wallet_List_def query_run pending_def
      property_def Let_def)

section \<open>A market proposal on the table\<close>

lemma in_range_afterFind: "in_range m \<Longrightarrow> in_range (afterFind m)"
  by (simp add: in_range_def afterFind_def Let_def)

lemma in_range_accrue: "in_range m \<Longrightarrow> AccrueInterest X m t = Ok m' \<Longrightarrow> in_range m'"
  using accrue_same [of X m t m'] by (simp add: in_range_def same_market_def)

lemma in_range_write: "gorm_documented X \<Longrightarrow> in_range m \<Longrightarrow> in_range r \<Longrightarrow> in_range (market_write X m v r)"
  by (simp add: in_range_def market_write_def gorm_documented_def)

lemma in_range_found:
  assumes "\<forall>m\<in>set (markets w). in_range m" "m_ID (marketByAsset a w) \<noteq> 0"
  shows "in_range (marketByAsset a w)"
  using assms
  by (auto simp: marketByAsset_def zero_market_def in_range_afterFind split: option.splits dest!: find_Some_set)

lemma market_event_range:
  assumes "gorm_documented X" "\<forall>m\<in>set (markets w). in_range m" "m_ID (marketByAsset (mr_AssetID req) w) \<noteq> 0"
    and "mr_AssetID req \<noteq> ''''" and "handleMarketEvent X p req out w = (r, w')"
  shows "\<forall>m\<in>set (markets w'). in_range m"
proof (cases "markets w' = markets w")
  case False
  from seq_changes [OF assms(5) [unfolded handleMarketEvent_def] False reading.keeps_reads(1)] obtain m fs where
    find: "market_Find (mr_AssetID req) w = (Ok m, w\<lparr>faults := fs\<rparr>)" and
    k: "(if m_ID m = 0 then seqE (market_Create (new_market req out)) (\<lambda>_. ret ())
      else if m_Version m \<ge> o_ID out then ret ()
      else seqE (accrue X m out) (\<lambda>market. market_Update X (apply_market_req req market) (o_ID out))) (w\<lparr>faults := fs\<rparr>) = (r, w')"
    by blast
  have m: "m = marketByAsset (mr_AssetID req) w"
    using find assms(4) by (auto simp: market_Find_def dest: query_Ok)
  have ver: "\<not> o_ID out \<le> m_Version m"
    using k False m assms(3) by (auto simp: ret_def)
  obtain m' where acc: "AccrueInterest X m (o_CreatedAt out) = Ok m'"
      and upd: "market_Update X (apply_market_req req m') (o_ID out) (w\<lparr>faults := fs\<rparr>) = (r, w')"
    using k m ver assms(3) False
    by (cases "AccrueInterest X m (o_CreatedAt out)") (auto simp: accrue_def liftR_def seqE_def tryE_def throw_def)
  have "in_range (apply_market_req req m')"
    using in_range_found [OF assms(2,3)] in_range_accrue [OF _ acc] m by (simp add: apply_in_range)
  moreover have "markets w' = replace_rows (lock_match m_ID m_Version (apply_market_req req m'))
      (market_write X (apply_market_req req m') (o_ID out)) (markets w)"
    using market_Update_changes [OF upd] False by simp
  ultimately show ?thesis
    using assms(1,2) by (auto simp: replace_rows_map in_range_write)
qed (use assms(2) in simp)

end
