(* ===== verification/Payee_Loop.thy ===== *)
theory Payee_Loop
  imports Governance_Spec
begin

text \<open>
  The two loops of the payee: \<open>run\<close> over the pending outputs, and the migration of the users in rounds
  of at most \<open>migrate_limit\<close>.
\<close>

section \<open>A working database keeps working\<close>

abbreviation stays_up :: "world \<Rightarrow> world \<Rightarrow> bool" where
  "stays_up w w' \<equiv> faults w = [] \<longrightarrow> faults w' = []"

lemma up_dbio: "(\<And>w. faults (snd (f w)) = faults w) \<Longrightarrow> keeps stays_up (dbio f)"
  by (simp add: keeps_def dbio_def)

lemma up_update: "(\<And>rows w. faults (put rows w) = faults w) \<Longrightarrow> keeps stays_up (store_Update rid rver wr get put s v)"
  unfolding store_Update_def
  by (intro keeps_if up_dbio) (simp_all add: lock_update_def keeps_def ret_def)

interpretation up: payee_relation stays_up S for S
proof unfold_locales
  show "keeps stays_up (market_Create m)" for m
    unfolding market_Create_def by (rule up_dbio) (simp add: case_prod_beta)
  show "keeps stays_up (user_Create u)" for u
    unfolding user_Create_def by (rule up_dbio) (simp add: case_prod_beta)
  show "keeps stays_up (transaction_Create t)" for t
    unfolding transaction_Create_def by (rule up_dbio) (simp add: case_prod_beta)
  show "keeps stays_up (proposal_Create p)" for p
    unfolding proposal_Create_def by (rule up_dbio) (simp add: case_prod_beta)
  show "keeps stays_up (user_MigrateToV1 us)" for us
    unfolding user_MigrateToV1_def by (rule up_dbio) (simp split: option.split)
  show "stays_up w (snd (proposal_Update X (voted S who tm p) n w))" for w X who tm p n
    unfolding proposal_Update_def by (rule keepsD, rule up_dbio) simp
  show "stays_up w (snd (property_Save k x w))" for w k x
    unfolding property_Save_def by (rule keepsD, rule up_dbio) simp
  show "keeps stays_up (HandleTransfer X t)" "keeps stays_up (uuid_New X)" for X t
    by (simp_all add: HandleTransfer_def uuid_New_def throw_def keeps_def)
qed (simp_all add: market_Update_def supply_Update_def borrow_Update_def up_update supply_Create_def borrow_Create_def
    wallet_CreateTransfers_def signer_Save_def signer_Delete_def message_Create_def up_dbio Let_def)

lemma handleOutput_up: "handleOutput X S out w = (r, w') \<Longrightarrow> faults w = [] \<Longrightarrow> faults w' = []"
  using keepsD [OF up.keeps_output] by (metis snd_conv)

section \<open>Outputs in order\<close>

text \<open>The outputs of a list handled one after the other, each followed by its checkpoint.\<close>

inductive handles :: "ext \<Rightarrow> System \<Rightarrow> Output list \<Rightarrow> world \<Rightarrow> world \<Rightarrow> bool" for X S where
  handles_Nil: "handles X S [] w w"
| handles_Cons: "handleOutput X S out w = (Ok (), w1) \<Longrightarrow>
    handles X S outs (w1\<lparr>properties := AList.update checkpointKey (itoa (o_ID out)) (properties w1)\<rparr>) w' \<Longrightarrow>
    handles X S (out # outs) w w'"

inductive_cases handles_NilE: "handles X S [] w w'"
inductive_cases handles_ConsE: "handles X S (out # outs) w w'"

lemma handles_checkpoint: "handles X S outs w w' \<Longrightarrow> outs \<noteq> [] \<Longrightarrow> property checkpointKey w' = itoa (o_ID (last outs))"
proof (induction rule: handles.induct)
  case (handles_Cons out w w1 outs w')
  then show ?case
    by (cases outs) (auto simp: property_def update_conv' elim: handles_NilE)
qed simp

lemma property_Save_run: "faults w = [] \<Longrightarrow> property_Save k v w = (Ok (), w\<lparr>properties := AList.update k v (properties w)\<rparr>)"
  by (simp add: property_Save_def dbio_def)

text \<open>The loop of \<open>run\<close> handles a prefix of its outputs and stops at the first that fails.\<close>

lemma loop_prefix:
  assumes "forE outs (\<lambda>out. seqE (handleOutput X S out) (\<lambda>_. property_Save checkpointKey (itoa (o_ID out)))) w = (r, w')"
    and "faults w = []"
  shows "\<exists>pre rest w1. outs = pre @ rest \<and> handles X S pre w w1 \<and>
    (rest = [] \<and> r = Ok () \<and> w' = w1 \<or> (\<exists>out rest'. rest = out # rest' \<and> r \<noteq> Ok () \<and> handleOutput X S out w1 = (r, w')))"
  using assms
proof (induction outs arbitrary: w)
  case Nil
  then show ?case
    by (auto simp: run_simps intro: handles_Nil)
next
  case (Cons out outs)
  obtain res w1 where h: "handleOutput X S out w = (res, w1)" by fastforce
  show ?case
  proof (cases "res = Ok ()")
    case True
    let ?w = "w1\<lparr>properties := AList.update checkpointKey (itoa (o_ID out)) (properties w1)\<rparr>"
    have "faults w1 = []"
      using handleOutput_up [OF h Cons.prems(2)] .
    with Cons.prems h True have "forE outs (\<lambda>out. seqE (handleOutput X S out) (\<lambda>_. property_Save checkpointKey (itoa (o_ID out)))) ?w = (r, w')"
        "faults ?w = []"
      by (simp_all add: run_simps property_Save_run)
    from Cons.IH [OF this] obtain pre rest w2 where IH: "outs = pre @ rest" "handles X S pre ?w w2"
      "rest = [] \<and> r = Ok () \<and> w' = w2 \<or> (\<exists>out rest'. rest = out # rest' \<and> r \<noteq> Ok () \<and> handleOutput X S out w2 = (r, w'))"
      by blast
    then have "out # outs = (out # pre) @ rest" "handles X S (out # pre) w w2"
      using h True by (auto intro: handles_Cons)
    with IH(3) show ?thesis by blast
  next
    case False
    with h Cons.prems have "handleOutput X S out w = (r, w')" "r \<noteq> Ok ()"
      by (cases res; auto simp: run_simps seqE_assoc)+
    then show ?thesis
      using handles_Nil by fastforce
  qed
qed

end
