(* ===== verification/Migration.thy ===== *)
theory Migration
  imports Payee_Loop
begin

text \<open>
  \<open>migrateV1\<close>: the loop over the users in rounds of \<open>migrate_limit\<close>. It ends, because every full round
  leaves fewer users behind the last identifier, and on a working database it gives every user with an
  address of version 0 a new address.
\<close>

section \<open>One round\<close>

text \<open>The updates of a round and the number of addresses drawn.\<close>

fun updates :: "ext \<Rightarrow> nat \<Rightarrow> User list \<Rightarrow> User list" where
  "updates X n [] = []"
| "updates X n (u # us) = (let a = BuildUserAddressV0 X (u_UserID u) in
     if u_Address u = a then u\<lparr>u_AddressV0 := Some a, u_Address := uuidNew X n\<rparr> # updates X (n + 1) us
     else updates X n us)"

lemma migrate_collect_run:
  "migrate_collect X us w = (Ok (updates X (uuids w) us), w\<lparr>uuids := uuids w + length (updates X (uuids w) us)\<rparr>)"
  by (induction us arbitrary: w) (simp_all add: run_simps Let_def uuid_New_def seqE_def tryE_def)

lemma updates_ids: "set (map u_ID (updates X n us)) \<subseteq> set (map u_ID us)"
  by (induction us arbitrary: n) (auto simp: Let_def)

lemma updates_distinct: "distinct (map u_ID us) \<Longrightarrow> distinct (map u_ID (updates X n us))"
proof (induction us arbitrary: n)
  case (Cons u us)
  then show ?case
    using updates_ids [of X "Suc n" us] by (auto simp: Let_def)
qed simp

lemma migrate_users_ids: "migrate_users ups rows = Some rows' \<Longrightarrow> map u_ID rows' = map u_ID rows"
  by (induction ups arbitrary: rows)
    (auto simp: migrate_user_def Let_def map_replace split: option.splits if_splits)

section \<open>The loop ends\<close>

definition remaining :: "int \<Rightarrow> world \<Rightarrow> nat" where
  "remaining from w = length (filter (\<lambda>i. from < i) (map u_ID (users w)))"

lemma remaining_frames [simp]: "remaining i (w\<lparr>faults := fs\<rparr>) = remaining i w" "remaining i (w\<lparr>uuids := n\<rparr>) = remaining i w"
  by (simp_all add: remaining_def)

lemma remaining_users: "map u_ID rows = map u_ID (users w) \<Longrightarrow> remaining i (w\<lparr>users := rows\<rparr>) = remaining i w"
  by (simp add: remaining_def)

lemma remaining_less:
  assumes "us = take k (filter (\<lambda>u. from < u_ID u) (users w))" "us \<noteq> []"
  shows "remaining (u_ID (last us)) w < remaining from w"
proof -
  have mem: "last us \<in> set (filter (\<lambda>u. from < u_ID u) (users w))"
    using assms last_in_set [of us] by (metis in_set_takeD)
  then have less: "from < u_ID (last us)" by simp
  have "filter (\<lambda>i. u_ID (last us) < i) (map u_ID (users w))
      = filter (\<lambda>i. u_ID (last us) < i) (filter (\<lambda>i. from < i) (map u_ID (users w)))"
    using less by (auto intro: filter_cong)
  moreover have "u_ID (last us) \<in> set (filter (\<lambda>i. from < i) (map u_ID (users w)))"
    using mem by auto
  ultimately show ?thesis
    unfolding remaining_def by (metis (mono_tags) length_filter_less order_less_irrefl)
qed

lemma user_List_Ok: "user_List from k w = (Ok us, w1) \<Longrightarrow>
    us = take k (filter (\<lambda>u. from < u_ID u) (users w)) \<and> (\<exists>fs. w1 = w\<lparr>faults := fs\<rparr>)"
  by (auto simp: user_List_def dest: query_Ok)

lemma user_Migrate_cases:
  assumes "user_MigrateToV1 us w = (r, w1)"
  shows "(\<forall>p. r \<noteq> Panic p) \<and> (r = Ok () \<longrightarrow> (\<exists>fs rows. w1 = w\<lparr>faults := fs, users := rows\<rparr> \<and> map u_ID rows = map u_ID (users w)))"
proof -
  have "\<exists>fs rows. w\<lparr>users := rows0\<rparr> = w\<lparr>faults := fs, users := rows\<rparr> \<and> map u_ID rows = map u_ID (users w)"
    if "map u_ID rows0 = map u_ID (users w)" for rows0
    using that by (intro exI [of _ "faults w"] exI [of _ rows0]) simp
  with assms show ?thesis
    by (auto simp: user_MigrateToV1_def dbio_def split: list.splits fault.splits option.splits dest: migrate_users_ids)
qed

lemma loop_no_panic: "remaining from w < n \<Longrightarrow> fst (migrateV1_loop X n from w) \<noteq> Panic p"
proof (induction n arbitrary: "from" w)
  case (Suc n)
  obtain r1 w1 where l: "user_List from migrate_limit w = (r1, w1)" by fastforce
  show ?case
  proof (cases r1)
    case (Ok us)
    define ups where "ups = updates X (uuids w1) us"
    define w2 where "w2 = w1\<lparr>uuids := uuids w1 + length ups\<rparr>"
    obtain r3 w3 where m: "user_MigrateToV1 ups w2 = (r3, w3)" by fastforce
    have us: "us = take migrate_limit (filter (\<lambda>u. from < u_ID u) (users w))" and same: "remaining i w2 = remaining i w" for i
      using user_List_Ok [of "from" migrate_limit w us w1] l Ok by (auto simp: w2_def)
    show ?thesis
    proof (cases r3)
      case r3: (Ok x)
      then have keep: "remaining i w3 = remaining i w" for i
        using user_Migrate_cases [OF m] same by (auto simp: remaining_users)
      have "remaining (if us = [] then from else u_ID (last us)) w3 < n" if "\<not> length us < migrate_limit"
        using remaining_less [OF us] that Suc.prems keep by (auto simp: migrate_limit_def)
      then have "\<not> length us < migrate_limit \<longrightarrow> fst (migrateV1_loop X n (if us = [] then from else u_ID (last us)) w3) \<noteq> Panic p"
        by (simp add: Suc.IH)
      then show ?thesis
        using l Ok m r3
        by (simp add: seqE_Ok migrate_collect_run ups_def [symmetric] w2_def [symmetric] Let_def ret_def)
    qed (use l Ok m user_Migrate_cases [OF m] in \<open>auto simp: seqE_Ok seqE_Err migrate_collect_run ups_def w2_def Let_def\<close>)
  next
    case (Panic q)
    with l show ?thesis
      by (auto simp: user_List_def query_def dbio_def split: list.splits fault.splits)
  qed (use l in \<open>simp add: seqE_Err\<close>)
qed simp

lemma migrate_no_panic: "fst (migrateV1 X v w) \<noteq> Panic p"
proof -
  have "remaining 0 w < Suc (length (users w))"
    using length_filter_le [of _ "map u_ID (users w)"] by (simp add: remaining_def less_Suc_eq_le)
  then show ?thesis
    unfolding migrateV1_def by (rule loop_no_panic)
qed

section \<open>What a round does to the table\<close>

text \<open>A user after the migration.\<close>

definition migrated :: "ext \<Rightarrow> User \<Rightarrow> User \<Rightarrow> bool" where
  "migrated X u u' \<longleftrightarrow> (if u_Address u = BuildUserAddressV0 X (u_UserID u)
     then (\<exists>n. u' = u\<lparr>u_Address := uuidNew X n, u_AddressV0 := Some (BuildUserAddressV0 X (u_UserID u))\<rparr>)
     else u' = u)"

text \<open>No user with an address of version 0 has been migrated before.\<close>

definition unmigrated :: "ext \<Rightarrow> User \<Rightarrow> bool" where
  "unmigrated X u \<longleftrightarrow> (u_Address u = BuildUserAddressV0 X (u_UserID u) \<longrightarrow> u_AddressV0 u = None)"

lemma migrate_round:
  assumes "distinct (map u_ID (pre @ us @ post))" "list_all (unmigrated X) us"
  shows "\<exists>us'. migrate_users (updates X n us) (pre @ us @ post) = Some (pre @ us' @ post) \<and> list_all2 (migrated X) us us'"
  using assms
proof (induction us arbitrary: pre n)
  case (Cons u us)
  let ?a = "BuildUserAddressV0 X (u_UserID u)"
  show ?case
  proof (cases "u_Address u = ?a")
    case True
    define u' where "u' = u\<lparr>u_Address := uuidNew X n, u_AddressV0 := Some ?a\<rparr>"
    have one: "migrate_user (u\<lparr>u_AddressV0 := Some ?a, u_Address := uuidNew X n\<rparr>) (pre @ (u # us) @ post) = Some (pre @ (u' # us) @ post)"
    proof -
      have "u_AddressV0 u = None"
        using Cons.prems(2) True by (simp add: unmigrated_def)
      moreover have "u_ID r \<noteq> u_ID u" if "r \<in> set (pre @ us @ post)" for r
        using Cons.prems(1) that by (auto simp: image_iff)
      ultimately show ?thesis
        by (simp add: migrate_user_def Let_def replace_rows_map u'_def map_idI)
    qed
    obtain us' where "migrate_users (updates X (Suc n) us) ((pre @ [u']) @ us @ post) = Some ((pre @ [u']) @ us' @ post)"
        "list_all2 (migrated X) us us'"
      using Cons.IH [of "pre @ [u']" "Suc n"] Cons.prems by (auto simp: u'_def)
    moreover have "migrated X u u'"
      using True by (auto simp: migrated_def u'_def)
    ultimately show ?thesis
      using one True by (intro exI [of _ "u' # us'"]) (simp add: Let_def)
  next
    case False
    obtain us' where "migrate_users (updates X n us) ((pre @ [u]) @ us @ post) = Some ((pre @ [u]) @ us' @ post)"
        "list_all2 (migrated X) us us'"
      using Cons.IH [of "pre @ [u]" n] Cons.prems by auto
    moreover have "migrated X u u"
      using False by (simp add: migrated_def)
    ultimately show ?thesis
      using False by (intro exI [of _ "u # us'"]) (simp add: Let_def)
  qed
qed simp

lemma migrated_ids: "list_all2 (migrated X) us us' \<Longrightarrow> map u_ID us' = map u_ID us"
  by (induction rule: list_all2_induct) (auto simp: migrated_def split: if_splits)

lemma user_List_run: "faults w = [] \<Longrightarrow> user_List from k w = (Ok (take k (filter (\<lambda>u. from < u_ID u) (users w))), w)"
  by (simp add: user_List_def query_run)

lemma migrate_loop_run:
  assumes "faults w = []" "users w = pre @ rest" "sorted_wrt (<) (map u_ID (users w))" "list_all (unmigrated X) rest"
    and "\<forall>u\<in>set pre. u_ID u \<le> from" "\<forall>u\<in>set rest. from < u_ID u" "length rest < n"
  shows "\<exists>w' rest'. migrateV1_loop X n from w = (Ok (), w') \<and> users w' = pre @ rest' \<and> list_all2 (migrated X) rest rest'"
  using assms
proof (induction n arbitrary: w pre rest "from")
  case (Suc n)
  define us post where "us = take migrate_limit rest" and "post = drop migrate_limit rest"
  have rest: "rest = us @ post"
    by (simp add: us_def post_def)
  have listed: "user_List from migrate_limit w = (Ok us, w)"
  proof -
    have "filter (\<lambda>u. from < u_ID u) pre = []" "filter (\<lambda>u. from < u_ID u) rest = rest"
      using Suc.prems(5,6) by (auto simp: filter_empty_conv filter_id_conv)
    with Suc.prems(1,2) show ?thesis
      by (simp add: user_List_run us_def)
  qed
  define w2 where "w2 = w\<lparr>uuids := uuids w + length (updates X (uuids w) us)\<rparr>"
  have "distinct (map u_ID (pre @ us @ post))"
    using Suc.prems(2,3) rest by (simp add: strict_sorted_iff)
  then obtain us' where mig: "migrate_users (updates X (uuids w) us) (pre @ us @ post) = Some (pre @ us' @ post)"
      and us': "list_all2 (migrated X) us us'"
    using migrate_round [of pre us post X "uuids w"] Suc.prems(4) rest by auto
  define w3 where "w3 = w2\<lparr>users := pre @ us' @ post\<rparr>"
  have upd: "user_MigrateToV1 (updates X (uuids w) us) w2 = (Ok (), w3)"
    using Suc.prems(1,2) mig rest by (simp add: user_MigrateToV1_def dbio_def w2_def w3_def)
  let ?from = "if us = [] then from else u_ID (last us)"
  have step: "migrateV1_loop X (Suc n) from w = (if length us < migrate_limit then (Ok (), w3) else migrateV1_loop X n ?from w3)"
    using listed upd by (simp add: seqE_Ok migrate_collect_run w2_def [symmetric] Let_def ret_def)
  show ?case
  proof (cases "length us < migrate_limit")
    case True
    then have "post = []"
      by (simp add: us_def post_def)
    with True step us' rest show ?thesis
      by (intro exI [of _ w3] exI [of _ us']) (simp add: w3_def)
  next
    case False
    then have ne: "us \<noteq> []"
      by (auto simp: migrate_limit_def)
    have sorted: "sorted_wrt (<) (map u_ID (users w3))" "\<forall>u\<in>set (pre @ us'). u_ID u \<le> ?from" "\<forall>u\<in>set post. ?from < u_ID u"
    proof -
      have ids: "map u_ID us' = map u_ID us"
        by (rule migrated_ids [OF us'])
      with Suc.prems(2,3) rest show "sorted_wrt (<) (map u_ID (users w3))"
        by (simp add: w3_def)
      obtain ys y where us_eq: "us = ys @ [y]"
        using ne by (cases us rule: rev_cases) simp_all
      have order: "\<forall>i\<in>set (map u_ID pre @ map u_ID ys). i < u_ID y" "\<forall>i\<in>set (map u_ID post). u_ID y < i"
        using Suc.prems(2,3) rest by (auto simp: us_eq sorted_wrt_append)
      have "set (map u_ID us') = insert (u_ID y) (set (map u_ID ys))"
        unfolding ids by (simp add: us_eq)
      then have "\<forall>u\<in>set us'. u_ID u = u_ID y \<or> u_ID u \<in> set (map u_ID ys)"
        by (metis image_eqI insert_iff set_map)
      with order show "\<forall>u\<in>set (pre @ us'). u_ID u \<le> ?from" "\<forall>u\<in>set post. ?from < u_ID u"
        using us_eq by (auto simp: less_imp_le)
    qed
    have "\<exists>w' rest'. migrateV1_loop X n ?from w3 = (Ok (), w') \<and> users w' = (pre @ us') @ rest' \<and> list_all2 (migrated X) post rest'"
    proof (rule Suc.IH)
      show "length post < n"
        using Suc.prems(7) rest ne by (cases us) auto
    qed (use Suc.prems(1,4) rest sorted in \<open>auto simp: w2_def w3_def\<close>)
    with step False us' rest show ?thesis
      by (auto simp: list_all2_appendI)
  qed
qed simp

end
