(* ===== verification/Example_Governance.thy ===== *)
theory Example_Governance
  imports Example_State
begin

text \<open>
  A concrete group of two members with a proposal that lacks one vote, the output that casts it, and the
  output of a stranger that proposes an unknown action.
\<close>

definition sys0 :: System where
  "sys0 = \<lparr>Admins = [], ClientID = ''n1'', Members = [], MemberIDs = [alice, bob], Threshold = 2,
     VoteAsset = usd, VoteAmount = 1, PrivateKey = [], SignKey = [], Genesis = 0\<rparr>"

definition prop0 :: Proposal where
  "prop0 = zero_proposal\<lparr>p_ID := 1, p_TraceID := ''prop000000000000'', p_Creator := bob,
     p_Action := ActionTypeProposalSetProperty, p_Content := SetPropertyContent \<lparr>sp_Key = ''k'', sp_Value = ''v''\<rparr>,
     p_Votes := [bob], p_Version := 3\<rparr>"

definition memo0 :: "bytes option list \<Rightarrow> string" where
  "memo0 fs = StdEncode (EncodeTransactionAction ext0 \<lparr>ta_FollowID = [], ta_Body = the (Encode fs)\<rparr>)"

definition vote_body0 :: bytes where
  "vote_body0 = the (Encode [Some (bytes_of_string ''prop000000000000'')])"

definition vote0 :: Output where
  "vote0 = output0\<lparr>o_Memo := memo0 [ActionType_MarshalBinary ActionTypeProposalVote, Some (bytes_of_string ''prop000000000000'')]\<rparr>"

definition world3 :: world where
  "world3 = world0\<lparr>properties := [(SysVersionKey, ''5'')], proposals := [prop0], outputs := [vote0]\<rparr>"

definition stranger0 :: Output where
  "stranger0 = output0\<lparr>o_Sender := ''mallory'',
     o_Memo := memo0 [ActionType_MarshalBinary ActionTypeProposalMake, ActionType_MarshalBinary ActionTypeSupply]\<rparr>"

definition world4 :: world where
  "world4 = world3\<lparr>outputs := [stranger0]\<rparr>"

text \<open>The payee handles the vote: the proposal passes, its property is stored and the checkpoint moves.\<close>

lemma vote_run:
  "case run ext0 sys0 world3 of (r, w') \<Rightarrow> r = Ok () \<and>
     properties w' = [(SysVersionKey, ''5''), (''k'', ''v''), (checkpointKey, ''7'')] \<and>
     map p_Votes (proposals w') = [[bob, alice]] \<and> map p_PassedAt (proposals w') = [Some later]"
  by code_simp

section \<open>Two versions in one run\<close>

text \<open>
  Two proposals, each one vote short, for version 5 and for version 4, and the two votes that complete them
  in that order, while version 3 is running.
\<close>

definition version_prop :: "int \<Rightarrow> string \<Rightarrow> string \<Rightarrow> Proposal" where
  "version_prop i trace v = prop0\<lparr>p_ID := i, p_TraceID := trace,
     p_Content := SetPropertyContent \<lparr>sp_Key = SysVersionKey, sp_Value = v\<rparr>\<rparr>"

definition version_vote :: "int \<Rightarrow> string \<Rightarrow> Output" where
  "version_vote i trace = output0\<lparr>o_ID := i,
     o_Memo := memo0 [ActionType_MarshalBinary ActionTypeProposalVote, Some (bytes_of_string trace)]\<rparr>"

definition world7 :: world where
  "world7 = world0\<lparr>properties := [(SysVersionKey, ''3'')],
     proposals := [version_prop 1 ''prop000000000005'' ''5'', version_prop 2 ''prop000000000004'' ''4''],
     outputs := [version_vote 7 ''prop000000000005'']\<rparr>"

definition world8 :: world where
  "world8 = world7\<lparr>outputs := [version_vote 7 ''prop000000000005'', version_vote 8 ''prop000000000004'']\<rparr>"

text \<open>With the first vote alone the run stores 5; with both it stores 4 after 5.\<close>

lemma version_runs:
  "case run ext0 sys0 world7 of (r, w') \<Rightarrow> r = Ok () \<and> properties w' = [(SysVersionKey, ''5''), (checkpointKey, ''7'')]"
  "case run ext0 sys0 world8 of (r, w') \<Rightarrow> r = Ok () \<and> properties w' = [(SysVersionKey, ''4''), (checkpointKey, ''8'')]"
  by code_simp+

section \<open>An oracle price\<close>

definition price_out0 :: Output where
  "price_out0 = output0\<lparr>o_Memo := StdEncode (case PriceData_MarshalBinary ext0 price0 of Ok b \<Rightarrow> b | _ \<Rightarrow> [])\<rparr>"

text \<open>The market asks for two oracles, and the mask of the price, 6, names both.\<close>

definition btc_watched :: Market where
  "btc_watched = btc_market\<lparr>m_PriceThreshold := 2\<rparr>"

lemma watched_found: "afterFind btc_watched = btc_watched"
  by (simp add: btc_watched_def afterFind_def market_eval)

definition world5 :: world where
  "world5 = world0\<lparr>markets := [btc_watched, usd_market], signers := [\<lparr>os_ID = 1, os_UserID = alice, os_PublicKey = ''AAAA''\<rparr>, \<lparr>os_ID = 2, os_UserID = bob, os_PublicKey = ''BBBB''\<rparr>]\<rparr>"

definition btc_repriced :: Market where
  "btc_repriced = btc_later\<lparr>m_PriceThreshold := 2, m_Price := 11, m_PriceUpdatedAt := 40 * 1000000000\<rparr>"

lemma price_parsed: "PriceData_UnmarshalBinary ext0 (decodeMemo (o_Memo price_out0)) = Some price0"
  by code_simp

lemma accrue_repriced:
  "AccrueInterest ext0 (btc_watched\<lparr>m_Price := 11, m_PriceUpdatedAt := 40000000000\<rparr>) later = Ok btc_repriced"
  by (simp add: rate_eval market_eval btc_watched_def btc_repriced_def later_def cong: let_weak_cong)

lemma keys_decode: "decode_signer_key ext0 ''AAAA'' \<noteq> None" "decode_signer_key ext0 ''BBBB'' \<noteq> None"
  by code_simp+

lemma price_run:
  "handlePriceEvent ext0 price_out0 world5 = (Ok (), world5\<lparr>markets :=
     [market_write ext0 btc_repriced 7 btc_watched, usd_market]\<rparr>)"
proof -
  have find: "marketByAsset btc world5 = btc_watched"
    by (simp add: marketByAsset_def world5_def world0_def watched_found) (simp add: btc_watched_def btc_market_def)
  have out: "o_ID price_out0 = 7" "o_CreatedAt price_out0 = later"
    by (simp_all add: price_out0_def output0_def)
  have price: "pd_AssetID price0 = btc" "pd_Price price0 = 11" "pd_Timestamp price0 = 40"
    by (simp_all add: price0_def)
  have m: "m_ID btc_watched = 1" "m_Version btc_watched = 1" "m_PriceUpdatedAt btc_watched = 0" "m_PriceThreshold btc_watched = 2"
    by (simp_all add: btc_watched_def btc_market_def zero_market_def)
  have sv: "faults world5 = []" "sysversion world5 = 5" "btc \<noteq> ''''" "markets world5 = [btc_watched, usd_market]"
    by (simp_all add: world5_def world0_def btc_def)
  obtain k1 k2 where key: "decode_signer_key ext0 ''AAAA'' = Some k1" "decode_signer_key ext0 ''BBBB'' = Some k2"
    using keys_decode by blast
  define sgs where "sgs = [\<lparr>sg_Index = 1, sg_VerifyKey = k1\<rparr>, \<lparr>sg_Index = 2, sg_VerifyKey = k2\<rparr>]"
  have sign: "build_signers ext0 0 (signers world5) = ret sgs"
    by (simp add: world5_def key Require_def sgs_def numeral_2_eq_2)
  have verify: "verifyPriceData ext0 price0 sgs 2"
    by (simp add: verifyPriceData_def price0_def ext0_def sgs_def bit_0)
  have upd: "market_Update ext0 btc_repriced 7 world5 =
      (Ok (), world5\<lparr>markets := [market_write ext0 btc_repriced 7 btc_watched, usd_market]\<rparr>)"
    by (simp add: market_Update_def store_Update_def dbio_def lock_update_def lock_match_def sv)
      (simp add: btc_repriced_def btc_later_def btc_watched_def btc_market_def usd_market_def)
  show ?thesis
    by (simp add: handlePriceEvent_def price_parsed Require_def price mustGetMarket_def market_Find_def query_def dbio_def
        seqE_def tryE_def throw_def find m sv out getS_def ret_def signer_FindAll_def sign verify accrue_def liftR_def
        accrue_repriced upd Let_def)
qed

section \<open>A user with an address of version 0\<close>

definition world6 :: world where
  "world6 = world0\<lparr>users := [\<lparr>u_ID = 1, u_UserID = alice, u_Address = BuildUserAddressV0 ext0 alice, u_AddressV0 = None\<rparr>]\<rparr>"

end
