(* ===== verification/Props_Payee.thy ===== *)
theory Props_Payee
  imports Payee_Invariant Migration Example_Governance
begin

text \<open>Properties of the payee as a whole, over every sequence of its steps.\<close>

text \<open>The payee's steps from a concrete state, for the witnesses.\<close>

lemma vote_steps: "(payee_step ext0 sys0)\<^sup>*\<^sup>* world3 (snd (run ext0 sys0 world3))"
  using vote_run by (intro r_into_rtranclp payee_step.run_ok) (auto split: prod.splits)

lemma world3_ok: "state_ok sys0 world3"
  by code_simp

text \<open>
  The payee never rewrites history. Over any number of runs, whatever outputs arrive and however the
  database fails, no row of any table is removed, transactions and transfers never change once written,
  the outputs are left alone, the versions of markets, supplies and borrows never fall, a user keeps its
  identifiers and a proposal its creator, action and request.
\<close>

lemma payee_keeps_history:
  assumes "(payee_step X S)\<^sup>*\<^sup>* w w'"
  shows "history w w'"
  using assms by (rule payee_history.payee_steps_R)

lemma payee_keeps_history_witness:
  "\<exists>w'. (payee_step ext0 sys0)\<^sup>*\<^sup>* world3 w' \<and> history world3 w' \<and> properties w' \<noteq> properties world3"
  using payee_keeps_history [OF vote_steps] vote_steps vote_run by (auto simp: world3_def split: prod.splits)

text \<open>
  The payee keeps the keys of its tables unique over any number of runs: row identifiers are
  positive and distinct, there is one user per Mixin account, one transaction and one transfer per trace,
  one proposal per trace, one oracle key per signer and one value per property.
\<close>

lemma payee_keeps_tables:
  assumes "(payee_step X S)\<^sup>*\<^sup>* w w'" "state_ok S w"
  shows "rows_identified w'"
  using payee_state.payee_steps_R [OF assms(1)] assms(2) by (simp add: state_ok_def)

lemma payee_keeps_tables_witness:
  "\<exists>w'. (payee_step ext0 sys0)\<^sup>*\<^sup>* world3 w' \<and> rows_identified w' \<and> properties w' \<noteq> properties world3"
  using payee_keeps_tables [OF vote_steps world3_ok] vote_steps vote_run by (auto simp: world3_def split: prod.splits)

text \<open>
  No proposal passes without its votes. In every state the payee reaches, a proposal that has passed
  carries the votes of at least as many different members as the threshold asks for, and no vote of
  anyone else.
\<close>

lemma proposals_pass_by_vote:
  assumes "(payee_step X S)\<^sup>*\<^sup>* w w'" "state_ok S w" "p \<in> set (proposals w')" "p_PassedAt p \<noteq> None"
  shows "Threshold S \<le> card (set (p_Votes p)) \<and> (\<forall>v\<in>set (p_Votes p). voter S v)"
proof -
  have "votes_ok S p"
    using payee_state.payee_steps_R [OF assms(1)] assms(2,3) by (simp add: state_ok_def list_all_iff)
  with assms(4) show ?thesis
    by (simp add: votes_ok_def list_all_iff distinct_card)
qed

lemma proposals_pass_by_vote_witness:
  "\<exists>w' p. (payee_step ext0 sys0)\<^sup>*\<^sup>* world3 w' \<and> p \<in> set (proposals w') \<and> p_PassedAt p = Some later
    \<and> Threshold sys0 \<le> card (set (p_Votes p)) \<and> list_all (voter sys0) (p_Votes p)"
proof -
  let ?w = "snd (run ext0 sys0 world3)"
  obtain p where p: "p \<in> set (proposals ?w)" "p_PassedAt p = Some later"
    using vote_run by (auto split: prod.splits)
  with proposals_pass_by_vote [OF vote_steps world3_ok, of p] vote_steps show ?thesis
    by (intro exI [of _ ?w] exI [of _ p]) (simp add: list_all_iff)
qed

text \<open>
  C25. Outputs are handled in order, and the checkpoint never passes one that failed. On a working
  database a run handles a prefix of the pending outputs one after the other, each followed by its
  checkpoint; it stops at the first output whose handler fails and returns that failure, and then the
  checkpoint stands at the last output handled before.
\<close>

theorem run_in_order:
  assumes "faults w = []" "pending X w \<noteq> []" "run X S w = (r, w')"
  shows "\<exists>pre rest w1. pending X w = pre @ rest
    \<and> handles X S pre (w\<lparr>sysversion := castInt64 X (property SysVersionKey w)\<rparr>) w1
    \<and> (pre \<noteq> [] \<longrightarrow> property checkpointKey w1 = itoa (o_ID (last pre)))
    \<and> (rest = [] \<and> r = Ok () \<and> w' = w1 \<or>
       (\<exists>out rest'. rest = out # rest' \<and> r \<noteq> Ok () \<and> handleOutput X S out w1 = (r, w')))"
proof -
  have "forE (pending X w) (\<lambda>out. seqE (handleOutput X S out) (\<lambda>_. property_Save checkpointKey (itoa (o_ID out))))
      (w\<lparr>sysversion := castInt64 X (property SysVersionKey w)\<rparr>) = (r, w')"
    using assms by (simp add: run_pending Let_def)
  from loop_prefix [OF this] assms(1) show ?thesis
    by (fastforce dest: handles_checkpoint)
qed

theorem run_in_order_witness:
  "\<exists>w1. handles ext0 sys0 [vote0] (world3\<lparr>sysversion := castInt64 ext0 (property SysVersionKey world3)\<rparr>) w1
    \<and> property checkpointKey w1 = ''7''"
proof -
  have pend: "pending ext0 world3 = [vote0]"
    by (simp add: pending_def afterFindOutput_def payee_limit_def property_def vote0_def output0_def checkpointKey_def
        SysVersionKey_def world3_def world0_def ext0_def ParseInt64_def)
  have id: "itoa (o_ID vote0) = ''7''"
    by code_simp
  have up: "faults world3 = []" "pending ext0 world3 \<noteq> []"
    using pend by (simp_all add: world3_def world0_def)
  obtain w' where run: "run ext0 sys0 world3 = (Ok (), w')"
    using vote_run by (auto split: prod.splits)
  from run_in_order [OF up run] pend id show ?thesis
    by (auto simp: Cons_eq_append_conv)
qed

text \<open>
  C26. The migration of the users ends and reaches every user. The loop never runs out of rounds,
  whatever the database does; on a working database with the users in the order of their identifiers it
  succeeds, gives every user who still has the address of version 0 a new address and keeps the old one
  beside it, and leaves every other user as it was.
\<close>

theorem migration_completes:
  assumes "sorted_wrt (<) (map u_ID (users w))" "list_all (\<lambda>u. 0 < u_ID u \<and> unmigrated X u) (users w)"
  shows "(\<forall>p fs. fst (migrateV1 X v (w\<lparr>faults := fs\<rparr>)) \<noteq> Panic p)
    \<and> (\<exists>w'. migrateV1 X v (w\<lparr>faults := []\<rparr>) = (Ok (), w') \<and> list_all2 (migrated X) (users w) (users w'))"
proof -
  have "\<exists>w' rest'. migrateV1_loop X (Suc (length (users w))) 0 (w\<lparr>faults := []\<rparr>) = (Ok (), w') \<and> users w' = [] @ rest'
      \<and> list_all2 (migrated X) (users w) rest'"
    using assms by (intro migrate_loop_run) (auto simp: list_all_iff)
  then have "\<exists>w'. migrateV1 X v (w\<lparr>faults := []\<rparr>) = (Ok (), w') \<and> list_all2 (migrated X) (users w) (users w')"
    by (auto simp: migrateV1_def simp del: migrateV1_loop.simps)
  then show ?thesis
    by (simp add: migrate_no_panic)
qed

theorem migration_completes_witness:
  "\<exists>w' u'. migrateV1 ext0 5 world6 = (Ok (), w') \<and> users w' = [u'] \<and> u_AddressV0 u' = Some (BuildUserAddressV0 ext0 alice)"
proof -
  have ok: "sorted_wrt (<) (map u_ID (users world6))" "list_all (\<lambda>u. 0 < u_ID u \<and> unmigrated ext0 u) (users world6)"
    by (simp_all add: world6_def unmigrated_def)
  have "world6\<lparr>faults := []\<rparr> = world6"
    by (simp add: world6_def world0_def)
  with migration_completes [OF ok, of 5] obtain w' where w': "migrateV1 ext0 5 world6 = (Ok (), w')"
      "list_all2 (migrated ext0) (users world6) (users w')"
    by auto
  then show ?thesis
    by (auto simp: world6_def list_all2_Cons1 migrated_def)
qed

end
