(* ===== verification/Wallet.thy ===== *)
theory Wallet
  imports Stores
begin

text \<open>
  The rest of the wallet store (\<open>store/wallet/wallet.go\<close>), the recovery of the order of the outputs
  (\<open>store/wallet/recovery.go\<close>) and the order itself (\<open>internal/mixinet/utxo.go\<close>). A function that
  runs inside \<open>db.Tx\<close> is a function on the state; the transaction is one database call, which takes
  effect as a whole or not at all. The columns gorm keeps itself, \<open>created_at\<close> and \<open>updated_at\<close> of
  rows it updates, are not modelled.
\<close>

section \<open>internal/mixinet/utxo.go\<close>

text \<open>\<open>bytes.Compare\<close>.\<close>

fun bytes_compare :: "bytes \<Rightarrow> bytes \<Rightarrow> int" where
  "bytes_compare [] [] = 0"
| "bytes_compare [] (b # bs) = - 1"
| "bytes_compare (a # as) [] = 1"
| "bytes_compare (a # as) (b # bs) = (if a < b then - 1 else if a > b then 1 else bytes_compare as bs)"

definition cmpUTXO :: "MultisigUTXO \<Rightarrow> MultisigUTXO \<Rightarrow> int" where
  "cmpUTXO a b =
     (let dur = ux_CreatedAt a - ux_CreatedAt b in
      if dur > 0 then 1 else if dur < 0 then - 1
      else let r = bytes_compare (ux_TransactionHash a) (ux_TransactionHash b) in
      if r \<noteq> 0 then r
      else let i = ux_OutputIndex a; j = ux_OutputIndex b in
      if i = j then 0 else if i > j then 1 else - 1)"

text \<open>
  \<open>sort.Slice\<close> with the comparison of two outputs by their UTXOs, as an insertion sort; for outputs
  with different keys every sorting algorithm gives this list. Comparing an output without a UTXO
  dereferences a nil pointer, which happens as soon as there are two outputs to compare.
\<close>

definition utxo_less :: "Output \<Rightarrow> Output \<Rightarrow> bool" where
  "utxo_less a b \<longleftrightarrow> cmpUTXO (the (o_UTXO a)) (the (o_UTXO b)) < 0"

fun insert_output :: "Output \<Rightarrow> Output list \<Rightarrow> Output list" where
  "insert_output x [] = [x]"
| "insert_output x (y # ys) = (if utxo_less y x then y # insert_output x ys else x # y # ys)"

definition SortOutputs :: "Output list \<Rightarrow> Output list res" where
  "SortOutputs outs =
     (if 2 \<le> length outs \<and> list_ex (\<lambda>x. o_UTXO x = None) outs then Panic ''nil pointer dereference''
      else Ok (foldr insert_output outs []))"

section \<open>store/wallet/recovery.go\<close>

text \<open>
  The JSON of an output keeps its UTXO: the tag \<open>json:"-,omitempty"\<close> names the key \<open>-\<close>, it does not
  leave the field out.
\<close>

definition saveRawOutput :: "Output \<Rightarrow> world \<Rightarrow> world" where
  "saveRawOutput x w =
     (let P = (\<lambda>r. ro_TraceID r = o_TraceID x) in
      if list_ex P (rawOutputs w)
      then w\<lparr>rawOutputs := replace_rows P (\<lambda>r. r\<lparr>ro_Data := Some x, ro_Version := ro_Version r + 1\<rparr>) (rawOutputs w)\<rparr>
      else w\<lparr>rawSeq := rawSeq w + 1, rawOutputs := rawOutputs w @
        [\<lparr>ro_ID = rawSeq w + 1, ro_CreatedAt = o_CreatedAt x, ro_TraceID = o_TraceID x, ro_Version = 1, ro_Data = Some x\<rparr>]\<rparr>)"

definition findLastRawOutputID :: "(world, int) go" where
  "findLastRawOutputID = query (\<lambda>w. if rawOutputs w = [] then 0 else ro_ID (last (rawOutputs w)))"

text \<open>\<open>save\<close>: an output that is known is updated, a new one is stored (\<open>ack\<close>) or queued.\<close>

definition save :: "bool \<Rightarrow> Output \<Rightarrow> world \<Rightarrow> world" where
  "save ack x w =
     (let P = (\<lambda>r. o_TraceID r = o_TraceID x \<and> (o_ID x = 0 \<or> o_ID r = o_ID x)) in
      if list_ex P (outputs w)
      then w\<lparr>outputs := replace_rows P
        (\<lambda>r. r\<lparr>o_Data := o_Data x, o_State := o_State x, o_Version := o_Version r + 1\<rparr>) (outputs w)\<rparr>
      else if ack
      then w\<lparr>outputs := outputs w @ [x\<lparr>o_ID := if o_ID x = 0 then next_id (map o_ID (outputs w)) else o_ID x, o_UTXO := None\<rparr>]\<rparr>
      else saveRawOutput x w)"

text \<open>The length of the prefix before the last group of equal times; 0 when there is no such prefix.\<close>

fun trim_loop :: "RawOutput list \<Rightarrow> time \<Rightarrow> nat \<Rightarrow> nat" where
  "trim_loop raws t 0 = 0"
| "trim_loop raws t (Suc l) = (if ro_CreatedAt (raws ! l) \<noteq> t then Suc l else trim_loop raws t l)"

definition trimSuffix :: "RawOutput list \<Rightarrow> RawOutput list" where
  "trimSuffix raws =
     (if raws = [] then raws
      else let r = length raws - 1; n = trim_loop raws (ro_CreatedAt (raws ! r)) r
           in if n > 0 then take n raws else raws)"

text \<open>\<open>ORDER BY created_at\<close>: rows of the same time in the order of the index, by primary key.\<close>

fun insert_raw :: "RawOutput \<Rightarrow> RawOutput list \<Rightarrow> RawOutput list" where
  "insert_raw x [] = [x]"
| "insert_raw x (y # ys) = (if ro_CreatedAt x \<le> ro_CreatedAt y then x # y # ys else y # insert_raw x ys)"

definition order_raws :: "RawOutput list \<Rightarrow> RawOutput list" where
  "order_raws rs = foldr insert_raw rs []"

definition syncRawOutputs :: "int \<Rightarrow> nat \<Rightarrow> (world, nat) go" where
  "syncRawOutputs lastID limit =
     seqE (query (\<lambda>w. take limit (order_raws (filter (\<lambda>r. ro_ID r \<le> lastID) (rawOutputs w))))) (\<lambda>raws.
     if raws = [] then ret 0
     else
     let raws = (if length raws = limit then trimSuffix raws else raws) in
     if list_ex (\<lambda>r. ro_Data r = None) raws then throw (GoError ''unmarshal RawOutput failed'')
     else
     let outs = map (\<lambda>r. the (ro_Data r)) raws; ids = map ro_ID raws in
     seqE (liftR (SortOutputs outs)) (\<lambda>outs.
     seqE (dbio (\<lambda>w. (Ok (), let w' = fold (save True) outs w
         in w'\<lparr>rawOutputs := filter (\<lambda>r. ro_ID r \<notin> set ids) (rawOutputs w')\<rparr>))) (\<lambda>_.
     ret (length outs))))"

definition runSync_limit :: nat where
  "runSync_limit = 500"

text \<open>One iteration of \<open>runSync\<close>; its result only chooses the pause.\<close>

definition runSync :: "(world, nat) go" where
  "runSync = seqE (getS rawOutputID) (\<lambda>lastID. syncRawOutputs lastID runSync_limit)"

section \<open>store/wallet/wallet.go\<close>

definition wallet_Save :: "Output list \<Rightarrow> bool \<Rightarrow> (world, unit) go" where
  "wallet_Save outs atEnd =
     seqE (dbio (\<lambda>w. (Ok (), fold (save False) outs w))) (\<lambda>_.
     if atEnd
     then seqE findLastRawOutputID (\<lambda>lastID.
          if lastID > 0 then (\<lambda>w. (Ok (), w\<lparr>rawOutputID := lastID\<rparr>)) else ret ())
     else ret ())"

definition wallet_FindSpentBy :: "string \<Rightarrow> string \<Rightarrow> (world, Output) go" where
  "wallet_FindSpentBy assetID spentBy =
     seqE (query (\<lambda>w. List.find (\<lambda>x. o_AssetID x = assetID \<and> o_SpentBy x = spentBy) (outputs w))) (\<lambda>r. case r of
       None \<Rightarrow> throw (GoError ''record not found'')
     | Some x \<Rightarrow> ret (afterFindOutput x))"

definition wallet_ListSpentBy :: "string \<Rightarrow> string \<Rightarrow> (world, Output list) go" where
  "wallet_ListSpentBy assetID spentBy =
     query (\<lambda>w. map afterFindOutput (filter (\<lambda>x. o_AssetID x = assetID \<and> o_SpentBy x = spentBy) (outputs w)))"

definition wallet_ListUnspent :: "string \<Rightarrow> nat \<Rightarrow> (world, Output list) go" where
  "wallet_ListUnspent assetID limit =
     query (\<lambda>w. map afterFindOutput (take limit (filter (\<lambda>x. o_AssetID x = assetID \<and> o_SpentBy x = '''') (outputs w))))"

definition afterFindTransfer :: "Transfer \<Rightarrow> Transfer" where
  "afterFindTransfer t = (if t_Threshold t = 0 then t\<lparr>t_Threshold := length (t_Opponents t) mod 256\<rparr> else t)"

text \<open>\<open>updateTransfer\<close>; gorm drops the condition on the identifier when it is zero.\<close>

definition updateTransfer :: "Transfer \<Rightarrow> world \<Rightarrow> world" where
  "updateTransfer t w = w\<lparr>transfers := replace_rows (\<lambda>r. t_ID t = 0 \<or> t_ID r = t_ID t)
     (\<lambda>r. r\<lparr>t_Assigned := t_Assigned t, t_Handled := t_Handled t, t_Passed := t_Passed t\<rparr>) (transfers w)\<rparr>"

definition wallet_UpdateTransfer :: "Transfer \<Rightarrow> (world, unit) go" where
  "wallet_UpdateTransfer t = dbio (\<lambda>w. (Ok (), updateTransfer t w))"

definition has_status :: "TransferStatus \<Rightarrow> Transfer \<Rightarrow> bool" where
  "has_status status t = (case status of
     TransferStatusPending \<Rightarrow> \<not> t_Handled t \<and> \<not> t_Assigned t
   | TransferStatusAssigned \<Rightarrow> \<not> t_Handled t \<and> t_Assigned t
   | TransferStatusHandled \<Rightarrow> t_Handled t \<and> \<not> t_Passed t
   | TransferStatusPassed \<Rightarrow> t_Handled t \<and> t_Passed t)"

definition wallet_ListTransfers :: "TransferStatus \<Rightarrow> nat \<Rightarrow> (world, Transfer list) go" where
  "wallet_ListTransfers status limit =
     query (\<lambda>w. map afterFindTransfer (take limit (filter (has_status status) (transfers w))))"

text \<open>Inserting a transfer whose trace exists violates the unique index and rolls the transaction back.\<close>

definition assign_tx :: "Output list \<Rightarrow> Transfer \<Rightarrow> world \<Rightarrow> unit res \<times> world" where
  "assign_tx outs transfer w =
     (let ids = map o_ID outs;
         w1 = w\<lparr>outputs := replace_rows (\<lambda>r. o_ID r \<in> set ids) (\<lambda>r. r\<lparr>o_SpentBy := t_TraceID transfer\<rparr>) (outputs w)\<rparr>;
         transfer = transfer\<lparr>t_Assigned := True\<rparr>
     in if t_ID transfer > 0 then (Ok (), updateTransfer transfer w1)
        else if list_ex (\<lambda>r. t_TraceID r = t_TraceID transfer) (transfers w) then (Err DBError, w)
        else (Ok (), w1\<lparr>transfers := transfers w1 @ [transfer\<lparr>t_ID := next_id (map t_ID (transfers w1))\<rparr>]\<rparr>))"

definition wallet_Assign :: "Output list \<Rightarrow> Transfer \<Rightarrow> (world, unit) go" where
  "wallet_Assign outs transfer = dbio (assign_tx outs transfer)"

definition wallet_CreateRawTransaction :: "RawTransaction \<Rightarrow> (world, unit) go" where
  "wallet_CreateRawTransaction tx = dbio (\<lambda>w. (Ok (), w\<lparr>rawTransactions :=
     snd (first_or_create rt_ID (\<lambda>i r. r\<lparr>rt_ID := i\<rparr>) (\<lambda>r. rt_TraceID r = rt_TraceID tx) tx (rawTransactions w))\<rparr>))"

definition wallet_ListPendingRawTransactions :: "nat \<Rightarrow> (world, RawTransaction list) go" where
  "wallet_ListPendingRawTransactions limit = query (\<lambda>w. take limit (rawTransactions w))"

definition wallet_ExpireRawTransaction :: "RawTransaction \<Rightarrow> (world, unit) go" where
  "wallet_ExpireRawTransaction tx =
     dbio (\<lambda>w. (Ok (), w\<lparr>rawTransactions := filter (\<lambda>r. rt_ID r \<noteq> rt_ID tx) (rawTransactions w)\<rparr>))"

definition wallet_CountOutputs :: "(world, int) go" where
  "wallet_CountOutputs = query (\<lambda>w. if outputs w = [] then 0 else o_ID (last (outputs w)))"

definition wallet_CountUnhandledTransfers :: "(world, int) go" where
  "wallet_CountUnhandledTransfers = query (\<lambda>w. int (length (filter (\<lambda>t. \<not> t_Handled t) (transfers w))))"

section \<open>The rows of a batch\<close>

lemma SortOutputs_set: "SortOutputs outs = Ok outs' \<Longrightarrow> set outs' = set outs"
proof -
  have "set (insert_output x ys) = insert x (set ys)" for x ys
    by (induction ys) auto
  then have "set (foldr insert_output xs []) = set xs" for xs
    by (induction xs) simp_all
  then show "SortOutputs outs = Ok outs' \<Longrightarrow> set outs' = set outs"
    by (auto simp: SortOutputs_def split: if_splits)
qed

lemma order_raws_set [simp]: "set (order_raws rs) = set rs"
proof -
  have "set (insert_raw x ys) = insert x (set ys)" for x ys
    by (induction ys) auto
  then show ?thesis
    unfolding order_raws_def by (induction rs) simp_all
qed

lemma trimSuffix_set: "set (trimSuffix raws) \<subseteq> set raws"
  by (auto simp: trimSuffix_def Let_def dest: in_set_takeD)

end
