(* ===== verification/Workers.thy ===== *)
theory Workers
  imports Wallet
begin

text \<open>
  The workers that move money and messages between the stores and the Mixin network: the assigner, the
  cashier, the spent-sync, the syncer, the sender of raw transactions and the messenger, with the wallet
  and message services they call. The Mixin SDK and the network are the record \<open>client\<close>; a call of the
  API is told how many calls were made before it, so that every answer may differ. Each worker's \<open>Run\<close>
  calls its \<open>run\<close> over and over with a pause: the steps of the node in theory \<open>Node\<close>. The messenger's
  cache of conversations never forgets here; the real one drops the oldest, which costs one more call.
\<close>

section \<open>The Mixin SDK\<close>

record TransactionInput =
  ti_Memo :: string
  ti_Hint :: string
  ti_UTXOs :: "MultisigUTXO list"
  ti_Receivers :: "string list"
  ti_Threshold :: nat
  ti_Amount :: rat

record MultisigRequest =
  mq_RequestID :: string
  mq_AssetID :: string
  mq_Memo :: string
  mq_Amount :: rat
  mq_Receivers :: "string list"
  mq_Signers :: "string list"
  mq_Threshold :: nat
  mq_RawTransaction :: string

record MixinOutput =
  mo_Type :: int
  mo_Amount :: string
  mo_Script :: string
  mo_Keys :: nat

record MixinTransaction =
  mt_Extra :: string
  mt_Outputs :: "MixinOutput list"
  mt_Signed :: bool  \<comment> \<open>\<open>AggregatedSignature\<close> is set or \<open>Signatures\<close> is not empty\<close>

datatype api_error = ApiCode int | ApiFailure

record client =
  cl_ClientID :: string
  cl_StateSpent :: string                       \<comment> \<open>\<open>mixin.UTXOStateSpent\<close>\<close>
  cl_StateSigned :: string                      \<comment> \<open>\<open>mixin.UTXOStateSigned\<close>\<close>
  cl_ReadMultisigOutputs :: "nat \<Rightarrow> time \<Rightarrow> nat \<Rightarrow> MultisigUTXO list option"
  cl_MakeMultisigTransaction :: "nat \<Rightarrow> TransactionInput \<Rightarrow> string option" \<comment> \<open>dumped\<close>
  cl_CreateMultisig :: "nat \<Rightarrow> string \<Rightarrow> MultisigRequest option"
  cl_SignMultisig :: "nat \<Rightarrow> string \<Rightarrow> MultisigRequest option"
  cl_TransactionFromRaw :: "string \<Rightarrow> MixinTransaction option"
  cl_TransactionHash :: "string \<Rightarrow> string option" \<comment> \<open>hash of a decoded raw transaction\<close>
  cl_IntegerString :: "rat \<Rightarrow> string"           \<comment> \<open>\<open>NewIntegerFromDecimal(d).String()\<close>\<close>
  cl_ThresholdScript :: "nat \<Rightarrow> string"         \<comment> \<open>\<open>NewThresholdScript(n).String()\<close>\<close>
  cl_VerifyPayment :: "nat \<Rightarrow> Transfer \<Rightarrow> string option"
  cl_URLCodes :: "string \<Rightarrow> string"              \<comment> \<open>\<open>mixin.URL.Codes\<close>\<close>
  cl_SendRawTransaction :: "nat \<Rightarrow> string \<Rightarrow> api_error + bool" \<comment> \<open>whether there is a snapshot\<close>
  cl_GetTransaction :: "nat \<Rightarrow> string \<Rightarrow> bool option"
  cl_polls :: "nat \<Rightarrow> nat"                      \<comment> \<open>how many ticks fit before the timeout\<close>
  cl_InvalidSignature :: int                    \<comment> \<open>\<open>mixin.InvalidSignature\<close>\<close>
  cl_SendRawMessages :: "nat \<Rightarrow> Message list \<Rightarrow> api_error option"
  cl_SendRawMessage :: "nat \<Rightarrow> Message \<Rightarrow> api_error option"
  cl_CreateContactConversation :: "nat \<Rightarrow> string \<Rightarrow> api_error option"
  cl_md5 :: "bytes \<Rightarrow> bytes"                    \<comment> \<open>\<open>crypto/md5\<close>\<close>
  cl_UnmarshalTransferAction :: "bytes \<Rightarrow> TransferAction option" \<comment> \<open>\<open>json.Unmarshal\<close>\<close>
  cl_ParseTime :: "string \<Rightarrow> time"              \<comment> \<open>\<open>property.Value.Time\<close>\<close>
  cl_FormatTime :: "time \<Rightarrow> string"             \<comment> \<open>a time as \<open>property.Store\<close> saves it\<close>

definition api :: "(nat \<Rightarrow> 'a) \<Rightarrow> (world, 'a) go" where
  "api f = (\<lambda>w. (Ok (f (net w)), w\<lparr>net := net w + 1\<rparr>))"

text \<open>An API call whose failure is returned as an error.\<close>

definition apiE :: "(nat \<Rightarrow> 'a option) \<Rightarrow> (world, 'a) go" where
  "apiE f = seqE (api f) (\<lambda>r. case r of None \<Rightarrow> throw (GoError ''mixin'') | Some x \<Rightarrow> ret x)"

text \<open>
  \<open>errgroup.Group\<close>: the function is called on every element, whatever happens to the others, and the
  first error is returned.
\<close>

fun groupE :: "('a \<Rightarrow> (world, unit) go) \<Rightarrow> err option \<Rightarrow> 'a list \<Rightarrow> (world, unit) go" where
  "groupE f first [] = (case first of None \<Rightarrow> ret () | Some e \<Rightarrow> throw e)"
| "groupE f first (x # xs) =
     tryE (f x) (\<lambda>e. groupE f (case first of None \<Rightarrow> Some e | Some e' \<Rightarrow> Some e') xs) (\<lambda>_. groupE f first xs)"

section \<open>service/wallet/wallet.go\<close>

definition convertUTXO :: "MultisigUTXO \<Rightarrow> Output" where
  "convertUTXO raw = \<lparr>o_ID = 0, o_CreatedAt = ux_CreatedAt raw, o_UpdatedAt = ux_UpdatedAt raw, o_Version = 0,
     o_TraceID = ux_UTXOID raw, o_AssetID = ux_AssetID raw, o_Sender = ux_Sender raw, o_Amount = ux_Amount raw,
     o_Memo = ux_Memo raw, o_State = ux_State raw, o_SpentBy = '''', o_Data = Some raw, o_UTXO = Some raw\<rparr>"

definition Pull :: "client \<Rightarrow> time \<Rightarrow> nat \<Rightarrow> (world, Output list) go" where
  "Pull C offset limit =
     seqE (apiE (\<lambda>n. cl_ReadMultisigOutputs C n offset limit)) (\<lambda>outs. ret (map convertUTXO outs))"

text \<open>The loop of \<open>signTransaction\<close>: the UTXOs of outputs in the same state with the same transaction.\<close>

fun sign_inputs :: "string \<Rightarrow> string \<Rightarrow> Output list \<Rightarrow> (world, MultisigUTXO list) go" where
  "sign_inputs state signedTx [] = ret []"
| "sign_inputs state signedTx (x # xs) = (case o_UTXO x of
     None \<Rightarrow> panic ''nil pointer dereference''
   | Some u \<Rightarrow>
       if o_State x = state \<and> ux_SignedTx u = signedTx
       then seqE (sign_inputs state signedTx xs) (\<lambda>us. ret (u # us))
       else throw (GoError ''state not match''))"

definition signTransaction :: "client \<Rightarrow> Output list \<Rightarrow> Transfer \<Rightarrow> (world, string \<times> string) go" where
  "signTransaction C outs transfer = (case outs of
     [] \<Rightarrow> ret (cl_StateSpent C, '''')
   | x # _ \<Rightarrow> (case o_UTXO x of
       None \<Rightarrow> panic ''nil pointer dereference''
     | Some u \<Rightarrow>
         (let state = o_State x; signedTx = ux_SignedTx u in
          seqE (sign_inputs state signedTx outs) (\<lambda>us.
          if signedTx \<noteq> '''' then ret (state, signedTx)
          else seqE (apiE (\<lambda>n. cl_MakeMultisigTransaction C n \<lparr>ti_Memo = t_Memo transfer, ti_Hint = t_TraceID transfer,
                 ti_UTXOs = us, ti_Receivers = t_Opponents transfer, ti_Threshold = t_Threshold transfer,
                 ti_Amount = t_Amount transfer\<rparr>)) (\<lambda>tx.
               ret (cl_StateSigned C, tx))))))"

definition validateMultisig :: "ext \<Rightarrow> MultisigRequest \<Rightarrow> Transfer \<Rightarrow> (world, unit) go" where
  "validateMultisig X req transfer =
     (if mq_AssetID req \<noteq> t_AssetID transfer then throw (GoError ''asset id not match'')
      else if mq_Memo req \<noteq> t_Memo transfer then throw (GoError ''memo not match'')
      else if mq_Amount req \<noteq> t_Amount transfer then throw (GoError ''amount not match'')
      else if hashMembers X (mq_Receivers req) \<noteq> hashMembers X (t_Opponents transfer) then throw (GoError ''receivers not match'')
      else ret ())"

text \<open>The loop over the outputs: the payment first, then the change back to the group.\<close>

fun validate_outputs :: "client \<Rightarrow> System \<Rightarrow> Transfer \<Rightarrow> nat \<Rightarrow> MixinOutput list \<Rightarrow> (world, unit) go" where
  "validate_outputs C S transfer idx [] = ret ()"
| "validate_outputs C S transfer idx (x # xs) =
     (if idx = 0
      then if mo_Type x \<noteq> 0 then throw (GoError ''first output type not matched'')
           else if cl_IntegerString C (t_Amount transfer) \<noteq> mo_Amount x then throw (GoError ''amount not match'')
           else if cl_ThresholdScript C (t_Threshold transfer) \<noteq> mo_Script x then throw (GoError ''first output script not matched'')
           else if mo_Keys x \<noteq> length (t_Opponents transfer) then throw (GoError ''receivers not match'')
           else validate_outputs C S transfer (idx + 1) xs
      else if cl_ThresholdScript C (Threshold S) \<noteq> mo_Script x then throw (GoError ''first output script not matched'')
           else if mo_Keys x \<noteq> length (MemberIDs S) then throw (GoError ''receivers not match'')
           else validate_outputs C S transfer (idx + 1) xs)"

definition validateTransaction :: "client \<Rightarrow> System \<Rightarrow> MixinTransaction \<Rightarrow> Transfer \<Rightarrow> (world, unit) go" where
  "validateTransaction C S tx transfer =
     (if mt_Extra tx \<noteq> t_Memo transfer then throw (GoError ''memo not match'')
      else validate_outputs C S transfer 0 (mt_Outputs tx))"

definition Spend :: "ext \<Rightarrow> client \<Rightarrow> System \<Rightarrow> Output list \<Rightarrow> Transfer \<Rightarrow> (world, RawTransaction option) go" where
  "Spend X C S outs transfer =
     seqE (signTransaction C outs transfer) (\<lambda>(state, tx).
     if state = cl_StateSpent C
     then (case cl_TransactionFromRaw C tx of
         None \<Rightarrow> throw (GoError ''TransactionFromRaw'')
       | Some tx \<Rightarrow> seqE (validateTransaction C S tx transfer) (\<lambda>_. ret None))
     else if state = cl_StateSigned C
     then seqE (apiE (\<lambda>n. cl_CreateMultisig C n tx)) (\<lambda>sig.
          seqE (if cl_ClientID C \<notin> set (mq_Signers sig)
                then seqE (validateMultisig X sig transfer) (\<lambda>_.
                     apiE (\<lambda>n. cl_SignMultisig C n (mq_RequestID sig)))
                else ret sig) (\<lambda>sig.
          if length (mq_Signers sig) \<ge> mq_Threshold sig
          then (case cl_TransactionFromRaw C (mq_RawTransaction sig) of
              None \<Rightarrow> throw (GoError ''TransactionFromRaw'')
            | Some tx \<Rightarrow>
                if \<not> mt_Signed tx then throw (GoError ''generate raw transaction failed, empty signatures'')
                else ret (Some \<lparr>rt_ID = 0, rt_TraceID = t_TraceID transfer, rt_Data = mq_RawTransaction sig\<rparr>))
          else ret None))
     else throw (GoError ''cannot consume unsigned utxo''))"

text \<open>\<open>service/wallet/replay.go\<close>: only outputs that are spent already.\<close>

definition replay_Spend ::
  "client \<Rightarrow> (Output list \<Rightarrow> Transfer \<Rightarrow> (world, RawTransaction option) go) \<Rightarrow> Output list \<Rightarrow> Transfer \<Rightarrow> (world, RawTransaction option) go" where
  "replay_Spend C spend outs transfer =
     (if list_ex (\<lambda>x. o_State x \<noteq> cl_StateSpent C) outs then throw (GoError ''state not allowed'')
      else spend outs transfer)"

definition ReqTransfer :: "client \<Rightarrow> Transfer \<Rightarrow> (world, string) go" where
  "ReqTransfer C transfer = apiE (\<lambda>n. cl_VerifyPayment C n (transfer\<lparr>t_Amount := dec_truncate 8 (t_Amount transfer)\<rparr>))"

section \<open>worker/assigner/assigner.go\<close>

definition unspent_limit :: nat where
  "unspent_limit = 32"

text \<open>The loop that picks outputs until their sum covers the amount, or all of them when wiping.\<close>

fun pick :: "bool \<Rightarrow> rat \<Rightarrow> rat \<Rightarrow> Output list \<Rightarrow> Output list \<times> rat" where
  "pick wipe amount acc [] = ([], acc)"
| "pick wipe amount acc (x # xs) =
     (let acc = acc + o_Amount x in
      if \<not> wipe \<and> acc \<ge> amount then ([x], acc)
      else (case pick wipe amount acc xs of (ys, s) \<Rightarrow> (x # ys, s)))"

definition assigner_commit :: "Output list \<Rightarrow> Transfer \<Rightarrow> (world, unit) go" where
  "assigner_commit outs transfer = wallet_Assign outs transfer"

definition merge_transfer :: "ext \<Rightarrow> System \<Rightarrow> Transfer \<Rightarrow> Output list \<Rightarrow> rat \<Rightarrow> Transfer" where
  "merge_transfer X S transfer outs covered = zero_transfer\<lparr>
     t_TraceID := uuidModify X (t_TraceID transfer) (hashMembers X (map o_TraceID outs)),
     t_Version := t_Version transfer,
     t_AssetID := t_AssetID transfer,
     t_Amount := covered,
     t_Opponents := MemberIDs S,
     t_Threshold := Threshold S,
     t_Memo := ''merge for '' @ t_TraceID transfer\<rparr>"

definition assigner_handleTransfer :: "ext \<Rightarrow> System \<Rightarrow> Transfer \<Rightarrow> (world, unit) go" where
  "assigner_handleTransfer X S transfer =
     seqE (wallet_ListUnspent (t_AssetID transfer) unspent_limit) (\<lambda>outs.
     let wipe = (length outs = unspent_limit \<and> o_ID (outs ! (unspent_limit - 1)) \<le> t_Version transfer);
         (outs, covered) = pick wipe (t_Amount transfer) 0 outs in
     if covered < t_Amount transfer
     then if length outs = unspent_limit
          then seqE (assigner_commit outs (merge_transfer X S transfer outs covered)) (\<lambda>_.
               throw (GoError ''output merge required''))
          else throw (GoError ''insufficient balance'')
     else assigner_commit outs transfer)"

text \<open>The loop of \<open>run\<close>: an asset whose transfer failed is left for the next round.\<close>

fun assign_loop :: "ext \<Rightarrow> System \<Rightarrow> string list \<Rightarrow> Transfer list \<Rightarrow> (world, unit) go" where
  "assign_loop X S aborted [] = (if aborted \<noteq> [] then throw (GoError ''aborted'') else ret ())"
| "assign_loop X S aborted (t # ts) =
     (if t_AssetID t \<in> set aborted then assign_loop X S aborted ts
      else tryE (assigner_handleTransfer X S t)
        (\<lambda>_. assign_loop X S (t_AssetID t # aborted) ts) (\<lambda>_. assign_loop X S aborted ts))"

definition assigner_run :: "ext \<Rightarrow> System \<Rightarrow> (world, unit) go" where
  "assigner_run X S = seqE (wallet_ListTransfers TransferStatusPending 100) (assign_loop X S [])"

section \<open>worker/cashier/cashier.go\<close>

text \<open>\<open>spendf\<close> is the wallet service's \<open>Spend\<close>, in normal or in replay mode.\<close>

definition cashier_spend ::
  "(Output list \<Rightarrow> Transfer \<Rightarrow> (world, RawTransaction option) go) \<Rightarrow> Output list \<Rightarrow> Transfer \<Rightarrow> (world, unit) go" where
  "cashier_spend spendf outs transfer =
     seqE (spendf outs transfer) (\<lambda>tx.
     seqE (case tx of Some tx \<Rightarrow> wallet_CreateRawTransaction tx | None \<Rightarrow> ret ()) (\<lambda>_.
     wallet_UpdateTransfer (transfer\<lparr>t_Handled := True\<rparr>)))"

definition cashier_handleTransfer ::
  "(Output list \<Rightarrow> Transfer \<Rightarrow> (world, RawTransaction option) go) \<Rightarrow> Transfer \<Rightarrow> (world, unit) go" where
  "cashier_handleTransfer spendf transfer =
     seqE (wallet_ListSpentBy (t_AssetID transfer) (t_TraceID transfer)) (\<lambda>outs.
     if outs = [] then ret () else cashier_spend spendf outs transfer)"

definition cashier_sync ::
  "(Output list \<Rightarrow> Transfer \<Rightarrow> (world, RawTransaction option) go) \<Rightarrow> Transfer list \<Rightarrow> (world, unit) go" where
  "cashier_sync spendf ts = forE ts (cashier_handleTransfer spendf)"

text \<open>
  The other mode handles the transfers concurrently; a goroutine's work is taken as a whole, and \<open>arrange\<close>
  is the order in which they happen to run.
\<close>

definition cashier_parallel ::
  "(Output list \<Rightarrow> Transfer \<Rightarrow> (world, RawTransaction option) go) \<Rightarrow> (Transfer list \<Rightarrow> Transfer list) \<Rightarrow> Transfer list \<Rightarrow> (world, unit) go" where
  "cashier_parallel spendf arrange ts = groupE (cashier_handleTransfer spendf) None (arrange ts)"

definition cashier_run :: "(Transfer list \<Rightarrow> (world, unit) go) \<Rightarrow> nat \<Rightarrow> (world, unit) go" where
  "cashier_run f batch =
     seqE (wallet_ListTransfers TransferStatusAssigned batch) (\<lambda>ts.
     if ts = [] then throw (GoError ''EOF'') else f ts)"

section \<open>worker/spentsync/spentsync.go and BuildTransactionFromTransfer\<close>

definition BuildTransactionFromTransfer :: "client \<Rightarrow> Transfer \<Rightarrow> string \<Rightarrow> Transaction option" where
  "BuildTransactionFromTransfer C transfer snapshotTraceID =
     (case cl_UnmarshalTransferAction C (decodeTransferMemo (t_Memo transfer)) of
        None \<Rightarrow> None
      | Some a \<Rightarrow>
          (let userID = (case t_Opponents transfer of [] \<Rightarrow> '''' | u # _ \<Rightarrow> u);
               extra = Put ''origin'' (JInt (actionCode (a_Origin a))) NewTransactionExtra;
               extra = (if a_Code a > 0 then Put ''error_code'' (JInt (a_Code a)) extra else extra);
               action = (if a_Source a = ActionTypeDefault then ActionTypeProposalTransfer else a_Source a)
           in Some (zero_transaction\<lparr>tx_UserID := userID, tx_Action := action, tx_TraceID := t_TraceID transfer,
                tx_FollowID := a_FollowID a, tx_Amount := t_Amount transfer, tx_AssetID := t_AssetID transfer,
                tx_SnapshotTraceID := snapshotTraceID, tx_Data := extra\<rparr>)))"

unbundle bit_operations_syntax

text \<open>
  The identifier of the first output of a raw transaction: an MD5 digest made a UUID of version 3. The
  bytes of \<open>big.Int\<close> 0 are none.
\<close>

definition index_bytes :: "nat \<Rightarrow> bytes" where
  "index_bytes index = (if index = 0 then [] else [of_nat index])"

definition uuid_v3 :: "bytes \<Rightarrow> bytes" where
  "uuid_v3 s = s[6 := ((s ! 6) AND 0x0f) OR 0x30, 8 := ((s ! 8) AND 0x3f) OR 0x80]"

definition mixinRawTransactionTraceID :: "ext \<Rightarrow> client \<Rightarrow> string \<Rightarrow> nat \<Rightarrow> string option" where
  "mixinRawTransactionTraceID X C hash index =
     (case uuidOfBytes X (uuid_v3 (cl_md5 C (bytes_of_string hash @ index_bytes index))) of
        None \<Rightarrow> None | Some sid \<Rightarrow> Some (uuidToString X sid))"

definition snapshotTraceID :: "ext \<Rightarrow> client \<Rightarrow> string \<Rightarrow> string option" where
  "snapshotTraceID X C signedTx = (case cl_TransactionHash C signedTx of
     None \<Rightarrow> None | Some hash \<Rightarrow> mixinRawTransactionTraceID X C hash 0)"

definition spentsync_handleTransfer :: "ext \<Rightarrow> client \<Rightarrow> Transfer \<Rightarrow> (world, unit) go" where
  "spentsync_handleTransfer X C transfer =
     tryE (wallet_FindSpentBy (t_AssetID transfer) (t_TraceID transfer))
       (\<lambda>e. if e = GoError ''record not found'' then ret () else throw e) (\<lambda>out.
     if o_State out \<noteq> cl_StateSpent C then ret ()
     else (case o_UTXO out of
         None \<Rightarrow> panic ''nil pointer dereference''
       | Some u \<Rightarrow>
           if ux_SignedTx u = '''' then ret ()
           else (case snapshotTraceID X C (ux_SignedTx u) of
               None \<Rightarrow> ret ()
             | Some trace \<Rightarrow>
                 seqE (case BuildTransactionFromTransfer C transfer trace of
                     None \<Rightarrow> ret ()
                   | Some tx \<Rightarrow> seqE (transaction_Create tx) (\<lambda>_. ret ())) (\<lambda>_.
                 wallet_UpdateTransfer (transfer\<lparr>t_Passed := True\<rparr>)))))"

definition spentsync_run :: "ext \<Rightarrow> client \<Rightarrow> (world, unit) go" where
  "spentsync_run X C =
     seqE (wallet_ListTransfers TransferStatusHandled 100) (\<lambda>ts.
     if ts = [] then throw (GoError ''EOF'')
     else forE ts (\<lambda>t. tryE (spentsync_handleTransfer X C t) (\<lambda>_. ret ()) ret))"

section \<open>worker/syncer/syncer.go\<close>

definition syncer_checkpointKey :: string where
  "syncer_checkpointKey = ''sync_checkpoint''"

definition syncer_run :: "client \<Rightarrow> (world, unit) go" where
  "syncer_run C =
     seqE (property_Get syncer_checkpointKey) (\<lambda>v.
     let offset = cl_ParseTime C v in
     seqE (Pull C offset 500) (\<lambda>outs.
     if outs = [] then throw (GoError ''EOF'')
     else
     let nextOffset = o_UpdatedAt (last outs); atEnd = (length outs < 500) in
     seqE (wallet_Save outs atEnd) (\<lambda>_.
     property_Save syncer_checkpointKey (cl_FormatTime C nextOffset))))"

section \<open>worker/txsender/sender.go\<close>

fun poll_snapshot :: "client \<Rightarrow> string \<Rightarrow> nat \<Rightarrow> (world, unit) go" where
  "poll_snapshot C hash 0 = throw (GoError ''mixin net snapshot not generated'')"
| "poll_snapshot C hash (Suc k) =
     seqE (apiE (\<lambda>n. cl_GetTransaction C n hash)) (\<lambda>snapshot.
     if snapshot then ret () else poll_snapshot C hash k)"

definition submitRawTransaction :: "client \<Rightarrow> string \<Rightarrow> (world, unit) go" where
  "submitRawTransaction C raw =
     seqE (api (\<lambda>n. cl_SendRawTransaction C n raw)) (\<lambda>r. case r of
       Inl e \<Rightarrow> if e = ApiCode (cl_InvalidSignature C) then ret () else throw (GoError ''SendRawTransaction'')
     | Inr snapshot \<Rightarrow>
         if snapshot then ret ()
         else (let txHash = (case cl_TransactionHash C raw of None \<Rightarrow> '''' | Some h \<Rightarrow> h) in
              seqE (api (cl_polls C)) (\<lambda>k. poll_snapshot C txHash k)))"

definition handleRawTransaction :: "client \<Rightarrow> RawTransaction \<Rightarrow> (world, unit) go" where
  "handleRawTransaction C tx =
     seqE (submitRawTransaction C (rt_Data tx)) (\<lambda>_. wallet_ExpireRawTransaction tx)"

definition txsender_run :: "client \<Rightarrow> (RawTransaction list \<Rightarrow> RawTransaction list) \<Rightarrow> (world, unit) go" where
  "txsender_run C arrange =
     seqE (wallet_ListPendingRawTransactions 20) (\<lambda>txs.
     if txs = [] then throw (GoError ''EOF'') else groupE (handleRawTransaction C) None (arrange txs))"

section \<open>service/message/message.go and worker/messenger/messenger.go\<close>

definition parseSendMessageErr :: "api_error option \<Rightarrow> api_error option" where
  "parseSendMessageErr e = (if e = Some (ApiCode 10002) then None else e)"

text \<open>What the API accepts, or reports as forbidden, counts as delivered.\<close>

definition deliver :: "(nat \<Rightarrow> api_error option) \<Rightarrow> Message list \<Rightarrow> (world, unit) go" where
  "deliver f ms = seqE (api f) (\<lambda>r. case parseSendMessageErr r of
     Some e \<Rightarrow> throw (GoError ''SendRawMessages'')
   | None \<Rightarrow> (\<lambda>w. (Ok (), w\<lparr>delivered := delivered w @ ms\<rparr>)))"

text \<open>The node's own messages are left out.\<close>

definition message_Send :: "client \<Rightarrow> Message list \<Rightarrow> bool \<Rightarrow> (world, unit) go" where
  "message_Send C ms batch =
     (let raws = filter (\<lambda>m. msg_UserID m \<noteq> cl_ClientID C) ms in
      if batch then deliver (\<lambda>n. cl_SendRawMessages C n raws) raws
      else forE raws (\<lambda>m. deliver (\<lambda>n. cl_SendRawMessage C n m) [m]))"

definition message_Meet :: "client \<Rightarrow> string \<Rightarrow> (world, unit) go" where
  "message_Meet C userID =
     (if userID = cl_ClientID C then ret ()
      else seqE (api (\<lambda>n. cl_CreateContactConversation C n userID)) (\<lambda>r.
        if r = None \<or> r = Some (ApiCode 10002) then ret () else throw (GoError ''CreateContactConversation'')))"

definition messenger_batch :: nat where
  "messenger_batch = 70"

text \<open>The loop of \<open>run\<close>: the first message of each user, up to the size of a batch.\<close>

fun select_messages :: "client \<Rightarrow> string list \<Rightarrow> Message list \<Rightarrow> Message list \<Rightarrow> (world, Message list) go" where
  "select_messages C seen acc [] = ret acc"
| "select_messages C seen acc (m # ms) =
     (if msg_UserID m \<in> set seen then select_messages C seen acc ms
      else
      seqE (getS conversations) (\<lambda>known.
      seqE (if msg_UserID m \<notin> set known
            then seqE (message_Meet C (msg_UserID m)) (\<lambda>_.
                 (\<lambda>w. (Ok (), w\<lparr>conversations := msg_UserID m # conversations w\<rparr>)))
            else ret ()) (\<lambda>_.
      let acc = acc @ [m] in
      if length acc \<ge> messenger_batch then ret acc
      else select_messages C (msg_UserID m # seen) acc ms)))"

definition messenger_run :: "client \<Rightarrow> (world, unit) go" where
  "messenger_run C =
     seqE (message_List 300) (\<lambda>ms.
     if ms = [] then throw (GoError ''list messages: EOF'')
     else
     seqE (select_messages C [] [] ms) (\<lambda>ms.
     seqE (message_Send C ms True) (\<lambda>_.
     message_Delete ms)))"

end
