(* ===== verification/Server.thy ===== *)
theory Server
  imports Workers Payee_Dispatch
begin

text \<open>
  The server (\<open>handler/rest\<close>, \<open>handler/rpc/service.go\<close>, \<open>handler/views\<close>): market views, price requests
  for the oracles, payment requests for the users and the pages of proposals. A handler that answers
  with \<open>render.BadRequest\<close> returns the error. The current time, where a handler asks for it, is the
  argument \<open>now\<close>; \<open>decimal.NewFromString\<close> is the argument \<open>parse\<close>.
\<close>

section \<open>handler/rest/market.go\<close>

definition CurBorrowRate :: "ext \<Rightarrow> Market \<Rightarrow> rat" where
  "CurBorrowRate X market =
     (let borrowRatePerBlock = GetBorrowRatePerBlock X
            (UtilizationRate X (m_TotalCash market) (m_TotalBorrows market) (m_Reserves market))
            (m_BaseRate market) (m_Multiplier market) (m_JumpMultiplier market) (m_Kink market)
      in dec_truncate MaxPricision (borrowRatePerBlock * BlocksPerYear))"

definition CurSupplyRate :: "ext \<Rightarrow> Market \<Rightarrow> rat" where
  "CurSupplyRate X market =
     (let supplyRatePerBlock = GetSupplyRatePerBlock X
            (UtilizationRate X (m_TotalCash market) (m_TotalBorrows market) (m_Reserves market))
            (m_BaseRate market) (m_Multiplier market) (m_JumpMultiplier market) (m_Kink market) (m_ReserveFactor market)
      in dec_truncate MaxPricision (supplyRatePerBlock * BlocksPerYear))"

record MarketView =
  mv_Market :: Market
  mv_SupplyAPY :: rat
  mv_BorrowAPY :: rat
  mv_Suppliers :: int
  mv_Borrowers :: int

text \<open>\<open>n, e := count(...); if e != nil { n = 0 }\<close>.\<close>

definition count_or_zero :: "(world, int) go \<Rightarrow> (world, int) go" where
  "count_or_zero m = tryE m (\<lambda>_. ret 0) ret"

definition getMarketView :: "ext \<Rightarrow> Market \<Rightarrow> (world, MarketView) go" where
  "getMarketView X market =
     (let supplyRate = CurSupplyRate X market; borrowRate = CurBorrowRate X market in
      seqE (count_or_zero (supply_CountOfSuppliers (m_CTokenAssetID market))) (\<lambda>countOfSupplies.
      seqE (count_or_zero (borrow_CountOfBorrowers (m_AssetID market))) (\<lambda>countOfBorrows.
      ret \<lparr>mv_Market = market, mv_SupplyAPY = supplyRate, mv_BorrowAPY = borrowRate,
        mv_Suppliers = countOfSupplies, mv_Borrowers = countOfBorrows\<rparr>)))"

definition allMarketsHandler :: "ext \<Rightarrow> (world, MarketView list) go" where
  "allMarketsHandler X =
     seqE market_All (\<lambda>ms.
     foldE ms [] (\<lambda>m views. seqE (getMarketView X m) (\<lambda>v. ret (views @ [v]))))"

section \<open>handler/rest/price_requests.go\<close>

record PriceRequest =
  pq_TraceID :: string
  pq_AssetID :: string
  pq_Symbol :: string
  pq_Members :: "string list"
  pq_ReceiverThreshold :: nat
  pq_Signers :: "Signer list"
  pq_Threshold :: nat

definition ten_minutes :: int where
  "ten_minutes = 10 * 60 * 1000000000"

definition price_due :: "time \<Rightarrow> Market \<Rightarrow> bool" where
  "price_due now m \<longleftrightarrow> m_PriceThreshold m > 0 \<and> now > m_PriceUpdatedAt m + ten_minutes"

definition price_trace :: "ext \<Rightarrow> System \<Rightarrow> time \<Rightarrow> Market \<Rightarrow> string" where
  "price_trace X S now m =
     uuidModify X (m_AssetID m) (''price-request:'' @ ClientID S @ '':'' @ itoa (unix_seconds now div 600))"

text \<open>
  A key that does not decode ends in \<open>render.BadRequest(w, e)\<close> with the nil error of the query before,
  which \<open>Error\<close> dereferences; so does a failure of \<open>FindAll\<close>.
\<close>

definition priceRequestsHandler :: "ext \<Rightarrow> System \<Rightarrow> time \<Rightarrow> (world, PriceRequest list) go" where
  "priceRequestsHandler X S now =
     seqE market_All (\<lambda>markets.
     let members = map mb_ClientID (Members S) in
     tryE signer_FindAll (\<lambda>_. panic ''nil pointer dereference'') (\<lambda>ss.
     tryE (build_signers X 0 ss) (\<lambda>_. panic ''nil pointer dereference'') (\<lambda>signers.
     ret (map (\<lambda>m. \<lparr>pq_TraceID = price_trace X S now m, pq_AssetID = m_AssetID m, pq_Symbol = m_Symbol m,
         pq_Members = members, pq_ReceiverThreshold = Threshold S, pq_Signers = signers,
         pq_Threshold = nat (m_PriceThreshold m mod 256)\<rparr>)
       (filter (price_due now) markets)))))"

section \<open>handler/rest/pay_requests.go and PayRequest of handler/rpc/service.go\<close>

record PayReq =
  pr_MemoBase64 :: string
  pr_AssetID :: string
  pr_TraceID :: string
  pr_FollowID :: string

definition follow_bytes :: "ext \<Rightarrow> string \<Rightarrow> bytes" where
  "follow_bytes X s = (case uuidFromString X s of
     Some follow \<Rightarrow> if follow \<noteq> uuid_Nil then follow else [] | None \<Rightarrow> [])"

text \<open>The transfer input of a payment, as the fields of a transfer.\<close>

definition pay_input :: "ext \<Rightarrow> System \<Rightarrow> PayReq \<Rightarrow> rat \<Rightarrow> bytes \<Rightarrow> Transfer" where
  "pay_input X S req amount data = zero_transfer\<lparr>
     t_AssetID := (if pr_AssetID req \<noteq> '''' then pr_AssetID req else VoteAsset S),
     t_Amount := amount,
     t_TraceID := pr_TraceID req,
     t_Memo := StdEncode (EncodeTransactionAction X \<lparr>ta_FollowID = follow_bytes X (pr_FollowID req), ta_Body = data\<rparr>),
     t_Opponents := MemberIDs S,
     t_Threshold := Threshold S\<rparr>"

text \<open>\<open>POST /pay-requests\<close>: the amount is a decimal of the JSON body, used when it is positive.\<close>

definition payRequestsHandler :: "ext \<Rightarrow> client \<Rightarrow> System \<Rightarrow> PayReq \<Rightarrow> rat \<Rightarrow> (world, string \<times> Transfer) go" where
  "payRequestsHandler X C S req amount = (case StdDecode (pr_MemoBase64 req) of
     None \<Rightarrow> throw (GoError ''base64'')
   | Some data \<Rightarrow>
       (let input = pay_input X S req (if amount > 0 then amount else VoteAmount S) data in
        seqE (apiE (\<lambda>n. cl_VerifyPayment C n input)) (\<lambda>code.
        ret (cl_URLCodes C code, input))))"

text \<open>
  The RPC takes the amount as text: any text replaces the default, and what \<open>decimal.NewFromString\<close>
  refuses is taken as zero.
\<close>

definition rpc_PayRequest ::
  "ext \<Rightarrow> client \<Rightarrow> System \<Rightarrow> (string \<Rightarrow> rat option) \<Rightarrow> PayReq \<Rightarrow> string \<Rightarrow> (world, string \<times> Transfer) go" where
  "rpc_PayRequest X C S parse req amount = (case StdDecode (pr_MemoBase64 req) of
     None \<Rightarrow> throw (GoError ''base64'')
   | Some data \<Rightarrow>
       (let input = pay_input X S req
              (if amount \<noteq> '''' then case parse amount of Some d \<Rightarrow> d | None \<Rightarrow> 0 else VoteAmount S) data in
        seqE (apiE (\<lambda>n. cl_VerifyPayment C n input)) (\<lambda>code.
        ret (cl_URLCodes C code, input))))"

section \<open>handler/rpc/service.go\<close>

definition int32 :: "int \<Rightarrow> int" where
  "int32 i = (i + 2 ^ 31) mod 2 ^ 32 - 2 ^ 31"

text \<open>Decimals are rendered as text in the messages of the RPC; the times gorm keeps are left out.\<close>

record RPCMarket =
  rm_Id :: int
  rm_AssetId :: string
  rm_Symbol :: string
  rm_CtokenAssetId :: string
  rm_TotalCash :: string
  rm_TotalBorrows :: string
  rm_Reserves :: string
  rm_Ctokens :: string
  rm_InitExchangeRate :: string
  rm_ReserveFactor :: string
  rm_LiquidationIncentive :: string
  rm_BorrowCap :: string
  rm_CollateralFactor :: string
  rm_CloseFactor :: string
  rm_BaseRate :: string
  rm_Multiplier :: string
  rm_JumpMultiplier :: string
  rm_Kink :: string
  rm_BlockNumber :: int
  rm_UtilizationRate :: string
  rm_ExchangeRate :: string
  rm_SupplyRatePerBlock :: string
  rm_BorrowRatePerBlock :: string
  rm_Price :: string
  rm_PriceUpdateAt :: time
  rm_BorrowIndex :: string
  rm_Status :: int
  rm_Suppliers :: int
  rm_Borrowers :: int
  rm_SupplyApy :: string
  rm_BorrowApy :: string

definition rpc_market_view :: "ext \<Rightarrow> Market \<Rightarrow> int \<Rightarrow> int \<Rightarrow> RPCMarket" where
  "rpc_market_view X m countOfSupplies countOfBorrows = \<lparr>
     rm_Id = m_ID m, rm_AssetId = m_AssetID m, rm_Symbol = m_Symbol m, rm_CtokenAssetId = m_CTokenAssetID m,
     rm_TotalCash = decString X (m_TotalCash m), rm_TotalBorrows = decString X (m_TotalBorrows m),
     rm_Reserves = decString X (m_Reserves m), rm_Ctokens = decString X (m_CTokens m),
     rm_InitExchangeRate = decString X (m_InitExchangeRate m), rm_ReserveFactor = decString X (m_ReserveFactor m),
     rm_LiquidationIncentive = decString X (m_LiquidationIncentive m), rm_BorrowCap = decString X (m_BorrowCap m),
     rm_CollateralFactor = decString X (m_CollateralFactor m), rm_CloseFactor = decString X (m_CloseFactor m),
     rm_BaseRate = decString X (m_BaseRate m), rm_Multiplier = decString X (m_Multiplier m),
     rm_JumpMultiplier = decString X (m_JumpMultiplier m), rm_Kink = decString X (m_Kink m),
     rm_BlockNumber = m_BlockNumber m, rm_UtilizationRate = decString X (m_UtilizationRate m),
     rm_ExchangeRate = decString X (m_ExchangeRate m), rm_SupplyRatePerBlock = decString X (m_SupplyRatePerBlock m),
     rm_BorrowRatePerBlock = decString X (m_BorrowRatePerBlock m), rm_Price = decString X (m_Price m),
     rm_PriceUpdateAt = m_PriceUpdatedAt m, rm_BorrowIndex = decString X (m_BorrowIndex m), rm_Status = int32 (m_Status m),
     rm_Suppliers = countOfSupplies, rm_Borrowers = countOfBorrows,
     rm_SupplyApy = decString X (CurSupplyRate X m), rm_BorrowApy = decString X (CurBorrowRate X m)\<rparr>"

definition rpc_AllMarkets :: "ext \<Rightarrow> (world, RPCMarket list) go" where
  "rpc_AllMarkets X =
     seqE market_All (\<lambda>ms.
     foldE ms [] (\<lambda>m views.
       seqE (count_or_zero (supply_CountOfSuppliers (m_CTokenAssetID m))) (\<lambda>countOfSupplies.
       seqE (count_or_zero (borrow_CountOfBorrowers (m_AssetID m))) (\<lambda>countOfBorrows.
       ret (views @ [rpc_market_view X m countOfSupplies countOfBorrows])))))"

text \<open>The RPC hands the signers' keys on as they are stored.\<close>

record RPCPrice =
  rp_TraceId :: string
  rp_AssetId :: string
  rp_Symbol :: string
  rp_Members :: "string list"
  rp_ReceiverThreshold :: nat
  rp_Signers :: "(nat \<times> string) list"
  rp_Threshold :: int

definition rpc_PriceRequest :: "ext \<Rightarrow> System \<Rightarrow> time \<Rightarrow> (world, RPCPrice list) go" where
  "rpc_PriceRequest X S now =
     seqE market_All (\<lambda>markets.
     let members = map mb_ClientID (Members S) in
     seqE signer_FindAll (\<lambda>ss.
     let signers = map (\<lambda>(idx, s). (idx + 1, os_PublicKey s)) (zip [0..<length ss] ss) in
     ret (map (\<lambda>m. \<lparr>rp_TraceId = price_trace X S now m, rp_AssetId = m_AssetID m, rp_Symbol = m_Symbol m,
         rp_Members = members, rp_ReceiverThreshold = Threshold S, rp_Signers = signers,
         rp_Threshold = int32 (m_PriceThreshold m)\<rparr>)
       (filter (price_due now) markets))))"

section \<open>handler/rest/proposal.go and handler/views/proposal.go\<close>

text \<open>The names of the actions: \<open>stringer\<close> slices them out of two texts.\<close>

definition action_names :: "string list" where
  "action_names = [''Default'', ''Supply'', ''Borrow'', ''Redeem'', ''Repay'', ''Mint'', ''Pledge'', ''Unpledge'', ''Liquidate'',
     ''RedeemTransfer'', ''UnpledgeTransfer'', ''BorrowTransfer'', ''LiquidateTransfer'', ''RefundTransfer'',
     ''RepayRefundTransfer'', ''LiquidateRefundTransfer'', ''ProposalUpsertMarket'', ''ProposalUpdateMarket'',
     ''ProposalWithdrawReserves'', ''ProposalProvidePrice'', ''ProposalVote'', ''ProposalInjectCTokenForMint'',
     ''ProposalUpdateMarketAdvance'', ''ProposalTransfer'', ''ProposalCloseMarket'', ''ProposalOpenMarket'']"

definition action_names_30 :: "string list" where
  "action_names_30 = [''UpdateMarket'', ''QuickPledge'', ''QuickBorrow'', ''QuickBorrowTransfer'', ''QuickRedeem'',
     ''QuickRedeemTransfer'', ''ProposalAddOracleSigner'', ''ProposalRemoveOracleSigner'', ''ProposalSetProperty'',
     ''ProposalMake'', ''ProposalShout'']"

definition ActionType_String :: "ActionType \<Rightarrow> string" where
  "ActionType_String a = (let i = actionCode a in
     if 0 \<le> i \<and> i \<le> 25 then action_names ! nat i
     else if 30 \<le> i \<and> i \<le> 40 then action_names_30 ! nat (i - 30)
     else ''ActionType('' @ itoa i @ '')'')"

record ProposalView =
  pv_ID :: string
  pv_CreatedAt :: time
  pv_UpdatedAt :: time
  pv_PassedAt :: "time option"
  pv_Creator :: string
  pv_AssetID :: string
  pv_Amount :: rat
  pv_Action :: string
  pv_Votes :: "string list"

definition proposal_view :: "Proposal \<Rightarrow> ProposalView" where
  "proposal_view p = \<lparr>pv_ID = p_TraceID p, pv_CreatedAt = p_CreatedAt p, pv_UpdatedAt = p_UpdatedAt p,
     pv_PassedAt = p_PassedAt p, pv_Creator = p_Creator p, pv_AssetID = p_AssetID p, pv_Amount = p_Amount p,
     pv_Action = ActionType_String (p_Action p), pv_Votes = p_Votes p\<rparr>"

definition ProposalViews :: "Proposal list \<Rightarrow> ProposalView list" where
  "ProposalViews ps = map proposal_view ps"

definition proposals_limit :: nat where
  "proposals_limit = 50"

text \<open>The views of a page, the next cursor, empty at the end, and whether there is one.\<close>

definition handleProposals :: "int \<Rightarrow> int \<Rightarrow> (world, ProposalView list \<times> string \<times> bool) go" where
  "handleProposals cursor offset =
     (let cursor = (if offset > 0 then offset else cursor) in
      seqE (proposal_List cursor proposals_limit) (\<lambda>ps.
      let pviews = ProposalViews ps;
          nextCursor = (if length ps = proposals_limit then itoa (p_ID (ps ! (proposals_limit - 1))) else '''')
      in ret (pviews, nextCursor, nextCursor \<noteq> '''')))"

end
