(* ===== verification/Notices.thy ===== *)
theory Notices
  imports Server
begin

text \<open>
  The items of a proposal as notices and the server show them (\<open>service/proposal/proposal_items.go\<close>,
  \<open>helper.go\<close>, \<open>buttons.go\<close>, \<open>handler/rest/proposal.go\<close>) and the report of the monitoring worker
  (\<open>worker/datadog\<close>). The directory of the Mixin network, by which identifiers are shown as names, is an
  argument: it answers each call as it likes.
\<close>

record directory =
  dir_IsNil :: "string \<Rightarrow> bool"                      \<comment> \<open>\<open>uuid.IsNil\<close>\<close>
  dir_ReadAsset :: "nat \<Rightarrow> string \<Rightarrow> string option"  \<comment> \<open>the symbol \<open>client.ReadAsset\<close> gives\<close>
  dir_ReadUser :: "nat \<Rightarrow> string \<Rightarrow> string option"   \<comment> \<open>the full name \<open>client.ReadUser\<close> gives\<close>
  dir_URLUsers :: "string \<Rightarrow> string"                 \<comment> \<open>\<open>mixin.URL.Users\<close>\<close>
  dir_RFC3339 :: "time \<Rightarrow> string"                    \<comment> \<open>\<open>Time.Format(time.RFC3339)\<close>\<close>

section \<open>service/proposal/helper.go and buttons.go\<close>

definition fetchAssetSymbol :: "directory \<Rightarrow> string \<Rightarrow> (world, string) go" where
  "fetchAssetSymbol D assetID =
     (if dir_IsNil D assetID then ret ''ALL''
      else tryE (apiE (\<lambda>n. dir_ReadAsset D n assetID)) (\<lambda>_. ret assetID) ret)"

definition fetchUserName :: "directory \<Rightarrow> string \<Rightarrow> (world, string) go" where
  "fetchUserName D userID = tryE (apiE (\<lambda>n. dir_ReadUser D n userID)) (\<lambda>_. ret userID) ret"

definition assetAction :: "string \<Rightarrow> string" where
  "assetAction i = ''https://mixin.one/snapshots/'' @ i"

definition userAction :: "directory \<Rightarrow> string \<Rightarrow> string" where
  "userAction D i = dir_URLUsers D i"

definition paymentAction :: "client \<Rightarrow> string \<Rightarrow> string" where
  "paymentAction C code = cl_URLCodes C code"

section \<open>service/proposal/proposal_items.go\<close>

record ProposalItem =
  pi_Key :: string
  pi_Value :: string
  pi_Hint :: string
  pi_Action :: string

definition plain_item :: "string \<Rightarrow> string \<Rightarrow> ProposalItem" where
  "plain_item k v = \<lparr>pi_Key = k, pi_Value = v, pi_Hint = '''', pi_Action = ''''\<rparr>"

definition asset_item :: "directory \<Rightarrow> string \<Rightarrow> string \<Rightarrow> (world, ProposalItem) go" where
  "asset_item D k v =
     seqE (fetchAssetSymbol D v) (\<lambda>hint. ret \<lparr>pi_Key = k, pi_Value = v, pi_Hint = hint, pi_Action = assetAction v\<rparr>)"

definition user_item :: "directory \<Rightarrow> string \<Rightarrow> string \<Rightarrow> (world, ProposalItem) go" where
  "user_item D k v =
     seqE (fetchUserName D v) (\<lambda>hint. ret \<lparr>pi_Key = k, pi_Value = v, pi_Hint = hint, pi_Action = userAction D v\<rparr>)"

definition market_items :: "ext \<Rightarrow> directory \<Rightarrow> MarketReq \<Rightarrow> (world, ProposalItem list) go" where
  "market_items X D action =
     seqE (asset_item D ''asset'' (mr_AssetID action)) (\<lambda>asset.
     seqE (asset_item D ''ctoken'' (mr_CTokenAssetID action)) (\<lambda>ctoken.
     ret [plain_item ''symbol'' (mr_Symbol action),
       asset,
       ctoken,
       plain_item ''init_exchange'' (decString X (mr_InitExchange action)),
       plain_item ''reserve_factor'' (decString X (mr_ReserveFactor action)),
       plain_item ''liquidation_incentive'' (decString X (mr_LiquidationIncentive action)),
       plain_item ''collateral_factor'' (decString X (mr_CollateralFactor action)),
       plain_item ''base_rate'' (decString X (mr_BaseRate action)),
       plain_item ''borrow_cap'' (decString X (mr_BorrowCap action)),
       plain_item ''close_factor'' (decString X (mr_CloseFactor action)),
       plain_item ''multiplier'' (decString X (mr_Multiplier action)),
       plain_item ''jump_multiplier'' (decString X (mr_JumpMultiplier action)),
       plain_item ''kink'' (decString X (mr_Kink action)),
       plain_item ''price_threshold'' (itoa (mr_PriceThreshold action)),
       plain_item ''price'' (decString X (mr_Price action)),
       plain_item ''max_pledge'' (decString X (mr_MaxPledge action))]))"

definition withdraw_items :: "ext \<Rightarrow> directory \<Rightarrow> WithdrawReq \<Rightarrow> (world, ProposalItem list) go" where
  "withdraw_items X D action =
     seqE (asset_item D ''asset'' (wr_Asset action)) (\<lambda>asset.
     seqE (user_item D ''receiver'' (wr_Opponent action)) (\<lambda>receiver.
     ret [asset, receiver, plain_item ''amount'' (decString X (wr_Amount action))]))"

text \<open>The content is the request of the action; removing an oracle signer has no items.\<close>

definition ListItems :: "ext \<Rightarrow> directory \<Rightarrow> Proposal \<Rightarrow> (world, ProposalItem list) go" where
  "ListItems X D p = (case (p_Action p, p_Content p) of
     (ActionTypeProposalUpsertMarket, MarketContent action) \<Rightarrow> market_items X D action
   | (ActionTypeProposalWithdrawReserves, WithdrawContent action) \<Rightarrow> withdraw_items X D action
   | (ActionTypeProposalCloseMarket, MarketStatusContent action) \<Rightarrow>
       seqE (asset_item D ''asset'' (ms_AssetID action)) (\<lambda>asset. ret [asset])
   | (ActionTypeProposalOpenMarket, MarketStatusContent action) \<Rightarrow>
       seqE (asset_item D ''asset'' (ms_AssetID action)) (\<lambda>asset. ret [asset])
   | (ActionTypeProposalSetProperty, SetPropertyContent action) \<Rightarrow> ret [plain_item (sp_Key action) (sp_Value action)]
   | (ActionTypeProposalAddOracleSigner, AddOracleSignerContent action) \<Rightarrow>
       seqE (user_item D ''client'' (ao_UserID action)) (\<lambda>user.
       ret [user, plain_item ''public_key'' (ao_PublicKey action)])
   | _ \<Rightarrow> ret [])"

record Item =
  it_Key :: string
  it_Value :: string
  it_Action :: string

definition render_item :: "ProposalItem \<Rightarrow> Item" where
  "render_item i = \<lparr>it_Key = pi_Key i, it_Value = (if pi_Hint i \<noteq> '''' then pi_Hint i else pi_Value i), it_Action = pi_Action i\<rparr>"

definition renderProposalItems :: "ext \<Rightarrow> directory \<Rightarrow> Proposal \<Rightarrow> (world, Item list) go" where
  "renderProposalItems X D p = tryE (ListItems X D p) (\<lambda>_. ret []) (\<lambda>items. ret (map render_item items))"

text \<open>The label and the action of each button; their colours are random.\<close>

fun buttons_from :: "nat \<Rightarrow> Item list \<Rightarrow> (string \<times> string) list" where
  "buttons_from idx [] = []"
| "buttons_from idx (item # items) =
     (if it_Action item = '''' then buttons_from idx items
      else (it_Value item, it_Action item) # (if idx + 1 \<ge> 6 then [] else buttons_from (idx + 1) items))"

definition generateButtons :: "Item list \<Rightarrow> (string \<times> string) list" where
  "generateButtons items = buttons_from 0 items"

text \<open>The view of \<open>ProposalCreated\<close> and its buttons, the vote last.\<close>

definition proposal_info :: "ext \<Rightarrow> directory \<Rightarrow> Proposal \<Rightarrow> (world, Item list) go" where
  "proposal_info X D p =
     seqE (fetchUserName D (p_Creator p)) (\<lambda>creator.
     seqE (fetchAssetSymbol D (p_AssetID p)) (\<lambda>symbol.
     ret [\<lparr>it_Key = ''action'', it_Value = ActionType_String (p_Action p), it_Action = ''''\<rparr>,
       \<lparr>it_Key = ''id'', it_Value = p_TraceID p, it_Action = ''''\<rparr>,
       \<lparr>it_Key = ''date'', it_Value = dir_RFC3339 D (p_CreatedAt p), it_Action = ''''\<rparr>,
       \<lparr>it_Key = ''creator'', it_Value = creator, it_Action = userAction D (p_Creator p)\<rparr>,
       \<lparr>it_Key = ''pay'', it_Value = decString X (p_Amount p) @ '' '' @ symbol, it_Action = assetAction (p_AssetID p)\<rparr>]))"

definition created_buttons :: "ext \<Rightarrow> directory \<Rightarrow> client \<Rightarrow> System \<Rightarrow> Proposal \<Rightarrow> (world, (string \<times> string) list) go" where
  "created_buttons X D C S p =
     seqE (proposal_info X D p) (\<lambda>info.
     seqE (renderProposalItems X D p) (\<lambda>meta.
     seqE (requestVoteAction X S p) (\<lambda>code.
     ret (generateButtons (info @ meta @ [\<lparr>it_Key = ''Vote'', it_Value = ''Vote'', it_Action = paymentAction C code\<rparr>])))))"

section \<open>handler/rest/proposal.go\<close>

definition ProposalItemView :: "ProposalItem \<Rightarrow> ProposalItem" where
  "ProposalItemView p = \<lparr>pi_Key = pi_Key p, pi_Value = pi_Value p, pi_Hint = pi_Hint p, pi_Action = pi_Action p\<rparr>"

definition ProposalItemViews :: "ProposalItem list \<Rightarrow> ProposalItem list" where
  "ProposalItemViews pitems = map ProposalItemView pitems"

definition handleProposal :: "ext \<Rightarrow> directory \<Rightarrow> string \<Rightarrow> (world, ProposalView \<times> ProposalItem list) go" where
  "handleProposal X D trace =
     seqE (proposal_Find trace) (\<lambda>proposal.
     seqE (ListItems X D proposal) (\<lambda>pitems.
     ret (proposal_view proposal, ProposalItemViews pitems)))"

section \<open>worker/datadog/datadog.go\<close>

record Entry =
  en_Name :: string
  en_Value :: string

record Group =
  gr_Name :: string
  gr_Entries :: "Entry list"

text \<open>\<open>toTime\<close> is \<open>v.Time()\<close> of a property, \<open>None\<close> for the zero time; \<open>showDur\<close> is \<open>Duration.String\<close>.\<close>

definition wallet_group :: "int \<Rightarrow> int \<Rightarrow> Group" where
  "wallet_group unhandled lastOutputID = \<lparr>gr_Name = ''wallets'', gr_Entries =
     [\<lparr>en_Name = ''unhandled_transfers'', en_Value = itoa unhandled\<rparr>,
      \<lparr>en_Name = ''last_output_id'', en_Value = itoa lastOutputID\<rparr>]\<rparr>"

definition property_group :: "(string \<times> string) list \<Rightarrow> Group" where
  "property_group items = \<lparr>gr_Name = ''properties'', gr_Entries = map (\<lambda>(k, v). \<lparr>en_Name = k, en_Value = v\<rparr>) items\<rparr>"

definition system_group :: "(int \<Rightarrow> string) \<Rightarrow> string \<Rightarrow> int \<Rightarrow> Group" where
  "system_group showDur version uptime = \<lparr>gr_Name = ''system'', gr_Entries =
     [\<lparr>en_Name = ''uptime'', en_Value = showDur uptime\<rparr>, \<lparr>en_Name = ''version'', en_Value = version\<rparr>]\<rparr>"

definition sync_is_late :: "(string \<Rightarrow> time option) \<Rightarrow> time \<Rightarrow> string \<times> string \<Rightarrow> bool" where
  "sync_is_late toTime now kv = (case kv of (k, v) \<Rightarrow> k = ''sync_checkpoint'' \<and>
     (case toTime v of None \<Rightarrow> False | Some t \<Rightarrow> now - t > 5 * 60 * 1000000000))"

text \<open>What is reported, if anything: the groups and the message. The text is rendered by a template.\<close>

definition datadog_run ::
  "ext \<Rightarrow> client \<Rightarrow> (string \<Rightarrow> time option) \<Rightarrow> (int \<Rightarrow> string) \<Rightarrow> string \<Rightarrow> time \<Rightarrow> time \<Rightarrow> (world, Group list option) go" where
  "datadog_run X C toTime showDur version launchAt now =
     seqE wallet_CountOutputs (\<lambda>lastOutputID.
     seqE wallet_CountUnhandledTransfers (\<lambda>unhandled.
     seqE (query properties) (\<lambda>items.
     let uptime = now - launchAt;
         report = (unhandled > 0 \<or> list_ex (sync_is_late toTime now) items \<or> uptime < 60 * 1000000000);
         groups = [wallet_group unhandled lastOutputID, property_group items, system_group showDur version uptime] in
     if \<not> report then ret None
     else
     seqE (uuid_New X) (\<lambda>messageID.
     seqE (message_Send C [BuildMessage messageID ''''] False) (\<lambda>_.
     ret (Some groups))))))"

text \<open>A button group has at most six buttons, all of them with an action.\<close>

lemma buttons_from_bound: "idx < 6 \<Longrightarrow> length (buttons_from idx items) + idx \<le> 6"
  by (induction idx items rule: buttons_from.induct) auto

lemma buttons_from_action: "b \<in> set (buttons_from idx items) \<Longrightarrow> snd b \<noteq> ''''"
  by (induction idx items rule: buttons_from.induct) (auto split: if_splits)

lemma generateButtons_ok: "length (generateButtons items) \<le> 6 \<and> (\<forall>b\<in>set (generateButtons items). snd b \<noteq> '''')"
  using buttons_from_bound [of 0 items] buttons_from_action by (auto simp: generateButtons_def)

text \<open>The vote is always among the buttons: at most four other items have an action.\<close>

definition with_action :: "Item list \<Rightarrow> nat" where
  "with_action items = length (filter (\<lambda>i. it_Action i \<noteq> '''') items)"

lemma buttons_from_last:
  "with_action items + idx < 6 \<Longrightarrow> it_Action v \<noteq> '''' \<Longrightarrow> (it_Value v, it_Action v) \<in> set (buttons_from idx (items @ [v]))"
  by (induction idx items rule: buttons_from.induct) (auto simp: with_action_def)

lemma render_with_action: "with_action (map render_item items) = length (filter (\<lambda>i. pi_Action i \<noteq> '''') items)"
  by (induction items) (simp_all add: with_action_def render_item_def)

lemma with_action_Nil [simp]: "with_action [] = 0"
  by (simp add: with_action_def)

lemma plain_no_action [simp]: "pi_Action (plain_item k v) = ''''"
  by (simp add: plain_item_def)

lemma ListItems_actions:
  assumes "ListItems X D p w = (Ok items, w')"
  shows "length (filter (\<lambda>i. pi_Action i \<noteq> '''') items) \<le> 2"
  using assms
  by (auto simp: ListItems_def market_items_def withdraw_items_def ret_def elim!: seqE_OkE
      split: ActionType.splits Content.splits)

lemma vote_button_shown:
  assumes "created_buttons X D C S p w = (Ok buttons, w')" and "\<And>code. paymentAction C code \<noteq> ''''"
  shows "\<exists>code. (''Vote'', paymentAction C code) \<in> set buttons"
proof -
  obtain info meta code w1 w2 w3 where info: "proposal_info X D p w = (Ok info, w1)"
    and meta: "renderProposalItems X D p w1 = (Ok meta, w2)"
    and b: "buttons = generateButtons (info @ meta @ [\<lparr>it_Key = ''Vote'', it_Value = ''Vote'', it_Action = paymentAction C code\<rparr>])"
    using assms(1) by (auto simp: created_buttons_def ret_def elim!: seqE_OkE)
  have "with_action info \<le> 2"
    using info by (auto simp: proposal_info_def ret_def with_action_def elim!: seqE_OkE)
  moreover have "with_action meta \<le> 2"
    using meta ListItems_actions [of X D p w1]
    by (auto simp: renderProposalItems_def tryE_def ret_def render_with_action split: prod.splits res.splits)
  ultimately have "with_action (info @ meta) + 0 < 6"
    by (simp add: with_action_def)
  from buttons_from_last [OF this, of "\<lparr>it_Key = ''Vote'', it_Value = ''Vote'', it_Action = paymentAction C code\<rparr>"]
  show ?thesis
    using assms(2) by (auto simp: b generateButtons_def)
qed

end
