(* ===== verification/Node.thy ===== *)
theory Node
  imports Notices
begin

text \<open>
  One node: \<open>cmd/worker.go\<close> starts every worker in a goroutine of its own, and each calls its \<open>run\<close> for
  ever. A step of the node is one call by one worker, whatever it returns, or a change of the failures
  that lie ahead. The workers meet only in the database, where each works on rows of its own status.
\<close>

text \<open>\<open>Cashier.Run\<close>: with a capacity above one the transfers are handled concurrently.\<close>

definition cashier_mode ::
  "ext \<Rightarrow> client \<Rightarrow> System \<Rightarrow> nat \<Rightarrow> (Transfer list \<Rightarrow> Transfer list) \<Rightarrow> Transfer list \<Rightarrow> (world, unit) go" where
  "cashier_mode X C S capacity arrange =
     (if capacity > 1 then cashier_parallel (Spend X C S) arrange else cashier_sync (Spend X C S))"

text \<open>A call that does not end in a panic, which would end the process.\<close>

definition survives :: "(world, 'a) go \<Rightarrow> world \<Rightarrow> world \<Rightarrow> bool" where
  "survives m w w' \<longleftrightarrow> (case m w of (Panic p, v) \<Rightarrow> False | (r, v) \<Rightarrow> v = w')"

inductive node_step :: "ext \<Rightarrow> client \<Rightarrow> System \<Rightarrow> world \<Rightarrow> world \<Rightarrow> bool" for X C S where
  node_payee: "payee_step X S w w' \<Longrightarrow> node_step X C S w w'"
| node_syncer: "survives (syncer_run C) w w' \<Longrightarrow> node_step X C S w w'"
| node_recovery: "survives runSync w w' \<Longrightarrow> node_step X C S w w'"
| node_assigner: "survives (assigner_run X S) w w' \<Longrightarrow> node_step X C S w w'"
| node_cashier: "(\<forall>ts. set (arrange ts) = set ts) \<Longrightarrow>
    survives (cashier_run (cashier_mode X C S capacity arrange) batch) w w' \<Longrightarrow> node_step X C S w w'"
| node_txsender: "(\<forall>txs. set (arrange_raw txs) = set txs) \<Longrightarrow> survives (txsender_run C arrange_raw) w w' \<Longrightarrow> node_step X C S w w'"
| node_spentsync: "survives (spentsync_run X C) w w' \<Longrightarrow> node_step X C S w w'"
| node_messenger: "survives (messenger_run C) w w' \<Longrightarrow> node_step X C S w w'"
| node_datadog: "survives (datadog_run X C toTime showDur version launchAt now) w w' \<Longrightarrow> node_step X C S w w'"
| node_faults: "node_step X C S w (w\<lparr>faults := fs\<rparr>)"

lemma survivesD: "survives m w w' \<Longrightarrow> w' = snd (m w)"
  by (auto simp: survives_def split: prod.splits res.splits)

end
