(* ===== verification/Node_Relation.thy ===== *)
theory Node_Relation
  imports Node Payee_Invariant
begin

text \<open>
  What a whole node keeps. The workers beside the payee read and write the wallet's tables and their own
  queues; of the other tables they only add transactions and save the checkpoint of the synchronisation. A
  relation that survives these writes, and anything outside the database, survives every worker; with the
  payee's steps it survives every step of the node. The locale \<open>worker_writes\<close> states this once. A relation
  that only concerns the tables below the queues is one of \<open>worker_relation\<close>, a sublocale; it is interpreted
  here at the ledger itself, at the history of its rows and at the identifiers with the votes of the proposals.
\<close>

text \<open>A round of the recovery stores a batch of outputs of the queue.\<close>

context preserved
begin

lemma keeps_recovery:
  assumes batch: "\<And>outs P. list_all new outs \<Longrightarrow>
      keeps R (dbio (\<lambda>w. (Ok (), let w' = fold (save True) outs w in w'\<lparr>rawOutputs := filter P (rawOutputs w')\<rparr>)))"
    and queue: "\<And>w r x. good w \<Longrightarrow> r \<in> set (rawOutputs w) \<Longrightarrow> ro_Data r = Some x \<Longrightarrow> new x"
    and trivial: "\<And>w w'. \<not> good w \<Longrightarrow> R w w'"
  shows "keeps R runSync"
proof -
  have "R w (snd (syncRawOutputs lastID limit w))" for lastID limit w
  proof (cases "good w")
    case True
    show ?thesis
      unfolding syncRawOutputs_def
    proof (rule after_seq)
      fix raws w1
      assume "query (\<lambda>w. take limit (order_raws (filter (\<lambda>r. ro_ID r \<le> lastID) (rawOutputs w)))) w = (Ok raws, w1)"
      then have rows: "set raws \<subseteq> set (rawOutputs w)"
        by (auto simp: query_def dbio_def split: list.splits fault.splits dest!: in_set_takeD)
      define some where "some = (if length raws = limit then trimSuffix raws else raws)"
      have "list_all new outs" if "\<not> list_ex (\<lambda>r. ro_Data r = None) some" "SortOutputs (map (\<lambda>r. the (ro_Data r)) some) = Ok outs" for outs
        using that rows trimSuffix_set [of raws] queue [OF True] unfolding list_all_iff SortOutputs_set [OF that(2)]
        by (fastforce simp: some_def list_ex_iff split: if_splits)
      then show "R w1 (snd ((if raws = [] then ret 0 else let raws = if length raws = limit then trimSuffix raws else raws in
           if list_ex (\<lambda>r. ro_Data r = None) raws then throw (GoError ''unmarshal RawOutput failed'')
           else let outs = map (\<lambda>r. the (ro_Data r)) raws; ids = map ro_ID raws in
           seqE (liftR (SortOutputs outs)) (\<lambda>outs.
           seqE (dbio (\<lambda>w. (Ok (), let w' = fold (save True) outs w
             in w'\<lparr>rawOutputs := filter (\<lambda>r. ro_ID r \<notin> set ids) (rawOutputs w')\<rparr>))) (\<lambda>_. ret (length outs)))) w1))"
        unfolding some_def [symmetric] Let_def [of some]
        by (auto simp: ret_def throw_def liftR_def R_refl intro!: after_seq keepsD [OF batch])
    qed (rule keepsD [OF keeps_query])
  qed (simp add: trivial)
  then show ?thesis
    unfolding runSync_def by (intro keeps_seqE keeps_getS keepsI)
qed

end

text \<open>Two states with the same tables below the wallet, and with the same queues of the wallet and the messenger.\<close>

definition same_tables :: "world \<Rightarrow> world \<Rightarrow> bool" where
  "same_tables w w' \<longleftrightarrow> markets w' = markets w \<and> supplies w' = supplies w \<and> borrows w' = borrows w \<and> users w' = users w \<and>
     proposals w' = proposals w \<and> signers w' = signers w \<and> transactions w' = transactions w \<and>
     transfers w' = transfers w \<and> properties w' = properties w"

definition same_queues :: "world \<Rightarrow> world \<Rightarrow> bool" where
  "same_queues w w' \<longleftrightarrow> outputs w' = outputs w \<and> rawOutputs w' = rawOutputs w \<and> rawSeq w' = rawSeq w \<and>
     rawTransactions w' = rawTransactions w \<and> messages w' = messages w"

text \<open>An output as the network reports it has no identifier yet.\<close>

abbreviation unsaved :: "Output \<Rightarrow> bool" where
  "unsaved x \<equiv> o_ID x = 0"

lemma Pull_unsaved: "Pull C offset limit w = (Ok outs, w') \<Longrightarrow> list_all unsaved outs"
  by (auto simp: Pull_def list_all_iff convertUTXO_def ret_def elim!: seqE_OkE)

locale worker_writes = preserved +
  assumes outside: "same_tables w w' \<Longrightarrow> same_queues w w' \<Longrightarrow> R w w'"
    and Assign: "keeps R (wallet_Assign outs t)"
    and UpdateTransfer: "keeps R (wallet_UpdateTransfer t)"
    and Create: "keeps R (transaction_Create tx)"
    and Save_checkpoint: "keeps R (property_Save syncer_checkpointKey v)"
    and Save_outputs: "list_all unsaved outs \<Longrightarrow> keeps R (wallet_Save outs atEnd)"
    and Recovery: "keeps R runSync"
    and CreateRaw: "keeps R (wallet_CreateRawTransaction rtx)"
    and ExpireRaw: "keeps R (wallet_ExpireRawTransaction rtx)"
    and DeleteMessages: "keeps R (message_Delete ms)"
begin

lemma keeps_outside: "(\<And>w. same_tables w (snd (m w))) \<Longrightarrow> (\<And>w. same_queues w (snd (m w))) \<Longrightarrow> keeps R m"
  by (rule keepsI) (rule outside)

lemma keeps_api: "keeps R (api f)"
  by (rule keeps_outside) (simp_all add: api_def same_tables_def same_queues_def)

lemma keeps_apiE: "keeps R (apiE f)"
  unfolding apiE_def by (intro keeps_basic keeps_api)

lemma keeps_uuid_New: "keeps R (uuid_New X)"
  by (rule keeps_outside) (simp_all add: uuid_New_def same_tables_def same_queues_def)

text \<open>The workers' own memory.\<close>

lemma keeps_set:
  "keeps R (\<lambda>w. (Ok (), w\<lparr>conversations := f w\<rparr>))" "keeps R (\<lambda>w. (Ok (), w\<lparr>delivered := g w\<rparr>))"
  by (rule keeps_outside; simp add: same_tables_def same_queues_def)+

lemma keeps_wallet_reads:
  "keeps R (wallet_ListTransfers status n)" "keeps R (wallet_ListUnspent a n)" "keeps R (wallet_ListSpentBy a s)"
  "keeps R (wallet_FindSpentBy a s)" "keeps R (wallet_ListPendingRawTransactions n)" "keeps R (message_List i)"
  "keeps R wallet_CountOutputs" "keeps R wallet_CountUnhandledTransfers"
  unfolding wallet_ListTransfers_def wallet_ListUnspent_def wallet_ListSpentBy_def wallet_FindSpentBy_def
    wallet_ListPendingRawTransactions_def message_List_def wallet_CountOutputs_def wallet_CountUnhandledTransfers_def
  by (intro keeps_basic)+

lemmas keeps_work = keeps_basic keeps_reads(15) keeps_api keeps_apiE keeps_uuid_New keeps_set keeps_wallet_reads
  Assign UpdateTransfer Create Save_checkpoint CreateRaw ExpireRaw DeleteMessages

lemma keeps_groupE: "(\<And>x. keeps R (f x)) \<Longrightarrow> keeps R (groupE f first xs)"
  by (induction xs arbitrary: first) (simp_all add: keeps_work)

section \<open>Outputs that come in\<close>

lemma keeps_syncer: "keeps R (syncer_run C)"
proof -
  have pull: "keeps R (Pull C offset limit)" for offset limit
    unfolding Pull_def by (intro keeps_work)
  have "keeps R (seqE (Pull C offset 500) (\<lambda>outs. if outs = [] then throw (GoError ''EOF'') else
      let nextOffset = o_UpdatedAt (last outs); atEnd = length outs < 500
      in seqE (wallet_Save outs atEnd) (\<lambda>_. property_Save syncer_checkpointKey (cl_FormatTime C nextOffset))))" for offset
  proof (intro keepsI after_seq keepsD [OF pull])
    fix w outs w1
    assume "Pull C offset 500 w = (Ok outs, w1)"
    from Save_outputs [OF Pull_unsaved [OF this]]
    show "R w1 (snd ((if outs = [] then throw (GoError ''EOF'') else
      let nextOffset = o_UpdatedAt (last outs); atEnd = length outs < 500
      in seqE (wallet_Save outs atEnd) (\<lambda>_. property_Save syncer_checkpointKey (cl_FormatTime C nextOffset))) w1))"
      by (intro keepsD [where R = R] keeps_work)
  qed
  then show ?thesis
    unfolding syncer_run_def
    by (intro keeps_seqE [OF keeps_reads(15)] keeps_Let [where f = "\<lambda>x. seqE (Pull C x 500) (k x)" for k]) assumption
qed

section \<open>Transfers that go out\<close>

lemma keeps_assigner: "keeps R (assigner_run X S)"
proof -
  have "keeps R (assigner_handleTransfer X S t)" for t
    unfolding assigner_handleTransfer_def assigner_commit_def by (intro keeps_work)
  then have "keeps R (assign_loop X S aborted ts)" for aborted ts
    by (induction ts arbitrary: aborted) (simp_all add: keeps_work)
  then show ?thesis
    unfolding assigner_run_def by (intro keeps_work)
qed

lemma keeps_Spend: "keeps R (Spend X C S outs t)"
proof -
  have inputs: "keeps R (sign_inputs state tx xs)" for state tx xs
    by (induction xs) (auto intro!: keeps_work split: option.split)
  have sign: "keeps R (signTransaction C outs t)"
    unfolding signTransaction_def by (cases outs) (auto simp: Let_def intro!: keeps_work inputs split: option.split)
  have multisig: "keeps R (validateMultisig X q t)" for q
    unfolding validateMultisig_def by (intro keeps_work)
  have "keeps R (validate_outputs C S t n xs)" for n xs
    by (induction xs arbitrary: n) (simp_all add: keeps_work)
  then have transaction: "keeps R (validateTransaction C S x t)" for x
    unfolding validateTransaction_def by (intro keeps_work)
  show ?thesis
    unfolding Spend_def by (intro keeps_work sign multisig transaction)
qed

lemma keeps_cashier: "keeps R (cashier_run (cashier_mode X C S capacity arrange) batch)"
proof -
  have one: "keeps R (cashier_handleTransfer (Spend X C S) t)" for t
    unfolding cashier_handleTransfer_def cashier_spend_def by (intro keeps_work keeps_Spend)
  then have "keeps R (cashier_mode X C S capacity arrange ts)" for ts
    unfolding cashier_mode_def cashier_parallel_def cashier_sync_def by (auto intro!: keeps_work keeps_groupE)
  then show ?thesis
    unfolding cashier_run_def by (intro keeps_work)
qed

lemma keeps_txsender: "keeps R (txsender_run C arrange)"
proof -
  have poll: "keeps R (poll_snapshot C hash k)" for hash k
    by (induction k) (simp_all add: keeps_work)
  have submit: "keeps R (submitRawTransaction C raw)" for raw
    unfolding submitRawTransaction_def
    by (intro keeps_work, simp split: sum.split, intro allI impI conjI keeps_work poll)
  have "keeps R (handleRawTransaction C tx)" for tx
    unfolding handleRawTransaction_def by (intro keeps_work submit)
  then show ?thesis
    unfolding txsender_run_def by (intro keeps_work keeps_groupE)
qed

lemma keeps_spentsync: "keeps R (spentsync_run X C)"
proof -
  have "keeps R (spentsync_handleTransfer X C t)" for t
    unfolding spentsync_handleTransfer_def by (auto intro!: keeps_work split: option.split)
  then show ?thesis
    unfolding spentsync_run_def by (auto intro!: keeps_work)
qed

section \<open>Messages and reports\<close>

lemma keeps_Send: "keeps R (message_Send C ms batch)"
  unfolding message_Send_def deliver_def by (intro keeps_work)

lemma keeps_messenger: "keeps R (messenger_run C)"
proof -
  have meet: "keeps R (message_Meet C u)" for u
    unfolding message_Meet_def by (intro keeps_work)
  have "keeps R (select_messages C seen acc ms)" for seen acc ms
    by (induction ms arbitrary: seen acc) (simp_all add: keeps_work meet)
  then show ?thesis
    unfolding messenger_run_def by (intro keeps_work keeps_Send)
qed

lemma keeps_datadog: "keeps R (datadog_run X C toTime showDur version launchAt now)"
  unfolding datadog_run_def by (intro keeps_work keeps_Send)

lemmas keeps_workers = keeps_syncer Recovery keeps_assigner keeps_cashier keeps_txsender keeps_spentsync
  keeps_messenger keeps_datadog

section \<open>Steps of the node\<close>

lemma node_step_or: "node_step X C S w w' \<Longrightarrow> payee_step X S w w' \<or> R w w'"
proof (induction rule: node_step.induct)
  case (node_faults w fs)
  have "R w (w\<lparr>faults := fs\<rparr>)" by (rule outside) (simp_all add: same_tables_def same_queues_def)
  then show ?case ..
qed (auto dest!: survivesD intro!: disjI2 keepsD [where R = R] keeps_workers)

lemma node_step_R: "node_step X C S w w' \<Longrightarrow> (\<And>v v'. payee_step X S v v' \<Longrightarrow> R v v') \<Longrightarrow> R w w'"
  using node_step_or by blast

lemma node_steps_R:
  "(node_step X C S)\<^sup>*\<^sup>* w w' \<Longrightarrow> (\<And>v v'. payee_step X S v v' \<Longrightarrow> R v v') \<Longrightarrow> R w w'"
  by (induction rule: rtranclp_induct) (blast intro: R_refl R_trans node_step_R)+

end

section \<open>Relations that leave the queues aside\<close>

text \<open>A relation that the tables below decide, with the writes to them, survives what happens to the queues.\<close>

lemma save_elsewhere: "same_tables w (fold (save ack) outs w)"
proof (induction outs arbitrary: w)
  case (Cons x outs)
  have "same_tables w (save ack x w)"
    by (simp add: save_def saveRawOutput_def Let_def same_tables_def)
  with Cons [of "save ack x w"] show ?case
    by (simp add: same_tables_def)
qed (simp add: same_tables_def)

locale worker_relation = preserved +
  assumes elsewhere: "same_tables w w' \<Longrightarrow> R w w'"
    and keeps_Assign: "keeps R (wallet_Assign outs t)"
    and keeps_UpdateTransfer: "keeps R (wallet_UpdateTransfer t)"
    and keeps_Create: "keeps R (transaction_Create tx)"
    and keeps_checkpoint: "keeps R (property_Save syncer_checkpointKey v)"
begin

lemma keeps_elsewhere: "(\<And>w. same_tables w (snd (m w))) \<Longrightarrow> keeps R m"
  by (rule keepsI) (rule elsewhere)

lemma keeps_dbio_elsewhere: "(\<And>w. same_tables w (snd (f w))) \<Longrightarrow> keeps R (dbio f)"
  by (rule keeps_dbio) (rule elsewhere)

lemma keeps_outputs: "keeps R (wallet_Save outs atEnd)" "keeps R runSync"
proof -
  have last: "keeps R (\<lambda>w. (Ok (), w\<lparr>rawOutputID := i\<rparr>))" for i
    by (rule keeps_elsewhere) (simp add: same_tables_def)
  show "keeps R (wallet_Save outs atEnd)"
    unfolding wallet_Save_def findLastRawOutputID_def
    by (intro keeps_basic last keeps_dbio_elsewhere) (simp add: save_elsewhere)
  have "keeps R (dbio (\<lambda>w. (Ok (), let w' = fold (save True) outs w in w'\<lparr>rawOutputs := filter P (rawOutputs w')\<rparr>)))" for outs P
    by (rule keeps_dbio_elsewhere) (use save_elsewhere in \<open>simp add: same_tables_def Let_def\<close>)
  then show "keeps R runSync"
    unfolding runSync_def syncRawOutputs_def by (intro keeps_basic)
qed

lemma keeps_queues:
  "keeps R (wallet_CreateRawTransaction rtx)" "keeps R (wallet_ExpireRawTransaction rtx)" "keeps R (message_Delete ms)"
  unfolding wallet_CreateRawTransaction_def wallet_ExpireRawTransaction_def message_Delete_def Let_def
  by (intro keeps_basic keeps_dbio_elsewhere; simp add: same_tables_def)+

end

sublocale worker_relation \<subseteq> worker_writes
  by unfold_locales (rule elsewhere keeps_Assign keeps_UpdateTransfer keeps_Create keeps_checkpoint keeps_outputs keeps_queues; assumption?)+

section \<open>The ledger\<close>

text \<open>The tables that say who owns and owes what, and who decides: no worker but the payee touches them.\<close>

definition same_ledger :: "world \<Rightarrow> world \<Rightarrow> bool" where
  "same_ledger w w' \<longleftrightarrow> markets w' = markets w \<and> supplies w' = supplies w \<and> borrows w' = borrows w \<and>
     users w' = users w \<and> proposals w' = proposals w \<and> signers w' = signers w"

interpretation same_ledger: preserved same_ledger
  by unfold_locales (simp_all add: same_ledger_def)

interpretation worker_ledger: worker_relation same_ledger
proof unfold_locales
  show "keeps same_ledger (wallet_Assign outs t)" for outs t
    unfolding wallet_Assign_def
    by (rule same_ledger.keeps_dbio) (simp add: assign_tx_def Let_def updateTransfer_def same_ledger_def)
  show "keeps same_ledger (wallet_UpdateTransfer t)" for t
    unfolding wallet_UpdateTransfer_def by (rule same_ledger.keeps_dbio) (simp add: updateTransfer_def same_ledger_def)
  show "keeps same_ledger (transaction_Create t)" for t
    unfolding transaction_Create_def by (rule same_ledger.keeps_dbio) (simp add: same_ledger_def case_prod_beta)
  show "keeps same_ledger (property_Save k v)" for k v
    unfolding property_Save_def by (rule same_ledger.keeps_dbio) (simp add: same_ledger_def)
qed (simp add: same_tables_def same_ledger_def)

section \<open>The history of a node\<close>

text \<open>The history of the payee, but for the wallet's tables, whose rows are marked by other workers.\<close>

definition node_history :: "world \<Rightarrow> world \<Rightarrow> bool" where
  "node_history w w' \<longleftrightarrow>
     rows_kept (=) (transactions w) (transactions w') \<and>
     rows_kept (versioned m_ID m_Version) (markets w) (markets w') \<and>
     rows_kept (versioned s_ID s_Version) (supplies w) (supplies w') \<and>
     rows_kept (versioned b_ID b_Version) (borrows w) (borrows w') \<and>
     rows_kept same_user (users w) (users w') \<and> rows_kept same_request (proposals w) (proposals w')"

lemma node_history_refl: "node_history w w"
  by (simp add: node_history_def rows_kept_refl)

lemma node_history_trans: "node_history u v \<Longrightarrow> node_history v w \<Longrightarrow> node_history u w"
  unfolding node_history_def by (elim conjE, intro conjI; (erule (1) rows_kept_trans)?) (auto intro: versioned_order same_order)

lemma node_history_ledger: "same_ledger w w' \<Longrightarrow> transactions w' = transactions w \<Longrightarrow> node_history w w'"
  by (simp add: node_history_def same_ledger_def rows_kept_refl)

interpretation node_history: preserved node_history
  by unfold_locales (rule node_history_refl, erule (1) node_history_trans, simp add: node_history_def rows_kept_refl)

interpretation worker_history: worker_relation node_history
proof unfold_locales
  show "keeps node_history (wallet_Assign outs t)" for outs t
    unfolding wallet_Assign_def
    by (rule node_history.keeps_dbio, rule node_history_ledger) (simp_all add: assign_tx_def Let_def updateTransfer_def same_ledger_def)
  show "keeps node_history (wallet_UpdateTransfer t)" for t
    unfolding wallet_UpdateTransfer_def
    by (rule node_history.keeps_dbio, rule node_history_ledger) (simp_all add: updateTransfer_def same_ledger_def)
  show "keeps node_history (property_Save k v)" for k v
    unfolding property_Save_def
    by (rule node_history.keeps_dbio, rule node_history_ledger) (simp_all add: same_ledger_def)
  show "keeps node_history (transaction_Create t)" for t
    unfolding transaction_Create_def
    by (rule node_history.keeps_dbio) (simp add: snd_case_create node_history_def rows_kept_create rows_kept_refl)
qed (simp add: same_tables_def same_ledger_def node_history_ledger)

lemma payee_step_history: "payee_step X S w w' \<Longrightarrow> node_history w w'"
  using payee_history.payee_step_R [of X S w w'] by (simp add: history_def node_history_def)

lemma node_steps_history: "(node_step X C S)\<^sup>*\<^sup>* w w' \<Longrightarrow> node_history w w'"
  using worker_history.node_steps_R payee_step_history by blast

section \<open>The invariant of a node\<close>

lemma state_ok_elsewhere: "same_tables w w' \<Longrightarrow> state_ok S w' = state_ok S w"
  by (simp add: same_tables_def state_ok_def rows_identified_def)

lemma state_ok_outputs [simp]: "state_ok S (w\<lparr>outputs := xs\<rparr>) = state_ok S w"
  by (simp add: state_ok_def rows_identified_def)

lemma transfers_marked: "keys_ok t_ID t_TraceID ts \<Longrightarrow> keys_ok t_ID t_TraceID
   (replace_rows P (\<lambda>r. r\<lparr>t_Assigned := a, t_Handled := h, t_Passed := p\<rparr>) ts)"
  by (simp add: keys_ok_replace)

lemma transfer_added:
  assumes "keys_ok t_ID t_TraceID ts" "\<not> list_ex (\<lambda>r. t_TraceID r = t_TraceID t) ts"
  shows "keys_ok t_ID t_TraceID (ts @ [t\<lparr>t_ID := next_id (map t_ID ts)\<rparr>])"
  using assms ids_ok_append [of t_ID ts "t\<lparr>t_ID := next_id (map t_ID ts)\<rparr>"]
  by (auto simp: keys_ok_def list_ex_iff)

interpretation worker_state: worker_relation "state_kept S" for S
proof unfold_locales
  show "keeps (state_kept S) (wallet_Assign outs t)" for outs t
    unfolding wallet_Assign_def
    by (rule state_kept.keeps_dbio)
      (use transfer_added [where t = "t\<lparr>t_Assigned := True\<rparr>"] in
        \<open>simp add: assign_tx_def Let_def updateTransfer_def state_set state_get transfers_marked\<close>)
  show "keeps (state_kept S) (wallet_UpdateTransfer t)" for t
    unfolding wallet_UpdateTransfer_def
    by (rule state_kept.keeps_dbio) (simp add: updateTransfer_def state_set state_get transfers_marked)
  show "keeps (state_kept S) (transaction_Create t)" "keeps (state_kept S) (property_Save k v)" for t k v
    by (rule payee_state.keeps_stores state_Save)+
qed (simp add: state_ok_elsewhere)

lemma node_steps_state: "(node_step X C S)\<^sup>*\<^sup>* w w' \<Longrightarrow> state_ok S w \<Longrightarrow> state_ok S w'"
  using worker_state.node_steps_R [of X C S w w' S] payee_state.payee_step_R by blast

end
