(* ===== verification/System_Version.thy ===== *)
theory System_Version
  imports Governance_Spec Node_Relation
begin

text \<open>
  The stored system version. A run reads it once into \<open>Payee.sysversion\<close>, and every proposal of the run is
  checked against that copy (\<open>worker/payee/proposal_sys.go\<close>). What one run, and any steps of a node, can do
  to the stored value follows from an interpretation of \<open>payee_stores\<close>: without the reload, which changes
  the copy, the relation below is kept by everything a run does.
\<close>

definition version_kept :: "world \<Rightarrow> world \<Rightarrow> bool" where
  "version_kept w w' \<longleftrightarrow> sysversion w' = sysversion w \<and>
     (property SysVersionKey w' = property SysVersionKey w \<or> newer_version w (property SysVersionKey w'))"

lemma version_frame: "sysversion w' = sysversion w \<Longrightarrow> properties w' = properties w \<Longrightarrow> version_kept w w'"
  by (simp add: version_kept_def property_def)

interpretation version_kept: preserved version_kept
  by unfold_locales (auto simp: version_kept_def newer_version_def property_def)

lemma version_dbio:
  "(\<And>w. sysversion (snd (f w)) = sysversion w) \<Longrightarrow> (\<And>w. properties (snd (f w)) = properties w) \<Longrightarrow>
   keeps version_kept (dbio f)"
  by (intro version_kept.keeps_dbio version_frame)

lemma version_update:
  "(\<And>rows w. sysversion (put rows w) = sysversion w) \<Longrightarrow> (\<And>rows w. properties (put rows w) = properties w) \<Longrightarrow>
   keeps version_kept (store_Update rid rver wr get put s v)"
  unfolding store_Update_def
  by (intro keeps_if version_dbio version_kept.keeps_ret) (simp_all add: lock_update_def)

lemma version_Save:
  assumes "k = SysVersionKey \<Longrightarrow> newer_version w x"
  shows "version_kept w (snd (property_Save k x w))"
  unfolding property_Save_def
proof (rule version_kept.after_dbio)
  have "version_kept v (v\<lparr>properties := AList.update k x (properties v)\<rparr>)" if "sysversion v = sysversion w" for v
    using assms that by (auto simp: version_kept_def newer_version_def property_def update_conv')
  from this [of w] this [of "w\<lparr>faults := fs\<rparr>" for fs]
  show "version_kept w (snd (Ok (), w\<lparr>properties := AList.update k x (properties w)\<rparr>))"
    "version_kept (w\<lparr>faults := fs\<rparr>) (snd (Ok (), (w\<lparr>faults := fs\<rparr>)\<lparr>properties := AList.update k x (properties (w\<lparr>faults := fs\<rparr>))\<rparr>))" for fs
    by simp_all
qed

interpretation payee_version: payee_stores version_kept S for S
proof unfold_locales
  show "keeps version_kept (market_Create m)" for m
    unfolding market_Create_def by (rule version_dbio) (simp_all add: case_prod_beta)
  show "keeps version_kept (user_Create u)" for u
    unfolding user_Create_def by (rule version_dbio) (simp_all add: case_prod_beta)
  show "keeps version_kept (transaction_Create t)" for t
    unfolding transaction_Create_def by (rule version_dbio) (simp_all add: case_prod_beta)
  show "keeps version_kept (proposal_Create p)" for p
    unfolding proposal_Create_def by (rule version_dbio) (simp_all add: case_prod_beta)
  show "keeps version_kept (user_MigrateToV1 us)" for us
    unfolding user_MigrateToV1_def by (rule version_dbio) (simp_all split: option.split)
  show "version_kept w (snd (property_Save k x w))" if "k = SysVersionKey \<Longrightarrow> newer_version w x" for w k x
    using that by (rule version_Save)
  show "version_kept w (snd (proposal_Update X (voted S who tm p) n w))" for w X who tm p n
    unfolding proposal_Update_def by (rule keepsD, rule version_dbio) simp_all
  show "keeps version_kept (HandleTransfer X t)" "keeps version_kept (uuid_New X)" for X t
    by (rule keepsI, rule version_frame; simp add: HandleTransfer_def uuid_New_def throw_def)+
qed (simp_all add: market_Update_def supply_Update_def borrow_Update_def version_update supply_Create_def borrow_Create_def
    wallet_CreateTransfers_def signer_Save_def signer_Delete_def message_Create_def version_dbio Let_def)

lemma property_Get_query: "property_Get k = query (property k)"
  by (simp add: property_Get_def property_def [abs_def])

lemma load_version_cases:
  obtains (failed) fs where "loadSysVersion X w = (Err DBError, w\<lparr>faults := fs\<rparr>)"
    | (loaded) fs where "loadSysVersion X w = (Ok (), w\<lparr>faults := fs, sysversion := castInt64 X (property SysVersionKey w)\<rparr>)"
proof (cases rule: query_cases [of "property SysVersionKey" w])
  case (ok fs)
  have "property SysVersionKey (w\<lparr>faults := fs\<rparr>) = property SysVersionKey w"
    by (simp add: property_def)
  with ok have "loadSysVersion X w = (Ok (), w\<lparr>faults := fs, sysversion := castInt64 X (property SysVersionKey w)\<rparr>)"
    by (simp add: loadSysVersion_def ReadSysVersion_def property_Get_query seqE_assoc seqE_Ok)
  then show ?thesis
    by (rule loaded)
next
  case (err fs)
  then have "loadSysVersion X w = (Err DBError, w\<lparr>faults := fs\<rparr>)"
    by (simp add: loadSysVersion_def ReadSysVersion_def property_Get_query seqE_assoc seqE_Err)
  then show ?thesis
    by (rule failed)
qed

text \<open>One run: the stored version is the one it read, or newer than that one and known to this program.\<close>

lemma run_version:
  assumes "run X S w = (r, w')"
  shows "property SysVersionKey w' = property SysVersionKey w \<or>
    (\<exists>n. ParseInt64 (property SysVersionKey w') = Some n \<and> castInt64 X (property SysVersionKey w) < n \<and> n \<le> SysVersion)"
proof -
  let ?v = "castInt64 X (property SysVersionKey w)"
  have faults: "property SysVersionKey (w\<lparr>faults := fs\<rparr>) = property SysVersionKey w" for fs
    by (simp add: property_def)
  show ?thesis
  proof (cases rule: load_version_cases [of X w])
    case (failed fs)
    then have "w' = w\<lparr>faults := fs\<rparr>"
      using assms by (simp add: run_def seqE_Err)
    with faults show ?thesis
      by simp
  next
    case (loaded fs)
    let ?w = "w\<lparr>faults := fs, sysversion := ?v\<rparr>"
    have "version_kept ?w w'"
      using keepsD [OF payee_version.keeps_loop [where X = X and S = S], of ?w] assms loaded by (simp add: run_def seqE_Ok)
    then show ?thesis
      by (simp add: version_kept_def newer_version_def property_def)
  qed
qed

text \<open>The other workers save nothing but the checkpoint of the synchronisation.\<close>

definition same_stored_version :: "world \<Rightarrow> world \<Rightarrow> bool" where
  "same_stored_version w w' \<longleftrightarrow> property SysVersionKey w' = property SysVersionKey w"

interpretation same_stored: preserved same_stored_version
  by unfold_locales (simp_all add: same_stored_version_def property_def)

interpretation worker_version: worker_relation same_stored_version
proof unfold_locales
  show "keeps same_stored_version (property_Save syncer_checkpointKey v)" for v
    unfolding property_Save_def
    by (rule same_stored.keeps_dbio)
      (simp add: same_stored_version_def property_def update_conv' syncer_checkpointKey_def SysVersionKey_def)
  show "keeps same_stored_version (wallet_Assign outs t)" for outs t
    unfolding wallet_Assign_def
    by (rule same_stored.keeps_dbio) (simp add: assign_tx_def Let_def updateTransfer_def same_stored_version_def property_def)
  show "keeps same_stored_version (wallet_UpdateTransfer t)" for t
    unfolding wallet_UpdateTransfer_def
    by (rule same_stored.keeps_dbio) (simp add: updateTransfer_def same_stored_version_def property_def)
  show "keeps same_stored_version (transaction_Create t)" for t
    unfolding transaction_Create_def
    by (rule same_stored.keeps_dbio) (simp add: same_stored_version_def property_def case_prod_beta)
qed (simp add: same_tables_def same_stored_version_def property_def)

lemma step_version:
  assumes "node_step X C S w w'"
  shows "property SysVersionKey w' = property SysVersionKey w \<or>
    (\<exists>n. ParseInt64 (property SysVersionKey w') = Some n \<and> castInt64 X (property SysVersionKey w) < n \<and> n \<le> SysVersion)"
  using worker_version.node_step_or [OF assms]
  by (auto simp: same_stored_version_def elim!: payee_step.cases dest!: run_version)

text \<open>
  Over many steps, when the property reads back what was parsed: \<open>cast.ToInt64\<close> of a decimal number up to
  \<open>SysVersion\<close>, a single digit, is that number.
\<close>

definition versions_read_back :: "ext \<Rightarrow> bool" where
  "versions_read_back X \<longleftrightarrow> (\<forall>v n. ParseInt64 v = Some n \<and> 0 \<le> n \<and> n \<le> SysVersion \<longrightarrow> castInt64 X v = n)"

lemma steps_version:
  assumes "(node_step X C S)\<^sup>*\<^sup>* w w'" "versions_read_back X" "0 \<le> castInt64 X (property SysVersionKey w)"
  shows "property SysVersionKey w' = property SysVersionKey w \<or>
    (\<exists>n. ParseInt64 (property SysVersionKey w') = Some n \<and> castInt64 X (property SysVersionKey w) < n \<and> n \<le> SysVersion)"
  using assms(1)
proof (induction rule: rtranclp_induct)
  case (step v w')
  show ?case
  proof (cases "property SysVersionKey v = property SysVersionKey w")
    case True
    with step_version [OF step(2)] show ?thesis by simp
  next
    case False
    with step(3) obtain n where n: "ParseInt64 (property SysVersionKey v) = Some n"
        "castInt64 X (property SysVersionKey w) < n" "n \<le> SysVersion"
      by blast
    with assms(2,3) have "castInt64 X (property SysVersionKey v) = n"
      by (simp add: versions_read_back_def)
    with step_version [OF step(2)] n show ?thesis
      by (metis order.strict_trans)
  qed
qed simp

end
