(* ===== verification/Funding.thy ===== *)
theory Funding
  imports Node_Relation
begin

text \<open>
  Where the money of a transfer comes from. The assigner marks outputs as spent by a transfer, the
  cashier and the spent-sync move the transfer on, the syncer and the recovery bring in new outputs and
  the payee makes new transfers. Through all of this an assigned transfer stays covered by outputs of
  its asset that are marked with its trace and with no other, and the marks of a transfer follow their
  order: passed after handled after assigned.
\<close>

section \<open>Covered transfers\<close>

definition pays :: "Transfer \<Rightarrow> Output \<Rightarrow> bool" where
  "pays t x \<longleftrightarrow> o_SpentBy x = t_TraceID t \<and> o_AssetID x = t_AssetID t"

definition paid :: "Transfer \<Rightarrow> Output list \<Rightarrow> rat" where
  "paid t outs = sum_list (map o_Amount (filter (pays t) outs))"

lemma paid_cong: "t_TraceID t' = t_TraceID t \<Longrightarrow> t_AssetID t' = t_AssetID t \<Longrightarrow> paid t' outs = paid t outs"
  by (simp add: paid_def pays_def [abs_def])

text \<open>An empty trace marks nothing; the traces the program makes are UUIDs.\<close>

definition transfer_ok :: "Output list \<Rightarrow> Transfer \<Rightarrow> bool" where
  "transfer_ok outs t \<longleftrightarrow> (t_Assigned t \<and> t_TraceID t \<noteq> '''' \<longrightarrow> t_Amount t \<le> paid t outs)
     \<and> (t_Handled t \<longrightarrow> t_Assigned t) \<and> (t_Passed t \<longrightarrow> t_Handled t)"

definition output_ok :: "Transfer list \<Rightarrow> Output \<Rightarrow> bool" where
  "output_ok ts x \<longleftrightarrow> o_SpentBy x = '''' \<or> list_ex (\<lambda>t. pays t x \<and> t_Assigned t) ts"

text \<open>A new output: without an identifier of the table and not spent.\<close>

definition unspent :: "Output \<Rightarrow> bool" where
  "unspent x \<longleftrightarrow> o_ID x = 0 \<and> o_SpentBy x = ''''"

definition raw_unspent :: "RawOutput \<Rightarrow> bool" where
  "raw_unspent r \<longleftrightarrow> (case ro_Data r of None \<Rightarrow> True | Some x \<Rightarrow> unspent x)"

definition money_ok :: "Output list \<Rightarrow> Transfer list \<Rightarrow> bool" where
  "money_ok outs ts \<longleftrightarrow> ids_ok o_ID outs \<and> keys_ok t_ID t_TraceID ts \<and> list_all (transfer_ok outs) ts \<and> list_all (output_ok ts) outs"

definition funded :: "world \<Rightarrow> bool" where
  "funded w \<longleftrightarrow> money_ok (outputs w) (transfers w) \<and> list_all raw_unspent (rawOutputs w)"

text \<open>What a step keeps: the invariant, and every transfer up to its marks, of which \<open>assigned\<close> stays.\<close>

definition same_transfer :: "Transfer \<Rightarrow> Transfer \<Rightarrow> bool" where
  "same_transfer r r' \<longleftrightarrow> r' = r\<lparr>t_Assigned := t_Assigned r', t_Handled := t_Handled r', t_Passed := t_Passed r'\<rparr>
     \<and> (t_Assigned r \<longrightarrow> t_Assigned r')"

definition funding :: "world \<Rightarrow> world \<Rightarrow> bool" where
  "funding w w' \<longleftrightarrow> (funded w \<longrightarrow> funded w' \<and> (\<forall>r\<in>set (transfers w). \<exists>r'\<in>set (transfers w'). same_transfer r r'))"

lemma same_transfer_refl [simp]: "same_transfer r r"
  by (simp add: same_transfer_def)

lemma same_transfer_fields:
  "same_transfer r r' \<Longrightarrow> t_ID r' = t_ID r \<and> t_TraceID r' = t_TraceID r \<and> t_AssetID r' = t_AssetID r
    \<and> t_Amount r' = t_Amount r \<and> (t_Assigned r \<longrightarrow> t_Assigned r')"
  unfolding same_transfer_def by (cases r; cases r') auto

lemma same_transfer_trans: "same_transfer a b \<Longrightarrow> same_transfer b c \<Longrightarrow> same_transfer a c"
  unfolding same_transfer_def by (cases a; cases b; cases c) auto

lemma funding_trans: "funding u v \<Longrightarrow> funding v w \<Longrightarrow> funding u w"
  unfolding funding_def by (meson same_transfer_trans)

text \<open>A step that leaves the three tables alone.\<close>

lemma funding_frame: "outputs w' = outputs w \<Longrightarrow> transfers w' = transfers w \<Longrightarrow> rawOutputs w' = rawOutputs w \<Longrightarrow> funding w w'"
  by (auto simp: funding_def funded_def intro!: bexI [of _ r for r])

lemma funding_more: "(funded w \<Longrightarrow> funded w' \<and> set (transfers w) \<subseteq> set (transfers w')) \<Longrightarrow> funding w w'"
  unfolding funding_def by (meson same_transfer_refl subsetD)

interpretation funding: preserved funding
  by unfold_locales (auto intro: funding_frame funding_trans)

section \<open>New transfers\<close>

lemma paid_unassigned:
  "list_all (output_ok ts) outs \<Longrightarrow> t_TraceID t \<noteq> '''' \<Longrightarrow> (\<And>r. r \<in> set ts \<Longrightarrow> t_TraceID r = t_TraceID t \<Longrightarrow> \<not> t_Assigned r) \<Longrightarrow>
   filter (pays t) outs = []"
  by (induction outs) (auto simp: output_ok_def pays_def list_ex_iff)

lemma output_ok_append: "output_ok ts x \<Longrightarrow> output_ok (ts @ us) x"
  by (auto simp: output_ok_def)

lemma money_create:
  assumes "money_ok outs ts" "fresh_transfer t"
  shows "money_ok outs (create_transfer t ts) \<and> set ts \<subseteq> set (create_transfer t ts)"
proof -
  have "keys_ok t_ID t_TraceID (create_transfer t ts)"
    unfolding create_transfer_def using assms(1) by (intro keys_ok_create) (simp_all add: money_ok_def)
  moreover have "transfer_ok outs (t\<lparr>t_ID := i\<rparr>)" for i
    using assms(2) by (simp add: transfer_ok_def fresh_transfer_def)
  ultimately show ?thesis
    using assms(1)
    by (auto simp: money_ok_def create_transfer_def first_or_create_def Let_def output_ok_append list_all_iff split: option.splits)
qed

lemma money_create_all:
  "money_ok outs ts \<Longrightarrow> list_all fresh_transfer us \<Longrightarrow>
   money_ok outs (fold create_transfer us ts) \<and> set ts \<subseteq> set (fold create_transfer us ts)"
proof (induction us arbitrary: ts)
  case (Cons u us)
  with money_create [of outs ts u] show ?case
    by fastforce
qed simp

lemma set_sort_transfers [simp]: "set (sort_transfers ts) = set ts"
proof -
  have "set (insert_transfer t us) = insert t (set us)" for t us
    by (induction us) auto
  then show ?thesis
    unfolding sort_transfers_def by (induction ts) simp_all
qed

lemma funding_CreateTransfers: "list_all fresh_transfer ts \<Longrightarrow> keeps funding (wallet_CreateTransfers ts)"
proof -
  assume "list_all fresh_transfer ts"
  then have "list_all fresh_transfer (sort_transfers ts)"
    by (simp add: list_all_iff)
  then show ?thesis
    unfolding wallet_CreateTransfers_def
    by (intro funding.keeps_dbio funding_more) (use money_create_all in \<open>fastforce simp: funded_def\<close>)
qed

lemma funding_dbio:
  "(\<And>w. outputs (snd (f w)) = outputs w) \<Longrightarrow> (\<And>w. transfers (snd (f w)) = transfers w) \<Longrightarrow>
   (\<And>w. rawOutputs (snd (f w)) = rawOutputs w) \<Longrightarrow> keeps funding (dbio f)"
  by (intro funding.keeps_dbio funding_frame)

lemma funding_update:
  assumes "\<And>rows w. outputs (put rows w) = outputs w" "\<And>rows w. transfers (put rows w) = transfers w"
    "\<And>rows w. rawOutputs (put rows w) = rawOutputs w"
  shows "keeps funding (store_Update rid rver wr get put s v)"
  unfolding store_Update_def
  by (intro keeps_if funding_dbio funding.keeps_ret) (simp_all add: lock_update_def assms)

lemma funding_Save_property: "keeps funding (property_Save k x)"
  by (simp add: property_Save_def funding_dbio)

interpretation payee_funding: payee_relation funding S for S
proof unfold_locales
  show "keeps funding (wallet_CreateTransfers ts)" if "list_all fresh_transfer ts" for ts
    using that by (rule funding_CreateTransfers)
  show "keeps funding (market_Create m)" for m
    unfolding market_Create_def by (rule funding_dbio) (simp_all add: case_prod_beta)
  show "keeps funding (user_Create u)" for u
    unfolding user_Create_def by (rule funding_dbio) (simp_all add: case_prod_beta)
  show "keeps funding (transaction_Create t)" for t
    unfolding transaction_Create_def by (rule funding_dbio) (simp_all add: case_prod_beta)
  show "keeps funding (proposal_Create p)" for p
    unfolding proposal_Create_def by (rule funding_dbio) (simp_all add: case_prod_beta)
  show "keeps funding (user_MigrateToV1 us)" for us
    unfolding user_MigrateToV1_def by (rule funding_dbio) (simp_all split: option.split)
  show "funding w (snd (proposal_Update X (voted S who tm p) n w))" for w X who tm p n
    unfolding proposal_Update_def by (rule keepsD, rule funding_dbio) simp_all
  show "funding w (snd (property_Save k x w))" for w k x
    by (rule keepsD [OF funding_Save_property])
  show "keeps funding (HandleTransfer X t)" "keeps funding (uuid_New X)" for X t
    by (rule keepsI, rule funding_frame; simp add: HandleTransfer_def uuid_New_def throw_def)+
qed (simp_all add: market_Update_def supply_Update_def borrow_Update_def funding_update supply_Create_def borrow_Create_def funding_dbio signer_Save_def signer_Delete_def message_Create_def
    Let_def funding_frame)

section \<open>New outputs\<close>

text \<open>Outputs with the same marks and amounts fund the same transfers.\<close>

definition marks :: "Output \<Rightarrow> int \<times> string \<times> string \<times> rat" where
  "marks x = (o_ID x, o_SpentBy x, o_AssetID x, o_Amount x)"

lemma paid_marks:
  assumes "map marks outs' = map marks outs"
  shows "paid t outs' = paid t outs"
proof -
  have "paid t xs = sum_list (map (\<lambda>(i, s, a, n). if s = t_TraceID t \<and> a = t_AssetID t then n else 0) (map marks xs))" for xs
    by (simp add: paid_def pays_def sum_list_map_filter' marks_def comp_def)
  with assms show ?thesis
    by (simp only:)
qed

lemma output_ok_marks:
  assumes "map marks outs' = map marks outs"
  shows "list_all (output_ok ts) outs' = list_all (output_ok ts) outs"
proof -
  have "list_all (output_ok ts) xs
      = list_all (\<lambda>(i, s, a, n). s = [] \<or> list_ex (\<lambda>t. s = t_TraceID t \<and> a = t_AssetID t \<and> t_Assigned t) ts) (map marks xs)" for xs
    unfolding list.pred_map by (simp add: output_ok_def [abs_def] pays_def marks_def comp_def)
  with assms show ?thesis
    by (simp only:)
qed

lemma money_marks:
  assumes "map marks outs' = map marks outs"
  shows "money_ok outs' ts = money_ok outs ts"
proof -
  have "map o_ID outs' = map o_ID outs"
    using arg_cong [OF assms, of "map fst"] by (simp add: marks_def comp_def)
  then show ?thesis
    using paid_marks [OF assms] output_ok_marks [OF assms] ids_ok_map [of o_ID outs' outs]
    by (simp add: money_ok_def transfer_ok_def [abs_def])
qed

lemma money_append:
  assumes "money_ok outs ts" "o_SpentBy x = ''''" "o_ID x = next_id (map o_ID outs)"
  shows "money_ok (outs @ [x]) ts"
proof -
  have "paid t (outs @ [x]) = paid t outs" if "t_TraceID t \<noteq> ''''" for t
    using that assms(2) by (simp add: paid_def pays_def)
  then have "transfer_ok (outs @ [x]) t" if "transfer_ok outs t" for t
    using that by (auto simp: transfer_ok_def)
  moreover have "output_ok ts x"
    using assms(2) by (simp add: output_ok_def)
  ultimately show ?thesis
    using assms by (auto simp: money_ok_def list_all_iff ids_ok_append)
qed



lemma replace_all: "list_all Q rows \<Longrightarrow> (\<And>r. Q r \<Longrightarrow> Q (f r)) \<Longrightarrow> list_all Q (replace_rows P f rows)"
  by (induction rows) auto

lemma funded_saveRaw: "funded w \<Longrightarrow> unspent x \<Longrightarrow> funded (saveRawOutput x w)"
  by (auto simp: funded_def saveRawOutput_def Let_def raw_unspent_def intro!: replace_all)

lemma funded_save:
  assumes "funded w" "unspent x"
  shows "funded (save ack x w)"
proof -
  have "money_ok (replace_rows P (\<lambda>r. r\<lparr>o_Data := d, o_State := s, o_Version := o_Version r + 1\<rparr>) (outputs w)) (transfers w)"
    for P d s
    by (subst money_marks [OF map_replace]) (use assms(1) in \<open>simp_all add: marks_def funded_def\<close>)
  moreover have "money_ok (outputs w @ [x\<lparr>o_ID := next_id (map o_ID (outputs w)), o_UTXO := None\<rparr>]) (transfers w)"
    by (rule money_append) (use assms in \<open>simp_all add: funded_def unspent_def\<close>)
  ultimately show ?thesis
    using assms funded_saveRaw [OF assms] unfolding save_def Let_def
    by (simp add: funded_def unspent_def)
qed

lemma save_transfers [simp]: "transfers (save ack x w) = transfers w"
  by (simp add: save_def saveRawOutput_def Let_def)

lemma funding_saves: "list_all unspent xs \<Longrightarrow> funding w (fold (save ack) xs w)"
proof (induction xs arbitrary: w)
  case (Cons x xs)
  then have "funding w (save ack x w)"
    by (auto intro!: funding_more funded_save)
  with Cons show ?case
    by (auto intro: funding_trans)
qed (simp add: funding.R_refl)

lemma funding_api: "keeps funding (api f)"
  by (rule keepsI, rule funding_frame) (simp_all add: api_def)

lemma funding_apiE: "keeps funding (apiE f)"
  unfolding apiE_def by (intro funding.keeps_basic funding_api)

lemmas funding_calls = funding.keeps_basic funding.keeps_reads funding_api funding_apiE payee_funding.keeps_stores
  funding_Save_property

lemma funding_Save:
  assumes "list_all unspent outs"
  shows "keeps funding (wallet_Save outs atEnd)"
proof -
  have "keeps funding (dbio (\<lambda>w. (Ok (), fold (save False) outs w)))"
    by (rule funding.keeps_dbio) (simp add: funding_saves assms)
  moreover have "keeps funding (\<lambda>w. (Ok (), w\<lparr>rawOutputID := n\<rparr>))" for n
    by (rule keepsI, rule funding_frame) simp_all
  ultimately show ?thesis
    unfolding wallet_Save_def findLastRawOutputID_def by (intro funding_calls)
qed

lemma Pull_unspent: "Pull C offset limit w = (Ok outs, w') \<Longrightarrow> list_all unspent outs"
  by (auto simp: Pull_def list_all_iff unspent_def convertUTXO_def ret_def elim!: seqE_OkE)

lemma funding_syncer: "keeps funding (syncer_run C)"
proof -
  have pull: "keeps funding (Pull C offset limit)" for offset limit
    unfolding Pull_def by (intro funding_calls)
  have "keeps funding (seqE (Pull C offset 500) (\<lambda>outs. if outs = [] then throw (GoError ''EOF'') else
      let nextOffset = o_UpdatedAt (last outs); atEnd = length outs < 500
      in seqE (wallet_Save outs atEnd) (\<lambda>_. property_Save syncer_checkpointKey (cl_FormatTime C nextOffset))))" for offset
  proof (intro keepsI funding.after_seq keepsD [OF pull])
    fix w outs w1
    assume "Pull C offset 500 w = (Ok outs, w1)"
    from funding_Save [OF Pull_unspent [OF this]]
    show "funding w1 (snd ((if outs = [] then throw (GoError ''EOF'') else
      let nextOffset = o_UpdatedAt (last outs); atEnd = length outs < 500
      in seqE (wallet_Save outs atEnd) (\<lambda>_. property_Save syncer_checkpointKey (cl_FormatTime C nextOffset))) w1))"
      by (intro keepsD [where R = funding] funding_calls)
  qed
  then show ?thesis
    unfolding syncer_run_def
    by (intro funding.keeps_seqE [OF funding.keeps_reads(15)] keeps_Let [where f = "\<lambda>x. seqE (Pull C x 500) (k x)" for k]) assumption
qed

text \<open>The batch of a round is taken from the queue.\<close>

lemma funding_commit:
  assumes "list_all unspent outs"
  shows "keeps funding (dbio (\<lambda>w. (Ok (), let w' = fold (save True) outs w in w'\<lparr>rawOutputs := filter P (rawOutputs w')\<rparr>)))"
proof (rule funding.keeps_dbio)
  fix w
  have "funding (fold (save True) outs w) (fold (save True) outs w\<lparr>rawOutputs := filter P (rawOutputs (fold (save True) outs w))\<rparr>)"
    by (rule funding_more) (auto simp: funded_def list_all_iff)
  with funding_saves [OF assms] show "funding w (snd (Ok (), let w' = fold (save True) outs w in w'\<lparr>rawOutputs := filter P (rawOutputs w')\<rparr>))"
    by (auto simp: Let_def intro: funding_trans)
qed

lemma funding_recovery: "keeps funding runSync"
proof (rule funding.keeps_recovery [where good = funded and new = unspent])
  show "unspent x" if "funded w" "r \<in> set (rawOutputs w)" "ro_Data r = Some x" for w r x
    using that by (auto simp: funded_def list_all_iff raw_unspent_def)
qed (auto simp: funding_def intro: funding_commit)

section \<open>Transfers on their way\<close>

text \<open>A transfer that was assigned when it was read: its row is still there and assigned.\<close>

definition assigned :: "Transfer \<Rightarrow> world \<Rightarrow> bool" where
  "assigned t w \<longleftrightarrow> t_Assigned t \<and> list_ex (\<lambda>r. t_ID r = t_ID t \<and> t_Assigned r) (transfers w)"

lemma assigned_funding: "assigned t w \<Longrightarrow> funded w \<Longrightarrow> funding w w' \<Longrightarrow> assigned t w'"
  unfolding assigned_def list_ex_iff funding_def by (metis same_transfer_fields)

lemma assigned_marks [simp]: "assigned (t\<lparr>t_Handled := h\<rparr>) w = assigned t w" "assigned (t\<lparr>t_Passed := p\<rparr>) w = assigned t w"
  by (simp_all add: assigned_def)

lemma funding_UpdateTransfer:
  assumes "assigned t w" "t_Passed t \<longrightarrow> t_Handled t"
  shows "funding w (updateTransfer t w)"
proof (cases "funded w")
  case True
  define f where "f r = r\<lparr>t_Assigned := t_Assigned t, t_Handled := t_Handled t, t_Passed := t_Passed t\<rparr>" for r :: Transfer
  define ts where "ts = replace_rows (\<lambda>r. t_ID r = t_ID t) f (transfers w)"
  have t: "t_Assigned t" and keys: "keys_ok t_ID t_TraceID (transfers w)" and rows: "list_all (transfer_ok (outputs w)) (transfers w)"
    and outs: "list_all (output_ok (transfers w)) (outputs w)"
    using assms(1) True by (simp_all add: assigned_def funded_def money_ok_def)
  obtain r0 where r0: "r0 \<in> set (transfers w)" "t_ID r0 = t_ID t" "t_Assigned r0"
    using assms(1) by (auto simp: assigned_def list_ex_iff)
  then have "t_ID t \<noteq> 0"
    using keys by (force simp: keys_ok_def ids_ok_def list_all_iff)
  then have upd: "updateTransfer t w = w\<lparr>transfers := ts\<rparr>"
    by (simp add: updateTransfer_def ts_def f_def [abs_def])
  have same: "r = r0" if "r \<in> set (transfers w)" "t_ID r = t_ID t" for r
    using that r0 keys unfolding keys_ok_def ids_ok_def distinct_map by (metis inj_onD)
  have mem: "set ts = (\<lambda>r. if t_ID r = t_ID t then f r else r) ` set (transfers w)"
    by (simp add: ts_def replace_rows_map)
  have "transfer_ok (outputs w) (f r0)"
    using r0 rows assms(2) t paid_cong [of "f r0" r0] by (auto simp: transfer_ok_def f_def list_all_iff)
  then have "list_all (transfer_ok (outputs w)) ts"
    using rows same unfolding list_all_iff mem by auto
  moreover have "list_ex (\<lambda>t. pays t x \<and> t_Assigned t) ts" if ex: "list_ex (\<lambda>t. pays t x \<and> t_Assigned t) (transfers w)" for x
  proof -
    from ex obtain r where r: "r \<in> set (transfers w)" "pays r x" "t_Assigned r"
      by (auto simp: list_ex_iff)
    then have "(if t_ID r = t_ID t then f r else r) \<in> set ts"
      by (simp add: mem)
    moreover have "pays (if t_ID r = t_ID t then f r else r) x" "t_Assigned (if t_ID r = t_ID t then f r else r)"
      using r t by (simp_all add: f_def pays_def)
    ultimately show ?thesis
      unfolding list_ex_iff by blast
  qed
  then have "list_all (output_ok ts) (outputs w)"
    using outs by (auto simp: list_all_iff output_ok_def)
  moreover have "keys_ok t_ID t_TraceID ts"
    unfolding ts_def using keys by (subst keys_ok_replace) (simp_all add: f_def)
  moreover have "\<exists>r'\<in>set ts. same_transfer r r'" if "r \<in> set (transfers w)" for r
    unfolding mem using that t
    by (intro bexI [OF _ imageI [OF that]]) (simp add: f_def same_transfer_def)
  ultimately show ?thesis
    using True unfolding upd by (simp add: funding_def funded_def money_ok_def)
qed (simp add: funding_def)

section \<open>Assigning outputs\<close>

text \<open>The outputs the loop picks are a prefix; its sum is theirs.\<close>

lemma pick_prefix: "pick wipe n acc xs = (ys, s) \<Longrightarrow> ys = take (length ys) xs \<and> s = acc + sum_list (map o_Amount ys)"
  by (induction wipe n acc xs arbitrary: ys s rule: pick.induct) (auto simp: Let_def split: if_splits prod.splits)

text \<open>Marking outputs that were not spent with the trace of a transfer that has none.\<close>

definition mark :: "int list \<Rightarrow> string \<Rightarrow> Output list \<Rightarrow> Output list" where
  "mark ids trace = replace_rows (\<lambda>r. o_ID r \<in> set ids) (\<lambda>r. r\<lparr>o_SpentBy := trace\<rparr>)"

lemma mark_map: "mark ids trace outs = map (\<lambda>r. if o_ID r \<in> set ids then r\<lparr>o_SpentBy := trace\<rparr> else r) outs"
  by (simp add: mark_def replace_rows_map)

lemma paid_mark_other:
  assumes "t_TraceID t \<noteq> ''''" "t_TraceID t \<noteq> trace" "\<And>x. x \<in> set outs \<Longrightarrow> o_ID x \<in> set ids \<Longrightarrow> o_SpentBy x = ''''"
  shows "paid t (mark ids trace outs) = paid t outs"
  unfolding paid_def sum_list_map_filter' mark_map map_map
  by (rule arg_cong [where f = sum_list], rule map_cong) (use assms in \<open>auto simp: pays_def\<close>)

lemma paid_mark:
  assumes "filter (pays t) outs = []" "\<And>x. x \<in> set outs \<Longrightarrow> o_ID x \<in> set ids \<Longrightarrow> o_AssetID x = t_AssetID t"
  shows "paid t (mark ids (t_TraceID t) outs) = sum_list (map o_Amount (filter (\<lambda>x. o_ID x \<in> set ids) outs))"
proof -
  have "\<not> pays t x" if "x \<in> set outs" for x
    using assms(1) that by (simp add: filter_empty_conv)
  then show ?thesis
    unfolding paid_def sum_list_map_filter' mark_map map_map
    by (intro arg_cong [where f = sum_list] map_cong) (use assms(2) in \<open>auto simp: pays_def\<close>)
qed

text \<open>Selecting rows again by their identifiers.\<close>

lemma filter_ids:
  assumes "distinct (map k xs)"
  shows "filter (\<lambda>x. k x \<in> k ` set (take n (filter P xs))) xs = take n (filter P xs)"
  using assms
proof (induction xs arbitrary: n)
  case (Cons x xs)
  have notin: "k x \<notin> k ` set (take m (filter P xs))" for m
    using Cons.prems set_take_subset [of m "filter P xs"] by fastforce
  show ?case
  proof (cases "P x \<and> 0 < n")
    case True
    then obtain m where n: "n = Suc m" by (cases n) auto
    have "filter (\<lambda>y. k y = k x \<or> k y \<in> k ` set (take m (filter P xs))) xs = filter (\<lambda>y. k y \<in> k ` set (take m (filter P xs))) xs"
      using Cons.prems by (intro filter_cong) (auto simp: image_iff)
    with True n Cons show ?thesis by simp
  next
    case False
    then have "take n (filter P (x # xs)) = take n (filter P xs)"
      by auto
    with Cons notin show ?thesis by simp
  qed
qed simp

text \<open>
  The heart of an assignment: outputs of the asset that are not spent are marked for \<open>t0\<close>, which takes
  the place of the transfers with its trace, none of them assigned.
\<close>

lemma money_assign:
  fixes t0 :: Transfer
  defines "free x \<equiv> o_AssetID x = t_AssetID t0 \<and> o_SpentBy x = ''''"
  assumes ok: "money_ok outs ts" and ids: "ids = map o_ID (take n (filter free outs))"
    and amount: "t_Amount t0 \<le> sum_list (map o_Amount (take n (filter free outs)))"
    and t0: "t0 \<in> set ts'" "t_Assigned t0" "\<not> t_Handled t0" "\<not> t_Passed t0"
    and unassigned: "\<And>r. r \<in> set ts \<Longrightarrow> t_TraceID r = t_TraceID t0 \<Longrightarrow> \<not> t_Assigned r"
    and others: "\<And>r. r \<in> set ts \<Longrightarrow> t_TraceID r \<noteq> t_TraceID t0 \<Longrightarrow> r \<in> set ts'"
    and only: "\<And>r. r \<in> set ts' \<Longrightarrow> r \<noteq> t0 \<Longrightarrow> r \<in> set ts \<and> t_TraceID r \<noteq> t_TraceID t0"
    and keys: "keys_ok t_ID t_TraceID ts'"
  shows "money_ok (mark ids (t_TraceID t0) outs) ts'"
proof -
  let ?outs = "mark ids (t_TraceID t0) outs"
  have dist: "distinct (map o_ID outs)"
    using ok by (simp add: money_ok_def ids_ok_def)
  have marked: "free x" if "x \<in> set outs" "o_ID x \<in> set ids" for x
  proof -
    have "x \<in> set (filter (\<lambda>x. o_ID x \<in> o_ID ` set (take n (filter free outs))) outs)"
      using that by (simp add: ids)
    then show ?thesis
      unfolding filter_ids [OF dist] by (auto dest: in_set_takeD)
  qed
  have "t_Amount t0 \<le> paid t0 ?outs" if "t_TraceID t0 \<noteq> ''''"
  proof -
    have "filter (pays t0) outs = []"
      using ok that unassigned paid_unassigned [of ts outs t0] unfolding money_ok_def by blast
    then have "paid t0 ?outs = sum_list (map o_Amount (filter (\<lambda>x. o_ID x \<in> set ids) outs))"
      using marked by (intro paid_mark) (auto simp: free_def)
    also have "filter (\<lambda>x. o_ID x \<in> set ids) outs = take n (filter free outs)"
      using filter_ids [OF dist, of n free] by (simp add: ids)
    finally show ?thesis
      using amount by simp
  qed
  then have "transfer_ok ?outs r" if "r \<in> set ts'" for r
    using that only [of r] ok t0 paid_mark_other [of r "t_TraceID t0" outs ids] marked
    by (cases "r = t0") (auto simp: transfer_ok_def money_ok_def list_all_iff free_def)
  moreover have "output_ok ts' x'" if "x' \<in> set ?outs" for x'
  proof -
    from that obtain x where x: "x \<in> set outs" "x' = (if o_ID x \<in> set ids then x\<lparr>o_SpentBy := t_TraceID t0\<rparr> else x)"
      by (auto simp: mark_map)
    show ?thesis
    proof (cases "o_ID x \<in> set ids")
      case True
      then have "pays t0 x'"
        using marked x by (auto simp: pays_def free_def)
      with t0 show ?thesis
        by (auto simp: output_ok_def list_ex_iff)
    next
      case False
      have "output_ok ts x"
        using ok x(1) by (simp add: money_ok_def list_all_iff)
      with False x(2) unassigned others show ?thesis
        unfolding output_ok_def list_ex_iff by auto
    qed
  qed
  moreover have "ids_ok o_ID ?outs"
    using ok unfolding mark_def by (subst ids_ok_replace) (simp_all add: money_ok_def)
  ultimately show ?thesis
    using keys by (simp add: money_ok_def list_all_iff)
qed

text \<open>A transfer that waits for its outputs.\<close>

definition pending_row :: "Transfer \<Rightarrow> Transfer \<Rightarrow> bool" where
  "pending_row t r \<longleftrightarrow> t_ID r = t_ID t \<and> t_TraceID r = t_TraceID t \<and> t_AssetID r = t_AssetID t \<and> t_Amount r = t_Amount t
     \<and> \<not> t_Assigned r"

definition waiting :: "Transfer \<Rightarrow> world \<Rightarrow> bool" where
  "waiting t w \<longleftrightarrow> \<not> t_Handled t \<and> \<not> t_Passed t \<and> list_ex (pending_row t) (transfers w)"

text \<open>An assignment to one transfer leaves the others waiting.\<close>

definition settles :: "Transfer \<Rightarrow> world \<Rightarrow> world \<Rightarrow> bool" where
  "settles t w w' \<longleftrightarrow> funding w w' \<and> (\<forall>u. t_ID u \<noteq> t_ID t \<longrightarrow> waiting u w \<longrightarrow> waiting u w')"

lemma sum_afterFind: "map o_Amount (map afterFindOutput xs) = map o_Amount xs" "map o_ID (map afterFindOutput xs) = map o_ID xs"
  by (auto simp: afterFindOutput_def split: option.split)

lemma settles_assign:
  fixes t :: Transfer
  defines "free x \<equiv> o_AssetID x = t_AssetID t \<and> o_SpentBy x = ''''"
  assumes w: "funded w" and outs: "outs = map afterFindOutput (take n (filter free (outputs w)))"
    and amount: "t_Amount t \<le> sum_list (map o_Amount outs)" and t: "waiting t w"
  shows "settles t w (snd (assign_tx outs t w))"
proof -
  define f where "f r = r\<lparr>t_Assigned := True, t_Handled := t_Handled t, t_Passed := t_Passed t\<rparr>" for r :: Transfer
  define ts where "ts = replace_rows (\<lambda>r. t_ID r = t_ID t) f (transfers w)"
  have keys: "keys_ok t_ID t_TraceID (transfers w)"
    using w by (simp add: funded_def money_ok_def)
  obtain r0 where r0: "r0 \<in> set (transfers w)" "pending_row t r0"
    using t by (auto simp: waiting_def list_ex_iff)
  have pos: "0 < t_ID t"
    using keys r0 by (force simp: keys_ok_def ids_ok_def list_all_iff pending_row_def)
  have same: "r = r0" if "r \<in> set (transfers w)" "t_ID r = t_ID t \<or> t_TraceID r = t_TraceID t" for r
    using that r0 keys unfolding keys_ok_def ids_ok_def distinct_map pending_row_def by (metis inj_onD)
  have mem: "set ts = (\<lambda>r. if t_ID r = t_ID t then f r else r) ` set (transfers w)"
    by (simp add: ts_def replace_rows_map)
  have res: "snd (assign_tx outs t w) = w\<lparr>outputs := mark (map o_ID outs) (t_TraceID t) (outputs w), transfers := ts\<rparr>"
    using pos by (simp add: assign_tx_def updateTransfer_def mark_def ts_def f_def [abs_def] Let_def)
  have fr0: "t_TraceID (f r0) = t_TraceID t" "t_AssetID (f r0) = t_AssetID t" "t_Amount (f r0) = t_Amount t" "t_ID r0 = t_ID t"
    using r0(2) by (simp_all add: f_def pending_row_def)
  have "money_ok (mark (map o_ID outs) (t_TraceID (f r0)) (outputs w)) ts"
  proof (rule money_assign [where n = n and ts = "transfers w"])
    show "keys_ok t_ID t_TraceID ts"
      unfolding ts_def using keys by (subst keys_ok_replace) (simp_all add: f_def)
    show "f r0 \<in> set ts"
      unfolding mem using r0(1) fr0(4) by (intro image_eqI [of _ _ r0]) simp_all
    show "r \<in> set (transfers w) \<and> t_TraceID r \<noteq> t_TraceID (f r0)" if "r \<in> set ts" "r \<noteq> f r0" for r
      using that same fr0 unfolding mem by (auto split: if_splits)
    show "r \<in> set ts" if "r \<in> set (transfers w)" "t_TraceID r \<noteq> t_TraceID (f r0)" for r
    proof -
      have "t_ID r \<noteq> t_ID t"
        using that same [of r] fr0(1) r0(2) unfolding pending_row_def by metis
      with that(1) show ?thesis
        unfolding mem by (intro image_eqI [of _ _ r]) simp_all
    qed
    show "\<not> t_Assigned r" if "r \<in> set (transfers w)" "t_TraceID r = t_TraceID (f r0)" for r
      using that same [of r] r0 fr0 by (simp add: pending_row_def)
  qed (use w outs amount t in \<open>simp_all only: fr0 sum_afterFind free_def [abs_def] funded_def\<close>, simp_all add: f_def waiting_def)
  moreover have "\<exists>r'\<in>set ts. same_transfer r r'" if "r \<in> set (transfers w)" for r
    unfolding mem by (intro bexI [OF _ imageI [OF that]]) (simp add: f_def same_transfer_def)
  moreover have "waiting u (w\<lparr>outputs := x, transfers := ts\<rparr>)" if "t_ID u \<noteq> t_ID t" "waiting u w" for u x
  proof -
    from that(2) obtain r where "r \<in> set (transfers w)" "pending_row u r"
      by (auto simp: waiting_def list_ex_iff)
    then have "r \<in> set ts \<and> pending_row u r"
      unfolding mem using that(1) by (intro conjI image_eqI [of _ _ r]) (auto simp: pending_row_def)
    with that(2) show ?thesis
      by (auto simp: waiting_def list_ex_iff)
  qed
  ultimately show ?thesis
    using w unfolding res settles_def funding_def funded_def by (simp add: fr0)
qed

lemma settles_merge:
  fixes t :: Transfer
  defines "free x \<equiv> o_AssetID x = t_AssetID t \<and> o_SpentBy x = ''''"
  assumes w: "funded w" and outs: "outs = map afterFindOutput (take n (filter free (outputs w)))"
    and amount: "t_Amount t \<le> sum_list (map o_Amount outs)" and t: "fresh_transfer t"
  shows "settles u w (snd (assign_tx outs t w))"
proof (cases "list_ex (\<lambda>r. t_TraceID r = t_TraceID t) (transfers w)")
  case True
  with t show ?thesis
    by (simp add: assign_tx_def Let_def fresh_transfer_def settles_def funding.R_refl)
next
  case False
  define t0 where "t0 = t\<lparr>t_Assigned := True, t_ID := next_id (map t_ID (transfers w))\<rparr>"
  define ts where "ts = transfers w @ [t0]"
  have res: "snd (assign_tx outs t w) = w\<lparr>outputs := mark (map o_ID outs) (t_TraceID t) (outputs w), transfers := ts\<rparr>"
    using False t by (simp add: assign_tx_def mark_def ts_def t0_def Let_def fresh_transfer_def)
  have new: "t_TraceID r \<noteq> t_TraceID t" if "r \<in> set (transfers w)" for r
    using False that by (auto simp: list_ex_iff)
  have t0: "t_TraceID t0 = t_TraceID t" "t_AssetID t0 = t_AssetID t" "t_Amount t0 = t_Amount t"
    by (simp_all add: t0_def)
  have "money_ok (mark (map o_ID outs) (t_TraceID t0) (outputs w)) ts"
  proof (rule money_assign [where n = n and ts = "transfers w"])
    have "keys_ok t_ID t_TraceID (transfers w)"
      using w by (simp add: funded_def money_ok_def)
    moreover have "t_TraceID t \<notin> t_TraceID ` set (transfers w)"
      using new by (metis imageE)
    ultimately show "keys_ok t_ID t_TraceID ts"
      unfolding keys_ok_def ts_def by (auto simp: t0_def intro: ids_ok_append)
  qed (use w outs amount t new in \<open>simp_all only: t0 sum_afterFind free_def [abs_def] funded_def\<close>,
      auto simp: ts_def t0_def fresh_transfer_def)
  moreover have "waiting v (w\<lparr>outputs := x, transfers := ts\<rparr>)" if "waiting v w" for v x
    using that by (simp add: waiting_def ts_def)
  ultimately show ?thesis
    using w unfolding res settles_def by (auto simp: t0 funded_def ts_def intro!: funding_more)
qed

text \<open>A change of the failures ahead does not matter.\<close>

lemma tables_faults [simp]: "funded (w\<lparr>faults := fs\<rparr>) = funded w" "waiting t (w\<lparr>faults := fs\<rparr>) = waiting t w"
  "assigned t (w\<lparr>faults := fs\<rparr>) = assigned t w"
  by (simp_all add: funded_def waiting_def assigned_def)

lemma settles_faults: "settles t (w\<lparr>faults := fs\<rparr>) w' \<Longrightarrow> settles t w w'" "settles t w (w\<lparr>faults := fs\<rparr>)" "settles t w w"
  by (simp add: settles_def funding_def, simp_all add: settles_def funding_frame)

lemma settles_dbio:
  assumes "\<And>fs. settles t w (snd (f (w\<lparr>faults := fs\<rparr>)))"
  shows "settles t w (snd (dbio f w))"
proof (cases "faults w")
  case Nil
  have "settles t w (snd (f w))"
    using assms [of "faults w"] by simp
  with Nil show ?thesis
    by (simp add: dbio_def)
next
  case (Cons x fs)
  with assms settles_faults(2) show ?thesis
    by (cases x) (simp_all add: dbio_def)
qed

lemma settles_Assign:
  "(\<And>fs. settles t (w\<lparr>faults := fs\<rparr>) (snd (assign_tx outs u (w\<lparr>faults := fs\<rparr>)))) \<Longrightarrow> settles t w (snd (wallet_Assign outs u w))"
  unfolding wallet_Assign_def by (rule settles_dbio, rule settles_faults(1))

lemma query_tables: "query f w = (Ok r, w1) \<Longrightarrow> r = f w1 \<and> (\<exists>fs. w1 = w\<lparr>faults := fs\<rparr>)"
  by (auto simp: query_def dbio_def split: list.splits fault.splits intro: exI [of _ "faults w"])

lemma fresh_merge: "fresh_transfer (merge_transfer X S t outs n)"
  by (simp add: fresh_transfer_def merge_transfer_def zero_transfer_def)

lemma settles_handle:
  assumes "funded w" "waiting t w"
  shows "settles t w (snd (assigner_handleTransfer X S t w))"
proof (cases "wallet_ListUnspent (t_AssetID t) unspent_limit w")
  case (Pair res w1)
  obtain fs where "w1 = w\<lparr>faults := fs\<rparr>"
    using Pair by (auto simp: wallet_ListUnspent_def query_def dbio_def split: list.splits fault.splits intro: that [of "faults w"])
  then have skip: "settles t w w2" if "settles t w1 w2" for w2
    using that settles_faults by simp
  show ?thesis
  proof (cases res)
    case (Ok xs)
    define free where "free x \<longleftrightarrow> o_AssetID x = t_AssetID t \<and> o_SpentBy x = ''''" for x :: Output
    define wipe where "wipe \<longleftrightarrow> length xs = unspent_limit \<and> o_ID (xs ! (unspent_limit - 1)) \<le> t_Version t"
    obtain ys s where ys: "pick wipe (t_Amount t) 0 xs = (ys, s)"
      by fastforce
    have xs: "xs = map afterFindOutput (take unspent_limit (filter free (outputs w1)))"
      using Pair Ok query_tables unfolding wallet_ListUnspent_def free_def [abs_def] by fastforce
    have s: "s = sum_list (map o_Amount ys)"
      using pick_prefix [OF ys] by simp
    have "ys = take (length ys) xs"
      using pick_prefix [OF ys] by blast
    also have "\<dots> = map afterFindOutput (take (min (length ys) unspent_limit) (filter free (outputs w1)))"
      unfolding xs by (simp only: take_map take_take)
    finally obtain n where outs: "ys = map afterFindOutput (take n (filter free (outputs w1)))"
      by blast
    have w1: "funded (w1\<lparr>faults := fs\<rparr>)" "waiting t (w1\<lparr>faults := fs\<rparr>)" for fs
      using assms \<open>w1 = w\<lparr>faults := _\<rparr>\<close> by simp_all
    have "settles t w1 (snd (assigner_commit ys t w1))" if "t_Amount t \<le> s"
      unfolding assigner_commit_def
      by (rule settles_Assign, rule settles_assign [OF w1(1) _ _ w1(2), of _ n])
        (use that outs s in \<open>simp_all add: free_def [abs_def]\<close>)
    moreover have "settles t w1 (snd (assigner_commit ys (merge_transfer X S t ys s) w1))"
      unfolding assigner_commit_def
      by (rule settles_Assign, rule settles_merge [OF w1(1) _ _ fresh_merge, of _ n])
        (use outs s in \<open>simp_all add: free_def [abs_def] merge_transfer_def\<close>)
    then have "settles t w1 (snd (seqE (assigner_commit ys (merge_transfer X S t ys s)) (\<lambda>_. throw e :: (world, unit) go) w1))" for e
      by (cases "assigner_commit ys (merge_transfer X S t ys s) w1"; cases "fst (assigner_commit ys (merge_transfer X S t ys s) w1)")
        (auto simp: seqE_def tryE_def throw_def split: res.splits)
    ultimately show ?thesis
      using ys settles_faults(3) [of t w1] unfolding assigner_handleTransfer_def seqE_Ok [where m = "wallet_ListUnspent (t_AssetID t) unspent_limit" and s = w, OF Pair [unfolded Ok]] wipe_def [symmetric]
      by (intro skip) (simp add: Let_def throw_def not_less)
  qed (use skip [OF settles_faults(3)] Pair in \<open>simp_all add: assigner_handleTransfer_def seqE_def tryE_def throw_def\<close>)
qed

lemma funding_assign_loop:
  assumes "funded w" "\<And>t. t \<in> set ts \<Longrightarrow> waiting t w" "distinct (map t_ID ts)"
  shows "funding w (snd (assign_loop X S aborted ts w))"
  using assms
proof (induction ts arbitrary: w aborted)
  case (Cons t ts)
  show ?case
  proof (cases "t_AssetID t \<in> set aborted")
    case False
    obtain res w1 where h: "assigner_handleTransfer X S t w = (res, w1)"
      by fastforce
    have "settles t w w1"
      using settles_handle [of w t X S] Cons.prems h by simp
    then have "funded w1" "funding w w1"
      using Cons.prems(1) by (auto simp: settles_def funding_def)
    moreover have "waiting u w1" if "u \<in> set ts" for u
    proof -
      have "t_ID u \<noteq> t_ID t"
        using Cons.prems(3) that by (metis distinct.simps(2) image_eqI list.set_map list.simps(9))
      with Cons.prems(2) [of u] that \<open>settles t w w1\<close> show ?thesis
        by (simp add: settles_def)
    qed
    ultimately have "funding w (snd (assign_loop X S ab ts w1))" for ab
      using Cons.IH [of w1 ab] Cons.prems(3) by (auto intro: funding_trans)
    with False h \<open>funding w w1\<close> show ?thesis
      by (simp add: tryE_def split: res.split)
  qed (use Cons in simp)
qed (simp add: throw_def ret_def funding.R_refl)

lemma ListTransfers_rows:
  assumes "wallet_ListTransfers status limit w = (Ok ts, w1)"
  obtains fs rows where "w1 = w\<lparr>faults := fs\<rparr>" "ts = map afterFindTransfer rows" "rows = take limit (filter (has_status status) (transfers w))"
  using query_tables [OF assms [unfolded wallet_ListTransfers_def]] by auto

lemma afterFindTransfer_fields [simp]:
  "t_ID (afterFindTransfer t) = t_ID t" "t_TraceID (afterFindTransfer t) = t_TraceID t" "t_AssetID (afterFindTransfer t) = t_AssetID t"
  "t_Amount (afterFindTransfer t) = t_Amount t" "t_Assigned (afterFindTransfer t) = t_Assigned t"
  "t_Handled (afterFindTransfer t) = t_Handled t" "t_Passed (afterFindTransfer t) = t_Passed t"
  by (simp_all add: afterFindTransfer_def)

lemma funding_if_funded: "(funded w \<Longrightarrow> funding w w') \<Longrightarrow> funding w w'"
  by (auto simp: funding_def)

lemma funding_ListTransfers: "keeps funding (wallet_ListTransfers status limit)"
  by (simp add: wallet_ListTransfers_def funding.keeps_query)

lemma funding_assigner: "keeps funding (assigner_run X S)"
proof (rule keepsI, rule funding_if_funded)
  fix w
  assume w: "funded w"
  show "funding w (snd (assigner_run X S w))"
    unfolding assigner_run_def
  proof (rule funding.after_seq [OF keepsD [OF funding_ListTransfers]])
    fix ts w1
    assume "wallet_ListTransfers TransferStatusPending 100 w = (Ok ts, w1)"
    then obtain fs rows where r: "w1 = w\<lparr>faults := fs\<rparr>" "ts = map afterFindTransfer rows"
        "rows = take 100 (filter (has_status TransferStatusPending) (transfers w))"
      by (rule ListTransfers_rows)
    have ok: "row \<in> set (transfers w)" "has_status TransferStatusPending row" if "row \<in> set rows" for row
      using that r(3) by (auto dest: in_set_takeD)
    have "waiting (afterFindTransfer row) w1" if "row \<in> set rows" for row
    proof -
      have "transfer_ok (outputs w) row"
        using w ok(1) [OF that] by (simp add: funded_def money_ok_def list_all_iff)
      with ok [OF that] show ?thesis
        by (auto simp: waiting_def r(1) list_ex_iff pending_row_def has_status_def transfer_ok_def intro!: bexI [of _ row])
    qed
    moreover have "distinct (map t_ID ts)"
      using w unfolding r(2,3) map_map
      by (simp add: comp_def take_map [symmetric] distinct_map_filter funded_def money_ok_def keys_ok_def ids_ok_def)
    ultimately show "funding w1 (snd (assign_loop X S [] ts w1))"
      using w r(1,2) by (intro funding_assign_loop) auto
  qed
qed

section \<open>Workers on assigned transfers\<close>

text \<open>A call that keeps the money while the transfers \<open>T\<close> are assigned, which they stay.\<close>

definition held :: "Transfer set \<Rightarrow> (world, 'a) go \<Rightarrow> bool" where
  "held T m \<longleftrightarrow> (\<forall>w. funded w \<longrightarrow> (\<forall>t\<in>T. assigned t w) \<longrightarrow> funding w (snd (m w)))"

lemma held_keeps: "keeps funding m \<Longrightarrow> held T m"
  by (simp add: held_def keeps_def)

lemma held_mono: "held T m \<Longrightarrow> T \<subseteq> T' \<Longrightarrow> held T' m"
  unfolding held_def by blast

lemma held_tryE:
  assumes "held T m" "\<And>e. held T (h e)" "\<And>a. held T (k a)"
  shows "held T (tryE m h k)"
  unfolding held_def
proof (intro allI impI)
  fix w
  assume w: "funded w" "\<forall>t\<in>T. assigned t w"
  have m: "funding w (snd (m w))"
    using assms(1) w by (simp add: held_def)
  then have next_ok: "funded w'" "\<forall>t\<in>T. assigned t w'" if "m w = (r, w')" for r w'
    using that w assigned_funding by (auto simp: funding_def)
  show "funding w (snd (tryE m h k w))"
    by (rule funding.after_try) (use m next_ok assms(2,3) in \<open>simp_all add: held_def\<close>)
qed

lemma held_seqE: "held T m \<Longrightarrow> (\<And>a. held T (k a)) \<Longrightarrow> held T (seqE m k)"
  unfolding seqE_def by (rule held_tryE) (simp_all add: held_keeps funding.keeps_throw)

lemma held_if: "held T a \<Longrightarrow> held T b \<Longrightarrow> held T (if c then a else b)"
  by simp

lemma held_option: "held T a \<Longrightarrow> (\<And>x. held T (f x)) \<Longrightarrow> held T (case z of None \<Rightarrow> a | Some x \<Rightarrow> f x)"
  by (cases z) simp_all

lemma held_forE: "(\<And>t. t \<in> set ts \<Longrightarrow> held T (f t)) \<Longrightarrow> held T (forE ts f)"
  by (induction ts) (simp_all add: held_keeps funding.keeps_ret held_seqE)

lemma held_groupE: "(\<And>t. t \<in> set ts \<Longrightarrow> held T (f t)) \<Longrightarrow> held T (groupE f first ts)"
  by (induction ts arbitrary: first) (simp_all add: held_keeps funding.keeps_basic held_tryE)

lemma held_UpdateTransfer:
  assumes "t \<in> T" "\<And>w. assigned u w = assigned t w" "t_Passed u \<longrightarrow> t_Handled u"
  shows "held T (wallet_UpdateTransfer u)"
  unfolding held_def wallet_UpdateTransfer_def
  by (intro allI impI funding.after_dbio) (use assms in \<open>simp_all add: funding_UpdateTransfer\<close>)

text \<open>The wallet service calls the network only.\<close>

lemma funding_sign_inputs: "keeps funding (sign_inputs state tx xs)"
  by (induction xs) (auto intro!: funding_calls split: option.split)

lemma funding_validate_outputs: "keeps funding (validate_outputs C S t n xs)"
  by (induction xs arbitrary: n) (simp_all add: funding_calls)

lemma funding_Spend: "keeps funding (Spend X C S outs t)"
proof -
  have sign: "keeps funding (signTransaction C outs t)"
    unfolding signTransaction_def by (cases outs) (auto simp: Let_def intro!: funding_calls funding_sign_inputs split: option.split)
  have multisig: "keeps funding (validateMultisig X q t)" for q
    unfolding validateMultisig_def by (intro funding_calls)
  have transaction: "keeps funding (validateTransaction C S x t)" for x
    unfolding validateTransaction_def by (intro funding_calls funding_validate_outputs)
  show ?thesis
    unfolding Spend_def by (intro funding_calls sign multisig transaction)
qed

lemma held_cashier: "t \<in> T \<Longrightarrow> held T (cashier_handleTransfer (Spend X C S) t)"
proof -
  assume "t \<in> T"
  have raw: "keeps funding (case tx of Some tx \<Rightarrow> wallet_CreateRawTransaction tx | None \<Rightarrow> ret ())" for tx
    by (auto simp: wallet_CreateRawTransaction_def intro!: funding_dbio funding.keeps_ret split: option.split)
  show ?thesis
    unfolding cashier_handleTransfer_def cashier_spend_def wallet_ListSpentBy_def
    by (intro held_seqE held_if held_UpdateTransfer [OF \<open>t \<in> T\<close>] held_keeps funding_calls funding_Spend raw) simp_all
qed

lemma transaction_Create_keeps: "keeps funding (transaction_Create tx)"
  by (rule payee_funding.keeps_stores)

lemma held_spentsync: "t \<in> T \<Longrightarrow> t_Handled t \<Longrightarrow> held T (spentsync_handleTransfer X C t)"
proof -
  assume t: "t \<in> T" "t_Handled t"
  have "keeps funding (wallet_FindSpentBy a b)" for a b
    unfolding wallet_FindSpentBy_def by (intro funding_calls)
  with t show ?thesis
    unfolding spentsync_handleTransfer_def
    by (intro held_tryE held_seqE held_if held_option held_UpdateTransfer [OF t(1)])
      (auto intro!: held_keeps funding_calls split: option.split)
qed

text \<open>The transfers a worker reads are assigned.\<close>

lemma held_listed:
  assumes "\<And>t. has_status status t \<Longrightarrow> t_Assigned t \<or> t_Handled t" "\<And>ts. (\<And>t. t \<in> set ts \<Longrightarrow> has_status status t) \<Longrightarrow> held (set ts) (k ts)"
  shows "keeps funding (seqE (wallet_ListTransfers status limit) k)"
proof (rule keepsI, rule funding_if_funded)
  fix w
  assume w: "funded w"
  show "funding w (snd (seqE (wallet_ListTransfers status limit) k w))"
  proof (rule funding.after_seq [OF keepsD [OF funding_ListTransfers]])
    fix ts w1
    assume "wallet_ListTransfers status limit w = (Ok ts, w1)"
    then obtain fs rows where r: "w1 = w\<lparr>faults := fs\<rparr>" "ts = map afterFindTransfer rows"
        "rows = take limit (filter (has_status status) (transfers w))"
      by (rule ListTransfers_rows)
    have rows: "row \<in> set (transfers w)" "has_status status row" if "row \<in> set rows" for row
      using that r(3) by (auto dest: in_set_takeD)
    have "assigned (afterFindTransfer row) w1" if "row \<in> set rows" for row
    proof -
      have "transfer_ok (outputs w) row"
        using w rows(1) [OF that] by (simp add: funded_def money_ok_def list_all_iff)
      with assms(1) [OF rows(2) [OF that]] rows(1) [OF that] show ?thesis
        by (auto simp: assigned_def r(1) list_ex_iff transfer_ok_def intro!: bexI [of _ row])
    qed
    moreover have "has_status status t" if "t \<in> set ts" for t
      using that rows(2) unfolding r(2) by (auto simp: has_status_def split: TransferStatus.splits)
    ultimately show "funding w1 (snd (k ts w1))"
      using assms(2) [of ts] w r(1,2) by (auto simp: held_def)
  qed
qed

lemma funding_cashier:
  assumes "\<forall>ts. set (arrange ts) = set ts"
  shows "keeps funding (cashier_run (cashier_mode X C S capacity arrange) batch)"
  unfolding cashier_run_def cashier_mode_def cashier_parallel_def cashier_sync_def
  by (rule held_listed, simp add: has_status_def)
    (use assms in \<open>auto intro!: held_keeps [OF funding.keeps_throw] held_forE held_groupE held_cashier\<close>)

lemma funding_spentsync: "keeps funding (spentsync_run X C)"
  unfolding spentsync_run_def
  by (rule held_listed, simp add: has_status_def)
    (auto intro!: held_keeps [OF funding.keeps_throw] held_keeps [OF funding.keeps_ret] held_forE held_tryE held_spentsync simp: has_status_def)

section \<open>The node\<close>

lemma funding_txsender: "keeps funding (txsender_run C arrange)"
proof -
  have poll: "keeps funding (poll_snapshot C hash k)" for hash k
    by (induction k) (simp_all add: funding_calls)
  have submit: "keeps funding (submitRawTransaction C raw)" for raw
    unfolding submitRawTransaction_def
    by (intro funding_calls, simp split: sum.split, intro allI impI conjI funding_calls poll)
  have "keeps funding (handleRawTransaction C tx)" for tx
    unfolding handleRawTransaction_def wallet_ExpireRawTransaction_def by (intro funding_calls submit funding_dbio) simp_all
  then have "keeps funding (groupE (handleRawTransaction C) first txs)" for first txs
    by (induction txs arbitrary: first) (simp_all add: funding_calls)
  then show ?thesis
    unfolding txsender_run_def wallet_ListPendingRawTransactions_def by (intro funding_calls)
qed

lemma funding_known:
  "keeps funding (\<lambda>w. (Ok (), w\<lparr>conversations := f w\<rparr>))" "keeps funding (\<lambda>w. (Ok (), w\<lparr>delivered := g w\<rparr>))"
  by (rule keepsI, rule funding_frame; simp)+

lemma funding_Send: "keeps funding (message_Send C ms batch)"
  unfolding message_Send_def deliver_def by (intro funding_calls funding_known)

lemma funding_datadog: "keeps funding (datadog_run X C toTime showDur version launchAt now)"
  unfolding datadog_run_def wallet_CountOutputs_def wallet_CountUnhandledTransfers_def
  by (intro funding_calls funding_Send)

lemma funding_messenger: "keeps funding (messenger_run C)"
proof -
  have meet: "keeps funding (message_Meet C u)" for u
    unfolding message_Meet_def by (intro funding_calls)
  have "keeps funding (select_messages C seen acc ms)" for seen acc ms
    by (induction ms arbitrary: seen acc) (simp_all add: funding_calls meet funding_known)
  moreover have "keeps funding (message_List n)" "keeps funding (message_Delete ms)" for n ms
    by (simp_all add: message_List_def message_Delete_def Let_def funding_calls funding_dbio)
  ultimately show ?thesis
    unfolding messenger_run_def by (intro funding_calls funding_Send)
qed

lemma node_step_funding: "node_step X C S w w' \<Longrightarrow> funding w w'"
proof (induction rule: node_step.induct)
  case (node_payee w w')
  then show ?case by (rule payee_funding.payee_step_R)
next
  case (node_faults w fs)
  then show ?case by (simp add: funding_frame)
qed (auto dest!: survivesD intro: keepsD funding_syncer funding_recovery funding_assigner funding_cashier funding_txsender
    funding_spentsync funding_messenger funding_datadog)

lemma node_steps_funding: "(node_step X C S)\<^sup>*\<^sup>* w w' \<Longrightarrow> funding w w'"
  by (induction rule: rtranclp_induct) (auto intro: funding.R_refl funding_trans node_step_funding)

end
