(* ===== verification/Wallet_Order.thy ===== *)
theory Wallet_Order
  imports Workers Account "HOL-Library.List_Lexorder" "HOL-Library.Product_Lexorder" "HOL-Library.Multiset"
begin

text \<open>
  The order of the outputs. The nodes of the group must handle the same outputs in the same order, so
  the order may depend only on the outputs themselves: time, transaction hash and index. The comparison
  of \<open>mixinet\<close> is the lexicographic order of these keys, its sort is the library's sort by key, and the
  recovery moves a batch of queued outputs into the table only when no earlier one can be left behind.
\<close>

section \<open>The comparison is a linear order of keys\<close>

definition utxo_key :: "Output \<Rightarrow> int \<times> bytes \<times> int" where
  "utxo_key x = (let u = the (o_UTXO x) in (ux_CreatedAt u, ux_TransactionHash u, ux_OutputIndex u))"

lemma bytes_compare_sign: "bytes_compare a b < 0 \<longleftrightarrow> a < b" "bytes_compare a b = 0 \<longleftrightarrow> a = b"
  by (induction a b rule: bytes_compare.induct) auto

lemma utxo_less_key: "utxo_less a b \<longleftrightarrow> utxo_key a < utxo_key b"
  by (auto simp: utxo_less_def cmpUTXO_def utxo_key_def Let_def less_prod_def' bytes_compare_sign)

lemma insert_output_key: "insert_output x ys = insort_key utxo_key x ys"
  by (induction ys) (auto simp: utxo_less_key not_less)

lemma SortOutputs_key:
  "SortOutputs outs = (if 2 \<le> length outs \<and> list_ex (\<lambda>x. o_UTXO x = None) outs then Panic ''nil pointer dereference''
     else Ok (sort_key utxo_key outs))"
  by (simp add: SortOutputs_def sort_key_def insert_output_key [abs_def])

text \<open>With different keys the sorted list does not depend on the order of arrival.\<close>

lemma sort_key_unique:
  assumes "distinct (map utxo_key xs)" "mset ys = mset xs"
  shows "sort_key utxo_key ys = sort_key utxo_key xs"
proof (rule properties_for_sort_key)
  show "mset (sort_key utxo_key xs) = mset ys"
    using assms(2) by simp
  show "sorted (map utxo_key (sort_key utxo_key xs))"
    by simp
  have inj: "inj_on utxo_key (set xs)"
    using assms(1) by (simp add: distinct_map)
  have "filter (\<lambda>x. utxo_key k = utxo_key x) zs = replicate (count (mset zs) k) k"
    if "k \<in> set xs" "set zs \<subseteq> set xs" for k zs
    using that inj by (induction zs) (auto dest: inj_onD)
  moreover have "set ys = set xs" "mset (sort_key utxo_key xs) = mset xs"
    using assms(2) by (auto dest: mset_eq_setD)
  ultimately show "filter (\<lambda>x. utxo_key k = utxo_key x) (sort_key utxo_key xs) = filter (\<lambda>x. utxo_key k = utxo_key x) ys"
    if "k \<in> set (sort_key utxo_key xs)" for k
    using that assms(2) by simp
qed

lemma distinct_map_sort: "distinct (map f (sort_key k xs)) \<longleftrightarrow> distinct (map f xs)"
  by (rule mset_eq_imp_distinct_iff) (simp only: mset_map mset_sort)

lemma sorted_strict: "distinct (map utxo_key xs) \<Longrightarrow> sorted_wrt utxo_less (sort_key utxo_key xs)"
proof -
  assume "distinct (map utxo_key xs)"
  then have "distinct (map utxo_key (sort_key utxo_key xs))"
    by (simp add: distinct_map distinct_sort)
  then have "sorted_wrt (<) (map utxo_key (sort_key utxo_key xs))"
    by (simp add: strict_sorted_iff)
  then show ?thesis
    by (simp add: sorted_wrt_map utxo_less_key [abs_def])
qed

section \<open>Batches of queued outputs\<close>

lemma insert_raw_key: "insert_raw x ys = insort_key ro_CreatedAt x ys"
  by (induction ys) auto

lemma order_raws_key: "order_raws rs = sort_key ro_CreatedAt rs"
  by (simp add: order_raws_def sort_key_def insert_raw_key [abs_def])

lemma trim_loop_bounds:
  "trim_loop raws t n \<le> n \<and> (\<forall>i < n. trim_loop raws t n \<le> i \<longrightarrow> ro_CreatedAt (raws ! i) = t)
   \<and> (0 < trim_loop raws t n \<longrightarrow> ro_CreatedAt (raws ! (trim_loop raws t n - 1)) \<noteq> t)"
  by (induction n) (auto simp: less_Suc_eq)

text \<open>A full batch in the order of time is cut before its last time, unless it has only one.\<close>

lemma trimSuffix_sorted:
  assumes "sorted (map ro_CreatedAt raws)" "raws \<noteq> []" "ro_CreatedAt (hd raws) \<noteq> ro_CreatedAt (last raws)"
  obtains n where "trimSuffix raws = take n raws" "n < length raws" "0 < n"
    and "\<And>i. i < n \<Longrightarrow> ro_CreatedAt (raws ! i) < ro_CreatedAt (last raws)"
    and "\<And>i. n \<le> i \<Longrightarrow> i < length raws \<Longrightarrow> ro_CreatedAt (raws ! i) = ro_CreatedAt (last raws)"
proof -
  define t where "t = ro_CreatedAt (last raws)"
  define r where "r = length raws - 1"
  define n where "n = trim_loop raws t r"
  have t: "ro_CreatedAt (raws ! r) = t" and r: "r < length raws"
    using assms(2) by (simp_all add: t_def r_def last_conv_nth)
  note b = trim_loop_bounds [of raws t r, folded n_def]
  have "r \<noteq> 0"
    using assms(2,3) t by (cases r) (auto simp: hd_conv_nth t_def)
  then have pos: "0 < n"
    using b assms(2,3) by (auto simp: hd_conv_nth t_def [symmetric] dest: spec [of _ 0])
  have "ro_CreatedAt (raws ! i) < t" if "i < n" for i
  proof -
    have mono: "ro_CreatedAt (raws ! i) \<le> ro_CreatedAt (raws ! j)" if "i \<le> j" "j < length raws" for i j
      using sorted_nth_mono [OF assms(1), of i j] that by simp
    have "ro_CreatedAt (raws ! i) \<le> ro_CreatedAt (raws ! (n - 1))" "ro_CreatedAt (raws ! (n - 1)) \<le> t"
      using mono [of i "n - 1"] mono [of "n - 1" r] that b r t by auto
    with b pos show ?thesis by force
  qed
  moreover have "trimSuffix raws = take n raws"
    using pos assms(2) t unfolding trimSuffix_def Let_def n_def r_def by simp
  moreover have "n < length raws"
    using b r by linarith
  moreover have "ro_CreatedAt (raws ! i) = t" if "n \<le> i" "i < length raws" for i
    using b t that by (cases "i = r") (auto simp: r_def)
  ultimately show ?thesis
    using that pos unfolding t_def by blast
qed

section \<open>Storing a batch\<close>

text \<open>An output as it is stored, up to the identifier the table gives it.\<close>

definition stored :: "Output \<Rightarrow> Output" where
  "stored x = x\<lparr>o_ID := 0, o_UTXO := None\<rparr>"

lemma stored_trace [simp]: "o_TraceID (stored x) = o_TraceID x"
  by (simp add: stored_def)

lemma save_new:
  assumes "o_TraceID x \<notin> set (map o_TraceID (outputs w))" "o_ID x = 0"
  shows "save True x w = w\<lparr>outputs := outputs w @ [x\<lparr>o_ID := next_id (map o_ID (outputs w)), o_UTXO := None\<rparr>]\<rparr>"
proof -
  have "\<not> list_ex (\<lambda>r. o_TraceID r = o_TraceID x \<and> (o_ID x = 0 \<or> o_ID r = o_ID x)) (outputs w)"
    using assms(1) by (metis (mono_tags, lifting) list_ex_iff image_eqI list.set_map)
  with assms(2) show ?thesis
    by (simp add: save_def Let_def)
qed

text \<open>New outputs are appended in the given order with rising identifiers.\<close>

lemma save_all:
  assumes "set (map o_TraceID xs) \<inter> set (map o_TraceID (outputs w)) = {}" "distinct (map o_TraceID xs)" "\<forall>x\<in>set xs. o_ID x = 0"
    and "sorted_wrt (<) (map o_ID (outputs w))"
  shows "\<exists>new. fold (save True) xs w = w\<lparr>outputs := outputs w @ new\<rparr> \<and> map stored new = map stored xs
    \<and> sorted_wrt (<) (map o_ID (outputs w @ new))"
  using assms
proof (induction xs arbitrary: w)
  case Nil
  then show ?case by (intro exI [of _ "[]"]) simp
next
  case (Cons x xs)
  define y where "y = x\<lparr>o_ID := next_id (map o_ID (outputs w)), o_UTXO := None\<rparr>"
  define w1 where "w1 = w\<lparr>outputs := outputs w @ [y]\<rparr>"
  have save: "save True x w = w1"
    using Cons.prems by (subst save_new) (auto simp: w1_def y_def)
  have "sorted_wrt (<) (map o_ID (outputs w1))"
    using Cons.prems(4) next_id_fresh [where ids = "map o_ID (outputs w)"] by (auto simp: w1_def y_def sorted_wrt_append)
  then obtain new where new: "fold (save True) xs w1 = w1\<lparr>outputs := outputs w1 @ new\<rparr>" "map stored new = map stored xs"
      "sorted_wrt (<) (map o_ID (outputs w1 @ new))"
    using Cons.IH [of w1] Cons.prems by (auto simp: w1_def y_def)
  have "stored y = stored x"
    by (simp add: y_def stored_def)
  with save new show ?case
    by (intro exI [of _ "y # new"]) (simp add: w1_def)
qed

section \<open>One round of the recovery\<close>

text \<open>A queued output with its UTXO, of the time it is queued under, that the table does not know.\<close>

definition raw_ok :: "RawOutput \<Rightarrow> bool" where
  "raw_ok r \<longleftrightarrow> (case ro_Data r of None \<Rightarrow> False | Some x \<Rightarrow> o_ID x = 0 \<and> o_TraceID x = ro_TraceID r
     \<and> (case o_UTXO x of None \<Rightarrow> False | Some u \<Rightarrow> ux_CreatedAt u = ro_CreatedAt r))"

definition queue_ok :: "world \<Rightarrow> bool" where
  "queue_ok w \<longleftrightarrow> list_all raw_ok (rawOutputs w) \<and> distinct (map ro_ID (rawOutputs w)) \<and> distinct (map ro_TraceID (rawOutputs w))
     \<and> set (map ro_TraceID (rawOutputs w)) \<inter> set (map o_TraceID (outputs w)) = {} \<and> sorted_wrt (<) (map o_ID (outputs w))"

text \<open>The queued outputs a round may take, and the batch it takes.\<close>

definition eligible :: "int \<Rightarrow> world \<Rightarrow> RawOutput list" where
  "eligible lastID w = order_raws (filter (\<lambda>r. ro_ID r \<le> lastID) (rawOutputs w))"

definition batch_of :: "nat \<Rightarrow> RawOutput list \<Rightarrow> RawOutput list" where
  "batch_of limit raws = (let raws = take limit raws in if length raws = limit then trimSuffix raws else raws)"

text \<open>No time falls on both sides of the cut.\<close>

lemma batch_cut:
  assumes "sorted (map ro_CreatedAt raws)" "raws \<noteq> []" "0 < limit"
    and "length raws < limit \<or> ro_CreatedAt (hd raws) \<noteq> ro_CreatedAt (raws ! (limit - 1))"
  obtains n where "batch_of limit raws = take n raws" "0 < n"
    and "\<And>a b. a \<in> set (take n raws) \<Longrightarrow> b \<in> set (drop n raws) \<Longrightarrow> ro_CreatedAt a < ro_CreatedAt b"
proof (cases "length raws < limit")
  case True
  with that [of "length raws"] assms(2) show ?thesis
    by (simp add: batch_of_def Let_def)
next
  case False
  define pre where "pre = take limit raws"
  have last: "last pre = raws ! (limit - 1)" and len: "length pre = limit" and ne: "pre \<noteq> []" and hd: "hd pre = hd raws"
    using False assms(2,3) by (auto simp: pre_def last_conv_nth)
  have "sorted (map ro_CreatedAt pre)"
    using assms(1) by (simp add: pre_def take_map [symmetric] sorted_wrt_take)
  from trimSuffix_sorted [OF this ne] assms(4) False last hd obtain n where n: "trimSuffix pre = take n pre" "n < length pre" "0 < n"
    "\<And>i. i < n \<Longrightarrow> ro_CreatedAt (pre ! i) < ro_CreatedAt (last pre)"
    "\<And>i. n \<le> i \<Longrightarrow> i < length pre \<Longrightarrow> ro_CreatedAt (pre ! i) = ro_CreatedAt (last pre)"
    by (metis (no_types, lifting))
  have "ro_CreatedAt a < ro_CreatedAt b" if ab: "a \<in> set (take n raws)" "b \<in> set (drop n raws)" for a b
  proof -
    from ab(1) obtain i where i: "i < n" "i < length raws" "a = raws ! i"
      by (metis in_set_conv_nth length_take min_less_iff_conj nth_take)
    from ab(2) obtain k where "k < length raws - n" "b = raws ! (n + k)"
      by (auto simp: in_set_conv_nth)
    then obtain j where j: "n \<le> j" "j < length raws" "b = raws ! j"
      by (metis le_add1 less_diff_conv2 add.commute less_diff_conv)
    have "ro_CreatedAt a < ro_CreatedAt (last pre)"
      using n(2) n(4) [of i] i len by (simp add: pre_def)
    also have "\<dots> \<le> ro_CreatedAt b"
      using n(5) [of j] j len last sorted_nth_mono [OF assms(1), of "limit - 1" j] assms(3)
      by (cases "j < limit") (auto simp: pre_def)
    finally show ?thesis .
  qed
  with that [of n] n len show ?thesis
    by (simp add: batch_of_def Let_def pre_def [symmetric]) (simp add: pre_def)
qed

text \<open>The groups of outputs of one time are smaller than a batch.\<close>

definition groups_fit :: "nat \<Rightarrow> world \<Rightarrow> bool" where
  "groups_fit limit w \<longleftrightarrow>
     list_all (\<lambda>r. length (filter (\<lambda>q. ro_CreatedAt q = ro_CreatedAt r) (rawOutputs w)) < limit) (rawOutputs w)"

lemma eligible_sorted: "sorted (map ro_CreatedAt (eligible lastID w))"
  by (simp add: eligible_def order_raws_key)

lemma eligible_set [simp]: "set (eligible lastID w) = {r \<in> set (rawOutputs w). ro_ID r \<le> lastID}"
  by (auto simp: eligible_def order_raws_key)

lemma eligible_mset: "mset (eligible lastID w) = mset (filter (\<lambda>r. ro_ID r \<le> lastID) (rawOutputs w))"
  by (simp add: eligible_def order_raws_key)

lemma eligible_group:
  "length (filter P (eligible lastID w)) \<le> length (filter P (rawOutputs w))"
proof -
  have "length (filter P (eligible lastID w)) = size (filter_mset P (mset (filter (\<lambda>r. ro_ID r \<le> lastID) (rawOutputs w))))"
    by (simp only: eligible_mset [symmetric] mset_filter [symmetric] size_mset)
  also have "\<dots> = length (filter (\<lambda>r. ro_ID r \<le> lastID) (filter P (rawOutputs w)))"
    by (simp only: mset_filter [symmetric] size_mset filter_filter conj_commute)
  finally show ?thesis
    using length_filter_le [of "\<lambda>r. ro_ID r \<le> lastID" "filter P (rawOutputs w)"] by linarith
qed

text \<open>Then a full batch has outputs of more than one time.\<close>

lemma batch_times:
  assumes "groups_fit limit w" "eligible lastID w \<noteq> []" "0 < limit" "\<not> length (eligible lastID w) < limit"
  shows "ro_CreatedAt (hd (eligible lastID w)) \<noteq> ro_CreatedAt (eligible lastID w ! (limit - 1))"
proof
  define es where "es = eligible lastID w"
  define P where "P = (\<lambda>q :: RawOutput. ro_CreatedAt q = ro_CreatedAt (hd es))"
  assume "ro_CreatedAt (hd (eligible lastID w)) = ro_CreatedAt (eligible lastID w ! (limit - 1))"
  then have same: "ro_CreatedAt (es ! 0) = ro_CreatedAt (es ! (limit - 1))"
    using assms(2) by (simp add: es_def hd_conv_nth)
  have le: "limit \<le> length es" and ne: "es \<noteq> []"
    using assms(2,4) by (simp_all add: es_def)
  have "P (es ! i)" if "i < limit" for i
    using sorted_nth_mono [OF eligible_sorted [of lastID w], folded es_def, of 0 i]
      sorted_nth_mono [OF eligible_sorted [of lastID w], folded es_def, of i "limit - 1"] that le ne same
    by (auto simp: P_def hd_conv_nth)
  then have "list_all P (take limit es)"
    using le by (simp add: list_all_length)
  then have "length (filter P (take limit es)) = limit"
    using le by (simp add: list_all_iff filter_id_conv)
  moreover have "length (filter P es) = length (filter P (take limit es)) + length (filter P (drop limit es))"
    by (metis append_take_drop_id filter_append length_append)
  ultimately have "limit \<le> length (filter P (rawOutputs w))"
    using eligible_group [of P lastID w] by (simp add: es_def)
  moreover have "hd es \<in> set (rawOutputs w)"
    using ne hd_in_set [of es] by (simp add: es_def)
  ultimately show False
    using assms(1) by (auto simp: groups_fit_def list_all_iff P_def)
qed

definition raw_output :: "RawOutput \<Rightarrow> Output" where
  "raw_output r = the (ro_Data r)"

lemma raw_ok_output:
  "raw_ok r \<Longrightarrow> ro_Data r = Some (raw_output r) \<and> o_ID (raw_output r) = 0 \<and> o_TraceID (raw_output r) = ro_TraceID r
    \<and> o_UTXO (raw_output r) \<noteq> None \<and> fst (utxo_key (raw_output r)) = ro_CreatedAt r"
  by (auto simp: raw_ok_def raw_output_def utxo_key_def Let_def split: option.splits)

lemma syncRawOutputs_run:
  assumes "faults w = []" "eligible lastID w \<noteq> []" "0 < limit"
    and "list_ex (\<lambda>r. ro_Data r = None) (batch_of limit (eligible lastID w)) = False"
    and "SortOutputs (map raw_output (batch_of limit (eligible lastID w))) = Ok outs"
  shows "syncRawOutputs lastID limit w = (Ok (length outs), (fold (save True) outs w)
    \<lparr>rawOutputs := filter (\<lambda>r. ro_ID r \<notin> ro_ID ` set (batch_of limit (eligible lastID w))) (rawOutputs (fold (save True) outs w))\<rparr>)"
proof -
  define raws where "raws = take limit (eligible lastID w)"
  have query: "query (\<lambda>w. take limit (order_raws (filter (\<lambda>r. ro_ID r \<le> lastID) (rawOutputs w)))) w = (Ok raws, w)"
    using assms(1) by (simp add: query_def dbio_def raws_def eligible_def)
  have ne: "raws \<noteq> []"
    using assms(2,3) by (simp add: raws_def)
  have batch: "batch_of limit (eligible lastID w) = (if length raws = limit then trimSuffix raws else raws)"
    by (simp add: batch_of_def Let_def raws_def)
  show ?thesis
    unfolding syncRawOutputs_def seqE_Ok [where m = "query f" for f, OF query]
    using ne assms(1,4,5) unfolding batch raw_output_def Let_def
    by (simp add: run_simps dbio_def seqE_def tryE_def)
qed

text \<open>A round stores the earliest outputs in their order and takes them off the queue.\<close>

lemma sync_round:
  assumes "faults w = []" "queue_ok w" "groups_fit limit w" "0 < limit" "eligible lastID w \<noteq> []"
  obtains batch rest new where "eligible lastID w = batch @ rest" "batch \<noteq> []"
    and "\<And>a b. a \<in> set batch \<Longrightarrow> b \<in> set rest \<Longrightarrow> ro_CreatedAt a < ro_CreatedAt b"
    and "syncRawOutputs lastID limit w = (Ok (length batch),
           w\<lparr>outputs := outputs w @ new, rawOutputs := filter (\<lambda>r. ro_ID r \<notin> ro_ID ` set batch) (rawOutputs w)\<rparr>)"
    and "map stored new = map stored (sort_key utxo_key (map raw_output batch))"
    and "sorted_wrt (<) (map o_ID (outputs w @ new))"
proof -
  define es where "es = eligible lastID w"
  obtain n where n: "batch_of limit es = take n es" "0 < n"
      "\<And>a b. a \<in> set (take n es) \<Longrightarrow> b \<in> set (drop n es) \<Longrightarrow> ro_CreatedAt a < ro_CreatedAt b"
    using batch_cut [OF eligible_sorted [of lastID w] assms(5,4)] batch_times [OF assms(3,5,4)]
    by (metis es_def)
  define batch where "batch = take n es"
  have ok: "raw_ok r" if "r \<in> set (rawOutputs w)" for r
    using assms(2) that by (simp add: queue_ok_def list_all_iff)
  have sub: "set batch \<subseteq> set (rawOutputs w)"
    using set_take_subset [of n es] by (auto simp: batch_def es_def)
  have data: "list_ex (\<lambda>r. ro_Data r = None) batch = False" "map (\<lambda>r. the (ro_Data r)) batch = map raw_output batch"
    "list_ex (\<lambda>x. o_UTXO x = None) (map raw_output batch) = False"
    using sub ok raw_ok_output by (auto simp: list_ex_iff raw_output_def subset_iff)
  define outs where "outs = sort_key utxo_key (map raw_output batch)"
  have traces: "set (map o_TraceID outs) = ro_TraceID ` set batch"
    using sub ok raw_ok_output by (force simp: outs_def)
  have "distinct (map ro_TraceID es)"
    using assms(2) distinct_map_filter [of ro_TraceID "rawOutputs w" "\<lambda>r. ro_ID r \<le> lastID"]
    by (simp add: queue_ok_def es_def eligible_def order_raws_key distinct_map distinct_sort)
  then have "distinct (map ro_TraceID batch)"
    by (simp add: batch_def take_map [symmetric])
  moreover have "map o_TraceID (map raw_output batch) = map ro_TraceID batch"
    using sub ok raw_ok_output by auto
  ultimately have dist: "distinct (map o_TraceID outs)"
    by (simp only: outs_def distinct_map_sort)
  have fresh: "set (map o_TraceID outs) \<inter> set (map o_TraceID (outputs w)) = {}"
    using assms(2) sub unfolding traces queue_ok_def by auto
  have zero: "\<forall>x\<in>set outs. o_ID x = 0"
    using sub ok raw_ok_output by (force simp: outs_def)
  have "sorted_wrt (<) (map o_ID (outputs w))"
    using assms(2) by (simp add: queue_ok_def)
  from save_all [OF fresh dist zero this]
  obtain new where new: "fold (save True) outs w = w\<lparr>outputs := outputs w @ new\<rparr>" "map stored new = map stored outs"
      "sorted_wrt (<) (map o_ID (outputs w @ new))"
    by blast
  have take: "take limit es \<noteq> []"
    using assms(4,5) by (simp add: es_def)
  have "SortOutputs (map raw_output batch) = Ok outs"
    using data(3) by (simp add: SortOutputs_key outs_def)
  moreover have "length outs = length batch"
    by (simp add: outs_def)
  ultimately have "syncRawOutputs lastID limit w = (Ok (length batch),
      w\<lparr>outputs := outputs w @ new, rawOutputs := filter (\<lambda>r. ro_ID r \<notin> ro_ID ` set batch) (rawOutputs w)\<rparr>)"
    using syncRawOutputs_run [OF assms(1,5,4), folded es_def, unfolded n(1), folded batch_def, OF data(1)]
    by (simp add: new(1))
  moreover have "es = batch @ drop n es" "batch \<noteq> []"
    using n(2) assms(5) by (simp_all add: batch_def es_def)
  ultimately show ?thesis
    using that [of batch "drop n es" new] n(3) new(2,3) by (simp add: es_def batch_def outs_def)
qed

section \<open>The whole queue\<close>

text \<open>The recovery called \<open>k\<close> times.\<close>

primrec sync_rounds :: "nat \<Rightarrow> int \<Rightarrow> nat \<Rightarrow> world \<Rightarrow> world" where
  "sync_rounds 0 lastID limit w = w"
| "sync_rounds (Suc k) lastID limit w = sync_rounds k lastID limit (snd (syncRawOutputs lastID limit w))"

lemma sort_key_append:
  assumes "\<And>x y. x \<in> set xs \<Longrightarrow> y \<in> set ys \<Longrightarrow> f x \<le> f y"
  shows "sort_key f (xs @ ys) = sort_key f xs @ sort_key f ys"
proof (rule properties_for_sort_key)
  show "filter (\<lambda>x. f k = f x) (sort_key f xs @ sort_key f ys) = filter (\<lambda>x. f k = f x) (xs @ ys)" for k
    using sort_key_stable [of f "f k"] by (simp add: eq_commute [of "f k"])
  show "sorted (map f (sort_key f xs @ sort_key f ys))"
    using assms by (auto simp: sorted_append)
qed simp

lemma sync_idle: "faults w = [] \<Longrightarrow> eligible lastID w = [] \<Longrightarrow> snd (syncRawOutputs lastID limit w) = w"
  by (simp add: syncRawOutputs_def eligible_def query_def dbio_def seqE_def tryE_def ret_def)

lemma sync_rounds_idle: "faults w = [] \<Longrightarrow> eligible lastID w = [] \<Longrightarrow> sync_rounds k lastID limit w = w"
  by (induction k) (simp_all add: sync_idle)

text \<open>What is left of the queue after a round.\<close>

lemma eligible_rest:
  assumes "distinct (map ro_ID (rawOutputs w))" "eligible lastID w = batch @ rest"
    and "rawOutputs w' = filter (\<lambda>r. ro_ID r \<notin> ro_ID ` set batch) (rawOutputs w)"
  shows "eligible lastID w' = rest"
proof -
  have "eligible lastID w' = filter (\<lambda>r. ro_ID r \<notin> ro_ID ` set batch) (eligible lastID w)"
    by (simp add: eligible_def order_raws_key assms(3) filter_sort conj_commute)
  moreover have "distinct (map ro_ID (batch @ rest))"
    unfolding assms(2) [symmetric] eligible_def order_raws_key distinct_map_sort
    using assms(1) by (rule distinct_map_filter)
  ultimately show ?thesis
    by (force simp: assms(2) filter_id_conv filter_empty_conv)
qed

lemma queue_ok_rest:
  assumes "queue_ok w" "set batch \<subseteq> set (rawOutputs w)" "sorted_wrt (<) (map o_ID (outputs w'))"
    and "rawOutputs w' = filter (\<lambda>r. ro_ID r \<notin> ro_ID ` set batch) (rawOutputs w)"
    and "outputs w' = outputs w @ new" "set (map o_TraceID new) = ro_TraceID ` set batch"
  shows "queue_ok w'"
proof -
  have "set (map ro_TraceID (rawOutputs w')) \<inter> set (map o_TraceID new) = {}"
  proof -
    have "ro_TraceID r \<noteq> ro_TraceID b" if "r \<in> set (rawOutputs w')" "b \<in> set batch" for r b
    proof -
      have "r \<in> set (rawOutputs w)" "b \<in> set (rawOutputs w)" "r \<noteq> b"
        using that assms(2) by (auto simp: assms(4))
      with assms(1) show ?thesis
        by (auto simp: queue_ok_def distinct_map dest: inj_onD)
    qed
    then show ?thesis
      unfolding assms(6) by fastforce
  qed
  then show ?thesis
    using assms(1,3) by (auto simp: queue_ok_def assms(4,5) list_all_iff distinct_map_filter)
qed

lemma groups_fit_rest:
  assumes "groups_fit limit w" "rawOutputs w' = filter P (rawOutputs w)"
  shows "groups_fit limit w'"
proof -
  have "length (filter Q (filter P xs)) \<le> length (filter Q xs)" for Q and xs :: "RawOutput list"
    by (induction xs) auto
  with assms show ?thesis
    unfolding groups_fit_def list_all_iff by (metis filter_is_subset le_less_trans subsetD)
qed

text \<open>Enough rounds store the whole queue in its order, whatever the size of a batch.\<close>

lemma sync_rounds_all:
  assumes "faults w = []" "queue_ok w" "groups_fit limit w" "0 < limit" "length (eligible lastID w) \<le> k"
  shows "\<exists>new. outputs (sync_rounds k lastID limit w) = outputs w @ new
    \<and> map stored new = map stored (sort_key utxo_key (map raw_output (eligible lastID w)))
    \<and> eligible lastID (sync_rounds k lastID limit w) = []"
  using assms
proof (induction k arbitrary: w)
  case 0
  then show ?case by simp
next
  case (Suc k)
  show ?case
  proof (cases "eligible lastID w = []")
    case True
    with Suc.prems(1) show ?thesis
      by (simp add: sync_idle sync_rounds_idle)
  next
    case False
    obtain batch rest new where r: "eligible lastID w = batch @ rest" "batch \<noteq> []"
        "\<And>a b. a \<in> set batch \<Longrightarrow> b \<in> set rest \<Longrightarrow> ro_CreatedAt a < ro_CreatedAt b"
        "syncRawOutputs lastID limit w = (Ok (length batch),
           w\<lparr>outputs := outputs w @ new, rawOutputs := filter (\<lambda>r. ro_ID r \<notin> ro_ID ` set batch) (rawOutputs w)\<rparr>)"
        "map stored new = map stored (sort_key utxo_key (map raw_output batch))"
        "sorted_wrt (<) (map o_ID (outputs w @ new))"
      using sync_round [OF Suc.prems(1-4) False] by blast
    define w' where "w' = w\<lparr>outputs := outputs w @ new, rawOutputs := filter (\<lambda>r. ro_ID r \<notin> ro_ID ` set batch) (rawOutputs w)\<rparr>"
    have ok: "raw_ok a" "a \<in> set (rawOutputs w)" if "a \<in> set (batch @ rest)" for a
      using that Suc.prems(2) r(1) [symmetric] by (simp_all add: queue_ok_def list_all_iff)
    have "map (o_TraceID \<circ> stored) new = map (o_TraceID \<circ> stored) (sort_key utxo_key (map raw_output batch))"
      using r(5) by (simp only: map_map [symmetric])
    then have "set (map o_TraceID new) = o_TraceID ` raw_output ` set batch"
      by (metis (no_types, lifting) comp_apply list.map_cong list.set_map set_sort stored_trace)
    also have "\<dots> = ro_TraceID ` set batch"
      using ok(1) raw_ok_output by (force simp: image_image)
    finally have "queue_ok w'"
      using queue_ok_rest [OF Suc.prems(2), of batch w' new] ok(2) r(6) by (auto simp: w'_def)
    moreover have "eligible lastID w' = rest"
      by (rule eligible_rest [OF _ r(1)]) (use Suc.prems(2) in \<open>simp_all add: queue_ok_def w'_def\<close>)
    moreover have "groups_fit limit w'"
      by (rule groups_fit_rest [OF Suc.prems(3)]) (simp add: w'_def)
    moreover have "length rest \<le> k"
      using Suc.prems(5) r(1,2) by (cases batch) auto
    ultimately obtain more where more: "outputs (sync_rounds k lastID limit w') = outputs w' @ more"
        "map stored more = map stored (sort_key utxo_key (map raw_output rest))" "eligible lastID (sync_rounds k lastID limit w') = []"
      using Suc.IH [of w'] Suc.prems(1,4) by (auto simp: w'_def)
    have "utxo_key x \<le> utxo_key y" if "x \<in> set (map raw_output batch)" "y \<in> set (map raw_output rest)" for x y
      using that r(3) ok(1) raw_ok_output by (force simp: less_eq_prod_def)
    then have "sort_key utxo_key (map raw_output (batch @ rest))
        = sort_key utxo_key (map raw_output batch) @ sort_key utxo_key (map raw_output rest)"
      unfolding map_append by (rule sort_key_append)
    then show ?thesis
      using r(4,5) more by (intro exI [of _ "new @ more"]) (simp add: r(1) w'_def)
  qed
qed

text \<open>Two nodes with the same queued outputs store the same outputs in the same order.\<close>

lemma nodes_agree_rounds:
  assumes "faults v = []" "queue_ok v" "groups_fit m v" "0 < m" "length (eligible a v) \<le> j"
    and "faults w = []" "queue_ok w" "groups_fit n w" "0 < n" "length (eligible b w) \<le> k"
    and "mset (map raw_output (eligible a v)) = mset (map raw_output (eligible b w))"
    and "distinct (map (utxo_key \<circ> raw_output) (eligible a v))"
  shows "map stored (drop (length (outputs v)) (outputs (sync_rounds j a m v)))
       = map stored (drop (length (outputs w)) (outputs (sync_rounds k b n w)))"
proof -
  have "sort_key utxo_key (map raw_output (eligible b w)) = sort_key utxo_key (map raw_output (eligible a v))"
    by (rule sort_key_unique) (use assms(11,12) in simp_all)
  with sync_rounds_all [OF assms(1-5)] sync_rounds_all [OF assms(6-10)] show ?thesis
    by auto
qed

end
