(* ===== verification/Wallet_Spec.thy ===== *)
theory Wallet_Spec
  imports Funding Wallet_Order
begin

text \<open>
  What single calls of the workers do: the assigner takes the shortest prefix of the unspent outputs
  that covers a transfer, the wallet service signs and hands out a raw transaction only after its
  checks, the messenger delivers each user's messages in order, and the identifier of a snapshot is a
  UUID of version 3.
\<close>

section \<open>The assigner\<close>

text \<open>The shortest prefix that covers an amount has \<open>n\<close> outputs.\<close>

definition covers :: "rat \<Rightarrow> Output list \<Rightarrow> nat \<Rightarrow> bool" where
  "covers amount xs n \<longleftrightarrow> n \<le> length xs \<and> amount \<le> sum_list (map o_Amount (take n xs))
     \<and> list_all (\<lambda>m. sum_list (map o_Amount (take m xs)) < amount) [0..<n]"

lemma pick_shortest:
  assumes "pick False amount acc xs = (ys, s)" "amount \<le> s" "acc < amount"
  shows "covers (amount - acc) xs (length ys)"
  using assms
proof (induction xs arbitrary: acc ys s)
  case (Cons x xs)
  show ?case
  proof (cases "amount \<le> acc + o_Amount x")
    case True
    with Cons.prems show ?thesis
      by (auto simp: covers_def list_all_iff algebra_simps)
  next
    case False
    then obtain zs where ys: "ys = x # zs" and zs: "pick False amount (acc + o_Amount x) xs = (zs, s)"
      using Cons.prems(1) by (auto simp: Let_def split: prod.splits)
    have "covers (amount - (acc + o_Amount x)) xs (length zs)"
      using Cons.IH [OF zs Cons.prems(2)] False by simp
    moreover have "sum_list (map o_Amount (take m (x # xs))) < amount - acc" if "m < Suc (length zs)"
      "\<And>k. k < length zs \<Longrightarrow> sum_list (map o_Amount (take k xs)) < amount - (acc + o_Amount x)" for m
      using that Cons.prems(3) that(2) [of "m - 1"] by (cases m) (auto simp: algebra_simps)
    ultimately show ?thesis
      using Cons.prems(3) by (auto simp: covers_def list_all_iff ys algebra_simps)
  qed
qed simp

text \<open>Some prefix covers the amount; with amounts that are not negative, all outputs together do.\<close>

definition coverable :: "rat \<Rightarrow> Output list \<Rightarrow> bool" where
  "coverable amount xs \<longleftrightarrow> list_ex (\<lambda>n. amount \<le> sum_list (map o_Amount (take n xs))) [0..<Suc (length xs)]"

lemma coverable_iff: "coverable amount xs \<longleftrightarrow> (\<exists>n. amount \<le> sum_list (map o_Amount (take n xs)))"
proof
  assume "\<exists>n. amount \<le> sum_list (map o_Amount (take n xs))"
  then obtain n where n: "amount \<le> sum_list (map o_Amount (take n xs))" ..
  have "take (min n (length xs)) xs = take n xs"
    by (simp add: min_def)
  with n show "coverable amount xs"
    unfolding coverable_def list_ex_iff by (intro bexI [of _ "min n (length xs)"]) auto
qed (auto simp: coverable_def list_ex_iff simp del: upt_Suc)

lemma coverable_all: "list_all (\<lambda>x. 0 \<le> o_Amount x) xs \<Longrightarrow> coverable amount xs \<longleftrightarrow> amount \<le> sum_list (map o_Amount xs)"
proof
  assume pos: "list_all (\<lambda>x. 0 \<le> o_Amount x) xs"
  show "amount \<le> sum_list (map o_Amount xs)" if "coverable amount xs"
  proof -
    from that obtain n where "amount \<le> sum_list (map o_Amount (take n xs))"
      by (auto simp: coverable_iff)
    moreover have "sum_list (map o_Amount xs) = sum_list (map o_Amount (take n xs)) + sum_list (map o_Amount (drop n xs))"
      by (metis append_take_drop_id map_append sum_list_append)
    moreover have "0 \<le> sum_list (map o_Amount (drop n xs))"
      using pos by (intro sum_list_nonneg) (auto simp: list_all_iff dest: in_set_dropD)
    ultimately show ?thesis
      by linarith
  qed
qed (simp add: coverable_def list_ex_iff)

text \<open>Without such a prefix all outputs are picked.\<close>

lemma pick_short:
  "pick False amount acc xs = (ys, s) \<Longrightarrow> s < amount \<Longrightarrow> acc < amount \<Longrightarrow>
   ys = xs \<and> (\<forall>n. acc + sum_list (map o_Amount (take n xs)) < amount)"
proof (induction xs arbitrary: acc ys s)
  case (Cons x xs)
  then have x: "acc + o_Amount x < amount"
    by (auto simp: Let_def split: if_splits)
  then obtain zs where ys: "ys = x # zs" and zs: "pick False amount (acc + o_Amount x) xs = (zs, s)"
    using Cons.prems(1) by (auto simp: Let_def split: prod.splits)
  have "acc + sum_list (map o_Amount (take n (x # xs))) < amount" for n
    using Cons.IH [OF zs Cons.prems(2) x] Cons.prems(3) by (cases n) (auto simp: algebra_simps)
  with Cons.IH [OF zs Cons.prems(2) x] ys show ?case
    by simp
qed simp

lemma pick_cases:
  assumes "pick False amount 0 xs = (ys, s)" "0 < amount"
  shows "if coverable amount xs then amount \<le> s \<and> covers amount xs (length ys) \<and> ys = take (length ys) xs else s < amount \<and> ys = xs"
proof -
  have p: "ys = take (length ys) xs" "s = sum_list (map o_Amount ys)"
    using pick_prefix [OF assms(1)] by auto
  then have "coverable amount xs" if "amount \<le> s"
    unfolding coverable_iff using that by metis
  moreover have "\<not> coverable amount xs" if "s < amount"
    using pick_short [OF assms(1) that assms(2)] by (auto simp: coverable_iff not_le)
  ultimately show ?thesis
    using pick_shortest [OF assms(1)] pick_short [OF assms(1)] assms(2) p(1) by (cases "s < amount") auto
qed

text \<open>The outputs of an asset the assigner looks at.\<close>

definition spendable :: "string \<Rightarrow> world \<Rightarrow> Output list" where
  "spendable asset w = take unspent_limit (filter (\<lambda>x. o_AssetID x = asset \<and> o_SpentBy x = '''') (outputs w))"

lemma ListUnspent_run: "faults w = [] \<Longrightarrow> wallet_ListUnspent a unspent_limit w = (Ok (map afterFindOutput (spendable a w)), w)"
  by (simp add: wallet_ListUnspent_def spendable_def query_def dbio_def)

lemma afterFindOutput_fields [simp]: "o_ID (afterFindOutput x) = o_ID x" "o_Amount (afterFindOutput x) = o_Amount x"
  "o_TraceID (afterFindOutput x) = o_TraceID x"
  by (simp_all add: afterFindOutput_def split: option.split)

lemma no_wipe:
  assumes "ids_ok o_ID (outputs w)" "t_Version t \<le> 0" "xs = map afterFindOutput (spendable a w)"
  shows "(length xs = unspent_limit \<and> o_ID (xs ! (unspent_limit - 1)) \<le> t_Version t) = False"
proof -
  have "0 < o_ID (xs ! i)" if "i < length xs" for i
  proof -
    have "spendable a w ! i \<in> set (outputs w)"
      using that nth_mem [of i "spendable a w"] by (auto simp: assms(3) spendable_def dest: in_set_takeD)
    with assms(1,3) that show ?thesis
      by (simp add: ids_ok_def list_all_iff)
  qed
  from this [of "unspent_limit - 1"] assms(2) show ?thesis
    by (fastforce simp: unspent_limit_def)
qed

lemma sums_afterFind: "map o_Amount (take n (map afterFindOutput xs)) = map o_Amount (take n xs)"
  by (simp add: take_map)

lemma covers_afterFind: "covers a (map afterFindOutput xs) n = covers a xs n"
  by (simp add: covers_def sums_afterFind)

lemma handle_picked:
  assumes "faults w = []" "ids_ok o_ID (outputs w)" "t_Version t \<le> 0"
    and "pick False (t_Amount t) 0 (map afterFindOutput (spendable (t_AssetID t) w)) = (ys, s)"
  shows "assigner_handleTransfer X S t w =
    (if s < t_Amount t
     then if length ys = unspent_limit
          then seqE (assigner_commit ys (merge_transfer X S t ys s)) (\<lambda>_. throw (GoError ''output merge required'')) w
          else (Err (GoError ''insufficient balance''), w)
     else assigner_commit ys t w)"
  unfolding assigner_handleTransfer_def seqE_Ok [where m = "wallet_ListUnspent a n" for a n, OF ListUnspent_run [OF assms(1)]]
    no_wipe [OF assms(2,3) refl]
  by (simp add: assms(4) Let_def throw_def)

text \<open>The state after an assignment.\<close>

lemma commit_run: "faults w = [] \<Longrightarrow> 0 < t_ID t \<Longrightarrow> assigner_commit ys t w =
    (Ok (), updateTransfer (t\<lparr>t_Assigned := True\<rparr>) (w\<lparr>outputs := mark (map o_ID ys) (t_TraceID t) (outputs w)\<rparr>))"
  by (simp add: assigner_commit_def wallet_Assign_def dbio_def assign_tx_def mark_def Let_def)

lemma commit_new: "faults w = [] \<Longrightarrow> t_ID t = 0 \<Longrightarrow> \<not> list_ex (\<lambda>r. t_TraceID r = t_TraceID t) (transfers w) \<Longrightarrow> assigner_commit ys t w =
    (Ok (), w\<lparr>outputs := mark (map o_ID ys) (t_TraceID t) (outputs w),
       transfers := transfers w @ [t\<lparr>t_Assigned := True, t_ID := next_id (map t_ID (transfers w))\<rparr>]\<rparr>)"
  by (simp add: assigner_commit_def wallet_Assign_def dbio_def assign_tx_def mark_def Let_def)

lemma handle_effect:
  fixes t :: Transfer
  defines "xs w \<equiv> spendable (t_AssetID t) w"
  assumes "faults w = []" "ids_ok o_ID (outputs w)" "t_Version t \<le> 0" "0 < t_Amount t" "0 < t_ID t"
  shows "if coverable (t_Amount t) (xs w)
    then \<exists>n. covers (t_Amount t) (xs w) n \<and> assigner_handleTransfer X S t w =
        (Ok (), updateTransfer (t\<lparr>t_Assigned := True\<rparr>) (w\<lparr>outputs := mark (map o_ID (take n (xs w))) (t_TraceID t) (outputs w)\<rparr>))
    else if length (xs w) < unspent_limit then assigner_handleTransfer X S t w = (Err (GoError ''insufficient balance''), w)
    else assigner_handleTransfer X S t w =
      (let m = merge_transfer X S t (xs w) (sum_list (map o_Amount (xs w))) in
       if list_ex (\<lambda>r. t_TraceID r = t_TraceID m) (transfers w) then (Err DBError, w)
       else (Err (GoError ''output merge required''), w\<lparr>outputs := mark (map o_ID (xs w)) (t_TraceID m) (outputs w),
         transfers := transfers w @ [m\<lparr>t_Assigned := True, t_ID := next_id (map t_ID (transfers w))\<rparr>]\<rparr>))"
proof -
  define zs where "zs = map afterFindOutput (xs w)"
  obtain ys s where p: "pick False (t_Amount t) 0 zs = (ys, s)"
    by fastforce
  note c = pick_cases [OF p assms(5)]
  note h = handle_picked [OF assms(2-4) p [unfolded zs_def xs_def]]
  have cov: "coverable (t_Amount t) zs = coverable (t_Amount t) (xs w)"
    by (simp only: coverable_def zs_def sums_afterFind length_map)
  have len: "length (xs w) \<le> unspent_limit"
    by (simp add: xs_def spendable_def)
  show ?thesis
  proof (cases "coverable (t_Amount t) (xs w)")
    case True
    with c cov have y: "t_Amount t \<le> s" "covers (t_Amount t) (xs w) (length ys)" "ys = take (length ys) zs"
      by (auto simp: zs_def covers_afterFind)
    then have "map o_ID ys = map o_ID (take (length ys) (xs w))"
      unfolding zs_def take_map by (metis sum_afterFind(2))
    with True y h commit_run [OF assms(2,6)] show ?thesis
      by auto
  next
    case False
    with c cov have y: "s < t_Amount t" "ys = zs"
      by auto
    define m where "m = merge_transfer X S t (xs w) (sum_list (map o_Amount (xs w)))"
    have m: "merge_transfer X S t zs s = m" "map o_ID zs = map o_ID (xs w)"
      using pick_prefix [OF p] by (simp_all add: m_def merge_transfer_def zs_def y(2) comp_def)
    have "t_ID m = 0"
      by (simp add: m_def merge_transfer_def zero_transfer_def)
    then have "assigner_commit zs m w = (if list_ex (\<lambda>r. t_TraceID r = t_TraceID m) (transfers w) then (Err DBError, w)
       else (Ok (), w\<lparr>outputs := mark (map o_ID (xs w)) (t_TraceID m) (outputs w),
         transfers := transfers w @ [m\<lparr>t_Assigned := True, t_ID := next_id (map t_ID (transfers w))\<rparr>]\<rparr>))"
      using commit_new [OF assms(2), of m zs] assms(2) m(2)
      by (simp add: assigner_commit_def wallet_Assign_def dbio_def assign_tx_def Let_def)
    moreover have "length zs = unspent_limit" if "\<not> length (xs w) < unspent_limit"
      using that len by (simp add: zs_def)
    ultimately show ?thesis
      using False y h m(1) unfolding m_def [symmetric] Let_def
      by (simp add: seqE_def tryE_def throw_def) (simp add: zs_def)
  qed
qed

section \<open>The wallet service\<close>

text \<open>A request that pays what the transfer says.\<close>

definition matches :: "ext \<Rightarrow> MultisigRequest \<Rightarrow> Transfer \<Rightarrow> bool" where
  "matches X q t \<longleftrightarrow> mq_AssetID q = t_AssetID t \<and> mq_Memo q = t_Memo t \<and> mq_Amount q = t_Amount t
     \<and> hashMembers X (mq_Receivers q) = hashMembers X (t_Opponents t)"

lemma validateMultisig_ok: "validateMultisig X q t w = (Ok u, w') \<Longrightarrow> matches X q t"
  by (auto simp: validateMultisig_def matches_def throw_def ret_def split: if_splits)

text \<open>What stands behind a raw transaction: a request of the network and this node's consent.\<close>

definition consented :: "ext \<Rightarrow> client \<Rightarrow> Transfer \<Rightarrow> MultisigRequest \<Rightarrow> bool" where
  "consented X C t sig \<longleftrightarrow> (\<exists>q n m tx. cl_CreateMultisig C n tx = Some q \<and>
     (if cl_ClientID C \<in> set (mq_Signers q) then sig = q else matches X q t \<and> cl_SignMultisig C m (mq_RequestID q) = Some sig))"

lemma apiE_OkE:
  assumes "apiE f w = (Ok x, w')"
  obtains "f (net w) = Some x" "w' = w\<lparr>net := net w + 1\<rparr>"
  using assms by (auto simp: apiE_def api_def ret_def throw_def split: option.splits elim!: seqE_OkE)

lemma spend_raw:
  assumes "Spend X C S outs t w = (Ok (Some raw), w')"
  obtains sig x where "consented X C t sig" "mq_Threshold sig \<le> length (mq_Signers sig)"
    "cl_TransactionFromRaw C (mq_RawTransaction sig) = Some x" "mt_Signed x"
    "raw = \<lparr>rt_ID = 0, rt_TraceID = t_TraceID t, rt_Data = mq_RawTransaction sig\<rparr>"
proof -
  from assms obtain state tx w1 where sp: "(if state = cl_StateSpent C
     then (case cl_TransactionFromRaw C tx of
         None \<Rightarrow> throw (GoError ''TransactionFromRaw'')
       | Some tx \<Rightarrow> seqE (validateTransaction C S tx t) (\<lambda>_. ret None))
     else if state = cl_StateSigned C
     then seqE (apiE (\<lambda>n. cl_CreateMultisig C n tx)) (\<lambda>sig.
          seqE (if cl_ClientID C \<notin> set (mq_Signers sig)
                then seqE (validateMultisig X sig t) (\<lambda>_.
                     apiE (\<lambda>n. cl_SignMultisig C n (mq_RequestID sig)))
                else ret sig) (\<lambda>sig.
          if length (mq_Signers sig) \<ge> mq_Threshold sig
          then (case cl_TransactionFromRaw C (mq_RawTransaction sig) of
              None \<Rightarrow> throw (GoError ''TransactionFromRaw'')
            | Some tx \<Rightarrow>
                if \<not> mt_Signed tx then throw (GoError ''generate raw transaction failed, empty signatures'')
                else ret (Some \<lparr>rt_ID = 0, rt_TraceID = t_TraceID t, rt_Data = mq_RawTransaction sig\<rparr>))
          else ret None))
     else throw (GoError ''cannot consume unsigned utxo'')) w1 = (Ok (Some raw), w')"
    unfolding Spend_def by (auto elim!: seqE_OkE)
  have "state = cl_StateSigned C" "state \<noteq> cl_StateSpent C"
    using sp by (auto simp: throw_def ret_def split: if_splits option.splits elim!: seqE_OkE)
  with sp obtain q w2 sig w3 where q: "apiE (\<lambda>n. cl_CreateMultisig C n tx) w1 = (Ok q, w2)"
    and sig: "(if cl_ClientID C \<notin> set (mq_Signers q)
        then seqE (validateMultisig X q t) (\<lambda>_. apiE (\<lambda>n. cl_SignMultisig C n (mq_RequestID q))) else ret q) w2 = (Ok sig, w3)"
    and rest: "(if length (mq_Signers sig) \<ge> mq_Threshold sig
          then (case cl_TransactionFromRaw C (mq_RawTransaction sig) of
              None \<Rightarrow> throw (GoError ''TransactionFromRaw'')
            | Some tx \<Rightarrow>
                if \<not> mt_Signed tx then throw (GoError ''generate raw transaction failed, empty signatures'')
                else ret (Some \<lparr>rt_ID = 0, rt_TraceID = t_TraceID t, rt_Data = mq_RawTransaction sig\<rparr>))
          else ret None) w3 = (Ok (Some raw), w')"
    by (auto elim!: seqE_OkE)
  have "consented X C t sig"
  proof (cases "cl_ClientID C \<in> set (mq_Signers q)")
    case True
    with q sig show ?thesis
      unfolding consented_def by (auto simp: ret_def elim!: apiE_OkE)
  next
    case False
    then obtain m where "cl_SignMultisig C m (mq_RequestID q) = Some sig" "matches X q t"
      using sig validateMultisig_ok by (auto elim!: apiE_OkE seqE_OkE)
    with q False show ?thesis
      unfolding consented_def by (auto elim!: apiE_OkE)
  qed
  with rest show ?thesis
    by (auto simp: throw_def ret_def split: if_splits option.splits intro: that)
qed

section \<open>The messenger\<close>

text \<open>Nothing was delivered or deleted yet.\<close>

definition quiet :: "world \<Rightarrow> world \<Rightarrow> bool" where
  "quiet w w' \<longleftrightarrow> delivered w' = delivered w \<and> messages w' = messages w \<and> faults w' = faults w"

lemma quiet_refl: "quiet w w"
  by (simp add: quiet_def)

lemma quiet_trans: "quiet u v \<Longrightarrow> quiet v w \<Longrightarrow> quiet u w"
  by (simp add: quiet_def)

lemma select_spec:
  assumes "select_messages C seen acc ms w = (Ok res, w')"
    and "distinct (map msg_UserID acc)" "set (map msg_UserID acc) = set seen" "length acc < messenger_batch"
  shows "\<exists>new. res = acc @ new \<and> distinct (map msg_UserID res) \<and> length res \<le> messenger_batch
    \<and> (\<forall>m\<in>set new. List.find (\<lambda>x. msg_UserID x = msg_UserID m) ms = Some m)
    \<and> quiet w w'"
  using assms
proof (induction ms arbitrary: seen acc w)
  case Nil
  then show ?case by (auto simp: ret_def quiet_refl intro!: exI [of _ "[]"])
next
  case (Cons m ms)
  show ?case
  proof (cases "msg_UserID m \<in> set seen")
    case True
    then obtain new where new: "res = acc @ new" "distinct (map msg_UserID res)" "length res \<le> messenger_batch"
      "\<forall>m\<in>set new. List.find (\<lambda>x. msg_UserID x = msg_UserID m) ms = Some m" "quiet w w'"
      using Cons.IH [of seen acc w] Cons.prems by auto
    moreover have "msg_UserID x \<noteq> msg_UserID m" if "x \<in> set new" for x
    proof -
      have "set (map msg_UserID acc) \<inter> set (map msg_UserID new) = {}"
        using new(1,2) by simp
      moreover have "msg_UserID x \<in> set (map msg_UserID new)"
        using that by simp
      ultimately show ?thesis
        using True Cons.prems(3) by (metis disjoint_iff)
    qed
    ultimately have "List.find (\<lambda>y. msg_UserID y = msg_UserID x) (m # ms) = Some x" if "x \<in> set new" for x
      using that by (simp add: eq_commute [of "msg_UserID m"])
    then have "\<forall>x\<in>set new. List.find (\<lambda>y. msg_UserID y = msg_UserID x) (m # ms) = Some x" ..
    with new show ?thesis
      by (intro exI [of _ new] conjI)
  next
    case False
    define step where "step known = (if msg_UserID m \<notin> set known
        then seqE (message_Meet C (msg_UserID m)) (\<lambda>_. (\<lambda>w. (Ok (), w\<lparr>conversations := msg_UserID m # conversations w\<rparr>)))
        else ret ())" for known
    have quiet: "quiet w w1" if "step known w = (Ok u, w1)" for known u w1
      using that by (auto simp: step_def message_Meet_def api_def ret_def throw_def quiet_refl split: if_splits elim!: seqE_OkE)
        (auto simp: quiet_def)
    from False Cons.prems(1) obtain w1 where w1: "quiet w w1"
      and rest: "(if length (acc @ [m]) \<ge> messenger_batch then ret (acc @ [m])
        else select_messages C (msg_UserID m # seen) (acc @ [m]) ms) w1 = (Ok res, w')"
      unfolding select_messages.simps if_False Let_def step_def [symmetric]
      by (auto simp: getS_def simp del: append_assoc elim!: seqE_OkE dest: quiet)
    have acc: "distinct (map msg_UserID (acc @ [m]))" "set (map msg_UserID (acc @ [m])) = set (msg_UserID m # seen)"
      using False Cons.prems(2,3) by auto
    show ?thesis
    proof (cases "length (acc @ [m]) \<ge> messenger_batch")
      case True
      with rest have "res = acc @ [m]" "w' = w1"
        by (auto simp: ret_def)
      with w1 acc(1) Cons.prems(4) show ?thesis
        by (intro exI [of _ "[m]"]) auto
    next
      case full: False
      then obtain new where new: "res = (acc @ [m]) @ new" "distinct (map msg_UserID res)" "length res \<le> messenger_batch"
        "\<forall>m\<in>set new. List.find (\<lambda>x. msg_UserID x = msg_UserID m) ms = Some m" "quiet w1 w'"
        using Cons.IH [of "msg_UserID m # seen" "acc @ [m]" w1] rest acc by auto
      have "msg_UserID m \<notin> set (map msg_UserID new)"
        using new(1,2) by simp
      then have "msg_UserID m \<noteq> msg_UserID x" if "x \<in> set new" for x
        using that by (metis image_eqI list.set_map)
      moreover have "quiet w w'"
        using new(5) w1 quiet_trans by blast
      ultimately show ?thesis
        using new by (intro exI [of _ "m # new"]) auto
    qed
  qed
qed

lemma messenger_ok:
  assumes "messenger_run C w = (Ok (), w')" "faults w = []"
  obtains ms where "set ms \<subseteq> set (take 300 (messages w))" "distinct (map msg_UserID ms)" "length ms \<le> messenger_batch"
    "list_all (\<lambda>m. List.find (\<lambda>x. msg_UserID x = msg_UserID m) (take 300 (messages w)) = Some m) ms"
    "delivered w' = delivered w @ filter (\<lambda>m. msg_UserID m \<noteq> cl_ClientID C) ms"
    "messages w' = filter (\<lambda>m. msg_ID m \<notin> set (map msg_ID ms)) (messages w)"
proof -
  from assms obtain ms w1 w2 where sel: "select_messages C [] [] (take 300 (messages w)) w = (Ok ms, w1)"
    and send: "message_Send C ms True w1 = (Ok (), w2)" and del: "message_Delete ms w2 = (Ok (), w')"
    by (auto simp: messenger_run_def message_List_def query_def dbio_def throw_def split: if_splits elim!: seqE_OkE)
  have new: "distinct (map msg_UserID ms)" "length ms \<le> messenger_batch" "quiet w w1"
      "\<forall>m\<in>set ms. List.find (\<lambda>x. msg_UserID x = msg_UserID m) (take 300 (messages w)) = Some m"
    using select_spec [OF sel] by (auto simp: messenger_batch_def)
  have w1: "delivered w1 = delivered w" "messages w1 = messages w" "faults w1 = []"
    using new(3) assms(2) by (auto simp: quiet_def)
  have w2: "delivered w2 = delivered w1 @ filter (\<lambda>m. msg_UserID m \<noteq> cl_ClientID C) ms" "messages w2 = messages w1" "faults w2 = []"
    using send w1(3)
    by (auto simp: message_Send_def deliver_def Let_def api_def throw_def split: option.splits elim!: seqE_OkE)
  have w': "delivered w' = delivered w2" "messages w' = filter (\<lambda>m. msg_ID m \<notin> set (map msg_ID ms)) (messages w2)"
    using del w2(3) by (auto simp: message_Delete_def Let_def dbio_def ret_def split: if_splits)
  have "set ms \<subseteq> set (take 300 (messages w))"
    using new(4) find_Some_set by fastforce
  with new w1 w2 w' show ?thesis
    by (intro that [of ms]) (auto simp: list_all_iff)
qed

section \<open>UUIDs of version 3\<close>

lemma version_nibble: "drop_bit 4 (((x :: 8 word) AND 0x0f) OR 0x30) = 3" "take_bit 4 ((x AND 0x0f) OR 0x30) = take_bit 4 x"
  by (simp_all add: drop_bit_or drop_bit_and take_bit_or take_bit_and) (simp add: take_bit_eq_mask mask_eq_exp_minus_1)

lemma variant_bits: "drop_bit 6 (((x :: 8 word) AND 0x3f) OR 0x80) = 2" "take_bit 6 ((x AND 0x3f) OR 0x80) = take_bit 6 x"
  by (simp_all add: drop_bit_or drop_bit_and take_bit_or take_bit_and) (simp add: take_bit_eq_mask mask_eq_exp_minus_1)

end
