(* ===== verification/Example_Wallet.thy ===== *)
theory Example_Wallet
  imports Wallet_Spec Example_Governance
begin

text \<open>
  A network, some outputs and transfers for the wallet workers' witnesses: three outputs of BTC, queued
  in two orders of arrival, a transfer that two of them pay, and messages for two users.
\<close>

definition utxo0 :: "string \<Rightarrow> time \<Rightarrow> byte \<Rightarrow> rat \<Rightarrow> MultisigUTXO" where
  "utxo0 trace created hash amount = \<lparr>ux_UTXOID = trace, ux_CreatedAt = created, ux_UpdatedAt = created, ux_Sender = alice,
     ux_AssetID = btc, ux_TransactionHash = [hash], ux_OutputIndex = 0, ux_Amount = amount, ux_Memo = '''',
     ux_State = ''unspent'', ux_SignedTx = ''''\<rparr>"

definition request0 :: MultisigRequest where
  "request0 = \<lparr>mq_RequestID = ''r1'', mq_AssetID = btc, mq_Memo = ''pay'', mq_Amount = 3, mq_Receivers = [bob],
     mq_Signers = [bob], mq_Threshold = 2, mq_RawTransaction = ''raw0''\<rparr>"

definition client0 :: client where
  "client0 = \<lparr>cl_ClientID = ''n1'', cl_StateSpent = ''spent'', cl_StateSigned = ''signed'',
     cl_ReadMultisigOutputs = (\<lambda>n offset limit. Some []),
     cl_MakeMultisigTransaction = (\<lambda>n i. Some ''tx0''),
     cl_CreateMultisig = (\<lambda>n tx. Some request0),
     cl_SignMultisig = (\<lambda>n i. Some (request0\<lparr>mq_Signers := [bob, ''n1''], mq_RawTransaction := ''raw1''\<rparr>)),
     cl_TransactionFromRaw = (\<lambda>raw. Some \<lparr>mt_Extra = ''pay'', mt_Outputs = [], mt_Signed = (raw = ''raw1'')\<rparr>),
     cl_TransactionHash = (\<lambda>raw. Some raw), cl_IntegerString = (\<lambda>d. []), cl_ThresholdScript = (\<lambda>n. []),
     cl_VerifyPayment = (\<lambda>n t. Some ''code''), cl_URLCodes = (\<lambda>c. ''mixin://codes/'' @ c),
     cl_SendRawTransaction = (\<lambda>n raw. Inr True), cl_GetTransaction = (\<lambda>n h. Some True), cl_polls = (\<lambda>n. 3),
     cl_InvalidSignature = 20123, cl_SendRawMessages = (\<lambda>n ms. None), cl_SendRawMessage = (\<lambda>n m. None), cl_CreateContactConversation = (\<lambda>n u. None),
     cl_md5 = (\<lambda>b. take 16 (b @ replicate 16 0)), cl_UnmarshalTransferAction = (\<lambda>b. None), cl_ParseTime = (\<lambda>s. 0),
     cl_FormatTime = itoa\<rparr>"

definition raw0 :: "int \<Rightarrow> MultisigUTXO \<Rightarrow> RawOutput" where
  "raw0 i u = \<lparr>ro_ID = i, ro_CreatedAt = ux_CreatedAt u, ro_TraceID = ux_UTXOID u, ro_Version = 1, ro_Data = Some (convertUTXO u)\<rparr>"

text \<open>Two nodes that received the same outputs in a different order.\<close>

definition node1 :: world where
  "node1 = world0\<lparr>rawOutputs := [raw0 1 (utxo0 ''a'' 10 7 1), raw0 2 (utxo0 ''b'' 20 5 2), raw0 3 (utxo0 ''c'' 20 4 4)]\<rparr>"

definition node2 :: world where
  "node2 = world0\<lparr>rawOutputs := [raw0 1 (utxo0 ''c'' 20 4 4), raw0 2 (utxo0 ''a'' 10 7 1), raw0 3 (utxo0 ''b'' 20 5 2)]\<rparr>"

definition pay0 :: Transfer where
  "pay0 = zero_transfer\<lparr>t_ID := 1, t_TraceID := ''pay0'', t_AssetID := btc, t_Amount := 3, t_Opponents := [bob],
     t_Threshold := 1, t_Memo := ''pay''\<rparr>"

text \<open>The node after the recovery, with a transfer to pay.\<close>

definition node3 :: world where
  "node3 = (sync_rounds 3 3 10 node1)\<lparr>transfers := [pay0]\<rparr>"

definition node4 :: world where
  "node4 = snd (assigner_run ext0 sys0 node3)"

definition mail0 :: world where
  "mail0 = world0\<lparr>messages := [\<lparr>msg_ID = 1, msg_MessageID = ''m1'', msg_UserID = alice\<rparr>,
     \<lparr>msg_ID = 2, msg_MessageID = ''m2'', msg_UserID = alice\<rparr>, \<lparr>msg_ID = 3, msg_MessageID = ''m3'', msg_UserID = bob\<rparr>]\<rparr>"

lemma node3_funded: "funded node3"
  by code_simp

lemma node3_step: "node_step ext0 client0 sys0 node3 node4"
proof (rule node_assigner)
  have "fst (assigner_run ext0 sys0 node3) = Ok ()"
    by code_simp
  then show "survives (assigner_run ext0 sys0) node3 node4"
    by (auto simp: survives_def node4_def split: prod.split res.split)
qed

lemma node3_steps: "(node_step ext0 client0 sys0)\<^sup>*\<^sup>* node3 node4"
  using node3_step by (rule r_into_rtranclp)

lemma node4_assigned: "pay0\<lparr>t_Assigned := True\<rparr> \<in> set (transfers node4)" "map o_SpentBy (outputs node4) = [''pay0'', ''pay0'', '''']"
proof -
  show "map o_SpentBy (outputs node4) = [''pay0'', ''pay0'', '''']"
    by code_simp
  have "transfers node4 = [pay0\<lparr>t_Assigned := True\<rparr>]"
    by code_simp
  then show "pay0\<lparr>t_Assigned := True\<rparr> \<in> set (transfers node4)"
    by simp
qed

end
