(* ===== verification/Props_Governance.thy ===== *)
theory Props_Governance
  imports System_Version Example_Wallet
begin

text \<open>Properties of governance: votes, the system version, market parameters, oracle prices and blocked memos.\<close>

text \<open>
  C27. A member's vote counts once and takes effect at the threshold. A new vote on an open proposal
  queues the notices and appends the sender to the votes of that proposal's row; when it completes the
  threshold the row is marked as passed and the request is executed, otherwise nothing else changes. A
  second vote by the same sender, or a vote on a proposal that has passed, changes nothing.
\<close>

theorem vote_effect:
  assumes "faults w = []" "gorm_documented X" "keys_ok p_ID p_TraceID (proposals w)" "p \<in> set (proposals w)"
    and "scan_uuid X message = Some (t, rest)" "uuidToString X t = p_TraceID p" "validateProposal X p w = (Ok (), w)"
    and "IsMember S (o_Sender out)" "\<not> IsStaff S (o_Sender out)"
  shows "(p_PassedAt p = None \<and> o_Sender out \<notin> set (p_Votes p) \<longrightarrow> handleVoteProposal X S out message w =
      (if Threshold S \<le> Suc (length (p_Votes p))
       then handlePassedProposal X (cast S out p) out (recordVote X S out p w) else (Ok (), recordVote X S out p w)))
    \<and> ((p_PassedAt p \<noteq> None \<or> o_Sender out \<in> set (p_Votes p)) \<and> p_Version p \<noteq> o_ID out \<longrightarrow>
      handleVoteProposal X S out message w = (Ok (), w))"
  using assms(5-9) mustGetProposal_run [OF assms(1,3,4)] vote_run_new [OF assms(1-4,7), of out S]
    vote_run_old [OF assms(7), of out S]
  by (auto simp: handleVoteProposal_def seqE_Ok)

theorem vote_effect_witness:
  "fst (handleVoteProposal ext0 sys0 vote0 vote_body0 world3) = Ok () \<and>
   properties (snd (handleVoteProposal ext0 sys0 vote0 vote_body0 world3)) = [(SysVersionKey, ''5''), (''k'', ''v'')]"
proof -
  have facts: "faults world3 = []" "keys_ok p_ID p_TraceID (proposals world3)" "prop0 \<in> set (proposals world3)"
    "p_PassedAt prop0 = None \<and> o_Sender vote0 \<notin> set (p_Votes prop0)" "Threshold sys0 \<le> Suc (length (p_Votes prop0))"
    "IsMember sys0 (o_Sender vote0)" "\<not> IsStaff sys0 (o_Sender vote0)"
    by code_simp+
  have scan: "scan_uuid ext0 vote_body0 = Some (bytes_of_string ''prop000000000000'', [])"
    "uuidToString ext0 (bytes_of_string ''prop000000000000'') = p_TraceID prop0"
    by code_simp+
  have valid: "validateProposal ext0 prop0 world3 = (Ok (), world3)"
    by (simp add: validateProposal_def prop0_def zero_proposal_def Require_def SysVersionKey_def run_simps)
  have "handlePassedProposal ext0 (cast sys0 vote0 prop0) vote0 w =
      (if faults w = [] then (Ok (), w\<lparr>properties := AList.update ''k'' ''v'' (properties w)\<rparr>)
       else property_Save ''k'' ''v'' w)" for w
    by (simp add: handlePassedProposal_def handlePassedProposalInternal_def cast_def voted_def prop0_def zero_proposal_def
        setProperty_def Require_def SysVersionKey_def property_Save_def dbio_def)
  then show ?thesis
    using vote_effect [OF facts(1) ext0_gorm facts(2,3) scan valid facts(6,7)] facts(4,5)
    by (simp add: recordVote_def) (simp add: world3_def world0_def SysVersionKey_def)
qed

text \<open>
  C28. From one run of the payee to the next the stored system version only rises, and only to a version
  this program knows. After any steps of a node, whatever its workers do and however the database fails,
  the stored value is the one the steps began with or the text of a number above it and at most the newest
  supported one, provided that \<open>cast.ToInt64\<close> reads such a number back.

  The comparison is with the version a run begins with. Within a run the value can fall: \<open>setProperty\<close>
  compares with the copy read at the start of the run and does not renew it after it has stored a new
  version, so when two proposals pass in one run, for 5 and then for 4 while 3 is running, the stored value
  is 5 and then 4, as the witness shows; a run that sees only the first vote leaves 5, from which the
  second is refused.
\<close>

theorem sysversion_only_rises:
  assumes "(node_step X C S)\<^sup>*\<^sup>* w w'" "versions_read_back X" "0 \<le> castInt64 X (property SysVersionKey w)"
  shows "property SysVersionKey w' = property SysVersionKey w \<or>
    (\<exists>n. ParseInt64 (property SysVersionKey w') = Some n \<and> castInt64 X (property SysVersionKey w) < n \<and> n \<le> SysVersion)"
  using assms by (rule steps_version)

theorem sysversion_only_rises_witness:
  "\<exists>w7 w8 n. (node_step ext0 client0 sys0)\<^sup>*\<^sup>* world7 w7 \<and> property SysVersionKey w7 = ''5''
    \<and> (node_step ext0 client0 sys0)\<^sup>*\<^sup>* world8 w8 \<and> property SysVersionKey w8 = ''4''
    \<and> ParseInt64 (property SysVersionKey w8) = Some n \<and> castInt64 ext0 (property SysVersionKey world8) < n \<and> n \<le> SysVersion"
proof -
  let ?w7 = "snd (run ext0 sys0 world7)" and ?w8 = "snd (run ext0 sys0 world8)"
  have steps: "(node_step ext0 client0 sys0)\<^sup>*\<^sup>* world7 ?w7" "(node_step ext0 client0 sys0)\<^sup>*\<^sup>* world8 ?w8"
    using version_runs by (auto intro!: r_into_rtranclp node_payee payee_step.run_ok split: prod.splits)
  have stored: "property SysVersionKey ?w7 = ''5''" "property SysVersionKey ?w8 = ''4''"
    using version_runs by (auto simp: property_def split: prod.splits)
  have before: "property SysVersionKey world8 = ''3''"
    by (simp add: property_def world8_def world7_def)
  have cast: "castInt64 ext0 ''3'' = 3"
    by code_simp
  have reads: "versions_read_back ext0"
    by (simp add: versions_read_back_def ext0_def)
  from sysversion_only_rises [OF steps(2) reads] stored(2) before cast
  obtain n where "ParseInt64 (property SysVersionKey ?w8) = Some n" "castInt64 ext0 (property SysVersionKey world8) < n" "n \<le> SysVersion"
    by auto
  with steps stored show ?thesis
    by (intro exI [of _ ?w7] exI [of _ ?w8] exI [of _ n]) simp
qed

text \<open>
  C29. An oracle price moves a market only if enough oracles signed it. Whatever the memo and whatever the
  database does, when handling a price changes the markets then the memo decodes to a price of an existing
  market that has not seen this output, the registered signers its mask names are at least as many as that
  market's threshold, and the signature verifies under their keys. The only rows written are those of this
  market at the version that was read, and they become that market with the price and its time set and the
  interest accrued, at the version of the output. From version 3 on the time is the one in the memo and
  not older than the last one; before it, the time is that of the output and no price is stale.
\<close>

theorem price_verified:
  assumes "handlePriceEvent X out w = (r, w')" "markets w' \<noteq> markets w"
  shows "\<exists>pd m keys m'. PriceData_UnmarshalBinary X (decodeMemo (o_Memo out)) = Some pd
    \<and> m = marketByAsset (pd_AssetID pd) w \<and> 0 < m_ID m \<and> m_AssetID m = pd_AssetID pd \<and> m_Version m < o_ID out
    \<and> (3 \<le> sysversion w \<longrightarrow> m_PriceUpdatedAt m \<le> pd_Timestamp pd * 1000000000)
    \<and> keys = signing_keys X (cs_Mask (pd_Signature pd)) (signers w)
    \<and> m_PriceThreshold m \<le> int (length keys)
    \<and> blstVerify X keys (Payload X pd) (cs_Signature (pd_Signature pd))
    \<and> AccrueInterest X (m\<lparr>m_Price := pd_Price pd, m_PriceUpdatedAt :=
          if sysversion w < 3 then o_CreatedAt out else pd_Timestamp pd * 1000000000\<rparr>) (o_CreatedAt out) = Ok m'
    \<and> m_Price m' = pd_Price pd
    \<and> markets w' = map (\<lambda>r. if m_ID r = m_ID m \<and> m_Version r = m_Version m then market_write X m' (o_ID out) r else r)
        (markets w)"
proof -
  obtain pd m fs where pd: "PriceData_UnmarshalBinary X (decodeMemo (o_Memo out)) = Some pd"
    and m: "m = marketByAsset (pd_AssetID pd) w" "0 < m_ID m" "m_Version m < o_ID out"
    and time: "3 \<le> sysversion w \<Longrightarrow> m_PriceUpdatedAt m \<le> pd_Timestamp pd * 1000000000"
    and tail: "priceTail X pd out (m\<lparr>m_Price := pd_Price pd, m_PriceUpdatedAt :=
           if sysversion w < 3 then o_CreatedAt out else pd_Timestamp pd * 1000000000\<rparr>) (w\<lparr>faults := fs\<rparr>) = (r, w')"
    using price_changes [OF assms] by metis
  have ne: "markets w' \<noteq> markets (w\<lparr>faults := fs\<rparr>)"
    using assms(2) by simp
  from priceTail_changes [OF tail ne] obtain sgs m' where
    sgs: "build_signers X 0 (signers w) (w\<lparr>faults := fs\<rparr>) = (Ok sgs, w\<lparr>faults := fs\<rparr>)" "verifyPriceData X pd sgs (m_PriceThreshold m)"
    and acc: "AccrueInterest X (m\<lparr>m_Price := pd_Price pd, m_PriceUpdatedAt :=
           if sysversion w < 3 then o_CreatedAt out else pd_Timestamp pd * 1000000000\<rparr>) (o_CreatedAt out) = Ok m'"
    and rows: "markets w' = replace_rows (lock_match m_ID m_Version m') (market_write X m' (o_ID out)) (markets w)"
    by simp metis
  have same: "m_Price m' = pd_Price pd" "m_ID m' = m_ID m" "m_Version m' = m_Version m"
    using accrue_same [OF acc] by (simp_all add: same_market_def)
  then have "markets w' = map (\<lambda>r. if m_ID r = m_ID m \<and> m_Version r = m_Version m then market_write X m' (o_ID out) r else r)
      (markets w)"
    using m(2) by (simp add: rows replace_rows_map lock_match_def)
  with pd m time marketByAsset_asset [of "pd_AssetID pd" w] verified_price [OF sgs] acc same(1) show ?thesis
    by blast
qed

theorem price_verified_witness:
  "\<exists>m'. PriceData_UnmarshalBinary ext0 (decodeMemo (o_Memo price_out0)) = Some price0 \<and> m_Price m' = 11
    \<and> m_PriceThreshold btc_watched = 2 \<and> length (signing_keys ext0 (cs_Mask (pd_Signature price0)) (signers world5)) \<ge> 2
    \<and> blstVerify ext0 (signing_keys ext0 (cs_Mask (pd_Signature price0)) (signers world5)) (Payload ext0 price0)
        (cs_Signature (pd_Signature price0))
    \<and> markets (snd (handlePriceEvent ext0 price_out0 world5)) = [market_write ext0 m' 7 btc_watched, usd_market]"
proof -
  have changed: "markets (world5\<lparr>markets := [market_write ext0 btc_repriced 7 btc_watched, usd_market]\<rparr>) \<noteq> markets world5"
  proof -
    have "m_Version (market_write ext0 btc_repriced 7 btc_watched) \<noteq> m_Version btc_watched"
      by (simp add: market_write_def btc_watched_def btc_market_def)
    then show ?thesis
      by (auto simp: world5_def world0_def)
  qed
  have price: "pd_AssetID price0 = btc" "pd_Price price0 = 11" "o_ID price_out0 = 7" "markets world5 = [btc_watched, usd_market]"
    by (simp_all add: price0_def price_out0_def output0_def world5_def world0_def)
  have find: "marketByAsset btc world5 = btc_watched" "m_PriceThreshold btc_watched = 2" "m_ID usd_market \<noteq> m_ID btc_watched"
    by (simp_all add: marketByAsset_def world5_def world0_def watched_found) (simp_all add: btc_watched_def btc_market_def usd_market_def)
  from price_verified [OF price_run changed] obtain m' where
    "m_Price m' = 11" "2 \<le> length (signing_keys ext0 (cs_Mask (pd_Signature price0)) (signers world5))"
    "blstVerify ext0 (signing_keys ext0 (cs_Mask (pd_Signature price0)) (signers world5)) (Payload ext0 price0)
       (cs_Signature (pd_Signature price0))"
    "[market_write ext0 btc_repriced 7 btc_watched, usd_market] = [market_write ext0 m' 7 btc_watched, usd_market]"
    unfolding price_parsed option.inject by (clarsimp simp: price find)
  then show ?thesis
    by (intro exI [of _ m']) (simp add: price_run price_parsed find)
qed

text \<open>
  C31. Anyone can block the payee. An output from any sender whose memo proposes an action that has no
  request ends in a plain error: the output is neither refunded nor skipped, the state stays as it is,
  and every later run of the payee meets the same output again, so no output behind it is ever handled.
\<close>

theorem unknown_proposal_blocks:
  assumes "faults w = []" "sysversion w = castInt64 X (property SysVersionKey w)" "3 \<le> sysversion w"
    and "pending X w = out # outs" "o_Sender out \<noteq> ''''" "lower_memo (o_Memo out) \<noteq> ''deposit''"
    and "PriceData_UnmarshalBinary X (decodeMemo (o_Memo out)) = None"
    and "decode_payload X (decodeMemo (o_Memo out)) = (ActionTypeProposalMake, f, msg)"
    and "scan1 ActionType_UnmarshalBinary ActionTypeDefault msg = Some (a, b)" "proposal_content X a b = None"
    and "(payee_step X S)\<^sup>*\<^sup>* w w'"
  shows "w' = w"
proof -
  have "run X S w = (Err (GoError ''unknown proposal action''), w)"
  proof -
    have "w\<lparr>sysversion := castInt64 X (property SysVersionKey w)\<rparr> = w"
      using assms(2) [symmetric] by simp
    with assms(1,4) output_unknown [OF assms(7,5,3,6,8-10), of S] show ?thesis
      by (simp add: run_pending Let_def seqE_Err)
  qed
  then have step: "payee_step X S w v \<Longrightarrow> v = w" for v
    by (auto elim: payee_step.cases)
  from assms(11) show ?thesis
    by (induction rule: rtranclp_induct) (auto dest: step)
qed

theorem unknown_proposal_blocks_witness:
  "o_Sender stranger0 = ''mallory'' \<and> {w'. (payee_step ext0 sys0)\<^sup>*\<^sup>* world4 w'} = {world4}"
proof -
  have facts: "faults world4 = []" "sysversion world4 = castInt64 ext0 (property SysVersionKey world4)" "3 \<le> sysversion world4"
    "o_Sender stranger0 = ''mallory''" "lower_memo (o_Memo stranger0) \<noteq> ''deposit''"
    "PriceData_UnmarshalBinary ext0 (decodeMemo (o_Memo stranger0)) = None"
    by code_simp+
  have pend: "pending ext0 world4 = [stranger0]"
    by (simp add: pending_def afterFindOutput_def payee_limit_def property_def world4_def stranger0_def output0_def
        checkpointKey_def SysVersionKey_def world3_def world0_def ext0_def ParseInt64_def)
  have dec: "decode_payload ext0 (decodeMemo (o_Memo stranger0)) = (ActionTypeProposalMake, '''', the (Encode [ActionType_MarshalBinary ActionTypeSupply]))"
    "scan1 ActionType_UnmarshalBinary ActionTypeDefault (the (Encode [ActionType_MarshalBinary ActionTypeSupply])) = Some (ActionTypeSupply, [])"
    "proposal_content ext0 ActionTypeSupply [] = None"
    by code_simp+
  show ?thesis
    using unknown_proposal_blocks [OF facts(1-3) pend _ facts(5,6) dec] facts(4) by auto
qed

text \<open>
  C30. A market proposal cannot push an existing market out of its ranges. If every market's parameters
  lie in the ranges the proposal handler knows (reserve factor, incentive, collateral factor, rates,
  close factor, kink, caps, price and thresholds), they still do after any market proposal for an
  existing market, whatever the request asks for and whatever the database does. The ranges are those of
  \<open>proposal_market.go\<close>: the close factor may be exactly \<open>CloseFactorMin\<close>, as the comment in \<open>core/market.go\<close>
  has it too, although the comment on the constant in \<open>pkg/compound/interestrate.go\<close> asks for strictly more.
\<close>

theorem market_params_in_range:
  assumes "gorm_documented X" "\<forall>m\<in>set (markets w). in_range m" "m_ID (marketByAsset (mr_AssetID req) w) \<noteq> 0"
    and "mr_AssetID req \<noteq> ''''" "handleMarketEvent X p req out w = (r, w')"
  shows "\<forall>m\<in>set (markets w'). in_range m"
  using assms by (rule market_event_range)

theorem market_params_in_range_witness:
  "list_all in_range (markets (snd (handleMarketEvent ext0 prop0 market_req0 output0 world0)))"
proof -
  have range: "\<forall>m\<in>set (markets world0). in_range m"
    by (simp add: world0_def in_range_def market_eval compound_consts)
  have found: "m_ID (marketByAsset (mr_AssetID market_req0) world0) \<noteq> 0" "mr_AssetID market_req0 \<noteq> ''''"
    by (simp_all add: marketByAsset_def world0_def market_req0_def zero_MarketReq_def ids_eval) (simp add: btc_market_def btc_def)
  from market_params_in_range [OF ext0_gorm range found, of prop0 output0, OF prod.collapse [symmetric]] show ?thesis
    by (simp add: list_all_iff)
qed

end
