(* ===== verification/Props_Wallet.thy ===== *)
theory Props_Wallet
  imports Example_Wallet
begin

text \<open>Properties of the wallet and of the workers around it.\<close>

text \<open>
  C33. The nodes of the group agree on the order of the outputs. Two nodes whose queues hold the same
  outputs, in whatever order they arrived and with whatever batch sizes, store them after enough rounds
  of the recovery in the same order, provided no two outputs have the same time, transaction hash and
  index and the outputs of one time are fewer than a batch.
\<close>

theorem nodes_agree:
  assumes "faults v = []" "queue_ok v" "groups_fit m v" "0 < m" "length (eligible a v) \<le> j"
    and "faults w = []" "queue_ok w" "groups_fit n w" "0 < n" "length (eligible b w) \<le> k"
    and "mset (map raw_output (eligible a v)) = mset (map raw_output (eligible b w))"
    and "distinct (map (utxo_key \<circ> raw_output) (eligible a v))"
  shows "map stored (drop (length (outputs v)) (outputs (sync_rounds j a m v)))
       = map stored (drop (length (outputs w)) (outputs (sync_rounds k b n w)))"
  using assms by (rule nodes_agree_rounds)

theorem nodes_agree_witness:
  "map stored (outputs (sync_rounds 3 3 10 node1)) = map stored (outputs (sync_rounds 5 3 4 node2))
   \<and> map o_TraceID (outputs (sync_rounds 3 3 10 node1)) = [''a'', ''c'', ''b'']"
proof -
  have "map stored (drop (length (outputs node1)) (outputs (sync_rounds 3 3 10 node1)))
      = map stored (drop (length (outputs node2)) (outputs (sync_rounds 5 3 4 node2)))"
  proof (rule nodes_agree)
    show "mset (map raw_output (eligible 3 node1)) = mset (map raw_output (eligible 3 node2))"
      by code_simp
  qed code_simp+
  moreover have "outputs node1 = []" "outputs node2 = []"
    by code_simp+
  moreover have "map o_TraceID (outputs (sync_rounds 3 3 10 node1)) = [''a'', ''c'', ''b'']"
    by code_simp
  ultimately show ?thesis
    by simp
qed

text \<open>
  C32. Every payment is covered. Whatever the workers of a node do, in any order and with any failures of
  the database, an assigned transfer is covered by outputs of its asset that are marked with its trace,
  an output pays at most one transfer, and the marks of a transfer keep their order: passed only after
  handled, handled only after assigned.
\<close>

theorem transfers_funded:
  assumes "(node_step X C S)\<^sup>*\<^sup>* w w'" "funded w" "t \<in> set (transfers w')"
  shows "(t_Assigned t \<and> t_TraceID t \<noteq> '''' \<longrightarrow> t_Amount t \<le> paid t (outputs w'))
    \<and> (t_Passed t \<longrightarrow> t_Handled t) \<and> (t_Handled t \<longrightarrow> t_Assigned t)
    \<and> (\<forall>u x. u \<in> set (transfers w') \<and> pays u x \<and> pays t x \<longrightarrow> u = t)"
proof -
  have ok: "funded w'"
    using node_steps_funding [OF assms(1)] assms(2) by (simp add: funding_def)
  then have "transfer_ok (outputs w') t" and inj: "inj_on t_TraceID (set (transfers w'))"
    using assms(3) by (simp_all add: funded_def money_ok_def list_all_iff keys_ok_def distinct_map)
  moreover have "u = t" if "u \<in> set (transfers w')" "pays u x" "pays t x" for u x
    using that assms(3) inj by (auto simp: pays_def dest: inj_onD)
  ultimately show ?thesis
    by (auto simp: transfer_ok_def)
qed

theorem transfers_funded_witness:
  "\<exists>w' t. (node_step ext0 client0 sys0)\<^sup>*\<^sup>* node3 w' \<and> t \<in> set (transfers w') \<and> t_Assigned t \<and> t_Amount t = 3 \<and> 3 \<le> paid t (outputs w')"
  using transfers_funded [OF node3_steps node3_funded node4_assigned(1)] node3_steps node4_assigned(1)
  by (intro exI [of _ node4] exI [of _ "pay0\<lparr>t_Assigned := True\<rparr>"]) (simp add: pay0_def zero_transfer_def)

text \<open>
  C34. The assigner pays a transfer with the shortest prefix of the asset's unspent outputs that covers it:
  exactly these outputs are marked and the transfer is assigned. When no prefix covers it nothing changes,
  unless as many outputs as the assigner looks at are there: then they are merged into one by a transfer
  to the group itself.
\<close>

theorem assign_effect:
  assumes "faults w = []" "ids_ok o_ID (outputs w)" "t_Version t \<le> 0" "0 < t_Amount t" "0 < t_ID t"
  shows "if coverable (t_Amount t) (spendable (t_AssetID t) w)
    then \<exists>n. covers (t_Amount t) (spendable (t_AssetID t) w) n \<and> assigner_handleTransfer X S t w =
        (Ok (), updateTransfer (t\<lparr>t_Assigned := True\<rparr>)
          (w\<lparr>outputs := mark (map o_ID (take n (spendable (t_AssetID t) w))) (t_TraceID t) (outputs w)\<rparr>))
    else if length (spendable (t_AssetID t) w) < unspent_limit
    then assigner_handleTransfer X S t w = (Err (GoError ''insufficient balance''), w)
    else assigner_handleTransfer X S t w =
      (let m = merge_transfer X S t (spendable (t_AssetID t) w) (sum_list (map o_Amount (spendable (t_AssetID t) w))) in
       if list_ex (\<lambda>r. t_TraceID r = t_TraceID m) (transfers w) then (Err DBError, w)
       else (Err (GoError ''output merge required''),
         w\<lparr>outputs := mark (map o_ID (spendable (t_AssetID t) w)) (t_TraceID m) (outputs w),
           transfers := transfers w @ [m\<lparr>t_Assigned := True, t_ID := next_id (map t_ID (transfers w))\<rparr>]\<rparr>))"
  using assms by (rule handle_effect)

theorem assign_effect_witness:
  "\<exists>n. covers 3 (spendable btc node3) n \<and> assigner_handleTransfer ext0 sys0 pay0 node3 =
    (Ok (), updateTransfer (pay0\<lparr>t_Assigned := True\<rparr>)
      (node3\<lparr>outputs := mark (map o_ID (take n (spendable btc node3))) ''pay0'' (outputs node3)\<rparr>))"
proof -
  have "faults node3 = []" "ids_ok o_ID (outputs node3)" "coverable 3 (spendable btc node3)"
    by code_simp+
  with assign_effect [of node3 pay0 ext0 sys0] show ?thesis
    by (simp add: pay0_def zero_transfer_def)
qed

text \<open>
  C35. The wallet service hands out a raw transaction only with the group's consent: the network's request
  carries at least threshold signatures and the transaction is signed, this node had signed it before or
  found it to pay the asset, amount, memo and receivers of the transfer, and it is filed under the
  transfer's trace.
\<close>

theorem spend_checked:
  assumes "Spend X C S outs t w = (Ok (Some raw), w')"
  shows "\<exists>sig tx. consented X C t sig \<and> mq_Threshold sig \<le> length (mq_Signers sig)
    \<and> cl_TransactionFromRaw C (mq_RawTransaction sig) = Some tx \<and> mt_Signed tx
    \<and> raw = \<lparr>rt_ID = 0, rt_TraceID = t_TraceID t, rt_Data = mq_RawTransaction sig\<rparr>"
  using spend_raw [OF assms] by metis

theorem spend_checked_witness:
  "\<exists>sig. consented ext0 client0 pay0 sig \<and> mq_RawTransaction sig = ''raw1''"
proof -
  have "fst (Spend ext0 client0 sys0 (map afterFindOutput (take 2 (outputs node4))) pay0 node4)
      = Ok (Some \<lparr>rt_ID = 0, rt_TraceID = ''pay0'', rt_Data = ''raw1''\<rparr>)"
    by code_simp
  then obtain w' where "Spend ext0 client0 sys0 (map afterFindOutput (take 2 (outputs node4))) pay0 node4
      = (Ok (Some \<lparr>rt_ID = 0, rt_TraceID = ''pay0'', rt_Data = ''raw1''\<rparr>), w')"
    by (metis prod.collapse)
  from spend_checked [OF this] show ?thesis
    by auto
qed

text \<open>
  C36. The messenger delivers in order. A round takes at most seventy messages, each the first one waiting
  for its user, delivers all but those to the node itself, and deletes exactly what it took.
\<close>

theorem messages_in_order:
  assumes "messenger_run C w = (Ok (), w')" "faults w = []"
  shows "\<exists>ms. length ms \<le> 70 \<and> distinct (map msg_UserID ms)
    \<and> list_all (\<lambda>m. List.find (\<lambda>x. msg_UserID x = msg_UserID m) (messages w) = Some m) ms
    \<and> delivered w' = delivered w @ filter (\<lambda>m. msg_UserID m \<noteq> cl_ClientID C) ms
    \<and> messages w' = filter (\<lambda>m. msg_ID m \<notin> set (map msg_ID ms)) (messages w)"
proof -
  have first: "List.find P (take n xs) = Some x \<Longrightarrow> List.find P xs = Some x" for P n x and xs :: "Message list"
    by (induction xs arbitrary: n) (auto simp: take_Cons split: nat.splits if_splits)
  obtain ms where ms: "set ms \<subseteq> set (take 300 (messages w))" "distinct (map msg_UserID ms)" "length ms \<le> messenger_batch"
    "list_all (\<lambda>m. List.find (\<lambda>x. msg_UserID x = msg_UserID m) (take 300 (messages w)) = Some m) ms"
    "delivered w' = delivered w @ filter (\<lambda>m. msg_UserID m \<noteq> cl_ClientID C) ms"
    "messages w' = filter (\<lambda>m. msg_ID m \<notin> set (map msg_ID ms)) (messages w)"
    by (rule messenger_ok [OF assms])
  have "list_all (\<lambda>m. List.find (\<lambda>x. msg_UserID x = msg_UserID m) (messages w) = Some m) ms"
    using ms(4) first unfolding list_all_iff by blast
  moreover have "length ms \<le> 70"
    using ms(3) by (simp only: messenger_batch_def)
  ultimately show ?thesis
    using ms(2,5,6) by blast
qed

theorem messages_in_order_witness:
  "\<exists>w'. messenger_run client0 mail0 = (Ok (), w') \<and> length (delivered w') \<le> 70 \<and> map msg_ID (delivered w') = [1, 3] \<and> map msg_ID (messages w') = [2]"
proof -
  obtain r w' where run: "messenger_run client0 mail0 = (r, w')"
    by fastforce
  have "fst (messenger_run client0 mail0) = Ok ()" "map msg_ID (delivered (snd (messenger_run client0 mail0))) = [1, 3]"
    "map msg_ID (messages (snd (messenger_run client0 mail0))) = [2]" "faults mail0 = []" "delivered mail0 = []"
    by code_simp+
  then have facts: "messenger_run client0 mail0 = (Ok (), w')" "map msg_ID (delivered w') = [1, 3]" "map msg_ID (messages w') = [2]"
    "faults mail0 = []" "delivered mail0 = []"
    unfolding run by simp_all
  obtain ms where "length ms \<le> 70" "delivered w' = delivered mail0 @ filter (\<lambda>m. msg_UserID m \<noteq> cl_ClientID client0) ms"
    using messages_in_order [OF facts(1,4)] by blast
  then have "length (delivered w') \<le> 70"
    unfolding facts(5) append.simps by (metis length_filter_le order_trans)
  with facts(1-3) show ?thesis
    by (intro exI [of _ w'] conjI)
qed

text \<open>
  The identifier of a snapshot is a UUID of version 3 in the layout of RFC 4122: from a digest of
  sixteen bytes it keeps all but the six bits of version and variant, which are set.
\<close>

lemma uuid_v3_layout:
  assumes "length s = 16"
  shows "length (uuid_v3 s) = 16 \<and> drop_bit 4 (uuid_v3 s ! 6) = 3 \<and> take_bit 4 (uuid_v3 s ! 6) = take_bit 4 (s ! 6)
    \<and> drop_bit 6 (uuid_v3 s ! 8) = 2 \<and> take_bit 6 (uuid_v3 s ! 8) = take_bit 6 (s ! 8)
    \<and> list_all (\<lambda>i. i = 6 \<or> i = 8 \<or> uuid_v3 s ! i = s ! i) [0..<16]"
  using assms version_nibble [of "s ! 6"] variant_bits [of "s ! 8"] by (simp add: uuid_v3_def list_all_iff nth_list_update)

lemma uuid_v3_layout_witness:
  "length (uuid_v3 (cl_md5 client0 [1, 2])) = 16 \<and> drop_bit 4 (uuid_v3 (cl_md5 client0 [1, 2]) ! 6) = 3"
  using uuid_v3_layout [of "cl_md5 client0 [1, 2]"] by (simp add: client0_def)

end
