(* ===== verification/Values.thy ===== *)
theory Values
  imports Payee_Proposal
begin

text \<open>
  Helpers of the packages that carry values around: typed values (\<open>pkg/mtg/types\<close>), maps of decimals
  (\<open>pkg/number/values.go\<close>) and the texts of a signature (\<open>core/cosi.go\<close>). \<open>parse\<close> is
  \<open>decimal.NewFromString\<close>.
\<close>

section \<open>pkg/mtg/types/types.go\<close>

record Value =
  v_typ :: string
  v_raw :: string

definition UUID :: "string \<Rightarrow> Value" where
  "UUID v = \<lparr>v_typ = ''uuid'', v_raw = v\<rparr>"

definition Decimal_value :: "string \<Rightarrow> Value" where
  "Decimal_value v = \<lparr>v_typ = ''decimal'', v_raw = v\<rparr>"

definition Bit :: "string \<Rightarrow> Value" where
  "Bit v = \<lparr>v_typ = ''bit'', v_raw = v\<rparr>"

text \<open>Both \<open>strconv.Atoi\<close> and \<open>strconv.ParseInt\<close> read 64 bits. The result is the field \<open>mtg.Encode\<close> writes.\<close>

definition castValue ::
  "ext \<Rightarrow> (string \<Rightarrow> rat option) \<Rightarrow> string \<Rightarrow> string \<Rightarrow> bytes option option" where
  "castValue X parse typ v =
     (if typ = ''str'' then Some (encode_string v)
      else if typ = ''bit'' then map_option BitInt_MarshalBinary (ParseInt64 v)
      else if typ = ''uuid'' then map_option Some (uuidFromString X v)
      else if typ = ''decimal'' then map_option (encode_dec X) (parse v)
      else if typ = ''int'' then map_option encode_int (ParseInt64 v)
      else None)"

definition Value_MarshalBinary :: "ext \<Rightarrow> (string \<Rightarrow> rat option) \<Rightarrow> Value \<Rightarrow> bytes option" where
  "Value_MarshalBinary X parse v = (case castValue X parse (v_typ v) (v_raw v) of
     None \<Rightarrow> None
   | Some b \<Rightarrow> map_option tl (Encode [b]))"

text \<open>The pairs of \<open>EncodeWithTypes\<close>; an odd argument at the end is left out.\<close>

fun cast_pairs ::
  "ext \<Rightarrow> (string \<Rightarrow> rat option) \<Rightarrow> string list \<Rightarrow> bytes option list option" where
  "cast_pairs X parse (typ # v # rest) = (case castValue X parse typ v of
     None \<Rightarrow> None
   | Some b \<Rightarrow> map_option (\<lambda>values. b # values) (cast_pairs X parse rest))"
| "cast_pairs X parse _ = Some []"

definition EncodeWithTypes ::
  "ext \<Rightarrow> (string \<Rightarrow> rat option) \<Rightarrow> string list \<Rightarrow> bytes option" where
  "EncodeWithTypes X parse typeValues = (case cast_pairs X parse typeValues of
     None \<Rightarrow> None | Some values \<Rightarrow> Encode values)"

section \<open>pkg/number/values.go\<close>

text \<open>A map of decimals as the list of its entries, each key once, in the order Go happens to visit them.\<close>

type_synonym Values = "(string \<times> rat) list"

definition Values_Get :: "Values \<Rightarrow> string \<Rightarrow> rat" where
  "Values_Get v key = (case map_of v key of None \<Rightarrow> 0 | Some d \<Rightarrow> d)"

definition Values_Set :: "Values \<Rightarrow> string \<Rightarrow> rat \<Rightarrow> Values" where
  "Values_Set v key d = AList.update key d v"

definition Values_Add :: "Values \<Rightarrow> string \<Rightarrow> rat \<Rightarrow> Values" where
  "Values_Add v key d = AList.update key (Values_Get v key + d) v"

definition Values_Del :: "Values \<Rightarrow> string \<Rightarrow> Values" where
  "Values_Del v key = AList.delete key v"

definition Values_Merge :: "Values \<Rightarrow> Values \<Rightarrow> Values" where
  "Values_Merge v other = foldl (\<lambda>v (key, d). Values_Add v key d) v other"

definition Values_Sum :: "Values \<Rightarrow> rat" where
  "Values_Sum v = foldl (\<lambda>sum (key, d). sum + d) 0 v"

definition Values_Mul :: "Values \<Rightarrow> rat \<Rightarrow> Values" where
  "Values_Mul v m = map (\<lambda>(key, d). (key, d * m)) v"

definition Values_Div :: "ext \<Rightarrow> Values \<Rightarrow> rat \<Rightarrow> Values res" where
  "Values_Div X v d = (if d = 0 \<and> v \<noteq> [] then Panic ''decimal division by 0''
     else Ok (map (\<lambda>(key, x). (key, decDiv X x d)) v))"

definition Values_Truncate :: "Values \<Rightarrow> nat \<Rightarrow> Values" where
  "Values_Truncate v p = map (\<lambda>(key, d). (key, dec_truncate p d)) v"

definition Values_Keys :: "Values \<Rightarrow> string list" where
  "Values_Keys v = map fst v"

section \<open>pkg/number/decimal.go\<close>

definition number_Decimal :: "(string \<Rightarrow> rat option) \<Rightarrow> string \<Rightarrow> rat" where
  "number_Decimal parse v = (case parse v of Some d \<Rightarrow> d | None \<Rightarrow> 0)"

section \<open>core/cosi.go\<close>

definition CosiSignature_String :: "CosiSignature \<Rightarrow> string res" where
  "CosiSignature_String s = (case CosiSignature_Bytes s of Ok b \<Rightarrow> Ok (StdEncode b) | Err e \<Rightarrow> Err e | Panic p \<Rightarrow> Panic p)"

text \<open>Base64 text needs no escapes, so \<open>strconv.Quote\<close> only adds the quotes.\<close>

definition CosiSignature_MarshalJSON :: "CosiSignature \<Rightarrow> string res" where
  "CosiSignature_MarshalJSON s = (case CosiSignature_String s of
     Ok t \<Rightarrow> Ok (CHR 0x22 # t @ [CHR 0x22]) | Err e \<Rightarrow> Err e | Panic p \<Rightarrow> Panic p)"

section \<open>Lemmas on maps of decimals\<close>

lemma Values_Get_Set: "Values_Get (Values_Set v k d) key = (if key = k then d else Values_Get v key)"
  by (simp add: Values_Get_def Values_Set_def update_conv')

lemma Values_Get_Add: "Values_Get (Values_Add v k d) key = Values_Get v key + (if key = k then d else 0)"
  by (simp add: Values_Get_def Values_Add_def update_conv')

lemma Values_Get_Del: "Values_Get (Values_Del v k) key = (if key = k then 0 else Values_Get v key)"
  by (simp add: Values_Get_def Values_Del_def delete_conv')

lemma Values_Get_unique: "distinct (map fst ((k, d) # v)) \<Longrightarrow> Values_Get v k = 0"
  by (simp add: Values_Get_def map_of_eq_None_iff [THEN iffD2])

lemma Values_Get_Merge:
  "distinct (map fst other) \<Longrightarrow> Values_Get (Values_Merge v other) key = Values_Get v key + Values_Get other key"
proof (induction other arbitrary: v)
  case Nil
  then show ?case by (simp add: Values_Merge_def Values_Get_def)
next
  case (Cons kd other)
  obtain k d where kd: "kd = (k, d)" by force
  have "Values_Get (Values_Merge v (kd # other)) key = Values_Get (Values_Add v k d) key + Values_Get other key"
    using Cons by (simp add: Values_Merge_def kd)
  also have "\<dots> = Values_Get v key + Values_Get (kd # other) key"
    using Values_Get_unique [of k d other] Cons(2) by (auto simp: Values_Get_Add kd) (auto simp: Values_Get_def)
  finally show ?case .
qed

lemma Values_Sum_Mul: "Values_Sum (Values_Mul v m) = Values_Sum v * m"
proof -
  have "foldl (\<lambda>sum (key, d). sum + d) (a * m) (Values_Mul v m) = foldl (\<lambda>sum (key, d). sum + d) a v * m" for a
    by (induction v arbitrary: a) (auto simp: Values_Mul_def distrib_right [symmetric])
  from this [of 0] show ?thesis by (simp add: Values_Sum_def)
qed

end
