(* ===== verification/Commands.thy ===== *)
theory Commands
  imports Server Values
begin

text \<open>
  The configuration (\<open>config\<close>, \<open>cmd/provider.go\<close>), the commands that move money into the group
  (\<open>cmd/deposit.go\<close>) and those of \<open>cmd/proposal*.go\<close> that make proposals: each builds a request from its flags, encodes
  it into the memo of a payment to the group and asks the Mixin network for the payment's code, or pays
  at once from the node's own wallet. What a command prints is its result, an error it prints and stops at
  is the error, and \<open>parse\<close> is \<open>decimal.NewFromString\<close>.
\<close>

section \<open>config and cmd/provider.go\<close>

record MemberConf =
  mc_ClientID :: string
  mc_VerifyKey :: string

text \<open>The parts of the configuration that \<open>provideSystem\<close> reads, with the client of the dapp's keystore.\<close>

record Config =
  cf_Genesis :: int
  cf_ClientID :: string
  cf_PrivateKey :: string
  cf_SignKey :: string
  cf_Admins :: "string list"
  cf_Threshold :: byte
  cf_Members :: "MemberConf list"
  cf_VoteAsset :: string
  cf_VoteAmount :: rat

definition defaultVote :: "Config \<Rightarrow> Config" where
  "defaultVote cfg =
     (let cfg = (if cf_VoteAsset cfg = '''' then cfg\<lparr>cf_VoteAsset := ''965e5c6e-434c-3fa9-b780-c50f43cd955c''\<rparr> else cfg)
      in if cf_VoteAmount cfg = 0 then cfg\<lparr>cf_VoteAmount := 1 / 10 ^ 8\<rparr> else cfg)"

fun provide_members :: "MemberConf list \<Rightarrow> Member list res" where
  "provide_members [] = Ok []"
| "provide_members (m # ms) = (case DecodePublicKey (mc_VerifyKey m) of
     None \<Rightarrow> Panic (''decode verify key for member '' @ mc_ClientID m @ '' failed'')
   | Some verifyKey \<Rightarrow> (case provide_members ms of
       Ok members \<Rightarrow> Ok (\<lparr>mb_ClientID = mc_ClientID m, mb_VerifyKey = verifyKey\<rparr> # members)
     | r \<Rightarrow> r))"

definition provideSystem :: "Config \<Rightarrow> System res" where
  "provideSystem cfg = (case provide_members (cf_Members cfg) of
     Err e \<Rightarrow> Err e
   | Panic p \<Rightarrow> Panic p
   | Ok members \<Rightarrow> (case DecodePrivateKey (cf_PrivateKey cfg) of
       None \<Rightarrow> Panic ''base64 decode group private key failed''
     | Some privateKey \<Rightarrow> (case DecodePrivateKey (cf_SignKey cfg) of
         None \<Rightarrow> Panic ''base64 decode group sign key failed''
       | Some signKey \<Rightarrow> Ok \<lparr>Admins = cf_Admins cfg, ClientID = cf_ClientID cfg, Members = members,
           MemberIDs = map mc_ClientID (cf_Members cfg), Threshold = unat (cf_Threshold cfg),
           VoteAsset = cf_VoteAsset cfg, VoteAmount = cf_VoteAmount cfg, PrivateKey = privateKey, SignKey = signKey,
           Genesis = cf_Genesis cfg\<rparr>)))"

section \<open>cmd/deposit.go\<close>

definition depositCmd ::
  "ext \<Rightarrow> client \<Rightarrow> System \<Rightarrow> (string \<Rightarrow> rat option) \<Rightarrow> string \<Rightarrow> string \<Rightarrow> (world, Transfer \<times> string) go" where
  "depositCmd X C S parse assetID amount =
     (if assetID = '''' then panic ''no asset''
      else (case parse amount of
        None \<Rightarrow> panic ''invalid amount''
      | Some amountNum \<Rightarrow>
          if amountNum \<le> 0 then panic ''invalid amount''
          else
          seqE (uuid_New X) (\<lambda>trace.
          let input = zero_transfer\<lparr>t_AssetID := assetID, t_Amount := amountNum, t_TraceID := trace, t_Memo := ''deposit'',
                t_Opponents := MemberIDs S, t_Threshold := Threshold S\<rparr> in
          tryE (apiE (\<lambda>n. cl_VerifyPayment C n input)) (\<lambda>_. panic ''VerifyPayment'') (\<lambda>code.
          ret (input, cl_URLCodes C code)))))"

section \<open>cmd/proposal.go\<close>

definition buildProposalMemo :: "ext \<Rightarrow> ActionType \<Rightarrow> bytes option \<Rightarrow> (world, string) go" where
  "buildProposalMemo X action content =
     (case Encode [ActionType_MarshalBinary ActionTypeProposalMake, ActionType_MarshalBinary action] of
        None \<Rightarrow> throw (GoError ''encode'')
      | Some data \<Rightarrow>
          (case content of
             None \<Rightarrow> throw (GoError ''marshal'')
           | Some bts \<Rightarrow> ret (StdEncode (EncodeTransactionAction X \<lparr>ta_FollowID = [], ta_Body = data @ bts\<rparr>))))"

definition proposal_input :: "System \<Rightarrow> string \<Rightarrow> string \<Rightarrow> Transfer" where
  "proposal_input S trace memo = zero_transfer\<lparr>t_AssetID := VoteAsset S, t_Amount := VoteAmount S, t_TraceID := trace,
     t_Memo := memo, t_Opponents := MemberIDs S, t_Threshold := Threshold S\<rparr>"

text \<open>The vote asset and amount are those of the configuration, from which \<open>provideSystem\<close> takes them too.\<close>

definition buildProposalTransferURL ::
  "ext \<Rightarrow> client \<Rightarrow> System \<Rightarrow> ActionType \<Rightarrow> bytes option \<Rightarrow> (world, string) go" where
  "buildProposalTransferURL X C S action content =
     seqE (buildProposalMemo X action content) (\<lambda>memo.
     seqE (uuid_New X) (\<lambda>trace.
     seqE (apiE (\<lambda>n. cl_VerifyPayment C n (proposal_input S trace memo))) (\<lambda>code.
     ret (cl_URLCodes C code))))"

text \<open>With \<open>--exec\<close> and a PIN the command pays itself.\<close>

definition pay_proposal :: "ext \<Rightarrow> System \<Rightarrow> ActionType \<Rightarrow> bytes option \<Rightarrow> (world, unit) go" where
  "pay_proposal X S action content =
     seqE (buildProposalMemo X action content) (\<lambda>memo.
     seqE (uuid_New X) (\<lambda>trace.
     HandleTransfer X (proposal_input S trace memo)))"

section \<open>The commands\<close>

definition withdrawCmd ::
  "ext \<Rightarrow> client \<Rightarrow> System \<Rightarrow> (string \<Rightarrow> rat option) \<Rightarrow> string \<Rightarrow> string \<Rightarrow> string \<Rightarrow> (world, string) go" where
  "withdrawCmd X C S parse opponent asset amountStr = (case parse amountStr of
     None \<Rightarrow> panic ''amount''
   | Some amount \<Rightarrow> buildProposalTransferURL X C S ActionTypeProposalWithdrawReserves
       (WithdrawReq_MarshalBinary X \<lparr>wr_Opponent = opponent, wr_Asset = asset, wr_Amount = amount\<rparr>))"

definition setpropertyCmd :: "ext \<Rightarrow> client \<Rightarrow> System \<Rightarrow> string \<Rightarrow> string \<Rightarrow> (world, string) go" where
  "setpropertyCmd X C S key val =
     (let submit = buildProposalTransferURL X C S ActionTypeProposalSetProperty
            (SetProperty_MarshalBinary \<lparr>sp_Key = key, sp_Value = val\<rparr>) in
      if key = '''' then throw (GoError ''empty key'')
      else if key = SysVersionKey
      then (case ParseInt64 val of
          None \<Rightarrow> throw (GoError ''ParseInt'')
        | Some ver \<Rightarrow> if ver > SysVersion then throw (GoError ''sys version'') else submit)
      else submit)"

definition addOracleSignerCmd :: "ext \<Rightarrow> client \<Rightarrow> System \<Rightarrow> string \<Rightarrow> string \<Rightarrow> (world, string) go" where
  "addOracleSignerCmd X C S user publicKey =
     (if user = '''' \<or> publicKey = '''' then panic ''no user or public key''
      else buildProposalTransferURL X C S ActionTypeProposalAddOracleSigner
        (AddOracleSignerReq_MarshalBinary X \<lparr>ao_UserID = user, ao_PublicKey = publicKey\<rparr>))"

definition removeOracleSignerCmd :: "ext \<Rightarrow> client \<Rightarrow> System \<Rightarrow> string \<Rightarrow> (world, string) go" where
  "removeOracleSignerCmd X C S user =
     (if user = '''' then panic ''no user''
      else buildProposalTransferURL X C S ActionTypeProposalRemoveOracleSigner
        (RemoveOracleSignerReq_MarshalBinary X \<lparr>ro_UserID = user\<rparr>))"

text \<open>One proposal per asset; the codes printed so far are lost with the error here.\<close>

definition market_status_cmd ::
  "ext \<Rightarrow> client \<Rightarrow> System \<Rightarrow> bool \<Rightarrow> ActionType \<Rightarrow> MarketStatus \<Rightarrow> string list \<Rightarrow> (world, string list) go" where
  "market_status_cmd X C S pay action status assets =
     foldE assets [] (\<lambda>asset printed.
       let content = MarketStatusReq_MarshalBinary X \<lparr>ms_AssetID = asset, ms_Status = status\<rparr> in
       if \<not> pay then seqE (buildProposalTransferURL X C S action content) (\<lambda>url. ret (printed @ [url]))
       else seqE (pay_proposal X S action content) (\<lambda>_. ret (printed @ [asset])))"

definition closeMarketCmd :: "ext \<Rightarrow> client \<Rightarrow> System \<Rightarrow> bool \<Rightarrow> string list \<Rightarrow> (world, string list) go" where
  "closeMarketCmd X C S pay assets = market_status_cmd X C S pay ActionTypeProposalCloseMarket MarketStatusClose assets"

definition openMarketCmd :: "ext \<Rightarrow> client \<Rightarrow> System \<Rightarrow> bool \<Rightarrow> string list \<Rightarrow> (world, string list) go" where
  "openMarketCmd X C S pay assets = market_status_cmd X C S pay ActionTypeProposalOpenMarket MarketStatusOpen assets"

text \<open>The flags of \<open>proposal market\<close> as they are given, with the defaults filled in by the flag library.\<close>

record MarketFlags =
  mf_symbol :: string
  mf_asset :: string
  mf_ctoken :: string
  mf_init_exchange_rate :: string
  mf_reserve_factor :: string
  mf_liquidation_incentive :: string
  mf_collateral_factor :: string
  mf_base_rate :: string
  mf_borrow_cap :: string
  mf_close_factor :: string
  mf_multi :: string
  mf_jump_multi :: string
  mf_kink :: string
  mf_max_pledge :: string
  mf_price_threshold :: int
  mf_price :: string

definition dec_flag :: "(string \<Rightarrow> rat option) \<Rightarrow> string \<Rightarrow> (world, rat) go" where
  "dec_flag parse s = (case parse s of Some d \<Rightarrow> ret d | None \<Rightarrow> panic ''invalid decimal'')"

definition upsertMarketCmd ::
  "ext \<Rightarrow> client \<Rightarrow> System \<Rightarrow> (string \<Rightarrow> rat option) \<Rightarrow> MarketFlags \<Rightarrow> (world, string) go" where
  "upsertMarketCmd X C S parse flags =
     (if mf_asset flags = '''' then panic ''invalid assetID''
      else
      let ie = (case parse (mf_init_exchange_rate flags) of Some d \<Rightarrow> d | None \<Rightarrow> 0) in
      seqE (dec_flag parse (mf_reserve_factor flags)) (\<lambda>rf.
      seqE (dec_flag parse (mf_liquidation_incentive flags)) (\<lambda>li.
      seqE (dec_flag parse (mf_collateral_factor flags)) (\<lambda>cf.
      seqE (dec_flag parse (mf_base_rate flags)) (\<lambda>br.
      seqE (dec_flag parse (mf_borrow_cap flags)) (\<lambda>bc.
      seqE (dec_flag parse (mf_close_factor flags)) (\<lambda>clf.
      seqE (dec_flag parse (mf_multi flags)) (\<lambda>m.
      seqE (dec_flag parse (mf_jump_multi flags)) (\<lambda>jm.
      seqE (dec_flag parse (mf_kink flags)) (\<lambda>k.
      seqE (dec_flag parse (mf_max_pledge flags)) (\<lambda>maxPledge.
      seqE (dec_flag parse (mf_price flags)) (\<lambda>price.
      buildProposalTransferURL X C S ActionTypeProposalUpsertMarket (MarketReq_MarshalBinary X
        \<lparr>mr_Symbol = mf_symbol flags, mr_AssetID = mf_asset flags, mr_CTokenAssetID = mf_ctoken flags,
         mr_PriceThreshold = mf_price_threshold flags, mr_Price = price, mr_InitExchange = ie, mr_ReserveFactor = rf,
         mr_LiquidationIncentive = li, mr_CollateralFactor = cf, mr_BaseRate = br, mr_BorrowCap = bc,
         mr_CloseFactor = clf, mr_Multiplier = m, mr_JumpMultiplier = jm, mr_Kink = k, mr_MaxPledge = maxPledge\<rparr>)))))))))))))"

section \<open>cmd/proposal_markets.go\<close>

text \<open>A line of the file, without its price threshold; thirteen columns are there.\<close>

definition row_request :: "(string \<Rightarrow> rat option) \<Rightarrow> string list \<Rightarrow> int \<Rightarrow> MarketReq" where
  "row_request parse row threshold = zero_MarketReq\<lparr>
     mr_Symbol := row ! 0, mr_AssetID := row ! 1, mr_CTokenAssetID := row ! 2,
     mr_InitExchange := number_Decimal parse (row ! 3), mr_ReserveFactor := number_Decimal parse (row ! 4),
     mr_LiquidationIncentive := number_Decimal parse (row ! 5), mr_CollateralFactor := number_Decimal parse (row ! 6),
     mr_BaseRate := number_Decimal parse (row ! 7), mr_CloseFactor := number_Decimal parse (row ! 8),
     mr_Multiplier := number_Decimal parse (row ! 9), mr_JumpMultiplier := number_Decimal parse (row ! 10),
     mr_Kink := number_Decimal parse (row ! 11), mr_PriceThreshold := threshold,
     mr_MaxPledge := (if length row > 13 then number_Decimal parse (row ! 13) else 0)\<rparr>"

text \<open>\<open>read\<close> is \<open>client.ReadAsset\<close>: the symbol of an asset, if the network knows it.\<close>

definition upsertMarketsCmd ::
  "ext \<Rightarrow> client \<Rightarrow> System \<Rightarrow> (string \<Rightarrow> rat option) \<Rightarrow> (string \<Rightarrow> string option) \<Rightarrow> bool \<Rightarrow> string list list \<Rightarrow> (world, string list) go" where
  "upsertMarketsCmd X C S parse read pay rows =
     foldE rows [] (\<lambda>row printed.
       if length row < 13 then throw (GoError ''invalid csv format'')
       else (case ParseInt64 (row ! 12) of
         None \<Rightarrow> throw (GoError ''invalid price threshold'')
       | Some threshold \<Rightarrow>
           (let req = row_request parse row threshold; content = MarketReq_MarshalBinary X req in
            case read (mr_AssetID req) of
              None \<Rightarrow> throw (GoError ''read asset failed'')
            | Some symbol \<Rightarrow>
                if symbol \<noteq> mr_Symbol req then throw (GoError ''symbol not matched'')
                else if \<not> pay
                then seqE (buildProposalTransferURL X C S ActionTypeProposalUpsertMarket content) (\<lambda>url. ret (printed @ [url]))
                else seqE (pay_proposal X S ActionTypeProposalUpsertMarket content) (\<lambda>_. ret (printed @ [mr_Symbol req])))))"

end
