(* ===== verification/Memo_Spec.thy ===== *)
theory Memo_Spec
  imports Commands
begin

text \<open>
  Memos are read back by the payee as they were written by the server and the commands: base64 decodes
  what it encodes, the msgpack envelope does by its documentation, and the action at the head of the body
  is scanned off.
\<close>

section \<open>base64\<close>

text \<open>What an alphabet of base64 needs: 64 distinct characters, none of them padding.\<close>

definition alphabet_ok :: "string \<Rightarrow> bool" where
  "alphabet_ok al \<longleftrightarrow> length al = 64 \<and> distinct al \<and> CHR ''='' \<notin> set al"

lemma std_alphabet_ok: "alphabet_ok std_alphabet"
  by code_simp

lemma std_alphabet_no_break: "list_all (\<lambda>c. c \<noteq> CHR 0x0A \<and> c \<noteq> CHR 0x0D) std_alphabet"
  by code_simp

lemma index_of_nth: "distinct al \<Longrightarrow> n < length al \<Longrightarrow> index_of (al ! n) al = Some n"
proof (induction al arbitrary: n)
  case (Cons a al)
  then show ?case by (cases n) (auto dest: nth_mem)
qed simp

lemma alphabet_index: "alphabet_ok al \<Longrightarrow> n < 64 \<Longrightarrow> index_of (al ! n) al = Some n"
  by (simp add: alphabet_ok_def index_of_nth)

lemma alphabet_not_pad: "alphabet_ok al \<Longrightarrow> n < 64 \<Longrightarrow> al ! n \<noteq> CHR ''=''"
  by (metis alphabet_ok_def nth_mem)

text \<open>The four digits of three bytes, and the bytes put together again.\<close>

lemma byte_less: "unat (a :: byte) < 256"
  using unsigned_less [of a] by simp

lemma byte_div_less:
  fixes a :: byte
  shows "unat a div 4 < 64" "unat a div 16 < 16" "unat a div 64 < 4"
  using byte_less [of a] by (simp_all add: less_mult_imp_div_less)

lemma digits_less:
  fixes a b c :: byte
  shows "unat a div 4 < 64" "unat a mod 4 * 16 < 64" "unat a mod 4 * 16 + unat b div 16 < 64"
    and "unat b mod 16 * 4 < 64" "unat b mod 16 * 4 + unat c div 64 < 64" "unat c mod 64 < 64"
proof -
  have "unat a mod 4 < 4" "unat b mod 16 < 16" by simp_all
  with byte_div_less [of a] byte_div_less [of b] byte_div_less [of c]
  show "unat a div 4 < 64" "unat a mod 4 * 16 < 64" "unat a mod 4 * 16 + unat b div 16 < 64"
    and "unat b mod 16 * 4 < 64" "unat b mod 16 * 4 + unat c div 64 < 64"
    by linarith+
qed simp

lemma digits_join:
  fixes a b c :: byte
  shows "unat b div 16 div 16 = 0" "unat b div 16 mod 16 = unat b div 16"
    and "unat c div 64 div 4 = 0" "unat c div 64 mod 4 = unat c div 64"
    and "unat b div 16 * 16 + unat b mod 16 = unat b" "unat c div 64 * 64 + unat c mod 64 = unat c"
  using byte_div_less [of b] byte_div_less [of c] by simp_all

lemmas digit_simps = digits_join digits_less alphabet_index alphabet_not_pad

lemma base64_quads_encode: "alphabet_ok al \<Longrightarrow> base64_quads al (base64_encode al bs) = Some bs"
proof (induction al bs rule: base64_encode.induct)
  case (4 al a b c r)
  then have IH: "base64_quads al (base64_encode al r) = Some r" by blast
  show ?case
  proof (cases "base64_encode al r")
    case Nil
    with IH have "r = []" by simp
    with 4(2) show ?thesis
      by (simp add: digit_simps del: of_nat_add of_nat_mult)
  next
    case (Cons t rest)
    with IH 4(2) show ?thesis
      by (simp add: digit_simps del: of_nat_add of_nat_mult)
  qed
qed (simp_all add: digit_simps del: of_nat_add of_nat_mult)

lemma base64_encode_chars: "alphabet_ok al \<Longrightarrow> set (base64_encode al bs) \<subseteq> insert (CHR ''='') (set al)"
proof (induction al bs rule: base64_encode.induct)
qed (simp_all add: alphabet_ok_def digits_less)

lemma StdDecode_StdEncode [simp]: "StdDecode (StdEncode bs) = Some bs"
proof -
  have "\<forall>c\<in>set (StdEncode bs). c \<noteq> CHR 0x0A \<and> c \<noteq> CHR 0x0D"
    using base64_encode_chars [OF std_alphabet_ok, of bs] std_alphabet_no_break
    unfolding StdEncode_def list_all_iff by auto
  then have "filter (\<lambda>c. c \<noteq> CHR 0x0A \<and> c \<noteq> CHR 0x0D) (StdEncode bs) = StdEncode bs"
    by (rule filter_True)
  then show ?thesis
    using base64_quads_encode [OF std_alphabet_ok, of bs]
    by (simp add: StdDecode_def base64_decode_def) (simp add: StdEncode_def)
qed

lemma decodeMemo_StdEncode [simp]: "decodeMemo (StdEncode bs) = bs"
  by (simp add: decodeMemo_def)

text \<open>A base64 text has a length divisible by four and only letters of ASCII, so it is no \<open>deposit\<close> memo.\<close>

lemma base64_encode_length: "4 dvd length (base64_encode al bs)"
  by (induction al bs rule: base64_encode.induct) (simp_all, presburger+)

lemma lower_memo_length: "CHR 0xC4 \<notin> set s \<Longrightarrow> length (lower_memo s) = length s"
  by (induction s rule: lower_memo.induct) (auto simp: Let_def)

lemma std_alphabet_ascii: "CHR 0xC4 \<notin> set std_alphabet"
  by code_simp

lemma StdEncode_not_deposit: "lower_memo (StdEncode bs) \<noteq> ''deposit''"
proof
  assume "lower_memo (StdEncode bs) = ''deposit''"
  moreover have "CHR 0xC4 \<notin> set (StdEncode bs)"
    using base64_encode_chars [OF std_alphabet_ok, of bs] std_alphabet_ascii
    unfolding StdEncode_def by auto
  ultimately have "length (StdEncode bs) = 7"
    using lower_memo_length [of "StdEncode bs"] by simp
  then show False
    using base64_encode_length [of std_alphabet bs] by (simp add: StdEncode_def)
qed

section \<open>The envelope\<close>

text \<open>The follow identifier as the payee reports it: none for a missing, wrong or nil UUID.\<close>

definition follow_text :: "ext \<Rightarrow> string \<Rightarrow> string" where
  "follow_text X s = (case uuidFromString X s of
     Some u \<Rightarrow> if u \<noteq> uuid_Nil then uuidToString X u else '''' | None \<Rightarrow> '''')"

lemma decode_payload_encode:
  assumes "envelope_documented X" and "scan1 ActionType_UnmarshalBinary ActionTypeDefault body = Some (action, msg)"
  shows "decode_payload X (EncodeTransactionAction X \<lparr>ta_FollowID = f, ta_Body = body\<rparr>) =
    (action, case uuidOfBytes X f of Some u \<Rightarrow> if u \<noteq> uuid_Nil then uuidToString X u else '''' | None \<Rightarrow> '''', msg)"
  using assms by (simp add: decode_payload_def DecodeTransactionAction_def EncodeTransactionAction_def envelope_documented_def)

lemma no_follow: "envelope_documented X \<Longrightarrow> uuidOfBytes X [] = None"
  by (cases "uuidOfBytes X []") (fastforce simp: envelope_documented_def)+

lemma follow_read_back:
  assumes "envelope_documented X" "codec_documented X"
  shows "(case uuidOfBytes X (follow_bytes X s) of Some u \<Rightarrow> if u \<noteq> uuid_Nil then uuidToString X u else '''' | None \<Rightarrow> '''')
    = follow_text X s"
  using assms no_follow [OF assms(1)]
  by (auto simp: follow_bytes_def follow_text_def codec_documented_def split: option.splits)

text \<open>Both ways to ask for a payment prepare the same kind of input.\<close>

lemma pay_request_input:
  assumes "payRequestsHandler X C S req amount w = (Ok (url, input), w') \<or> rpc_PayRequest X C S parse req txt w = (Ok (url, input), w')"
  shows "\<exists>data amt. StdDecode (pr_MemoBase64 req) = Some data \<and> input = pay_input X S req amt data"
  using assms
  by (auto simp: payRequestsHandler_def rpc_PayRequest_def Let_def seqE_def tryE_def throw_def ret_def
      split: option.splits prod.splits res.splits)

text \<open>An action is one byte at the head of the body.\<close>

definition encodable :: "ActionType \<Rightarrow> bool" where
  "encodable a \<longleftrightarrow> is_byte (actionCode a) \<and> (case a of ActionTypeOther n \<Rightarrow> False | _ \<Rightarrow> True)"

lemma scan_action:
  assumes "encodable a" and "Encode (ActionType_MarshalBinary a # fs) = Some data"
  shows "\<exists>rest. Encode fs = Some rest \<and> data = 1 # of_int (actionCode a) # rest
    \<and> (\<forall>more. scan1 ActionType_UnmarshalBinary ActionTypeDefault (data @ more) = Some (a, rest @ more))"
proof -
  obtain rest where rest: "Encode fs = Some rest" "data = 1 # of_int (actionCode a) # rest"
    using assms(2) by (auto simp: ActionType_MarshalBinary_def BitInt_MarshalBinary_def split: option.splits)
  have "is_byte (actionCode a)" "\<And>n. a \<noteq> ActionTypeOther n"
    using assms(1) by (auto simp: encodable_def)
  with rest show ?thesis
    by (simp add: scan1_action_field)
qed

section \<open>The content of a proposal\<close>

definition content_bytes :: "ext \<Rightarrow> Content \<Rightarrow> bytes option" where
  "content_bytes X c = (case c of
     MarketContent r \<Rightarrow> MarketReq_MarshalBinary X r
   | WithdrawContent r \<Rightarrow> WithdrawReq_MarshalBinary X r
   | MarketStatusContent r \<Rightarrow> MarketStatusReq_MarshalBinary X r
   | AddOracleSignerContent r \<Rightarrow> AddOracleSignerReq_MarshalBinary X r
   | RemoveOracleSignerContent r \<Rightarrow> RemoveOracleSignerReq_MarshalBinary X r
   | SetPropertyContent r \<Rightarrow> SetProperty_MarshalBinary r)"

text \<open>A request of its action, with identifiers and keys in their canonical texts.\<close>

definition canonical_key :: "string \<Rightarrow> bool" where
  "canonical_key s \<longleftrightarrow> (case StdDecode s of None \<Rightarrow> False | Some k \<Rightarrow> StdEncode k = s)"

definition well_formed :: "ext \<Rightarrow> ActionType \<Rightarrow> Content \<Rightarrow> bool" where
  "well_formed X action c \<longleftrightarrow> (case c of
     MarketContent r \<Rightarrow> action = ActionTypeProposalUpsertMarket \<and> canonical_uuid X (mr_AssetID r)
       \<and> canonical_uuid X (mr_CTokenAssetID r) \<and> int64 (mr_PriceThreshold r)
   | WithdrawContent r \<Rightarrow> action = ActionTypeProposalWithdrawReserves \<and> canonical_uuid X (wr_Opponent r)
       \<and> canonical_uuid X (wr_Asset r)
   | MarketStatusContent r \<Rightarrow> (action = ActionTypeProposalCloseMarket \<or> action = ActionTypeProposalOpenMarket)
       \<and> canonical_uuid X (ms_AssetID r) \<and> MarketStatus_IsValid (ms_Status r)
   | AddOracleSignerContent r \<Rightarrow> action = ActionTypeProposalAddOracleSigner \<and> canonical_uuid X (ao_UserID r)
       \<and> canonical_key (ao_PublicKey r)
   | RemoveOracleSignerContent r \<Rightarrow> action = ActionTypeProposalRemoveOracleSigner \<and> canonical_uuid X (ro_UserID r)
   | SetPropertyContent r \<Rightarrow> action = ActionTypeProposalSetProperty)"

lemma canonical_keyD: "canonical_key s \<Longrightarrow> StdDecode s = Some k \<Longrightarrow> StdEncode k = s"
  by (simp add: canonical_key_def)

lemma AddOracleSignerReq_roundtrip:
  assumes "codec_documented X" and "canonical_uuid X (ao_UserID r)" "canonical_key (ao_PublicKey r)"
    and "AddOracleSignerReq_MarshalBinary X r = Some data"
  shows "AddOracleSignerReq_UnmarshalBinary X data = Some r"
  using assms
  by (clarsimp simp: AddOracleSignerReq_MarshalBinary_def marshal_simps Encode_Some_iff simp del: Encode.simps(3))
    (simp add: AddOracleSignerReq_UnmarshalBinary_def scan_fields canonical_uuidD canonical_keyD)

lemma RemoveOracleSignerReq_roundtrip:
  assumes "codec_documented X" and "canonical_uuid X (ro_UserID r)"
    and "RemoveOracleSignerReq_MarshalBinary X r = Some data"
  shows "RemoveOracleSignerReq_UnmarshalBinary X data = Some r"
  using assms
  by (clarsimp simp: RemoveOracleSignerReq_MarshalBinary_def marshal_simps Encode_Some_iff simp del: Encode.simps(3))
    (simp add: RemoveOracleSignerReq_UnmarshalBinary_def scan_fields canonical_uuidD)

lemmas content_roundtrips = MarketReq_roundtrip WithdrawReq_roundtrip MarketStatusReq_roundtrip
  AddOracleSignerReq_roundtrip RemoveOracleSignerReq_roundtrip SetProperty_roundtrip

lemma content_read_back:
  assumes "codec_documented X" and "well_formed X action c" and "content_bytes X c = Some bts"
  shows "proposal_content X action bts = Some c"
  using assms
  by (cases c) (auto simp: content_bytes_def well_formed_def proposal_content_def UnmarshalOr_def content_roundtrips)

lemma proposal_actions_encodable:
  "encodable ActionTypeProposalMake" "encodable ActionTypeProposalVote" "encodable ActionTypeProposalShout"
  "encodable ActionTypeProposalUpsertMarket" "encodable ActionTypeProposalWithdrawReserves"
  "encodable ActionTypeProposalCloseMarket" "encodable ActionTypeProposalOpenMarket"
  "encodable ActionTypeProposalAddOracleSigner" "encodable ActionTypeProposalRemoveOracleSigner"
  "encodable ActionTypeProposalSetProperty"
  by code_simp+

lemma well_formed_encodable: "well_formed X action c \<Longrightarrow> encodable action"
  by (cases c) (auto simp: well_formed_def proposal_actions_encodable)

lemma buildProposalMemo_readable:
  assumes "codec_documented X" "envelope_documented X" and "well_formed X action c"
    and "buildProposalMemo X action (content_bytes X c) w = (Ok memo, w')"
  shows "\<exists>msg rest. w' = w \<and> lower_memo memo \<noteq> ''deposit''
    \<and> decode_payload X (decodeMemo memo) = (ActionTypeProposalMake, '''', msg)
    \<and> scan1 ActionType_UnmarshalBinary ActionTypeDefault msg = Some (action, rest)
    \<and> proposal_content X action rest = Some c"
proof -
  obtain data bts where data: "Encode [ActionType_MarshalBinary ActionTypeProposalMake, ActionType_MarshalBinary action] = Some data"
    and bts: "content_bytes X c = Some bts" and w: "w' = w"
    and memo: "memo = StdEncode (EncodeTransactionAction X \<lparr>ta_FollowID = [], ta_Body = data @ bts\<rparr>)"
    using assms(4) by (auto simp: buildProposalMemo_def throw_def ret_def split: option.splits)
  obtain inner where inner: "Encode [ActionType_MarshalBinary action] = Some inner"
    and outer: "scan1 ActionType_UnmarshalBinary ActionTypeDefault (data @ bts) = Some (ActionTypeProposalMake, inner @ bts)"
    using scan_action [OF proposal_actions_encodable(1) data] by blast
  have "scan1 ActionType_UnmarshalBinary ActionTypeDefault (inner @ bts) = Some (action, bts)"
    using scan_action [OF well_formed_encodable [OF assms(3)] inner] by auto
  moreover have "decode_payload X (decodeMemo memo) = (ActionTypeProposalMake, '''', inner @ bts)"
    using decode_payload_encode [OF assms(2) outer, of "[]"] no_follow [OF assms(2)] by (simp add: memo)
  ultimately show ?thesis
    using w content_read_back [OF assms(1,3) bts] by (auto simp: memo StdEncode_not_deposit)
qed

section \<open>Votes\<close>

text \<open>The memo of a vote or a shout, as the vote button and the forwarded payments carry it.\<close>

lemma trace_memo_readable:
  assumes "codec_documented X" "envelope_documented X" and "canonical_uuid X trace" "uuidFromString X trace = Some u"
    and "encodable action" and "Encode [ActionType_MarshalBinary action, Some u] = Some body"
    and "memo = StdEncode (EncodeTransactionAction X \<lparr>ta_FollowID = [], ta_Body = body\<rparr>)"
  shows "\<exists>msg. lower_memo memo \<noteq> ''deposit'' \<and> decode_payload X (decodeMemo memo) = (action, '''', msg)
    \<and> scan_uuid X msg = Some (u, []) \<and> uuidToString X u = trace"
proof -
  obtain rest where rest: "Encode [Some u] = Some rest"
    and scan: "scan1 ActionType_UnmarshalBinary ActionTypeDefault (body @ []) = Some (action, rest @ [])"
    using scan_action [OF assms(5,6)] by blast
  have "decode_payload X (decodeMemo memo) = (action, '''', rest)"
    using decode_payload_encode [OF assms(2), of body action rest "[]"] scan no_follow [OF assms(2)] by (simp add: assms(7))
  moreover have "rest = of_nat (length u) # u"
    using rest by (auto split: if_splits)
  then have "scan_uuid X rest = Some (u, [])"
    using scan1_uuid_field [OF assms(1,4), of "[]"] by simp
  ultimately show ?thesis
    using canonical_uuidD [OF assms(3,4)] by (auto simp: assms(7) StdEncode_not_deposit)
qed

lemma action_encodes: "Encode [ActionType_MarshalBinary a, Some u] = Some body \<longleftrightarrow>
    length u \<le> 255 \<and> body = 1 # of_int (actionCode a) # of_nat (length u) # u"
  by (auto simp: ActionType_MarshalBinary_def BitInt_MarshalBinary_def)

section \<open>Deposits and the configuration\<close>

text \<open>The payee takes the payment of the deposit command without doing anything.\<close>

lemma deposit_taken:
  assumes "depositCmd X C S parse assetID amount w = (Ok (input, url), w')" and "o_Memo out = t_Memo input"
  shows "handleOutputV3 X S out onErr = ret () \<and> 0 < t_Amount input"
  using assms
  by (auto simp: depositCmd_def panic_def ret_def Let_def handleOutputV3_def elim!: seqE_OkE
      split: if_splits option.splits res.splits prod.splits simp: tryE_def)

lemma provide_members_ids: "provide_members ms = Ok members \<Longrightarrow> map mb_ClientID members = map mc_ClientID ms"
  by (induction ms arbitrary: members) (auto split: option.splits res.splits)

text \<open>The identifiers of the configured system are those of its members, whose keys are of the right size.\<close>

lemma provideSystem_ids: "provideSystem cfg = Ok S \<Longrightarrow> MemberIDs S = map mb_ClientID (Members S)"
  by (auto simp: provideSystem_def provide_members_ids split: option.splits res.splits)

lemma provideSystem_keys: "provideSystem cfg = Ok S \<Longrightarrow> length (PrivateKey S) = 64 \<and> length (SignKey S) = 64"
  by (auto simp: provideSystem_def DecodePrivateKey_def Let_def split: option.splits res.splits if_splits)

end
