(* ===== verification/Props_Server.thy ===== *)
theory Props_Server
  imports Memo_Spec Example_Wallet
begin

text \<open>What the server and the commands write is what the payee reads.\<close>

section \<open>A payment request and a proposal to close a market\<close>

definition pay_req0 :: PayReq where
  "pay_req0 = \<lparr>pr_MemoBase64 = StdEncode (the (Encode [ActionType_MarshalBinary ActionTypeSupply])), pr_AssetID = btc,
     pr_TraceID = ''trace00000000000'', pr_FollowID = ''follow0000000000''\<rparr>"

definition pay_input0 :: Transfer where
  "pay_input0 = pay_input ext0 sys0 pay_req0 3 (the (StdDecode (pr_MemoBase64 pay_req0)))"

definition close_req0 :: Content where
  "close_req0 = MarketStatusContent \<lparr>ms_AssetID = btc, ms_Status = MarketStatusClose\<rparr>"

definition close_out0 :: Output where
  "close_out0 = output0\<lparr>o_Memo := case fst (buildProposalMemo ext0 ActionTypeProposalCloseMarket (content_bytes ext0 close_req0) world0) of
     Ok memo \<Rightarrow> memo | _ \<Rightarrow> ''''\<rparr>"

section \<open>The properties\<close>

text \<open>
  C38. A payment request is understood. When the server, over HTTP or RPC, prepares a payment for a memo
  that starts with an action, the payment goes to the members under their threshold, and an output that
  carries its memo is handled by the payee as exactly that action with the rest of the memo, under the
  follow identifier of the request.
\<close>

theorem pay_request_readable:
  assumes "codec_documented X" "envelope_documented X"
    and "payRequestsHandler X C S req amount w = (Ok (url, input), w') \<or> rpc_PayRequest X C S parse req text w = (Ok (url, input), w')"
    and "scan1 ActionType_UnmarshalBinary ActionTypeDefault (the (StdDecode (pr_MemoBase64 req))) = Some (action, msg)"
    and "action \<notin> {ActionTypeProposalMake, ActionTypeProposalShout, ActionTypeProposalVote}" and "o_Memo out = t_Memo input"
  shows "handleOutputV3 X S out onErr = tryE (ensure_user X out) (onErr '''') (\<lambda>_.
      tryE (handleUserAction X out action (follow_text X (pr_FollowID req)) msg) (onErr (follow_text X (pr_FollowID req))) ret)
    \<and> t_Opponents input = MemberIDs S \<and> t_Threshold input = Threshold S \<and> t_TraceID input = pr_TraceID req"
proof -
  obtain data amt where data: "StdDecode (pr_MemoBase64 req) = Some data" and input: "input = pay_input X S req amt data"
    using pay_request_input [OF assms(3)] by blast
  have memo: "o_Memo out = StdEncode (EncodeTransactionAction X \<lparr>ta_FollowID = follow_bytes X (pr_FollowID req), ta_Body = data\<rparr>)"
    by (simp add: assms(6) input pay_input_def)
  have "decode_payload X (decodeMemo (o_Memo out)) = (action, follow_text X (pr_FollowID req), msg)"
    using decode_payload_encode [OF assms(2), of data action msg] assms(4) data follow_read_back [OF assms(2,1)] by (simp add: memo)
  moreover have "lower_memo (o_Memo out) \<noteq> ''deposit''"
    by (simp add: memo StdEncode_not_deposit)
  ultimately show ?thesis
    using assms(5) by (simp add: handleOutputV3_def input pay_input_def)
qed

theorem pay_request_readable_witness:
  "handleOutputV3 ext0 sys0 (output0\<lparr>o_Memo := t_Memo pay_input0\<rparr>) (\<lambda>follow. throw) =
     tryE (ensure_user ext0 (output0\<lparr>o_Memo := t_Memo pay_input0\<rparr>)) throw (\<lambda>_.
       tryE (handleUserAction ext0 (output0\<lparr>o_Memo := t_Memo pay_input0\<rparr>) ActionTypeSupply ''follow0000000000'' []) throw ret)
   \<and> t_Opponents pay_input0 = [alice, bob] \<and> t_Threshold pay_input0 = 2 \<and> t_TraceID pay_input0 = ''trace00000000000''"
proof -
  have run: "case payRequestsHandler ext0 client0 sys0 pay_req0 3 world0 of (r, w') \<Rightarrow> r = Ok (''mixin://codes/code'', pay_input0)"
    by code_simp
  have follow: "follow_text ext0 (pr_FollowID pay_req0) = ''follow0000000000''"
    by code_simp
  have "scan1 ActionType_UnmarshalBinary ActionTypeDefault (the (StdDecode (pr_MemoBase64 pay_req0))) = Some (ActionTypeSupply, [])"
    by code_simp
  moreover obtain w' where "payRequestsHandler ext0 client0 sys0 pay_req0 3 world0 = (Ok (''mixin://codes/code'', pay_input0), w')"
    using run by (auto split: prod.splits)
  ultimately have "handleOutputV3 ext0 sys0 (output0\<lparr>o_Memo := t_Memo pay_input0\<rparr>) (\<lambda>follow. throw) =
      tryE (ensure_user ext0 (output0\<lparr>o_Memo := t_Memo pay_input0\<rparr>)) throw (\<lambda>_.
        tryE (handleUserAction ext0 (output0\<lparr>o_Memo := t_Memo pay_input0\<rparr>) ActionTypeSupply (follow_text ext0 (pr_FollowID pay_req0)) []) throw ret)
    \<and> t_Opponents pay_input0 = MemberIDs sys0 \<and> t_Threshold pay_input0 = Threshold sys0 \<and> t_TraceID pay_input0 = pr_TraceID pay_req0"
    by (intro pay_request_readable [OF ext0_codec ext0_envelope disjI1, where onErr = "\<lambda>follow. throw"]) simp_all
  then show ?thesis
    unfolding follow by (simp add: sys0_def pay_req0_def)
qed

text \<open>
  C39. A proposal command is understood. The memo that the proposal commands build for a request with
  canonical identifiers reaches the payee as a proposal of the sender with the same action and the same
  content: it is validated, stored and announced.
\<close>

theorem proposal_memo_readable:
  assumes "codec_documented X" "envelope_documented X" and "well_formed X action c"
    and "buildProposalMemo X action (content_bytes X c) w = (Ok memo, w')" and "o_Memo out = memo"
    and "p = zero_proposal\<lparr>p_CreatedAt := o_CreatedAt out, p_UpdatedAt := o_CreatedAt out, p_TraceID := o_TraceID out,
      p_Creator := o_Sender out, p_AssetID := o_AssetID out, p_Amount := o_Amount out, p_Action := action,
      p_Version := o_ID out, p_Content := c\<rparr>"
  shows "w' = w \<and> handleOutputV3 X S out onErr =
    tryE (seqE (validateProposal X p) (\<lambda>_. seqE (proposal_Create p) (announce (forwardProposal X S) X S out))) (onErr '''') ret"
proof -
  obtain msg rest where w: "w' = w" and memo: "lower_memo memo \<noteq> ''deposit''"
    "decode_payload X (decodeMemo memo) = (ActionTypeProposalMake, '''', msg)"
    and scan: "scan1 ActionType_UnmarshalBinary ActionTypeDefault msg = Some (action, rest)"
    and content: "proposal_content X action rest = Some c"
    using buildProposalMemo_readable [OF assms(1-4)] by blast
  have "handleMakeProposal X S out msg = seqE (validateProposal X p) (\<lambda>_. seqE (proposal_Create p) (announce (forwardProposal X S) X S out))"
    by (simp add: handleMakeProposal_def scan Require_def buildProposalV1_def content assms(6) seqE_assoc Let_def)
  then show ?thesis
    using w memo by (simp add: handleOutputV3_def assms(5))
qed

theorem proposal_memo_readable_witness:
  "\<exists>p. p_Action p = ActionTypeProposalCloseMarket \<and> p_Content p = close_req0 \<and>
     handleOutputV3 ext0 sys0 close_out0 (\<lambda>_. throw) =
       tryE (seqE (validateProposal ext0 p) (\<lambda>_. seqE (proposal_Create p) (announce (forwardProposal ext0 sys0) ext0 sys0 close_out0))) throw ret"
proof -
  have "case buildProposalMemo ext0 ActionTypeProposalCloseMarket (content_bytes ext0 close_req0) world0 of (r, w') \<Rightarrow> r = Ok (o_Memo close_out0)"
    by code_simp
  then obtain w' where "buildProposalMemo ext0 ActionTypeProposalCloseMarket (content_bytes ext0 close_req0) world0 = (Ok (o_Memo close_out0), w')"
    by (auto split: prod.splits)
  moreover have "well_formed ext0 ActionTypeProposalCloseMarket close_req0"
    by code_simp
  ultimately show ?thesis
    using proposal_memo_readable [OF ext0_codec ext0_envelope, of ActionTypeProposalCloseMarket close_req0 world0 "o_Memo close_out0" w'
        close_out0 _ sys0 "\<lambda>_. throw", OF _ _ refl refl]
    by (intro exI conjI) (auto)
qed

text \<open>
  C40. A vote button is understood. The payment behind the button of a proposal, which is also the payment
  a node makes when it forwards a vote, carries a memo that the payee handles as a vote on this proposal.
\<close>

theorem vote_memo_readable:
  assumes "codec_documented X" "envelope_documented X" and "canonical_uuid X (p_TraceID p)"
    and "2 \<le> sysversion w" and "requestVoteAction X S p w = (Ok code, w')"
  shows "\<exists>memo msg u. voteAction X (VoteAsset S) (VoteAmount S) (uuidModify X (p_TraceID p) (ClientID S))
        (StdEncode memo) (MemberIDs S) (Threshold S) = Some code
    \<and> (\<forall>out. forwardProposal X S out p ActionTypeProposalVote = HandleTransfer X (forward_transfer X S out p memo))
    \<and> (\<forall>out onErr. o_Memo out = StdEncode memo \<longrightarrow> handleOutputV3 X S out onErr = tryE (handleVoteProposal X S out msg) (onErr '''') ret)
    \<and> scan_uuid X msg = Some (u, []) \<and> uuidToString X u = p_TraceID p"
proof -
  obtain u where u: "uuidFromString X (p_TraceID p) = Some u"
    using assms(3) by (auto simp: canonical_uuid_def split: option.splits)
  obtain body memo where body: "Encode [ActionType_MarshalBinary ActionTypeProposalVote, Some u] = Some body"
    and memo: "memo = EncodeTransactionAction X \<lparr>ta_FollowID = [], ta_Body = body\<rparr>"
    and code: "voteAction X (VoteAsset S) (VoteAmount S) (uuidModify X (p_TraceID p) (ClientID S))
        (StdEncode memo) (MemberIDs S) (Threshold S) = Some code"
    using assms(4,5) by (auto simp: requestVoteAction_def vote_memo_def u getS_def seqE_def tryE_def throw_def ret_def split: option.splits)
  have "\<exists>msg. lower_memo (StdEncode memo) \<noteq> ''deposit'' \<and> decode_payload X (decodeMemo (StdEncode memo)) = (ActionTypeProposalVote, '''', msg)
      \<and> scan_uuid X msg = Some (u, []) \<and> uuidToString X u = p_TraceID p"
    using trace_memo_readable [OF assms(1-3) u proposal_actions_encodable(2) body] by (simp add: memo)
  then obtain msg where read: "lower_memo (StdEncode memo) \<noteq> ''deposit''"
    "decode_payload X (decodeMemo (StdEncode memo)) = (ActionTypeProposalVote, '''', msg)"
    and msg: "scan_uuid X msg = Some (u, [])" "uuidToString X u = p_TraceID p"
    by blast
  have "forwardProposal X S out p ActionTypeProposalVote = HandleTransfer X (forward_transfer X S out p memo)" for out
    by (simp add: forwardProposal_def u body memo del: Encode.simps)
  moreover have "handleOutputV3 X S out onErr = tryE (handleVoteProposal X S out msg) (onErr '''') ret"
    if "o_Memo out = StdEncode memo" for out onErr
    using that read by (simp add: handleOutputV3_def)
  ultimately show ?thesis
    using code msg by blast
qed

theorem vote_memo_readable_witness:
  "\<exists>memo msg u. (\<forall>out onErr. o_Memo out = StdEncode memo \<longrightarrow> handleOutputV3 ext0 sys0 out onErr = tryE (handleVoteProposal ext0 sys0 out msg) (onErr '''') ret)
    \<and> scan_uuid ext0 msg = Some (u, []) \<and> uuidToString ext0 u = ''prop000000000000''"
proof -
  have "case requestVoteAction ext0 sys0 prop0 world3 of (r, w') \<Rightarrow> r = Ok ''prop000000000000/n1''"
    by code_simp
  then obtain w' where "requestVoteAction ext0 sys0 prop0 world3 = (Ok ''prop000000000000/n1'', w')"
    by (auto split: prod.splits)
  moreover have "canonical_uuid ext0 (p_TraceID prop0)" "2 \<le> sysversion world3" "p_TraceID prop0 = ''prop000000000000''"
    by code_simp+
  ultimately show ?thesis
    using vote_memo_readable [OF ext0_codec ext0_envelope, of prop0 world3 sys0] by metis
qed

end
