(* ===== verification/Keys.thy ===== *)
theory Keys
  imports Node_Relation
begin

text \<open>
  The keys of the tables. The schema of \<open>core/*\<close> and of the stores declares a primary key for every table and
  unique indices for most; the predicate \<open>tables_keyed\<close> states them for the whole database. Here it is shown
  of the writes that are safe whatever they are given: the inserts, which look before they write or are
  refused, and the writes of the workers. The updates of markets, supplies and borrows write whole rows, keys
  included, and are safe only when the row they are given was read before: \<open>Keys_Handlers\<close> shows that of every
  handler.
\<close>

section \<open>The invariant\<close>

text \<open>\<open>core/market.go\<close>: the asset, the symbol and the CToken are unique, each on its own.\<close>

definition markets_keyed :: "Market list \<Rightarrow> bool" where
  "markets_keyed ms \<longleftrightarrow> keys_ok m_ID m_AssetID ms \<and> distinct (map m_Symbol ms) \<and> distinct (map m_CTokenAssetID ms)"

text \<open>\<open>core/supply.go\<close> and \<open>core/borrow.go\<close>: one supply per user and CToken, one borrow per user and asset.\<close>

definition supplies_keyed :: "Supply list \<Rightarrow> bool" where
  "supplies_keyed ss \<longleftrightarrow> keys_ok s_ID (\<lambda>s. (s_UserID s, s_CTokenAssetID s)) ss"

definition borrows_keyed :: "Borrow list \<Rightarrow> bool" where
  "borrows_keyed bs \<longleftrightarrow> keys_ok b_ID (\<lambda>b. (b_UserID b, b_AssetID b)) bs"

text \<open>
  \<open>store/wallet/recovery.go\<close>: one queued output per trace, numbered up to the last key given, and each still
  without an identifier of the table of outputs.
\<close>

definition raws_keyed :: "int \<Rightarrow> RawOutput list \<Rightarrow> bool" where
  "raws_keyed seq rows \<longleftrightarrow> keys_ok ro_ID ro_TraceID rows \<and> 0 \<le> seq \<and>
     list_all (\<lambda>r. ro_ID r \<le> seq \<and> (case ro_Data r of None \<Rightarrow> True | Some x \<Rightarrow> unsaved x)) rows"

definition tables_keyed :: "world \<Rightarrow> bool" where
  "tables_keyed w \<longleftrightarrow>
     markets_keyed (markets w) \<and> supplies_keyed (supplies w) \<and> borrows_keyed (borrows w) \<and>
     keys_ok u_ID u_UserID (users w) \<and> keys_ok tx_ID tx_TraceID (transactions w) \<and>
     keys_ok t_ID t_TraceID (transfers w) \<and> keys_ok p_ID p_TraceID (proposals w) \<and>
     keys_ok os_ID os_UserID (signers w) \<and> distinct (map fst (properties w)) \<and>
     keys_ok o_ID o_TraceID (outputs w) \<and> raws_keyed (rawSeq w) (rawOutputs w) \<and>
     keys_ok rt_ID rt_TraceID (rawTransactions w) \<and> ids_ok msg_ID (messages w)"

text \<open>The identifiers of the rows of the three account tables, each with the key that belongs to it.\<close>

datatype row_key =
    MarketKey int "string \<times> string \<times> string"
  | SupplyKey int "string \<times> string"
  | BorrowKey int "string \<times> string"

definition mkey :: "Market \<Rightarrow> row_key" where
  "mkey m = MarketKey (m_ID m) (m_AssetID m, m_Symbol m, m_CTokenAssetID m)"

definition skey :: "Supply \<Rightarrow> row_key" where
  "skey s = SupplyKey (s_ID s) (s_UserID s, s_CTokenAssetID s)"

definition bkey :: "Borrow \<Rightarrow> row_key" where
  "bkey b = BorrowKey (b_ID b) (b_UserID b, b_AssetID b)"

definition row_keys :: "world \<Rightarrow> row_key set" where
  "row_keys w = mkey ` set (markets w) \<union> skey ` set (supplies w) \<union> bkey ` set (borrows w)"

text \<open>What a step keeps: the invariant, and the key of every row of the three tables.\<close>

definition keyed_kept :: "world \<Rightarrow> world \<Rightarrow> bool" where
  "keyed_kept w w' \<longleftrightarrow> (tables_keyed w \<longrightarrow> tables_keyed w' \<and> row_keys w \<subseteq> row_keys w')"

lemma keyed_keptI: "(tables_keyed w \<Longrightarrow> tables_keyed w' \<and> row_keys w \<subseteq> row_keys w') \<Longrightarrow> keyed_kept w w'"
  by (simp add: keyed_kept_def)

text \<open>A write to one table.\<close>

lemma keyed_set:
  assumes "tables_keyed w"
  shows "tables_keyed (w\<lparr>markets := ms\<rparr>) = markets_keyed ms" "tables_keyed (w\<lparr>supplies := ss\<rparr>) = supplies_keyed ss"
    "tables_keyed (w\<lparr>borrows := bs\<rparr>) = borrows_keyed bs" "tables_keyed (w\<lparr>users := us\<rparr>) = keys_ok u_ID u_UserID us"
    "tables_keyed (w\<lparr>transactions := ts\<rparr>) = keys_ok tx_ID tx_TraceID ts"
    "tables_keyed (w\<lparr>transfers := rs\<rparr>) = keys_ok t_ID t_TraceID rs"
    "tables_keyed (w\<lparr>proposals := ps\<rparr>) = keys_ok p_ID p_TraceID ps"
    "tables_keyed (w\<lparr>signers := sg\<rparr>) = keys_ok os_ID os_UserID sg"
    "tables_keyed (w\<lparr>properties := pr\<rparr>) = distinct (map fst pr)"
    "tables_keyed (w\<lparr>outputs := xs\<rparr>) = keys_ok o_ID o_TraceID xs"
    "tables_keyed (w\<lparr>rawOutputs := rw\<rparr>) = raws_keyed (rawSeq w) rw"
    "tables_keyed (w\<lparr>rawTransactions := rt\<rparr>) = keys_ok rt_ID rt_TraceID rt"
    "tables_keyed (w\<lparr>messages := msgs\<rparr>) = ids_ok msg_ID msgs"
  using assms by (simp_all add: tables_keyed_def)

lemma keyed_get:
  assumes "tables_keyed w"
  shows "markets_keyed (markets w)" "supplies_keyed (supplies w)" "borrows_keyed (borrows w)" "keys_ok u_ID u_UserID (users w)"
    "keys_ok tx_ID tx_TraceID (transactions w)" "keys_ok t_ID t_TraceID (transfers w)" "keys_ok p_ID p_TraceID (proposals w)"
    "keys_ok os_ID os_UserID (signers w)" "distinct (map fst (properties w))" "keys_ok o_ID o_TraceID (outputs w)"
    "raws_keyed (rawSeq w) (rawOutputs w)" "keys_ok rt_ID rt_TraceID (rawTransactions w)" "ids_ok msg_ID (messages w)"
  using assms by (simp_all add: tables_keyed_def)

lemma keyed_other [simp]:
  "tables_keyed (w\<lparr>faults := fs\<rparr>) = tables_keyed w" "tables_keyed (w\<lparr>sysversion := n\<rparr>) = tables_keyed w"
  "tables_keyed (w\<lparr>uuids := k\<rparr>) = tables_keyed w" "tables_keyed (w\<lparr>forwarded := fw\<rparr>) = tables_keyed w"
  "tables_keyed (w\<lparr>rawOutputID := i\<rparr>) = tables_keyed w"
  by (simp_all add: tables_keyed_def)

lemma row_keys_other:
  "markets w' = markets w \<Longrightarrow> supplies w' = supplies w \<Longrightarrow> borrows w' = borrows w \<Longrightarrow> row_keys w' = row_keys w"
  by (simp add: row_keys_def)

lemma row_keys_set [simp]:
  "row_keys (w\<lparr>faults := fs\<rparr>) = row_keys w" "row_keys (w\<lparr>sysversion := n\<rparr>) = row_keys w" "row_keys (w\<lparr>uuids := k\<rparr>) = row_keys w"
  "row_keys (w\<lparr>forwarded := fw\<rparr>) = row_keys w" "row_keys (w\<lparr>rawOutputID := i\<rparr>) = row_keys w"
  "row_keys (w\<lparr>rawOutputs := rw\<rparr>) = row_keys w"
  by (simp_all add: row_keys_def)

lemma keyed_trans: "keyed_kept u v \<Longrightarrow> keyed_kept v w \<Longrightarrow> keyed_kept u w"
  unfolding keyed_kept_def by (meson subset_trans)

interpretation keyed_kept: preserved keyed_kept
  by unfold_locales (simp add: keyed_kept_def, erule (1) keyed_trans, simp add: keyed_kept_def)

text \<open>A database call that leaves the three tables alone.\<close>

lemma keyed_dbio:
  assumes "\<And>w. tables_keyed w \<Longrightarrow> tables_keyed (snd (f w))" "\<And>w. markets (snd (f w)) = markets w"
    "\<And>w. supplies (snd (f w)) = supplies w" "\<And>w. borrows (snd (f w)) = borrows w"
  shows "keeps keyed_kept (dbio f)"
  by (rule keyed_kept.keeps_dbio, rule keyed_keptI) (simp add: assms(1) row_keys_other [OF assms(2-4)])

lemma keyed_frame:
  assumes "same_tables w w'" "same_queues w w'"
  shows "keyed_kept w w'"
  using assms row_keys_other [of w' w] by (intro keyed_keptI) (simp add: same_tables_def same_queues_def tables_keyed_def)

section \<open>What the payee inserts\<close>

lemma add_messages_ids: "ids_ok msg_ID rows \<Longrightarrow> ids_ok msg_ID (fold add_message ms rows)"
  by (induction ms arbitrary: rows) (simp_all add: add_message_def ids_ok_append)

lemma keyed_property_Save: "keeps keyed_kept (property_Save k x)"
  unfolding property_Save_def by (rule keyed_dbio) (simp_all add: keyed_set keyed_get distinct_update)

lemma keyed_vote: "keeps keyed_kept (proposal_Update X p n)"
  unfolding proposal_Update_def by (rule keyed_dbio) (simp_all add: keyed_set keyed_get keys_ok_replace)

interpretation keyed_writes: payee_writes keyed_kept S for S
proof unfold_locales
  show "keeps keyed_kept (user_Create u)" for u
    unfolding user_Create_def
    by (rule keyed_dbio) (simp_all add: keyed_set keyed_get keys_ok_create snd_case_create)
  show "keeps keyed_kept (user_MigrateToV1 us)" for us
    unfolding user_MigrateToV1_def
    by (rule keyed_dbio) (simp_all add: keyed_set keyed_get migrate_users_keys split: option.split)
  show "keeps keyed_kept (transaction_Create t)" for t
    unfolding transaction_Create_def
    by (rule keyed_dbio) (simp_all add: keyed_set keyed_get keys_ok_create snd_case_create)
  show "keeps keyed_kept (wallet_CreateTransfers ts)" for ts
    unfolding wallet_CreateTransfers_def by (rule keyed_dbio) (simp_all add: keyed_set keyed_get transfers_keys)
  show "keeps keyed_kept (proposal_Create p)" for p
    unfolding proposal_Create_def
    by (rule keyed_dbio) (simp_all add: keyed_set keyed_get keys_ok_create snd_case_create)
  show "keeps keyed_kept (signer_Save i k)" for i k
    unfolding signer_Save_def by (rule keyed_dbio) (simp_all add: keyed_set keyed_get signer_saved)
  show "keeps keyed_kept (signer_Delete i)" for i
    unfolding signer_Delete_def by (rule keyed_dbio) (simp_all add: keyed_set keyed_get keys_ok_filter)
  show "keeps keyed_kept (message_Create ms)" for ms
    unfolding message_Create_def by (rule keyed_dbio) (simp_all add: keyed_set keyed_get add_messages_ids)
  show "keyed_kept w (snd (property_Save k x w))" for k x w
    by (rule keepsD [OF keyed_property_Save])
  show "keeps keyed_kept (HandleTransfer X t)" "keeps keyed_kept (uuid_New X)" for X t
    by (rule keepsI, rule keyed_keptI, simp add: HandleTransfer_def uuid_New_def throw_def)+
  show "keyed_kept w (snd (proposal_Update X (voted S who tm p) n w))" for w X who tm p n
    by (rule keepsD [OF keyed_vote])
qed

section \<open>What the other workers write\<close>

text \<open>An output without an identifier is known by its trace alone, and a new one gets the next identifier.\<close>

lemma raws_replace:
  assumes "raws_keyed n rows" "unsaved x"
  shows "raws_keyed n (replace_rows P (\<lambda>r. r\<lparr>ro_Data := Some x, ro_Version := ro_Version r + 1\<rparr>) rows)"
  using assms by (auto simp: raws_keyed_def keys_ok_replace) (auto simp: replace_rows_map list_all_iff)

lemma raws_append:
  assumes "raws_keyed n rows" "unsaved x" "\<not> list_ex (\<lambda>r. ro_TraceID r = t) rows"
  shows "raws_keyed (n + 1) (rows @ [\<lparr>ro_ID = n + 1, ro_CreatedAt = c, ro_TraceID = t, ro_Version = v, ro_Data = Some x\<rparr>])"
  using assms by (fastforce simp: raws_keyed_def keys_ok_def ids_ok_def list_all_iff list_ex_iff)

lemma keyed_saveRaw:
  assumes "tables_keyed w" "unsaved x"
  shows "tables_keyed (saveRawOutput x w)"
  using assms raws_replace [OF keyed_get(11)] raws_append [OF keyed_get(11), of w x "o_TraceID x"]
  by (simp add: saveRawOutput_def Let_def keyed_set) (simp add: tables_keyed_def)

lemma keyed_save:
  assumes "tables_keyed w" "unsaved x"
  shows "tables_keyed (save ack x w)"
proof -
  have "keys_ok o_ID o_TraceID (outputs w @ [x\<lparr>o_ID := next_id (map o_ID (outputs w)), o_UTXO := None\<rparr>])"
    if "\<not> list_ex (\<lambda>r. o_TraceID r = o_TraceID x) (outputs w)"
    using keyed_get(10) [OF assms(1)] that by (auto simp: keys_ok_def ids_ok_append list_ex_iff)
  then show ?thesis
    using assms keyed_saveRaw [OF assms] by (simp add: save_def Let_def keyed_set keyed_get keys_ok_replace)
qed

lemma save_row_keys: "row_keys (save ack x w) = row_keys w"
  by (rule row_keys_other) (simp_all add: save_def saveRawOutput_def Let_def)

lemma keyed_saves: "tables_keyed w \<Longrightarrow> list_all unsaved xs \<Longrightarrow>
   tables_keyed (fold (save ack) xs w) \<and> row_keys (fold (save ack) xs w) = row_keys w"
  by (induction xs arbitrary: w) (simp_all add: keyed_save save_row_keys)

lemma keyed_Save:
  assumes "list_all unsaved outs"
  shows "keeps keyed_kept (wallet_Save outs atEnd)"
proof -
  have "keeps keyed_kept (dbio (\<lambda>w. (Ok (), fold (save False) outs w)))"
    by (rule keyed_kept.keeps_dbio, rule keyed_keptI) (simp add: keyed_saves assms)
  moreover have "keeps keyed_kept (\<lambda>w. (Ok (), w\<lparr>rawOutputID := n\<rparr>))" for n
    by (rule keepsI, rule keyed_keptI) simp
  ultimately show ?thesis
    unfolding wallet_Save_def findLastRawOutputID_def by (intro keyed_kept.keeps_basic)
qed

lemma ids_ok_filter: "ids_ok rid rows \<Longrightarrow> ids_ok rid (filter P rows)"
  by (auto simp: ids_ok_def list_all_iff distinct_map_filter)

lemma raws_filter: "raws_keyed n rows \<Longrightarrow> raws_keyed n (filter P rows)"
  by (auto simp: raws_keyed_def keys_ok_filter list_all_iff)

text \<open>A batch of the recovery comes from the queue, whose outputs have no identifiers yet.\<close>

lemma keyed_batch:
  assumes "list_all unsaved outs"
  shows "keeps keyed_kept (dbio (\<lambda>w. (Ok (), let w' = fold (save True) outs w in w'\<lparr>rawOutputs := filter P (rawOutputs w')\<rparr>)))"
proof (rule keyed_kept.keeps_dbio, rule keyed_keptI)
  fix w
  let ?w = "fold (save True) outs w"
  assume "tables_keyed w"
  with keyed_saves [OF this assms] have "tables_keyed ?w" "row_keys ?w = row_keys w"
    by auto
  then show "tables_keyed (snd (Ok (), let w' = ?w in w'\<lparr>rawOutputs := filter P (rawOutputs w')\<rparr>)) \<and>
      row_keys w \<subseteq> row_keys (snd (Ok (), let w' = ?w in w'\<lparr>rawOutputs := filter P (rawOutputs w')\<rparr>))"
    using raws_filter [OF keyed_get(11)] by (simp add: Let_def keyed_set)
qed

lemma keyed_recovery: "keeps keyed_kept runSync"
proof (rule keyed_kept.keeps_recovery [where good = tables_keyed and new = unsaved])
  show "unsaved x" if "tables_keyed w" "r \<in> set (rawOutputs w)" "ro_Data r = Some x" for w r x
    using keyed_get(11) [OF that(1)] that(2,3) by (auto simp: raws_keyed_def list_all_iff)
qed (auto simp: keyed_kept_def intro: keyed_batch)

interpretation keyed_workers: worker_writes keyed_kept
proof unfold_locales
  show "keeps keyed_kept (wallet_Assign outs t)" for outs t
    unfolding wallet_Assign_def
    by (rule keyed_dbio)
      (use transfer_added [where t = "t\<lparr>t_Assigned := True\<rparr>"] in
        \<open>simp_all add: assign_tx_def Let_def updateTransfer_def keyed_set keyed_get transfers_marked keys_ok_replace\<close>)
  show "keeps keyed_kept (wallet_UpdateTransfer t)" for t
    unfolding wallet_UpdateTransfer_def
    by (rule keyed_dbio) (simp_all add: updateTransfer_def keyed_set keyed_get transfers_marked)
  show "keeps keyed_kept (transaction_Create t)" for t
    by (rule keyed_writes.keeps_stores)
  show "keeps keyed_kept (property_Save syncer_checkpointKey v)" for v
    by (rule keyed_property_Save)
  show "keeps keyed_kept (wallet_Save outs atEnd)" if "list_all unsaved outs" for outs atEnd
    using that by (rule keyed_Save)
  show "keeps keyed_kept (wallet_CreateRawTransaction rtx)" for rtx
    unfolding wallet_CreateRawTransaction_def by (rule keyed_dbio) (simp_all add: keyed_set keyed_get keys_ok_create)
  show "keeps keyed_kept (wallet_ExpireRawTransaction rtx)" for rtx
    unfolding wallet_ExpireRawTransaction_def by (rule keyed_dbio) (simp_all add: keyed_set keyed_get keys_ok_filter)
  show "keeps keyed_kept (message_Delete ms)" for ms
    unfolding message_Delete_def Let_def
    by (intro keeps_if keyed_kept.keeps_ret keyed_dbio) (simp_all add: keyed_set keyed_get ids_ok_filter)
qed (rule keyed_frame keyed_recovery; assumption?)+

end
