(* ===== verification/Keys_Handlers.thy ===== *)
theory Keys_Handlers
  imports Keys
begin

text \<open>
  The handlers and the keys. An update of a market, a supply or a borrow writes the whole row of the struct,
  keys included, to the row with its identifier; it keeps the keys when the struct still has the key of that
  row. \<open>gives A m F\<close> says that \<open>m\<close>, when the database holds the rows of \<open>A\<close>, keeps the invariant and every
  row's key, and that the rows of \<open>F a\<close> are there when it returns \<open>a\<close>. A handler is walked through with one
  rule per construct: what it finds or inserts is added to \<open>A\<close>, and an update must be of a row of \<open>A\<close>.
\<close>

definition gives :: "row_key set \<Rightarrow> (world, 'a) go \<Rightarrow> ('a \<Rightarrow> row_key set) \<Rightarrow> bool" where
  "gives A m F \<longleftrightarrow> (\<forall>w. tables_keyed w \<longrightarrow> A \<subseteq> row_keys w \<longrightarrow>
     tables_keyed (snd (m w)) \<and> row_keys w \<subseteq> row_keys (snd (m w)) \<and>
     (\<forall>a. fst (m w) = Ok a \<longrightarrow> F a \<subseteq> row_keys (snd (m w))))"

section \<open>The rules\<close>

lemma givesI:
  assumes "\<And>w r w'. tables_keyed w \<Longrightarrow> A \<subseteq> row_keys w \<Longrightarrow> m w = (r, w') \<Longrightarrow>
     tables_keyed w' \<and> row_keys w \<subseteq> row_keys w' \<and> (\<forall>a. r = Ok a \<longrightarrow> F a \<subseteq> row_keys w')"
  shows "gives A m F"
  unfolding gives_def using assms by (metis prod.collapse)

lemma givesD:
  assumes "gives A m F" "tables_keyed w" "A \<subseteq> row_keys w" "m w = (r, w')"
  shows "tables_keyed w'" "row_keys w \<subseteq> row_keys w'" "r = Ok a \<Longrightarrow> F a \<subseteq> row_keys w'"
proof -
  from assms(1) [unfolded gives_def, rule_format, OF assms(2,3)] assms(4)
  show "tables_keyed w'" "row_keys w \<subseteq> row_keys w'" "r = Ok a \<Longrightarrow> F a \<subseteq> row_keys w'"
    by simp_all
qed

lemma gives_keeps: "keeps keyed_kept m \<Longrightarrow> gives A m (\<lambda>_. {})"
  by (simp add: gives_def keeps_def keyed_kept_def)

lemma keeps_gives: "gives {} m F \<Longrightarrow> keeps keyed_kept m"
  by (simp add: gives_def keeps_def keyed_kept_def)

lemma gives_try:
  assumes "gives A m F" "\<And>e. gives A (h e) G" "\<And>a. gives (A \<union> F a) (k a) G"
  shows "gives A (tryE m h k) G"
proof (rule givesI)
  fix w r w'
  assume w: "tables_keyed w" "A \<subseteq> row_keys w" and run: "tryE m h k w = (r, w')"
  obtain r1 w1 where m: "m w = (r1, w1)" by fastforce
  note m1 = givesD [OF assms(1) w m]
  have A1: "A \<subseteq> row_keys w1"
    using w(2) m1(2) by (rule subset_trans)
  show "tables_keyed w' \<and> row_keys w \<subseteq> row_keys w' \<and> (\<forall>a. r = Ok a \<longrightarrow> G a \<subseteq> row_keys w')"
  proof (cases r1)
    case (Ok a)
    with m run have "k a w1 = (r, w')"
      by (simp add: tryE_Ok)
    with givesD [OF assms(3) m1(1)] A1 m1(2,3) Ok show ?thesis
      by (metis Un_least subset_trans)
  next
    case (Err e)
    with m run have "h e w1 = (r, w')"
      by (simp add: tryE_Err)
    with givesD [OF assms(2) m1(1) A1] m1(2) show ?thesis
      by (metis subset_trans)
  next
    case (Panic p)
    with m run m1(1,2) show ?thesis
      by (auto simp: tryE_Panic)
  qed
qed

lemma gives_throw: "gives A (throw e) F"
  by (simp add: gives_def throw_def)

lemma gives_seq: "gives A m F \<Longrightarrow> (\<And>a. gives (A \<union> F a) (k a) G) \<Longrightarrow> gives A (seqE m k) G"
  unfolding seqE_def by (rule gives_try) (simp_all add: gives_throw)

lemma gives_ret: "F a \<subseteq> A \<Longrightarrow> gives A (ret a) F"
  by (auto simp: gives_def ret_def)

lemma gives_if: "(c \<Longrightarrow> gives A a F) \<Longrightarrow> (\<not> c \<Longrightarrow> gives A b F) \<Longrightarrow> gives A (if c then a else b) F"
  by simp

lemma gives_Let: "(\<And>x. x = a \<Longrightarrow> gives A (f x) F) \<Longrightarrow> gives A (Let a f) F"
  by simp

lemma gives_pair: "gives A (f a b) F \<Longrightarrow> gives A (case (a, b) of (x, y) \<Rightarrow> f x y) F"
  by simp

lemma gives_prod: "(\<And>x y. gives A (f x y) F) \<Longrightarrow> gives A (case p of (x, y) \<Rightarrow> f x y) F"
  by (cases p) simp

lemma gives_option: "gives A a F \<Longrightarrow> (\<And>x. gives A (f x) F) \<Longrightarrow> gives A (case z of None \<Rightarrow> a | Some x \<Rightarrow> f x) F"
  by (cases z) simp_all

text \<open>A step that returns nothing of interest, and steps whose branches return different rows.\<close>

lemma gives_seq_keeps: "keeps keyed_kept m \<Longrightarrow> (\<And>a. gives A (k a) G) \<Longrightarrow> gives A (seqE m k) G"
  using gives_seq [OF gives_keeps, of m A k G] by simp

lemma gives_try_keeps:
  "keeps keyed_kept m \<Longrightarrow> (\<And>e. gives A (h e) G) \<Longrightarrow> (\<And>a. gives A (k a) G) \<Longrightarrow> gives A (tryE m h k) G"
  using gives_try [OF gives_keeps, of m A h G k] by simp

lemma gives_seq_unit: "gives A m (\<lambda>_::unit. {}) \<Longrightarrow> (\<And>a. gives A (k a) G) \<Longrightarrow> gives A (seqE m k) G"
  using gives_seq [of A m "\<lambda>_. {}" k G] by simp

lemma gives_seq_if:
  "(c \<Longrightarrow> gives A (seqE a k) G) \<Longrightarrow> (\<not> c \<Longrightarrow> gives A (seqE b k) G) \<Longrightarrow> gives A (seqE (if c then a else b) k) G"
  by simp

lemma gives_seq_Let: "gives A (Let a (\<lambda>x. seqE (f x) k)) G \<Longrightarrow> gives A (seqE (Let a f) k) G"
  by simp

lemma gives_seq_prod: "gives A (case p of (x, y) \<Rightarrow> seqE (f x y) k) G \<Longrightarrow> gives A (seqE (case p of (x, y) \<Rightarrow> f x y) k) G"
  by (cases p) simp

lemma gives_seq_assoc: "gives A (seqE m (\<lambda>x. seqE (f x) k)) G \<Longrightarrow> gives A (seqE (seqE m f) k) G"
  by (simp add: seqE_assoc)

lemma gives_seq_ret: "gives A (k a) G \<Longrightarrow> gives A (seqE (ret a) k) G"
  by simp

section \<open>What the handlers find\<close>

lemma gives_query:
  assumes "\<And>w. tables_keyed w \<Longrightarrow> F (f w) \<subseteq> row_keys w"
  shows "gives A (query f) F"
proof (rule givesI)
  fix w r w'
  assume w: "tables_keyed w" and run: "query f w = (r, w')"
  from w assms show "tables_keyed w' \<and> row_keys w \<subseteq> row_keys w' \<and> (\<forall>a. r = Ok a \<longrightarrow> F a \<subseteq> row_keys w')"
    by (cases rule: query_cases [of f w]) (use run assms [of w'] in auto)
qed

text \<open>The row that was found, unless the zero value was returned.\<close>

abbreviation found :: "('r \<Rightarrow> int) \<Rightarrow> ('r \<Rightarrow> row_key) \<Rightarrow> 'r \<Rightarrow> row_key set" where
  "found rid key r \<equiv> (if rid r = 0 then {} else {key r})"

lemma mkey_afterFind [simp]: "mkey (afterFind m) = mkey m"
  by (simp add: mkey_def afterFind_def Let_def)

lemma found_market: "m \<in> set (markets w) \<Longrightarrow> mkey m \<in> row_keys w"
  by (simp add: row_keys_def)

lemma gives_market_Find: "gives A (market_Find a) (found m_ID mkey)"
proof -
  have "gives A (query (marketByAsset a)) (found m_ID mkey)"
    by (rule gives_query)
      (auto simp: marketByAsset_def zero_market_def found_market split: option.split dest!: find_Some_set)
  then show ?thesis
    by (simp add: market_Find_def gives_ret zero_market_def)
qed

lemma gives_market_FindByCToken: "gives A (market_FindByCToken c) (found m_ID mkey)"
proof -
  have "gives A (query (marketByCToken c)) (found m_ID mkey)"
    by (rule gives_query)
      (auto simp: marketByCToken_def zero_market_def found_market split: option.split dest!: find_Some_set)
  then show ?thesis
    by (simp add: market_FindByCToken_def gives_ret zero_market_def)
qed

lemma gives_supply_Find: "gives A (supply_Find u c) (found s_ID skey)"
  unfolding supply_Find_def
  by (rule gives_query) (auto simp: supplyOf_def first_or_def zero_supply_def row_keys_def split: option.split dest!: find_Some_set)

lemma gives_borrow_Find: "gives A (borrow_Find u a) (found b_ID bkey)"
  unfolding borrow_Find_def
  by (rule gives_query) (auto simp: borrowOf_def first_or_def zero_borrow_def row_keys_def split: option.split dest!: find_Some_set)

lemma gives_Require: "(c \<Longrightarrow> gives A (k ()) F) \<Longrightarrow> gives A (seqE (Require c msg fl) k) F"
  by (cases c) (simp_all add: Require_def gives_throw)

lemma gives_found: "rid r > 0 \<Longrightarrow> gives (A \<union> found rid key r) (ret r) (\<lambda>r. {key r})"
  by (rule gives_ret) simp

lemma gives_mustGetMarket: "gives A (mustGetMarket a) (\<lambda>m. {mkey m})"
  unfolding mustGetMarket_def by (rule gives_seq [OF gives_market_Find], rule gives_Require, rule gives_found)

lemma gives_mustGetMarketWithCToken: "gives A (mustGetMarketWithCToken c) (\<lambda>m. {mkey m})"
  unfolding mustGetMarketWithCToken_def by (rule gives_seq [OF gives_market_FindByCToken], rule gives_Require, rule gives_found)

lemma gives_mustGetSupply: "gives A (mustGetSupply u c) (\<lambda>s. {skey s})"
  unfolding mustGetSupply_def
  by (rule gives_seq [OF gives_supply_Find], rule gives_seq_keeps [OF keyed_kept.keeps_getS], rule gives_seq_if;
      rule gives_Require, rule gives_found)

lemma gives_mustGetBorrow: "gives A (mustGetBorrow u a) (\<lambda>b. {bkey b})"
  unfolding mustGetBorrow_def
  by (rule gives_seq [OF gives_borrow_Find], rule gives_seq_keeps [OF keyed_kept.keeps_getS], rule gives_seq_if;
      rule gives_Require, rule gives_found)

section \<open>What they insert\<close>

text \<open>An insert is refused when the key is taken, so that the new row's key is its own.\<close>

lemma gives_dbio:
  assumes "\<And>w. tables_keyed w \<Longrightarrow> A \<subseteq> row_keys w \<Longrightarrow>
     tables_keyed (snd (f w)) \<and> row_keys w \<subseteq> row_keys (snd (f w)) \<and> (\<forall>a. fst (f w) = Ok a \<longrightarrow> F a \<subseteq> row_keys (snd (f w)))"
  shows "gives A (dbio f) F"
proof (rule givesI)
  fix w r w'
  assume w: "tables_keyed w" "A \<subseteq> row_keys w" and run: "dbio f w = (r, w')"
  show "tables_keyed w' \<and> row_keys w \<subseteq> row_keys w' \<and> (\<forall>a. r = Ok a \<longrightarrow> F a \<subseteq> row_keys w')"
  proof (cases "faults w")
    case Nil
    with run assms [OF w] show ?thesis
      by (simp add: dbio_def)
  next
    case (Cons x fs)
    with run w assms [of "w\<lparr>faults := fs\<rparr>"] show ?thesis
      by (cases x) (auto simp: dbio_def)
  qed
qed

lemma gives_insert:
  assumes "\<And>w. tables_keyed w \<Longrightarrow> \<not> taken w \<Longrightarrow>
     tables_keyed (add (row w) w) \<and> row_keys w \<subseteq> row_keys (add (row w) w) \<and> F (row w) \<subseteq> row_keys (add (row w) w)"
  shows "gives A (dbio (\<lambda>w. if taken w then (Err DBError, w) else (let r = row w in (Ok r, add r w)))) F"
  by (rule gives_dbio) (simp add: assms Let_def)

lemma gives_supply_Create: "gives A (supply_Create s) (\<lambda>s. {skey s})"
  unfolding supply_Create_def
proof (rule gives_insert)
  fix w :: world
  assume w: "tables_keyed w"
    and "\<not> list_ex (\<lambda>r. s_UserID r = s_UserID s \<and> s_CTokenAssetID r = s_CTokenAssetID s) (supplies w)"
  then have "supplies_keyed (supplies w @ [s\<lparr>s_ID := next_id (map s_ID (supplies w))\<rparr>])"
    using keyed_get(2) [OF w] by (auto simp: supplies_keyed_def keys_ok_def ids_ok_append list_ex_iff)
  with w show "tables_keyed (w\<lparr>supplies := supplies w @ [s\<lparr>s_ID := next_id (map s_ID (supplies w))\<rparr>]\<rparr>)
    \<and> row_keys w \<subseteq> row_keys (w\<lparr>supplies := supplies w @ [s\<lparr>s_ID := next_id (map s_ID (supplies w))\<rparr>]\<rparr>)
    \<and> {skey (s\<lparr>s_ID := next_id (map s_ID (supplies w))\<rparr>)} \<subseteq>
      row_keys (w\<lparr>supplies := supplies w @ [s\<lparr>s_ID := next_id (map s_ID (supplies w))\<rparr>]\<rparr>)"
    by (auto simp: keyed_set row_keys_def)
qed

lemma gives_borrow_Create: "gives A (borrow_Create b) (\<lambda>b. {bkey b})"
  unfolding borrow_Create_def
proof (rule gives_insert)
  fix w :: world
  let ?b = "b\<lparr>b_ID := next_id (map b_ID (borrows w)), b_InterestIndex := if b_InterestIndex b = 0 then 1 else b_InterestIndex b\<rparr>"
  assume w: "tables_keyed w"
    and "\<not> list_ex (\<lambda>r. b_UserID r = b_UserID b \<and> b_AssetID r = b_AssetID b) (borrows w)"
  then have "borrows_keyed (borrows w @ [?b])"
    using keyed_get(3) [OF w] by (auto simp: borrows_keyed_def keys_ok_def ids_ok_append list_ex_iff)
  with w show "tables_keyed (w\<lparr>borrows := borrows w @ [?b]\<rparr>) \<and> row_keys w \<subseteq> row_keys (w\<lparr>borrows := borrows w @ [?b]\<rparr>)
    \<and> {bkey ?b} \<subseteq> row_keys (w\<lparr>borrows := borrows w @ [?b]\<rparr>)"
    by (auto simp: keyed_set row_keys_def)
qed

lemma keyed_market_Create: "keeps keyed_kept (market_Create m)"
  unfolding market_Create_def
proof (rule keyed_kept.keeps_dbio, rule keyed_keptI)
  fix w :: world
  let ?taken = "List.find (\<lambda>r. m_AssetID r = m_AssetID m) (markets w) = None
      \<and> list_ex (\<lambda>r. m_Symbol r = m_Symbol m \<or> m_CTokenAssetID r = m_CTokenAssetID m) (markets w)"
  let ?create = "first_or_create m_ID (\<lambda>i r. r\<lparr>m_ID := i\<rparr>) (\<lambda>r. m_AssetID r = m_AssetID m) m (markets w)"
  assume w: "tables_keyed w"
  have "markets_keyed (snd ?create)" if "\<not> ?taken"
    using keyed_get(1) [OF w] that
    by (auto simp: markets_keyed_def keys_ok_def first_or_create_def Let_def ids_ok_append list_ex_iff find_None_set
        split: option.split)
  moreover have "set (markets w) \<subseteq> set (snd ?create)"
    by (auto simp: first_or_create_def Let_def split: option.split)
  ultimately show "tables_keyed (snd (if ?taken then (Err DBError, w) else (case ?create of (r, ms) \<Rightarrow> (Ok r, w\<lparr>markets := ms\<rparr>))))
      \<and> row_keys w \<subseteq> row_keys (snd (if ?taken then (Err DBError, w) else (case ?create of (r, ms) \<Rightarrow> (Ok r, w\<lparr>markets := ms\<rparr>))))"
    using w by (auto simp: snd_case_create keyed_set row_keys_def)
qed

lemma gives_getOrCreateSupply: "gives A (getOrCreateSupply u c) (\<lambda>s. {skey s})"
  unfolding getOrCreateSupply_def
  by (rule gives_seq [OF gives_supply_Find], rule gives_if, rule gives_supply_Create, rule gives_ret) simp

lemma gives_getOrCreateBorrow: "gives A (getOrCreateBorrow u a) (\<lambda>b. {bkey b})"
  unfolding getOrCreateBorrow_def
  by (rule gives_seq [OF gives_borrow_Find], rule gives_if, rule gives_borrow_Create, rule gives_ret) simp

section \<open>What they update\<close>

text \<open>An update of a struct that has the key of its row changes no key.\<close>

lemma lock_keys:
  assumes "ids_ok rid rows" "(rid s, key s) \<in> (\<lambda>r. (rid r, key r)) ` set rows"
    and "\<And>r. rid (wr s v r) = rid r" "\<And>r. key (wr s v r) = key s"
  shows "map (\<lambda>r. (rid r, key r)) (replace_rows (lock_match rid rver s) (wr s v) rows) = map (\<lambda>r. (rid r, key r)) rows"
proof -
  obtain q where q: "q \<in> set rows" "rid q = rid s" "key q = key s"
    using assms(2) by auto
  have "key r = key s" if "r \<in> set rows" "lock_match rid rver s r" for r
  proof -
    have "rid q \<noteq> 0"
      using assms(1) q(1) by (auto simp: ids_ok_def list_all_iff)
    with that(2) q(2) have "rid r = rid q"
      by (simp add: lock_match_def)
    with assms(1) that(1) q(1) have "r = q"
      by (auto simp: ids_ok_def distinct_map inj_on_def)
    with q(3) show ?thesis
      by simp
  qed
  then show ?thesis
    by (auto simp: replace_rows_map assms(3,4))
qed

lemma keys_ok_pairs:
  assumes "map (\<lambda>r. (rid r, key r)) rows' = map (\<lambda>r. (rid r, key r)) rows"
  shows "ids_ok rid rows' = ids_ok rid rows" "keys_ok rid key rows' = keys_ok rid key rows" "map (f \<circ> key) rows' = map (f \<circ> key) rows"
proof -
  have eq: "map rid rows' = map rid rows" "map key rows' = map key rows"
    using arg_cong [OF assms, of "map fst"] arg_cong [OF assms, of "map snd"] by (simp_all add: comp_def)
  then show "ids_ok rid rows' = ids_ok rid rows" "keys_ok rid key rows' = keys_ok rid key rows"
    by (simp_all add: ids_ok_map [OF eq(1)] keys_ok_def)
  show "map (f \<circ> key) rows' = map (f \<circ> key) rows"
    using arg_cong [OF eq(2), of "map f"] by simp
qed

lemma gives_update:
  assumes "\<And>w. tables_keyed w \<Longrightarrow> ids_ok rid (get w)"
    and "\<And>w. A \<subseteq> row_keys w \<Longrightarrow> (rid s, key s) \<in> (\<lambda>r. (rid r, key r)) ` set (get w)"
    and "\<And>r. rid (wr s v r) = rid r" "\<And>r. key (wr s v r) = key s"
    and "\<And>w rows. tables_keyed w \<Longrightarrow> map (\<lambda>r. (rid r, key r)) rows = map (\<lambda>r. (rid r, key r)) (get w) \<Longrightarrow>
      tables_keyed (put rows w) \<and> row_keys (put rows w) = row_keys w"
  shows "gives A (store_Update rid rver wr get put s v) (\<lambda>_. {})"
proof -
  have "gives A (dbio (\<lambda>w. case lock_update rid rver wr s v (get w) of
      Ok rows \<Rightarrow> (Ok (), put rows w) | Err e \<Rightarrow> (Err e, w) | Panic p \<Rightarrow> (Panic p, w))) (\<lambda>_. {})"
  proof (rule gives_dbio)
    fix w
    assume w: "tables_keyed w" "A \<subseteq> row_keys w"
    note keys = lock_keys [where rid = rid and rver = rver and wr = wr and v = v, OF assms(1) [OF w(1)] assms(2) [OF w(2)] assms(3,4)]
    with assms(5) [OF w(1) keys] w(1)
    show "tables_keyed (snd (case lock_update rid rver wr s v (get w) of
        Ok rows \<Rightarrow> (Ok (), put rows w) | Err e \<Rightarrow> (Err e, w) | Panic p \<Rightarrow> (Panic p, w)))
      \<and> row_keys w \<subseteq> row_keys (snd (case lock_update rid rver wr s v (get w) of
        Ok rows \<Rightarrow> (Ok (), put rows w) | Err e \<Rightarrow> (Err e, w) | Panic p \<Rightarrow> (Panic p, w)))
      \<and> (\<forall>a. fst (case lock_update rid rver wr s v (get w) of
        Ok rows \<Rightarrow> (Ok (), put rows w) | Err e \<Rightarrow> (Err e, w) | Panic p \<Rightarrow> (Panic p, w)) = Ok a \<longrightarrow>
        {} \<subseteq> row_keys (snd (case lock_update rid rver wr s v (get w) of
        Ok rows \<Rightarrow> (Ok (), put rows w) | Err e \<Rightarrow> (Err e, w) | Panic p \<Rightarrow> (Panic p, w))))"
      by (simp add: lock_update_def)
  qed
  then show ?thesis
    by (simp add: store_Update_def gives_ret)
qed

lemma image_pairs:
  assumes "map (\<lambda>r. (rid r, key r)) rows' = map (\<lambda>r. (rid r, key r)) rows"
  shows "(\<lambda>r. c (rid r) (key r)) ` set rows' = (\<lambda>r. c (rid r) (key r)) ` set rows"
  using arg_cong [OF arg_cong [OF assms, of "map (\<lambda>(i, k). c i k)"], of set] by (simp add: image_image)

lemma gives_supply_Update: "skey s \<in> A \<Longrightarrow> gives A (supply_Update s v) (\<lambda>_. {})"
  unfolding supply_Update_def
proof (rule gives_update [where key = "\<lambda>s. (s_UserID s, s_CTokenAssetID s)"])
  fix w and rows :: "Supply list"
  assume w: "tables_keyed w" and "map (\<lambda>s. (s_ID s, s_UserID s, s_CTokenAssetID s)) rows
      = map (\<lambda>s. (s_ID s, s_UserID s, s_CTokenAssetID s)) (supplies w)"
  note same = keys_ok_pairs(2) [OF this(2)] image_pairs [where c = SupplyKey, OF this(2)]
  show "tables_keyed (w\<lparr>supplies := rows\<rparr>) \<and> row_keys (w\<lparr>supplies := rows\<rparr>) = row_keys w"
    using w keyed_get(2) [OF w] same by (simp add: keyed_set supplies_keyed_def row_keys_def skey_def)
qed (auto simp: keyed_get supply_write_def row_keys_def skey_def mkey_def bkey_def dest: keyed_get(2) simp: supplies_keyed_def keys_ok_def)

lemma gives_borrow_Update: "bkey b \<in> A \<Longrightarrow> gives A (borrow_Update b v) (\<lambda>_. {})"
  unfolding borrow_Update_def
proof (rule gives_update [where key = "\<lambda>b. (b_UserID b, b_AssetID b)"])
  fix w and rows :: "Borrow list"
  assume w: "tables_keyed w" and "map (\<lambda>b. (b_ID b, b_UserID b, b_AssetID b)) rows
      = map (\<lambda>b. (b_ID b, b_UserID b, b_AssetID b)) (borrows w)"
  note same = keys_ok_pairs(2) [OF this(2)] image_pairs [where c = BorrowKey, OF this(2)]
  show "tables_keyed (w\<lparr>borrows := rows\<rparr>) \<and> row_keys (w\<lparr>borrows := rows\<rparr>) = row_keys w"
    using w keyed_get(3) [OF w] same by (simp add: keyed_set borrows_keyed_def row_keys_def bkey_def)
qed (auto simp: keyed_get borrow_write_def row_keys_def skey_def mkey_def bkey_def dest: keyed_get(3) simp: borrows_keyed_def keys_ok_def)

lemma gives_market_Update: "mkey m \<in> A \<Longrightarrow> gives A (market_Update X m v) (\<lambda>_. {})"
  unfolding market_Update_def
proof (rule gives_update [where key = "\<lambda>m. (m_AssetID m, m_Symbol m, m_CTokenAssetID m)"])
  fix w and rows :: "Market list"
  assume w: "tables_keyed w" and eq: "map (\<lambda>m. (m_ID m, m_AssetID m, m_Symbol m, m_CTokenAssetID m)) rows
      = map (\<lambda>m. (m_ID m, m_AssetID m, m_Symbol m, m_CTokenAssetID m)) (markets w)"
  have "map m_AssetID rows = map m_AssetID (markets w)" "map m_Symbol rows = map m_Symbol (markets w)"
    "map m_CTokenAssetID rows = map m_CTokenAssetID (markets w)"
    using keys_ok_pairs(3) [OF eq, of fst] keys_ok_pairs(3) [OF eq, of "fst \<circ> snd"] keys_ok_pairs(3) [OF eq, of "snd \<circ> snd"]
    by (simp_all add: comp_def)
  then have "markets_keyed rows = markets_keyed (markets w)"
    by (simp add: markets_keyed_def keys_ok_def keys_ok_pairs(1) [OF eq])
  with w keyed_get(1) [OF w] image_pairs [where c = MarketKey, OF eq]
  show "tables_keyed (w\<lparr>markets := rows\<rparr>) \<and> row_keys (w\<lparr>markets := rows\<rparr>) = row_keys w"
    by (simp add: keyed_set row_keys_def mkey_def)
qed (auto simp: keyed_get market_write_def row_keys_def skey_def mkey_def bkey_def dest: keyed_get(1) simp: markets_keyed_def keys_ok_def)

text \<open>Accrual and the balance of a borrow change no key.\<close>

lemma gives_accrue:
  assumes "mkey m \<in> A"
  shows "gives A (accrue X m out) (\<lambda>m. {mkey m})"
proof (cases "AccrueInterest X m (o_CreatedAt out)")
  case (Ok m')
  with accrue_same [OF Ok] assms show ?thesis
    by (auto simp: accrue_def liftR_def gives_def same_market_def mkey_def)
qed (simp_all add: accrue_def liftR_def gives_def)

lemma BorrowBalance_keys: "BorrowBalance X b m = (x, b', m') \<Longrightarrow> bkey b' = bkey b \<and> mkey m' = mkey m"
  by (auto simp: BorrowBalance_def Let_def bkey_def mkey_def split: if_splits prod.splits)

lemma gives_balance:
  assumes "\<And>x b' m'. bkey b' = bkey b \<Longrightarrow> mkey m' = mkey m \<Longrightarrow> gives A (k x b' m') F"
  shows "gives A (let (x, b', m') = BorrowBalance X b m in k x b' m') F"
proof -
  obtain x b' m' where "BorrowBalance X b m = (x, b', m')"
    by (metis prod.exhaust)
  with assms BorrowBalance_keys [OF this] show ?thesis
    by simp
qed

lemma fields_keys [simp]:
  "skey (s\<lparr>s_Collaterals := x\<rparr>) = skey s"
  "bkey (b\<lparr>b_Principal := x\<rparr>) = bkey b" "bkey (b\<lparr>b_InterestIndex := y\<rparr>) = bkey b"
  "mkey (m\<lparr>m_CTokens := x\<rparr>) = mkey m" "mkey (m\<lparr>m_TotalCash := x\<rparr>) = mkey m" "mkey (m\<lparr>m_TotalBorrows := x\<rparr>) = mkey m"
  "mkey (m\<lparr>m_Reserves := x\<rparr>) = mkey m" "mkey (m\<lparr>m_Price := x\<rparr>) = mkey m" "mkey (m\<lparr>m_PriceUpdatedAt := t\<rparr>) = mkey m"
  "mkey (m\<lparr>m_Status := st\<rparr>) = mkey m"
  by (simp_all add: skey_def bkey_def mkey_def)

lemma mkey_Let: "mkey a = i \<Longrightarrow> (\<And>x. mkey x = i \<Longrightarrow> mkey (f x) = i) \<Longrightarrow> mkey (Let a f) = i"
  by simp

lemma mkey_if: "mkey a = i \<Longrightarrow> mkey b = i \<Longrightarrow> mkey (if c then a else b) = i"
  by simp

lemma request_keys [simp]: "mkey (apply_market_req req m) = mkey m"
  unfolding apply_market_req_def by (intro mkey_Let mkey_if; simp add: mkey_def)

section \<open>The handlers\<close>

lemmas keyed_calls = keyed_writes.keeps_calls keyed_writes.keeps_payments keyed_market_Create

lemmas gives_finds = gives_mustGetMarket gives_mustGetMarketWithCToken gives_mustGetSupply gives_mustGetBorrow
  gives_getOrCreateSupply gives_getOrCreateBorrow gives_market_Find

lemma gives_seq_balance:
  assumes "\<And>x b' m'. bkey b' = bkey b \<Longrightarrow> mkey m' = mkey m \<Longrightarrow> gives A (seqE (k x b' m') c) F"
  shows "gives A (seqE (let (x, b', m') = BorrowBalance X b m in k x b' m') c) F"
proof -
  obtain x b' m' where "BorrowBalance X b m = (x, b', m')"
    by (metis prod.exhaust)
  with assms BorrowBalance_keys [OF this] show ?thesis
    by simp
qed

text \<open>The supply market of a quick borrow is looked up by asset, and then by CToken.\<close>

lemma gives_supply_market:
  "gives A (tryE (mustGetMarket a) (\<lambda>e. if c e then mustGetMarketWithCToken a else throw e) ret) (\<lambda>m. {mkey m})"
  by (rule gives_try [OF gives_mustGetMarket])
    (auto intro: gives_mustGetMarketWithCToken gives_throw gives_ret)

lemmas gives_lookups = gives_finds [THEN gives_seq] gives_finds [THEN gives_try] gives_supply_market [THEN gives_try]
  gives_accrue [THEN gives_seq]

lemmas gives_writes = gives_supply_Update gives_borrow_Update gives_market_Update

lemmas gives_splits = gives_balance gives_if gives_pair gives_prod gives_option gives_Let

text \<open>
  Steps whose branches write or return rows: the continuation is pushed into the branches. For steps that
  return a tuple with rows this comes before anything else.
\<close>

lemmas gives_pushes = gives_seq_unit gives_seq_balance gives_seq_if gives_seq_Let gives_seq_prod gives_seq_assoc

lemmas gives_tuples = gives_seq_ret
  gives_seq_if [where a = a and b = b for a b :: "(world, 'a \<times> 'b) go"]
  gives_seq_balance [where k = k for k :: "rat \<Rightarrow> Borrow \<Rightarrow> Market \<Rightarrow> (world, 'a \<times> 'b) go"]
  gives_seq_Let [where f = f for f :: "'c \<Rightarrow> (world, 'a \<times> 'b) go"]
  gives_seq_assoc [where f = f for f :: "'c \<Rightarrow> (world, 'a \<times> 'b) go"]

lemma keyed_supply_handlers:
  "gives {} (handleSupplyEvent X out u f body) (\<lambda>_. {})" "gives {} (handleRedeemEvent X out u f body) (\<lambda>_. {})"
  "gives {} (handlePledgeEvent X out u f body) (\<lambda>_. {})" "gives {} (handleUnpledgeEvent X out u f body) (\<lambda>_. {})"
  "gives {} (handleQuickPledgeEvent X out u f body) (\<lambda>_. {})" "gives {} (handleQuickRedeemEvent X out u f body) (\<lambda>_. {})"
  unfolding handleSupplyEvent_def handleRedeemEvent_def handlePledgeEvent_def handleUnpledgeEvent_def
    handleQuickPledgeEvent_def handleQuickRedeemEvent_def
  by (rule gives_splits gives_tuples gives_lookups gives_writes
    | (rule gives_keeps gives_seq_keeps gives_try_keeps, (intro keyed_calls; fail))
    | rule gives_pushes | (simp; fail))+

lemma keyed_market_handlers:
  "gives {} (handlePriceEvent X out) (\<lambda>_. {})" "gives {} (handleMarketEvent X p mr out) (\<lambda>_. {})"
  "gives {} (handleWithdrawEvent X p wr out) (\<lambda>_. {})" "gives {} (handleOpenMarketEvent X p ms out) (\<lambda>_. {})"
  "gives {} (handleCloseMarketEvent X p ms out) (\<lambda>_. {})"
  unfolding handlePriceEvent_def handleMarketEvent_def handleWithdrawEvent_def handleOpenMarketEvent_def handleCloseMarketEvent_def
  by (rule gives_splits gives_tuples gives_lookups gives_writes
    | (rule gives_keeps gives_seq_keeps gives_try_keeps, (intro keyed_calls; fail))
    | rule gives_pushes | (simp; fail))+

lemma gives_quick_borrow_record:
  assumes "bkey b \<in> A" "mkey bm \<in> A"
  shows "gives A (quick_borrow_record X out u f ba amount sm bm s b ctokens) (\<lambda>(tx, b, m). {bkey b, mkey m})"
  unfolding quick_borrow_record_def
  by (rule gives_splits
    | (rule gives_seq_keeps, (intro keyed_calls; fail))
    | (rule gives_ret, use assms in \<open>simp; fail\<close>))+

lemma gives_liquidation_tx:
  assumes "bkey b \<in> A" "mkey bm \<in> A"
  shows "gives A (liquidation_tx X out u f su sc s b sm bm) (\<lambda>(tx, b, m). {bkey b, mkey m})"
  unfolding liquidation_tx_def
  by (rule gives_splits
    | (rule gives_seq_keeps, (intro keyed_calls; fail))
    | (rule gives_ret, use assms in \<open>simp; fail\<close>))+

lemma gives_triple:
  assumes "gives A m (\<lambda>(tx, b, m). {bkey b, mkey m})" "\<And>tx b m. gives (A \<union> {bkey b, mkey m}) (k tx b m) G"
  shows "gives A (seqE m (\<lambda>(tx, b, m). k tx b m)) G"
  using assms by (intro gives_seq [OF assms(1)]) (simp split: prod.split)

lemma keyed_quick_borrow_apply:
  assumes "skey s \<in> A" "bkey b \<in> A" "mkey sm \<in> A" "mkey bm \<in> A"
  shows "gives A (quick_borrow_apply X out u f is ba amount s b sm bm ctokens) (\<lambda>_. {})"
  unfolding quick_borrow_apply_def
  by (rule gives_splits gives_tuples gives_lookups gives_writes
    | (rule gives_keeps gives_seq_keeps gives_try_keeps, (intro keyed_calls; fail))
    | rule gives_pushes | (simp add: assms; fail))+

lemma keyed_liquidation_apply:
  assumes "skey s \<in> A" "bkey b \<in> A" "mkey sm \<in> A" "mkey bm \<in> A"
  shows "gives A (liquidation_apply X out u f s b sm bm seized repay) (\<lambda>_. {})"
  unfolding liquidation_apply_def
  by (rule gives_splits gives_tuples gives_lookups gives_writes
    | (rule gives_keeps gives_seq_keeps gives_try_keeps, (intro keyed_calls; fail))
    | rule gives_pushes | (simp add: assms; fail))+

lemma keyed_borrow_handlers:
  "gives {} (handleBorrowEvent X out u f body) (\<lambda>_. {})" "gives {} (handleRepayEvent X out u f body) (\<lambda>_. {})"
  unfolding handleBorrowEvent_def handleRepayEvent_def
  by (rule gives_splits gives_tuples gives_lookups gives_writes
    | (rule gives_keeps gives_seq_keeps gives_try_keeps, (intro keyed_calls; fail))
    | rule gives_pushes | (simp; fail))+

lemma keyed_long_handlers:
  "gives {} (handleQuickBorrowEvent X out u f body) (\<lambda>_. {})" "gives {} (handleLiquidationEvent X out u f body) (\<lambda>_. {})"
  unfolding handleQuickBorrowEvent_def handleLiquidationEvent_def
  by (rule gives_splits gives_quick_borrow_record [THEN gives_triple] gives_liquidation_tx [THEN gives_triple]
      gives_tuples gives_lookups gives_writes keyed_quick_borrow_apply keyed_liquidation_apply
    | (rule gives_keeps gives_seq_keeps gives_try_keeps, (intro keyed_calls; fail))
    | rule gives_pushes | (simp; fail))+

lemmas keyed_handlers = keyed_supply_handlers [THEN keeps_gives] keyed_borrow_handlers [THEN keeps_gives]
  keyed_long_handlers [THEN keeps_gives]

lemma keyed_user_action: "keeps keyed_kept (handleUserAction X out a f body)"
  by (cases a) (simp_all add: handleUserAction_def keyed_handlers keyed_writes.keeps_payments keyed_kept.keeps_basic)

section \<open>The node\<close>

interpretation keyed_payee: payee_runs keyed_kept S for S
  by unfold_locales (rule keyed_user_action keyed_market_handlers [THEN keeps_gives] | simp add: keyed_kept_def)+

lemma node_steps_keyed: "(node_step X C S)\<^sup>*\<^sup>* w w' \<Longrightarrow> tables_keyed w \<Longrightarrow> tables_keyed w' \<and> row_keys w \<subseteq> row_keys w'"
  using keyed_workers.node_steps_R [of X C S w w'] keyed_payee.payee_step_R by (auto simp: keyed_kept_def)

end
