(* ===== verification/Props_Node.thy ===== *)
theory Props_Node
  imports Keys_Handlers Props_Payee Example_Wallet
begin

text \<open>Properties of a whole node: all its workers, in any order, with any answers of the network and the database.\<close>

lemma node_vote_steps: "(node_step ext0 client0 sys0)\<^sup>*\<^sup>* world3 (snd (run ext0 sys0 world3))"
  using vote_run by (intro r_into_rtranclp node_payee payee_step.run_ok) (auto split: prod.splits)

text \<open>
  C37. Only the payee decides. A step of any other worker leaves the markets, supplies, borrows, users,
  proposals and oracle signers exactly as they are, and of the transactions it changes no row.
\<close>

theorem only_payee_changes_ledger:
  assumes "node_step X C S w w'" "\<not> payee_step X S w w'"
  shows "markets w' = markets w \<and> supplies w' = supplies w \<and> borrows w' = borrows w \<and> users w' = users w
    \<and> proposals w' = proposals w \<and> signers w' = signers w \<and> rows_kept (=) (transactions w) (transactions w')"
  using worker_ledger.node_step_or [OF assms(1)] worker_history.node_step_or [OF assms(1)] assms(2)
  by (simp add: same_ledger_def node_history_def)

theorem only_payee_changes_ledger_witness:
  "\<exists>w'. node_step ext0 client0 sys0 node3 w' \<and> outputs w' \<noteq> outputs node3 \<and> markets w' = markets node3 \<and> supplies w' = supplies node3"
proof -
  have marks: "map o_SpentBy (outputs node3) = ['''', '''', '''']"
    by code_simp
  with node4_assigned(2) have changed: "outputs node4 \<noteq> outputs node3"
    by auto
  have "\<not> payee_step ext0 sys0 node3 node4"
    using payee_history.payee_step_R [of ext0 sys0 node3 node4] changed by (auto simp: history_def)
  from only_payee_changes_ledger [OF node3_step this] changed node3_step show ?thesis
    by blast
qed

text \<open>
  C23. A node keeps its books in order. Over any steps of all workers, whatever the network and the database
  answer, the keys that \<open>tables_keyed\<close> lists stay unique. Every table that has one keeps positive and distinct
  row identifiers: markets, supplies, borrows, users, transactions, transfers, proposals, signers, outputs,
  queued outputs, raw transactions and messages. There is one market per asset, per symbol and per CToken,
  one supply per user and CToken, one borrow per user and asset, one user per account, one transaction,
  transfer, proposal, output, queued output and raw transaction per trace, one key per signer and one value
  per property. A market, supply or borrow never loses its row nor changes its key. No row of the ledger is
  removed, transactions never change once written, versions never fall, and a proposal keeps its creator,
  action and request. The two unique indices on the addresses of users are not part of it.
\<close>

theorem node_keeps_books:
  assumes "(node_step X C S)\<^sup>*\<^sup>* w w'" "tables_keyed w"
  shows "tables_keyed w' \<and> row_keys w \<subseteq> row_keys w' \<and> node_history w w'"
  using node_steps_keyed [OF assms] node_steps_history [OF assms(1)] by simp

theorem node_keeps_books_witness:
  "\<exists>w'. (node_step ext0 client0 sys0)\<^sup>*\<^sup>* world3 w' \<and> tables_keyed w' \<and> row_keys world3 \<subseteq> row_keys w'
    \<and> row_keys world3 \<noteq> {} \<and> node_history world3 w' \<and> properties w' \<noteq> properties world3"
proof -
  have keyed: "tables_keyed world3"
    by code_simp
  have "row_keys world3 \<noteq> {}"
    by (simp add: row_keys_def world3_def world0_def)
  with node_keeps_books [OF node_vote_steps keyed] node_vote_steps vote_run show ?thesis
    by (auto simp: world3_def split: prod.splits)
qed

text \<open>
  C24. No proposal passes without its votes. In every state a node reaches, whatever its workers do, a
  proposal that has passed carries the votes of at least as many different members as the threshold asks
  for, and no vote of anyone else.
\<close>

theorem node_proposals_pass_by_vote:
  assumes "(node_step X C S)\<^sup>*\<^sup>* w w'" "state_ok S w" "p \<in> set (proposals w')" "p_PassedAt p \<noteq> None"
  shows "Threshold S \<le> card (set (p_Votes p)) \<and> (\<forall>v\<in>set (p_Votes p). voter S v)"
proof -
  have "votes_ok S p"
    using node_steps_state [OF assms(1,2)] assms(3) by (simp add: state_ok_def list_all_iff)
  with assms(4) show ?thesis
    by (simp add: votes_ok_def list_all_iff distinct_card)
qed

theorem node_proposals_pass_by_vote_witness:
  "\<exists>w' p. (node_step ext0 client0 sys0)\<^sup>*\<^sup>* world3 w' \<and> p \<in> set (proposals w') \<and> p_PassedAt p = Some later
    \<and> Threshold sys0 \<le> card (set (p_Votes p)) \<and> list_all (voter sys0) (p_Votes p)"
proof -
  let ?w = "snd (run ext0 sys0 world3)"
  obtain p where p: "p \<in> set (proposals ?w)" "p_PassedAt p = Some later"
    using vote_run by (auto split: prod.splits)
  with node_proposals_pass_by_vote [OF node_vote_steps world3_ok, of p] node_vote_steps show ?thesis
    by (intro exI [of _ ?w] exI [of _ p]) (simp add: list_all_iff)
qed

end
