(* ===== verification/Cache.thy ===== *)
theory Cache
  imports Payee_Invariant Example_State
begin

text \<open>
  The cache in front of the user store (\<open>store/user/cache.go\<close>). The LRU cache of \<open>gcache\<close> is the
  argument \<open>G\<close> over its own state: \<open>gc_get\<close> returns the value under a key, if the cache still holds it,
  and the state after the access, \<open>gc_set\<close> stores a value. \<open>gcache_documented\<close> is what the store relies
  on: an entry is what was last set under its key, and may be evicted at any time. The state of a cached
  store is the world with the state of the cache. No command of the repository constructs it.
\<close>

section \<open>store/user/cache.go\<close>

record 'c gcache =
  gc_get :: "'c \<Rightarrow> string \<Rightarrow> User option \<times> 'c"
  gc_set :: "'c \<Rightarrow> string \<Rightarrow> User \<Rightarrow> 'c"

definition userKey :: "string \<Rightarrow> string" where
  "userKey userID = ''user:id:'' @ userID"

definition addressKey :: "string \<Rightarrow> string" where
  "addressKey address = ''user:address:'' @ address"

definition v0AddressKey :: "string \<Rightarrow> string" where
  "v0AddressKey address = ''user:v0:address:'' @ address"

text \<open>A call of the embedded \<open>UserStore\<close>, \<open>s.cache.Get\<close> and \<open>s.cache.Set\<close>.\<close>

definition on_store :: "(world, 'a) go \<Rightarrow> (world \<times> 'c, 'a) go" where
  "on_store m = (\<lambda>(w, c). case m w of (r, w') \<Rightarrow> (r, w', c))"

definition cache_Get :: "'c gcache \<Rightarrow> string \<Rightarrow> (world \<times> 'c, User option) go" where
  "cache_Get G k = (\<lambda>(w, c). case gc_get G c k of (v, c') \<Rightarrow> (Ok v, w, c'))"

definition cache_Set :: "'c gcache \<Rightarrow> string \<Rightarrow> User \<Rightarrow> (world \<times> 'c, unit) go" where
  "cache_Set G k u = (\<lambda>(w, c). (Ok (), w, gc_set G c k u))"

text \<open>A NULL address is read as the empty text.\<close>

definition AddressV0_text :: "User \<Rightarrow> string" where
  "AddressV0_text u = (case u_AddressV0 u of Some a \<Rightarrow> a | None \<Rightarrow> '''')"

definition cacheUser :: "'c gcache \<Rightarrow> User \<Rightarrow> (world \<times> 'c, unit) go" where
  "cacheUser G user =
     seqE (cache_Set G (userKey (u_UserID user)) user) (\<lambda>_.
     seqE (cache_Set G (addressKey (u_Address user)) user) (\<lambda>_.
     cache_Set G (v0AddressKey (AddressV0_text user)) user))"

definition cached_List :: "int \<Rightarrow> nat \<Rightarrow> (world \<times> 'c, User list) go" where
  "cached_List from limit = on_store (user_List from limit)"

definition cached_Create :: "'c gcache \<Rightarrow> User \<Rightarrow> (world \<times> 'c, User) go" where
  "cached_Create G user =
     seqE (on_store (user_Create user)) (\<lambda>user.
     seqE (cacheUser G user) (\<lambda>_. ret user))"

definition cached_MigrateToV1 :: "'c gcache \<Rightarrow> User list \<Rightarrow> (world \<times> 'c, unit) go" where
  "cached_MigrateToV1 G us =
     seqE (on_store (user_MigrateToV1 us)) (\<lambda>_. forE us (cacheUser G))"

definition keep_found :: "'c gcache \<Rightarrow> User \<Rightarrow> (world \<times> 'c, User) go" where
  "keep_found G user = seqE (if u_ID user > 0 then cacheUser G user else ret ()) (\<lambda>_. ret user)"

definition cached_Find :: "'c gcache \<Rightarrow> string \<Rightarrow> (world \<times> 'c, User) go" where
  "cached_Find G userID =
     seqE (cache_Get G (userKey userID)) (\<lambda>v. case v of
       Some user \<Rightarrow> ret user
     | None \<Rightarrow> seqE (on_store (user_Find userID)) (keep_found G))"

definition cached_FindByAddress :: "'c gcache \<Rightarrow> string \<Rightarrow> (world \<times> 'c, User) go" where
  "cached_FindByAddress G address =
     seqE (cache_Get G (addressKey address)) (\<lambda>v. case v of
       Some user \<Rightarrow> ret user
     | None \<Rightarrow> seqE (cache_Get G (v0AddressKey address)) (\<lambda>v0. case v0 of
         Some user \<Rightarrow> ret user
       | None \<Rightarrow> seqE (on_store (user_FindByAddress address)) (keep_found G)))"

section \<open>The cached store refines the store\<close>

definition gcache_documented :: "'c gcache \<Rightarrow> bool" where
  "gcache_documented G \<longleftrightarrow>
     (\<forall>c k k' v. fst (gc_get G (snd (gc_get G c k)) k') = Some v \<longrightarrow> fst (gc_get G c k') = Some v) \<and>
     (\<forall>c k u k' v. fst (gc_get G (gc_set G c k u) k') = Some v \<longrightarrow>
        (if k' = k then v = u else fst (gc_get G c k') = Some v))"

definition user_keys :: "User \<Rightarrow> string set" where
  "user_keys u = {userKey (u_UserID u), addressKey (u_Address u), v0AddressKey (AddressV0_text u)}"

text \<open>Every entry is a row of the table, under one of its own keys.\<close>

definition cache_ok :: "'c gcache \<Rightarrow> world \<Rightarrow> 'c \<Rightarrow> bool" where
  "cache_ok G w c \<longleftrightarrow> (\<forall>k u. fst (gc_get G c k) = Some u \<longrightarrow> u \<in> set (users w) \<and> k \<in> user_keys u)"

text \<open>Every row has both addresses, and no two users share an account or an address, of either kind.\<close>

definition users_apart :: "world \<Rightarrow> bool" where
  "users_apart w \<longleftrightarrow> keys_ok u_ID u_UserID (users w) \<and> (\<forall>u\<in>set (users w). u_AddressV0 u \<noteq> None) \<and>
     (\<forall>u\<in>set (users w). \<forall>u'\<in>set (users w). \<forall>a.
        a \<in> {u_Address u, AddressV0_text u} \<and> a \<in> {u_Address u', AddressV0_text u'} \<longrightarrow> u = u')"

lemma key_eqs [simp]:
  "userKey a = userKey b \<longleftrightarrow> a = b" "addressKey a = addressKey b \<longleftrightarrow> a = b" "v0AddressKey a = v0AddressKey b \<longleftrightarrow> a = b"
  "userKey a \<noteq> addressKey b" "addressKey b \<noteq> userKey a" "userKey a \<noteq> v0AddressKey b" "v0AddressKey b \<noteq> userKey a"
  "addressKey a \<noteq> v0AddressKey b" "v0AddressKey b \<noteq> addressKey a"
  by (simp_all add: userKey_def addressKey_def v0AddressKey_def)

lemma cache_ok_get:
  "gcache_documented G \<Longrightarrow> cache_ok G w c \<Longrightarrow> cache_ok G w (snd (gc_get G c k))"
  unfolding gcache_documented_def cache_ok_def by blast

lemma cache_ok_set:
  assumes "gcache_documented G" "cache_ok G w c" "u \<in> set (users w)" "k \<in> user_keys u"
  shows "cache_ok G w (gc_set G c k u)"
proof -
  have "if k' = k then v = u else fst (gc_get G c k') = Some v" if "fst (gc_get G (gc_set G c k u) k') = Some v" for k' v
    using that assms(1) unfolding gcache_documented_def by blast
  then show ?thesis
    using assms(2-4) unfolding cache_ok_def by metis
qed

lemma cache_ok_rows: "cache_ok G w c \<Longrightarrow> set (users w) \<subseteq> set (users w') \<Longrightarrow> cache_ok G w' c"
  unfolding cache_ok_def by blast

lemma cacheUser_ok:
  assumes "gcache_documented G" "cache_ok G w c" "u \<in> set (users w)"
  obtains c' where "cacheUser G u (w, c) = (Ok (), w, c')" "cache_ok G w c'"
proof
  show "cacheUser G u (w, c) = (Ok (), w, gc_set G (gc_set G (gc_set G c (userKey (u_UserID u)) u)
      (addressKey (u_Address u)) u) (v0AddressKey (AddressV0_text u)) u)"
    by (simp add: cacheUser_def cache_Set_def run_simps)
qed (use assms in \<open>simp add: cache_ok_set user_keys_def\<close>)

lemma keep_found_ok:
  assumes "gcache_documented G" "cache_ok G w c" "u \<in> set (users w) \<or> u = zero_user"
  obtains c' where "keep_found G u (w, c) = (Ok u, w, c')" "cache_ok G w c'"
proof (cases "u_ID u > 0")
  case True
  with assms(3) have "u \<in> set (users w)"
    by (auto simp: zero_user_def)
  from cacheUser_ok [OF assms(1,2) this] obtain c' where "cacheUser G u (w, c) = (Ok (), w, c')" "cache_ok G w c'" .
  with True that show ?thesis
    by (simp add: keep_found_def run_simps)
next
  case False
  with assms(2) that show ?thesis
    by (simp add: keep_found_def run_simps)
qed

lemma first_or_in: "first_or z P rows \<in> set rows \<or> first_or z P rows = z"
  by (auto simp: first_or_def dest: find_Some_set split: option.split)

lemma first_or_eqI:
  assumes "u \<in> set rows" "P u" and unique: "\<And>u'. u' \<in> set rows \<Longrightarrow> P u' \<Longrightarrow> u' = u"
  shows "first_or z P rows = u"
proof (cases "List.find P rows")
  case None
  with assms(1,2) show ?thesis
    by (simp only: find_None_set)
next
  case (Some v)
  have "v = u"
    using find_Some_set [OF Some] by (intro unique) simp_all
  with Some show ?thesis
    by (simp add: first_or_def)
qed

lemma user_Find_run: "faults w = [] \<Longrightarrow> user_Find i w = (Ok (first_or zero_user (\<lambda>u. u_UserID u = i) (users w)), w)"
  by (simp add: user_Find_def run_simps store_simps)

definition address_owner :: "string \<Rightarrow> User list \<Rightarrow> User" where
  "address_owner a us = (case List.find (\<lambda>u. u_Address u = a) us of
     Some u \<Rightarrow> u | None \<Rightarrow> first_or zero_user (\<lambda>u. u_AddressV0 u = Some a) us)"

lemma user_FindByAddress_run: "faults w = [] \<Longrightarrow> user_FindByAddress a w = (Ok (address_owner a (users w)), w)"
  by (simp add: user_FindByAddress_def address_owner_def run_simps store_simps split: option.split)

lemma address_owner_in: "address_owner a us \<in> set us \<or> address_owner a us = zero_user"
  using first_or_in [of zero_user] by (auto simp: address_owner_def dest: find_Some_set split: option.split)

lemma address_owner_eqI:
  assumes "users_apart w" "u \<in> set (users w)" "a \<in> {u_Address u, AddressV0_text u}"
  shows "address_owner a (users w) = u"
proof (cases "List.find (\<lambda>u. u_Address u = a) (users w)")
  case None
  then have "u_AddressV0 u = Some a"
    using assms by (auto simp: find_None_set AddressV0_text_def users_apart_def split: option.splits)
  moreover have "u' = u" if "u' \<in> set (users w)" "u_AddressV0 u' = Some a" for u'
  proof -
    have "a \<in> {u_Address u', AddressV0_text u'}"
      using that by (simp add: AddressV0_text_def)
    then show ?thesis
      using that assms unfolding users_apart_def by blast
  qed
  ultimately have "first_or zero_user (\<lambda>u. u_AddressV0 u = Some a) (users w) = u"
    using assms(2) by (intro first_or_eqI)
  with None show ?thesis
    by (simp add: address_owner_def)
next
  case (Some u')
  then have "u' \<in> set (users w)" "a \<in> {u_Address u', AddressV0_text u'}"
    by (auto dest: find_Some_set)
  with assms have "u' = u"
    unfolding users_apart_def by blast
  with Some show ?thesis
    by (simp add: address_owner_def)
qed

lemma cache_hit:
  assumes "cache_ok G w c" "users_apart w" "gc_get G c k = (Some u, c')"
  shows "k = userKey i \<Longrightarrow> first_or zero_user (\<lambda>u. u_UserID u = i) (users w) = u"
    and "k \<in> {addressKey a, v0AddressKey a} \<Longrightarrow> address_owner a (users w) = u"
proof -
  have u: "u \<in> set (users w)" "k \<in> user_keys u"
    using assms(1) unfolding cache_ok_def by (metis assms(3) fst_conv)+
  have "inj_on u_UserID (set (users w))"
    using assms(2) by (simp add: users_apart_def keys_ok_def distinct_map)
  with u show "k = userKey i \<Longrightarrow> first_or zero_user (\<lambda>u. u_UserID u = i) (users w) = u"
    by (intro first_or_eqI) (auto simp: user_keys_def inj_on_def)
  show "k \<in> {addressKey a, v0AddressKey a} \<Longrightarrow> address_owner a (users w) = u"
    using u by (intro address_owner_eqI [OF assms(2)]) (auto simp: user_keys_def)
qed

text \<open>
  On a database that answers, a lookup through the cache returns what the store itself returns, leaves
  the tables as they are and the cache coherent.
\<close>

lemma cached_Find_refines:
  assumes "gcache_documented G" "cache_ok G w c" "users_apart w" "faults w = []"
  obtains c' where "cached_Find G i (w, c) = (fst (user_Find i w), w, c')" "cache_ok G w c'"
proof (cases "gc_get G c (userKey i)")
  case (Pair v c1)
  have c1: "cache_ok G w c1"
    using cache_ok_get [OF assms(1,2), of "userKey i"] Pair by simp
  show thesis
  proof (cases v)
    case None
    obtain c2 where "keep_found G (first_or zero_user (\<lambda>u. u_UserID u = i) (users w)) (w, c1)
        = (Ok (first_or zero_user (\<lambda>u. u_UserID u = i) (users w)), w, c2)" "cache_ok G w c2"
      using keep_found_ok [OF assms(1) c1 first_or_in] .
    with None Pair assms(4) that show ?thesis
      by (simp add: cached_Find_def cache_Get_def on_store_def user_Find_run run_simps)
  next
    case (Some u)
    with cache_hit(1) [OF assms(2,3), of "userKey i" u c1 i] Pair assms(4) c1 that show ?thesis
      by (simp add: cached_Find_def cache_Get_def user_Find_run run_simps)
  qed
qed

lemma cached_FindByAddress_refines:
  assumes "gcache_documented G" "cache_ok G w c" "users_apart w" "faults w = []"
  obtains c' where "cached_FindByAddress G a (w, c) = (fst (user_FindByAddress a w), w, c')" "cache_ok G w c'"
proof -
  obtain v c1 where get: "gc_get G c (addressKey a) = (v, c1)"
    by force
  obtain v0 c2 where get0: "gc_get G c1 (v0AddressKey a) = (v0, c2)"
    by force
  have c1: "cache_ok G w c1"
    using cache_ok_get [OF assms(1,2), of "addressKey a"] get by simp
  have c2: "cache_ok G w c2"
    using cache_ok_get [OF assms(1) c1, of "v0AddressKey a"] get0 by simp
  show thesis
  proof (cases "v = None \<and> v0 = None")
    case True
    obtain c3 where "keep_found G (address_owner a (users w)) (w, c2) = (Ok (address_owner a (users w)), w, c3)" "cache_ok G w c3"
      using keep_found_ok [OF assms(1) c2 address_owner_in] .
    with True get get0 assms(4) that show ?thesis
      by (simp add: cached_FindByAddress_def cache_Get_def on_store_def user_FindByAddress_run run_simps)
  next
    case False
    with cache_hit(2) [OF assms(2,3), of "addressKey a" _ c1 a] cache_hit(2) [OF c1 assms(3), of "v0AddressKey a" _ c2 a]
      get get0 assms(4) c1 c2 that show ?thesis
      by (cases v; cases v0) (simp_all add: cached_FindByAddress_def cache_Get_def user_FindByAddress_run run_simps)
  qed
qed

lemma dbio_rows:
  assumes "dbio f w = (r, w')" "\<And>fs. R w (w\<lparr>faults := fs\<rparr>)" "\<And>fs. R w (snd (f (w\<lparr>faults := fs\<rparr>)))"
    and "\<And>fs v. fst (f (w\<lparr>faults := fs\<rparr>)) = Ok v \<Longrightarrow> V v (snd (f (w\<lparr>faults := fs\<rparr>)))"
  shows "R w w'" "r = Ok v \<Longrightarrow> V v w'"
proof -
  have "R w w' \<and> (r = Ok v \<longrightarrow> V v w')"
  proof (cases "faults w")
    case Nil
    then have "w\<lparr>faults := []\<rparr> = w"
      by simp
    with Nil assms(1) assms(3,4) [of "[]"] show ?thesis
      by (simp add: dbio_def)
  next
    case (Cons a fs)
    then show ?thesis
      using assms(1) assms(2-4) [of fs] by (cases a) (auto simp: dbio_def)
  qed
  then show "R w w'" "r = Ok v \<Longrightarrow> V v w'"
    by simp_all
qed

lemma first_or_create_rows:
  assumes "first_or_create rid set_id P r rows = (r', rows')"
  shows "set rows \<subseteq> set rows'" "r' \<in> set rows'"
  using assms by (auto simp: first_or_create_def Let_def dest: find_Some_set split: option.splits)

lemma user_Create_rows:
  assumes "user_Create u w = (r, w')"
  shows "set (users w) \<subseteq> set (users w')" "r = Ok u' \<Longrightarrow> u' \<in> set (users w')"
  using assms unfolding user_Create_def
  by (rule dbio_rows [where R = "\<lambda>w w'. set (users w) \<subseteq> set (users w')" and V = "\<lambda>u w. u \<in> set (users w)"],
      auto dest: first_or_create_rows split: prod.splits if_splits)+

lemma cached_Create_refines:
  assumes "gcache_documented G" "cache_ok G w c"
  obtains c' where "cached_Create G u (w, c) = (fst (user_Create u w), snd (user_Create u w), c')"
    "cache_ok G (snd (user_Create u w)) c'"
proof -
  obtain r w' where run: "user_Create u w = (r, w')"
    by force
  note rows = user_Create_rows [OF run]
  have ok: "cache_ok G w' c"
    using assms(2) rows(1) by (rule cache_ok_rows)
  show thesis
  proof (cases r)
    case (Ok u')
    with rows obtain c' where "cacheUser G u' (w', c) = (Ok (), w', c')" "cache_ok G w' c'"
      using cacheUser_ok [OF assms(1) ok, of u'] by blast
    with Ok run that show ?thesis
      by (simp add: cached_Create_def on_store_def run_simps)
  qed (use run ok that in \<open>simp_all add: cached_Create_def on_store_def run_simps\<close>)
qed

text \<open>
  Migration is the exception: the entries under the addresses the users had before stay. A cache that
  keeps everything answers the old address of a migrated user with the row of before.
\<close>

definition map_cache :: "(string \<rightharpoonup> User) gcache" where
  "map_cache = \<lparr>gc_get = (\<lambda>c k. (c k, c)), gc_set = (\<lambda>c k u. c(k \<mapsto> u))\<rparr>"

lemma map_cache_documented: "gcache_documented map_cache"
  by (simp add: gcache_documented_def map_cache_def)

definition old_user :: User where
  "old_user = \<lparr>u_ID = 1, u_UserID = alice, u_Address = ''old'', u_AddressV0 = None\<rparr>"

definition new_user :: User where
  "new_user = \<lparr>u_ID = 1, u_UserID = alice, u_Address = ''new'', u_AddressV0 = Some ''old''\<rparr>"

definition old_world :: world where
  "old_world = world0\<lparr>users := [old_user]\<rparr>"

lemma cache_stale_after_migration:
  "fst (seqE (cached_Find map_cache alice) (\<lambda>_. seqE (cached_MigrateToV1 map_cache [new_user]) (\<lambda>_.
      cached_FindByAddress map_cache ''old'')) (old_world, Map.empty)) = Ok old_user
   \<and> fst (seqE (user_Find alice) (\<lambda>_. seqE (user_MigrateToV1 [new_user]) (\<lambda>_.
      user_FindByAddress ''old'')) old_world) = Ok new_user"
  by code_simp

end
