(* ===== verification/History.thy ===== *)
theory History
  imports Server
begin

text \<open>
  The history the server shows: \<open>List\<close> of the transaction store, its two handlers
  (\<open>handler/rest/transaction.go\<close>, \<open>Transactions\<close> of \<open>handler/rpc/service.go\<close>), and the errors of the
  RPC as the HTTP layer shows them (\<open>handler/codes\<close>, \<open>handler/render/error.go\<close>). The column
  \<open>created_at\<close>, which the database fills when the row is inserted, is the argument \<open>created\<close>;
  \<open>time.Parse\<close> is the argument \<open>parseTime\<close>.
\<close>

section \<open>store/transaction/transaction.go\<close>

text \<open>Rows created at the same time are read in the order of their insertion.\<close>

definition transaction_List :: "(Transaction \<Rightarrow> time) \<Rightarrow> time \<Rightarrow> int \<Rightarrow> (world, Transaction list) go" where
  "transaction_List created offset limit =
     (let limit = (if limit \<le> 0 then 500 else limit) in
      query (\<lambda>w. take (nat limit) (sort_key created (filter (\<lambda>t. offset \<le> created t) (transactions w)))))"

section \<open>handler/rest/transaction.go\<close>

text \<open>\<open>time.Time{}\<close>: the first of January of the year 1.\<close>

definition zero_Time :: time where
  "zero_Time = - 62135596800 * 1000000000"

definition transactionsHandler ::
  "(Transaction \<Rightarrow> time) \<Rightarrow> (string \<Rightarrow> time option) \<Rightarrow> string \<Rightarrow> int \<Rightarrow> (world, Transaction list) go" where
  "transactionsHandler created parseTime offset limit =
     (let limit = (if limit \<le> 0 then 500 else limit);
          offsetTime = (case parseTime offset of Some t \<Rightarrow> t | None \<Rightarrow> zero_Time) in
      transaction_List created offsetTime limit)"

section \<open>Transactions of handler/rpc/service.go\<close>

record RPCTransaction =
  rt_Id :: int
  rt_Action :: int
  rt_TraceId :: string
  rt_UserId :: string
  rt_FollowId :: string
  rt_SnapshotTraceId :: string
  rt_AssetId :: string
  rt_Amount :: string
  rt_Data :: TransactionExtraData
  rt_CreatedAt :: time

definition rpc_transaction :: "ext \<Rightarrow> (Transaction \<Rightarrow> time) \<Rightarrow> Transaction \<Rightarrow> RPCTransaction" where
  "rpc_transaction X created t = \<lparr>
     rt_Id = tx_ID t, rt_Action = int32 (actionCode (tx_Action t)), rt_TraceId = tx_TraceID t, rt_UserId = tx_UserID t,
     rt_FollowId = tx_FollowID t, rt_SnapshotTraceId = tx_SnapshotTraceID t, rt_AssetId = tx_AssetID t,
     rt_Amount = decString X (tx_Amount t), rt_Data = tx_Data t, rt_CreatedAt = created t\<rparr>"

text \<open>\<open>AsTime\<close> of a request without an offset is the epoch.\<close>

definition rpc_Transactions ::
  "ext \<Rightarrow> (Transaction \<Rightarrow> time) \<Rightarrow> time option \<Rightarrow> int \<Rightarrow> (world, RPCTransaction list) go" where
  "rpc_Transactions X created offset limit =
     (let limit = (if limit \<le> 0 then 500 else limit);
          offset = (case offset of Some t \<Rightarrow> t | None \<Rightarrow> 0) in
      seqE (transaction_List created offset limit) (\<lambda>ts.
      ret (foldl (\<lambda>items t. items @ [rpc_transaction X created t]) [] ts)))"

section \<open>handler/codes/codes.go and handler/render/error.go\<close>

definition CustomCodeKey :: string where
  "CustomCodeKey = ''custom_code''"

definition InvalidArguments :: int where
  "InvalidArguments = 100001"

text \<open>\<open>twirp.ServerHTTPStatusFromErrorCode\<close> is the argument \<open>status\<close>, a code is its text.\<close>

definition codes_Get :: "(string \<Rightarrow> int) \<Rightarrow> string \<Rightarrow> int" where
  "codes_Get status code = (if code = ''invalid_argument'' then InvalidArguments else status code)"

record twirpErr =
  te_Code :: string
  te_Msg :: string
  te_Meta :: "(string \<times> string) list"

definition twirp_meta :: "twirpErr \<Rightarrow> string \<Rightarrow> string" where
  "twirp_meta e key = (case map_of (te_Meta e) key of Some v \<Rightarrow> v | None \<Rightarrow> '''')"

definition displayCode :: "(string \<Rightarrow> int) \<Rightarrow> twirpErr \<Rightarrow> int" where
  "displayCode status e = (case ParseInt64 (twirp_meta e CustomCodeKey) of
     Some code \<Rightarrow> if code > 0 then code else codes_Get status (te_Code e)
   | None \<Rightarrow> codes_Get status (te_Code e))"

definition displayMsg :: "twirpErr \<Rightarrow> string" where
  "displayMsg e = (if twirp_meta e ''cause'' \<noteq> '''' then te_Code e else te_Msg e)"

section \<open>What a page holds\<close>

text \<open>The page that \<open>List\<close> reads from the rows \<open>ts\<close>.\<close>

definition history_page :: "(Transaction \<Rightarrow> time) \<Rightarrow> time \<Rightarrow> int \<Rightarrow> Transaction list \<Rightarrow> Transaction list" where
  "history_page created offset limit ts =
     take (nat (if limit \<le> 0 then 500 else limit)) (sort_key created (filter (\<lambda>t. offset \<le> created t) ts))"

lemma transaction_List_run:
  "faults w = [] \<Longrightarrow> transaction_List created offset limit w = (Ok (history_page created offset limit (transactions w)), w)"
  by (simp add: transaction_List_def history_page_def query_run Let_def)

lemma page_sorted: "sorted (map created (history_page created offset limit ts))"
  unfolding history_page_def take_map [symmetric] by (intro sorted_wrt_take) simp

lemma page_sound: "t \<in> set (history_page created offset limit ts) \<Longrightarrow> t \<in> set ts \<and> offset \<le> created t"
  by (auto simp: history_page_def dest: in_set_takeD)

lemma page_length: "0 < limit \<Longrightarrow> length (history_page created offset limit ts) \<le> nat limit"
  by (simp add: history_page_def)

text \<open>A transaction from the offset on that a page leaves out comes after all of a full page.\<close>

lemma page_complete:
  assumes "t \<in> set ts" "offset \<le> created t" "t \<notin> set (history_page created offset limit ts)"
  shows "length (history_page created offset limit ts) = nat (if limit \<le> 0 then 500 else limit)"
    and "s \<in> set (history_page created offset limit ts) \<Longrightarrow> created s \<le> created t"
proof -
  define xs where "xs = sort_key created (filter (\<lambda>t. offset \<le> created t) ts)"
  define n where "n = nat (if limit \<le> 0 then 500 else limit)"
  have page: "history_page created offset limit ts = take n xs"
    by (simp add: history_page_def xs_def n_def)
  have "t \<in> set xs"
    using assms(1,2) by (simp add: xs_def)
  then have drop: "t \<in> set (drop n xs)"
    using assms(3) page by (metis Un_iff append_take_drop_id set_append)
  then have "n < length xs"
    by (cases "n < length xs") simp_all
  then show "length (history_page created offset limit ts) = nat (if limit \<le> 0 then 500 else limit)"
    using page by (simp add: n_def)
  have "sorted (map created (take n xs @ drop n xs))"
    by (simp add: xs_def)
  with drop show "created s \<le> created t" if "s \<in> set (history_page created offset limit ts)"
    using that page by (simp add: sorted_append del: append_take_drop_id)
qed

lemma foldl_snoc_map: "foldl (\<lambda>items t. items @ [f t]) acc ts = acc @ map f ts"
  by (induction ts arbitrary: acc) simp_all

text \<open>Both handlers show the same page.\<close>

lemma handlers_agree:
  assumes "faults w = []" "parseTime text = Some offset"
  shows "transactionsHandler created parseTime text limit w = (Ok (history_page created offset limit (transactions w)), w)"
    and "rpc_Transactions X created (Some offset) limit w =
      (Ok (map (rpc_transaction X created) (history_page created offset limit (transactions w))), w)"
  using assms by (auto simp: transactionsHandler_def rpc_Transactions_def transaction_List_run foldl_snoc_map
      run_simps history_page_def Let_def)

text \<open>A positive custom code is shown whatever the code of the error; an internal error hides its message.\<close>

lemma displayCode_custom: "ParseInt64 (twirp_meta e CustomCodeKey) = Some code \<Longrightarrow> 0 < code \<Longrightarrow> displayCode status e = code"
  by (simp add: displayCode_def)

lemma displayMsg_hides: "twirp_meta e ''cause'' \<noteq> '''' \<Longrightarrow> te_Code e = te_Code e' \<Longrightarrow> te_Meta e = te_Meta e' \<Longrightarrow> displayMsg e = displayMsg e'"
  by (simp add: displayMsg_def twirp_meta_def)

end
