(* ===== verification/Spec2Isabelle.thy ===== *)
theory Spec2Isabelle
  imports Props_Solvency Props_Liquidation Props_Supply Props_Rates Props_Codec Props_Retry Props_Payee Props_Governance Props_Wallet Props_Server Props_Node Notices Cache History
begin

text \<open>
  A model of the lending protocol Compound of \<open>fox-one/compound\<close> and the theorems about it.

  \<^bold>\<open>The program.\<close> Compound is run by a group of nodes that share a multisignature wallet of the Mixin
  network. A user pays an output into the wallet with a memo that says what he wants: to supply an asset
  and get CTokens, to redeem them, to pledge them as collateral, to borrow against them, to repay, or to
  liquidate somebody else; oracles send prices and members send proposals and votes the same way. Every
  node handles the same outputs in the same order and comes to the same tables; what the protocol pays
  out is a transfer that the nodes sign together. The parts, by their packages under \<open>src/\<close>:

  \<^item> \<open>core\<close>, \<open>core/proposal\<close>, \<open>pkg/compound\<close>, \<open>pkg/number\<close>: the data, the requests and the rate model;
  \<^item> \<open>pkg/mtg\<close>, \<open>pkg/aes\<close>: the encoding, signing and encryption of memos;
  \<^item> \<open>store/*\<close>: the tables of the database, and the recovery of the order of the outputs;
  \<^item> \<open>service/account\<close>, \<open>service/wallet\<close>, \<open>service/message\<close>, \<open>service/proposal\<close>: liquidity, the
    multisignature wallet, chat messages and notices;
  \<^item> \<open>worker/payee\<close>: handles the outputs one by one and is the only worker that changes the ledger;
  \<^item> \<open>worker/syncer\<close>, \<open>assigner\<close>, \<open>cashier\<close>, \<open>txsender\<close>, \<open>spentsync\<close>, \<open>messenger\<close>: fetch outputs,
    choose outputs for a transfer, sign, send, follow it up, and deliver messages;
  \<^item> \<open>worker/datadog\<close>: reports transfers that wait and a synchronisation that is late;
  \<^item> \<open>handler\<close>: the server that shows markets and proposals and prepares payments;
  \<^item> \<open>cmd\<close>: starts the workers side by side, and the commands by which members make proposals.

  \<^bold>\<open>The theories.\<close>

  \<^item> \<open>Prelude\<close>: Go's results (value, error, panic) and the functions over a state that return them, rows of
    tables, decimal text; the collections \<open>run_simps\<close>, \<open>store_simps\<close>, \<open>dec_simps\<close>.
  \<^item> \<open>Decimal\<close>, \<open>Externals\<close>: \<open>shopspring/decimal\<close> as rationals with its roundings, and the record \<open>ext\<close> of
    the libraries that are not part of the repository, with their documented behaviour as predicates.
  \<^item> \<open>Core\<close>, \<open>Rates\<close>, \<open>Codec\<close>, \<open>Requests\<close>: the records and methods of \<open>core\<close>, \<open>pkg/compound\<close>, the memo
    packages and the proposal requests. The locale \<open>field_codec\<close> carries all round trips.
  \<^item> \<open>Stores\<close>, \<open>Wallet\<close>: the state \<open>world\<close>, one list of rows per table, and every store method on it.
  \<^item> \<open>Accrual\<close>, \<open>Account\<close>: interest (\<open>utils_market.go\<close>) and the account service with its specification.
  \<^item> \<open>Payee_Base\<close>, \<open>Payee_Supply\<close>, \<open>Payee_Borrow\<close>, \<open>Payee_Proposal\<close>, \<open>Payee_Dispatch\<close>: the handlers of
    \<open>worker/payee\<close> in the order of its files, and \<open>run\<close> with the step relation \<open>payee_step\<close>.
  \<^item> \<open>Workers\<close>, \<open>Node\<close>: the other workers and services over the record \<open>client\<close> of the Mixin SDK, and the
    relation \<open>node_step\<close> of a whole node.
  \<^item> \<open>Server\<close>, \<open>History\<close>, \<open>Notices\<close>, \<open>Commands\<close>, \<open>Values\<close>: the handlers over HTTP and RPC, the pages of
    transactions and the errors of the RPC, the items and buttons a proposal is shown with, the monitoring
    worker, the configuration and the commands of \<open>cmd\<close>, and the helpers for typed values and maps of decimals.
  \<^item> \<open>Cache\<close>: the cached user store, which answers lookups as the store does, as long as no user is migrated.
  \<^item> \<open>Tables\<close>, \<open>Supply_Spec\<close>, \<open>Borrow_Spec\<close>, \<open>Liquidation_Spec\<close>, \<open>Solvency\<close>: the final state of every
    handler on a working database, and how it changes an account's liquidity.
  \<^item> \<open>Faults\<close>, \<open>Retry\<close>, \<open>Retry_Supply\<close>, \<open>Retry_Borrow\<close>: the handlers on a database that fails at any call,
    before or after its effect, and the stages between which repeated attempts of an output move.
  \<^item> \<open>Payee_Relation\<close>, \<open>Payee_Invariant\<close>, \<open>Payee_Loop\<close>, \<open>Governance_Spec\<close>, \<open>Migration\<close>: what every run of the
    payee keeps. Its locales state what a relation owes to the stores and prove that the whole payee respects
    it: \<open>payee_writes\<close>, \<open>payee_outputs\<close> and \<open>payee_runs\<close> with the handlers of the accounts taken as wholes,
    \<open>payee_stores\<close> and \<open>payee_relation\<close>, two sublocales of them, with these handlers walked through. They are
    interpreted at the history of the tables, at identifiers and votes, at a database that stays up, at the
    keys (\<open>Keys_Handlers\<close>), at the stored system version (\<open>System_Version\<close>) and, in \<open>Funding\<close>, at the money of
    the transfers.
  \<^item> \<open>Node_Relation\<close>: the same for all other workers. The locale \<open>worker_writes\<close> states what a relation owes
    to their writes, \<open>worker_relation\<close>, a sublocale of it, when the queues do not matter; they are interpreted
    at the ledger, at the history, at the identifiers and votes, at the keys and at the system version.
  \<^item> \<open>Keys\<close>, \<open>Keys_Handlers\<close>: the unique keys of all tables. A handler that updates a market, a supply or a
    borrow writes the whole struct, and keeps the keys because the struct was read before; a small logic of
    what a handler has read, \<open>gives\<close>, shows that of each.
  \<^item> \<open>System_Version\<close>: the stored system version from run to run.
  \<^item> \<open>Wallet_Order\<close>, \<open>Funding\<close>, \<open>Wallet_Spec\<close>: the order of the outputs, the outputs behind every transfer,
    and single calls of the wallet's workers.
  \<^item> \<open>Memo_Spec\<close>: base64 and the envelope of memos are undone, and so is every request of a proposal.
  \<^item> \<open>Example\<close>, \<open>Example_State\<close>, \<open>Example_Governance\<close>, \<open>Example_Wallet\<close>: concrete markets, accounts, outputs,
    members and externals, on which the witnesses evaluate the model.
  \<^item> \<open>Props_*\<close>: the properties, with their witnesses.

  \<^bold>\<open>What is shown.\<close> An account stays solvent when it borrows or releases collateral, a redemption leaves the
  reserves covered, a liquidation needs a negative liquidity and seizes within the close factor; supplies,
  repayments and pledges do exactly what they promise; accrual keeps the books and is done once per block;
  the account service computes the difference of collateral and debt; the encodings of memos and requests
  can be undone. A supply, redemption, unpledge or borrow whose attempts were cut off, however often and wherever,
  ends at last where an undisturbed one ends, so nothing is booked or paid twice. Over any steps of all its workers a node removes no row of the ledger, keeps the keys of its tables unique
  (those that \<open>tables_keyed\<close> lists) and lets no proposal pass without its votes, and no worker but the payee changes the ledger. The payee handles
  the outputs in order; prices need their signatures, and from run to run the system version only
  rises, though it may fall within a run.
  Nodes that receive the same outputs store them in the same order, every transfer that is assigned is
  covered by outputs of its own, and a raw transaction leaves only with the group's consent. What the server,
  the commands and the vote buttons write into a memo is what the payee reads from it. Some theorems
  show where the code falls short: an unpledge of a negative amount, a liquidation within one market, memos
  that anyone can decrypt, a proposal that blocks the payee. Where a document or a comment says something else than
  the code (which markets must be open for a liquidation, liquidity zero, the least close factor), the text before
  the theorem says so.

  \<^bold>\<open>How the model relates to the code.\<close>

  \<^item> A Go function that may fail is a function from \<open>world\<close> to a result and a \<open>world\<close>; \<open>seqE\<close> is the early
    return of an error and \<open>tryE\<close> handles it. A panic ends the process.
  \<^item> A table is the list of its rows in the order of the primary key; a query is a function on the list. A
    transaction of the database is one call. \<open>faults\<close> lists how the next calls of the database go: well,
    failing without effect, or failing after their effect. The key of a new row is one more than the largest
    in the table, so that the key of a last row that was deleted (a signer, a raw transaction, a message) is
    given again, which the counter of the database does not do; no property depends on it. Only the queue of
    raw outputs, where the order of the keys matters, counts the keys it has given (\<open>rawSeq\<close>).
  \<^item> Decimals are rationals. \<open>Add\<close>, \<open>Sub\<close>, \<open>Mul\<close> and comparisons are exact as in the library; \<open>Div\<close> is a
    parameter that is documented to round to sixteen places. The rounding of the columns of the database is
    not modelled; the handlers truncate what they store.
  \<^item> JSON text of contents and data is represented by the struct it encodes. Identifiers and versions are
    integers, since they are only compared; bytes, varints and UUIDs are words of eight bits.
  \<^item> A worker's step is one call of its \<open>run\<close>; goroutines that a run starts are taken one after the other, in
    any order. The Mixin network answers each call as it likes, told only how many came before.
  \<^item> The loop of \<open>migrateV1\<close> has one round per user and one more as fuel; it is shown that this is enough.
    All other loops are structural.

  \<^item> A handler of the server and a command are functions of the decoded request or the flags; what they answer
    or print is their result. The current time is an argument. Parsing a decimal from text is the argument
    \<open>parse\<close>, and the names of assets and users are answers of the Mixin network.

  \<^bold>\<open>Not modelled.\<close> The text of notices and chat messages, which comes from templates; routing, the decoding of
  requests and the writing of JSON, with the generated RPC stubs; flags, files, key generation and the wiring of
  the commands; the schema migrations of the stores. Columns that gorm keeps itself (\<open>created_at\<close>,
  \<open>updated_at\<close>) are left out, but for the \<open>created_at\<close> by which the pages of transactions are ordered, which is
  an argument there.
\<close>

end
